(* ===== verification/Prelude.thy ===== *)
theory Prelude
  imports Main "HOL-Library.AList" "HOL-Library.Char_ord" "HOL-Library.List_Lexorder"
begin

text \<open>
  Shared ground of the development: the names of the model's basic types, the collections of
  simplification and refinement rules the component theories fill, results of fallible Go
  functions as sums, 64-bit integers with their wrap-around written out, and the generic lemmas
  on lists and association lists that several components use.
\<close>

section \<open>Types and rule collections\<close>

type_synonym bytes = "char list"
type_synonym ('k, 'v) gomap = "('k \<times> 'v) list"

text \<open>
  A Go map is the association list of its entries in the order in which one \<open>range\<close> loop visits
  them. Go leaves that order open; a theorem about every list is a theorem about every order.
\<close>

named_theorems fold_simps \<open>rewriting of case-insensitive header names\<close>
named_theorems wf_intros \<open>preservation of well-formedness by the operations\<close>
named_theorems low_intros \<open>low-equivalence of values that differ in private data only\<close>
named_theorems refines_intros \<open>a checkpointed computation refines a pure one\<close>
named_theorems prompt_intros \<open>a checkpointed computation stops at the first checkpoint that finds its context ended\<close>

section \<open>Results\<close>

text \<open>
  A Go function that returns \<open>(T, error)\<close> has the model type \<open>'e + 'a\<close>; the early return
  \<open>if err != nil { return nil, err }\<close> is \<open>ebind\<close>.
\<close>

definition ebind :: "'e + 'a \<Rightarrow> ('a \<Rightarrow> 'e + 'b) \<Rightarrow> 'e + 'b" where
  "ebind r f = (case r of Inl e \<Rightarrow> Inl e | Inr a \<Rightarrow> f a)"

lemma ebind_simps [simp]: "ebind (Inl e) f = Inl e" "ebind (Inr a) f = f a"
  by (simp_all add: ebind_def)

lemma ebind_Inr_iff: "ebind r f = Inr b \<longleftrightarrow> (\<exists>a. r = Inr a \<and> f a = Inr b)"
  by (cases r) auto

lemma ebind_Inl_iff: "ebind r f = Inl e \<longleftrightarrow> r = Inl e \<or> (\<exists>a. r = Inr a \<and> f a = Inl e)"
  by (cases r) auto

fun fold_res :: "('x \<Rightarrow> 'a \<Rightarrow> 'e + 'a) \<Rightarrow> 'x list \<Rightarrow> 'a \<Rightarrow> 'e + 'a" where
  "fold_res f [] a = Inr a"
| "fold_res f (x # xs) a = ebind (f x a) (fold_res f xs)"

lemma fold_res_append: "fold_res f (xs @ ys) a = ebind (fold_res f xs a) (fold_res f ys)"
proof (induction xs arbitrary: a)
  case (Cons x xs)
  then show ?case by (cases "f x a") simp_all
qed simp

lemma fold_res_invariant:
  assumes "fold_res f xs a = Inr b" and "P a"
    and "\<And>x a b. x \<in> set xs \<Longrightarrow> P a \<Longrightarrow> f x a = Inr b \<Longrightarrow> P b"
  shows "P b"
  using assms
proof (induction xs arbitrary: a)
  case (Cons x xs)
  from Cons.prems(1) obtain c where "f x a = Inr c" and "fold_res f xs c = Inr b"
    by (auto simp: ebind_Inr_iff)
  then show ?case using Cons by (metis list.set_intros)
qed simp

section \<open>Signed 64-bit integers\<close>

text \<open>
  Go's \<open>int\<close>, \<open>int64\<close> and \<open>time.Duration\<close> are 64-bit two's complement; every product or sum that
  can leave the range is passed through \<open>wrap64\<close>.
\<close>

definition int64_min :: int where "int64_min = - (2 ^ 63)"
definition int64_max :: int where "int64_max = 2 ^ 63 - 1"

definition wrap64 :: "int \<Rightarrow> int" where
  "wrap64 x = (x + 2 ^ 63) mod 2 ^ 64 - 2 ^ 63"

definition in_int64 :: "int \<Rightarrow> bool" where
  "in_int64 x \<longleftrightarrow> int64_min \<le> x \<and> x \<le> int64_max"

lemma wrap64_in_int64: "in_int64 (wrap64 x)"
  using pos_mod_bound[of "2 ^ 64" "x + 2 ^ 63"] pos_mod_sign[of "2 ^ 64" "x + 2 ^ 63"]
  by (simp add: in_int64_def wrap64_def int64_min_def int64_max_def)

lemma wrap64_id: "in_int64 x \<Longrightarrow> wrap64 x = x"
  by (simp add: in_int64_def wrap64_def int64_min_def int64_max_def)

section \<open>Lists\<close>

lemma filter_False_iff: "filter P xs = [] \<longleftrightarrow> (\<forall>x\<in>set xs. \<not> P x)"
  by (induction xs) auto

lemma map_filter_comp: "map f (filter (P \<circ> f) xs) = filter P (map f xs)"
  by (induction xs) auto

lemma list_all2_imp_map_eq:
  "list_all2 R xs ys \<Longrightarrow> (\<And>x y. R x y \<Longrightarrow> f x = g y) \<Longrightarrow> map f xs = map g ys"
  by (induction rule: list_all2_induct) auto

lemma list_all2_filter:
  assumes "list_all2 R xs ys" and "\<And>x y. R x y \<Longrightarrow> P x = Q y"
  shows "list_all2 R (filter P xs) (filter Q ys)"
  using assms by (induction rule: list_all2_induct) auto

lemma find_SomeD: "find P xs = Some x \<Longrightarrow> x \<in> set xs \<and> P x"
  by (induction xs) (auto split: if_splits)

section \<open>Association lists\<close>

lemma map_of_alist_delete: "map_of (AList.delete k al) k' = (if k' = k then None else map_of al k')"
  by (simp add: AList.delete_conv')

lemma map_of_alist_update: "map_of (AList.update k v al) k' = (if k' = k then Some v else map_of al k')"
  by (simp add: AList.update_conv')

lemma filter_fst_delete: "AList.delete k al = filter (\<lambda>p. fst p \<noteq> k) al"
  by (induction al) auto

lemma map_of_filter_fst:
  "map_of (filter (\<lambda>p. P (fst p)) al) k = (if P k then map_of al k else None)"
  by (induction al) auto

lemma set_map_fst_update: "set (map fst (AList.update k v al)) = insert k (set (map fst al))"
  by (induction al) auto

lemma update_notin: "k \<notin> fst ` set al \<Longrightarrow> AList.update k v al = al @ [(k, v)]"
  by (induction al) auto

lemma keys_of_map: "set (map fst m) = {k. map_of m k \<noteq> None}"
  by (auto simp: map_of_eq_None_iff)

end
