(* ===== verification/Request_Value.thy ===== *)
theory Request_Value
  imports Prelude
begin

text \<open>
  Model of \<open>request_value.go\<close>: request values with a disclosure capability, their formatting, and
  the relation of low-equivalence (equal up to private data) on which the non-disclosure theorems
  of the projections are built.
\<close>

section \<open>Data\<close>

datatype disclosureState = disclosurePrivate | disclosurePublic

record Value =
  vraw :: string
  vstate :: disclosureState

record Payload =
  praw :: bytes
  pstate :: disclosureState

definition disclosureRedacted :: string where "disclosureRedacted = ''<redacted>''"
definition disclosurePublicMarker :: string where "disclosurePublicMarker = ''<public>''"

section \<open>Operations\<close>

definition Public :: "string \<Rightarrow> Value" where
  "Public v = \<lparr>vraw = v, vstate = disclosurePublic\<rparr>"

definition isPublic :: "Value \<Rightarrow> bool" where
  "isPublic v \<longleftrightarrow> vstate v = disclosurePublic"

definition rawValue :: "Value \<Rightarrow> string" where
  "rawValue v = vraw v"

definition displayValue :: "Value \<Rightarrow> string" where
  "displayValue v = (if \<not> isPublic v then disclosureRedacted else disclosurePublicMarker)"

definition PublicPayload :: "bytes \<Rightarrow> Payload" where
  "PublicPayload v = \<lparr>praw = v, pstate = disclosurePublic\<rparr>"

definition payload_isPublic :: "Payload \<Rightarrow> bool" where
  "payload_isPublic p \<longleftrightarrow> pstate p = disclosurePublic"

definition cloneBytes :: "Payload \<Rightarrow> bytes" where
  "cloneBytes p = praw p"

definition payload_displayValue :: "Payload \<Rightarrow> string" where
  "payload_displayValue p =
     (if \<not> payload_isPublic p then disclosureRedacted else disclosurePublicMarker)"

text \<open>
  \<open>formatDisclosure\<close> writes to the formatter's state; the model returns what it writes. The two
  markers are printable ASCII without quotes or backslashes, so \<open>%q\<close> only adds the quotes.
\<close>

definition formatDisclosure :: "char \<Rightarrow> string \<Rightarrow> string" where
  "formatDisclosure verb v =
     (if verb = CHR ''v'' \<or> verb = CHR ''s'' then v
      else if verb = CHR ''q'' then [CHR 0x22] @ v @ [CHR 0x22]
      else ''%!'' @ [verb] @ ''(string='' @ v @ '')'')"

definition Value_Format :: "Value \<Rightarrow> char \<Rightarrow> string" where
  "Value_Format v verb = formatDisclosure verb (displayValue v)"

definition Payload_Format :: "Payload \<Rightarrow> char \<Rightarrow> string" where
  "Payload_Format p verb = formatDisclosure verb (payload_displayValue p)"

definition privateRequestValue :: "string \<Rightarrow> Value" where
  "privateRequestValue v = \<lparr>vraw = v, vstate = disclosurePrivate\<rparr>"

section \<open>Low-equivalence\<close>

definition low_value :: "Value \<Rightarrow> Value \<Rightarrow> bool" where
  "low_value v w \<longleftrightarrow> vstate v = vstate w \<and> (isPublic v \<longrightarrow> vraw v = vraw w)"

lemma value_simps [simp]:
  "isPublic (Public s)" "rawValue (Public s) = s"
  "\<not> isPublic (privateRequestValue s)" "rawValue (privateRequestValue s) = s"
  by (simp_all add: isPublic_def Public_def rawValue_def privateRequestValue_def)

lemma low_value_refl [low_intros]: "low_value v v"
  by (simp add: low_value_def)

lemma low_value_private [low_intros]: "low_value (privateRequestValue s) (privateRequestValue t)"
  by (simp add: low_value_def privateRequestValue_def isPublic_def)

lemma low_value_isPublic: "low_value v w \<Longrightarrow> isPublic v = isPublic w"
  by (auto simp: low_value_def isPublic_def)

lemma low_value_public: "low_value v w \<Longrightarrow> isPublic v \<Longrightarrow> v = w"
  by (simp add: low_value_def)

text \<open>
  The projection contract: a function of values that sees private data only through its being
  private. Lists of values, and lists filtered by disclosure, are projected pointwise.
\<close>

locale disclosure_projection =
  fixes low :: "'a \<Rightarrow> 'a \<Rightarrow> bool" and project :: "'a \<Rightarrow> 'b"
  assumes project_low: "low x y \<Longrightarrow> project x = project y"
begin

lemma map_project_low: "list_all2 low xs ys \<Longrightarrow> map project xs = map project ys"
  by (erule list_all2_imp_map_eq) (rule project_low)

lemma map_project_filter_low:
  assumes "list_all2 low xs ys" and "\<And>x y. low x y \<Longrightarrow> P x = P y"
  shows "map project (filter P xs) = map project (filter P ys)"
  by (rule map_project_low[OF list_all2_filter[OF assms]])

end

interpretation display: disclosure_projection low_value displayValue
  by unfold_locales (simp add: displayValue_def low_value_isPublic)

end
