(* ===== verification/Go_Strings.thy ===== *)
theory Go_Strings
  imports Prelude
begin

text \<open>
  The parts of Go's \<open>strings\<close>, \<open>bytes\<close> and \<open>net/textproto\<close> packages the sources call, on strings of
  bytes. Case conversion and folding are those of ASCII: bytes from 128 on are left alone, while
  Go folds the letters their UTF-8 sequences encode, so the model is exact on ASCII text (every
  legal header name, scheme, media type and host in ASCII form).
\<close>

section \<open>Case\<close>

definition is_upper :: "char \<Rightarrow> bool" where
  "is_upper c \<longleftrightarrow> (65::nat) \<le> of_char c \<and> of_char c \<le> (90::nat)"

definition is_lower :: "char \<Rightarrow> bool" where
  "is_lower c \<longleftrightarrow> (97::nat) \<le> of_char c \<and> of_char c \<le> (122::nat)"

definition is_digit :: "char \<Rightarrow> bool" where
  "is_digit c \<longleftrightarrow> (48::nat) \<le> of_char c \<and> of_char c \<le> (57::nat)"

definition lower_char :: "char \<Rightarrow> char" where
  "lower_char c = (if is_upper c then char_of (of_char c + (32::nat)) else c)"

definition upper_char :: "char \<Rightarrow> char" where
  "upper_char c = (if is_lower c then char_of (of_char c - (32::nat)) else c)"

definition ToLower :: "string \<Rightarrow> string" where
  "ToLower s = map lower_char s"

definition EqualFold :: "string \<Rightarrow> string \<Rightarrow> bool" where
  "EqualFold s t \<longleftrightarrow> ToLower s = ToLower t"

lemma of_char_less_256: "of_char c < (256::nat)"
  by simp

lemma of_char_lower_char:
  "of_char (lower_char c) = (if is_upper c then of_char c + (32::nat) else of_char c)"
  by (auto simp: lower_char_def is_upper_def)

lemma of_char_upper_char:
  "of_char (upper_char c) = (if is_lower c then of_char c - (32::nat) else of_char c)"
proof (cases "is_lower c")
  case True
  have "of_char c - 32 < (256::nat)"
    by (rule le_less_trans[OF diff_le_self of_char_less_256])
  then have "(of_char c - 32) mod 256 = (of_char c - (32::nat))" by (rule mod_less)
  with True show ?thesis by (simp add: upper_char_def)
qed (simp add: upper_char_def)

lemma char_eqI: "of_char c = (of_char d :: nat) \<Longrightarrow> c = d"
  by (metis char_of_char)

lemma lower_char_idem [simp]: "lower_char (lower_char c) = lower_char c"
  by (rule char_eqI) (auto simp: of_char_lower_char is_upper_def)

lemma lower_upper_char [simp]: "lower_char (upper_char c) = lower_char c"
  by (rule char_eqI) (auto simp: of_char_lower_char of_char_upper_char is_upper_def is_lower_def)

lemma lower_char_not_letter: "\<not> is_upper c \<Longrightarrow> lower_char c = c"
  by (simp add: lower_char_def)

lemma ToLower_simps [simp]:
  "ToLower [] = []" "ToLower (c # s) = lower_char c # ToLower s"
  "ToLower (s @ t) = ToLower s @ ToLower t" "length (ToLower s) = length s"
  by (simp_all add: ToLower_def)

lemma ToLower_Nil_iff [simp]: "ToLower s = [] \<longleftrightarrow> s = []" "[] = ToLower s \<longleftrightarrow> s = []"
  by (auto simp: ToLower_def)

lemma ToLower_idem [simp]: "ToLower (ToLower s) = ToLower s"
  by (induction s) auto

lemma EqualFold_refl [simp, intro]: "EqualFold s s"
  by (simp add: EqualFold_def)

lemma EqualFold_sym: "EqualFold s t \<Longrightarrow> EqualFold t s"
  by (simp add: EqualFold_def)

lemma EqualFold_commute: "EqualFold s t \<longleftrightarrow> EqualFold t s"
  by (auto simp: EqualFold_def)

lemma EqualFold_trans [trans]: "EqualFold s t \<Longrightarrow> EqualFold t u \<Longrightarrow> EqualFold s u"
  by (simp add: EqualFold_def)

lemma EqualFold_left: "EqualFold s s' \<Longrightarrow> EqualFold s t \<longleftrightarrow> EqualFold s' t"
  by (simp add: EqualFold_def)

section \<open>Prefixes, suffixes, cutting and trimming\<close>

definition HasPrefix :: "'a list \<Rightarrow> 'a list \<Rightarrow> bool" where
  "HasPrefix s p \<longleftrightarrow> take (length p) s = p"

definition HasSuffix :: "'a list \<Rightarrow> 'a list \<Rightarrow> bool" where
  "HasSuffix s p \<longleftrightarrow> HasPrefix (rev s) (rev p)"

lemma HasPrefix_iff: "HasPrefix s p \<longleftrightarrow> (\<exists>t. s = p @ t)"
  by (metis HasPrefix_def append_eq_conv_conj append_take_drop_id)

lemma HasSuffix_iff: "HasSuffix s p \<longleftrightarrow> (\<exists>t. s = t @ p)"
proof -
  have "(\<exists>t. rev s = rev p @ t) \<longleftrightarrow> (\<exists>t. s = t @ p)"
    by (metis rev_append rev_rev_ident)
  then show ?thesis by (simp add: HasSuffix_def HasPrefix_iff)
qed

lemma HasPrefix_append [simp]: "HasPrefix (p @ s) p"
  by (simp add: HasPrefix_def)

lemma HasPrefix_simps [simp]:
  "HasPrefix s []" "\<not> HasPrefix [] (c # p)" "HasPrefix (d # s) (c # p) \<longleftrightarrow> d = c \<and> HasPrefix s p"
  by (auto simp: HasPrefix_def)

fun IndexByte :: "'a list \<Rightarrow> 'a \<Rightarrow> nat option" where
  "IndexByte [] b = None"
| "IndexByte (c # s) b = (if c = b then Some 0 else map_option Suc (IndexByte s b))"

fun IndexAny :: "'a list \<Rightarrow> 'a list \<Rightarrow> nat option" where
  "IndexAny [] bs = None"
| "IndexAny (c # s) bs = (if c \<in> set bs then Some 0 else map_option Suc (IndexAny s bs))"

definition LastIndexByte :: "'a list \<Rightarrow> 'a \<Rightarrow> nat option" where
  "LastIndexByte s b = map_option (\<lambda>i. length s - 1 - i) (IndexByte (rev s) b)"

definition ContainsAny :: "'a list \<Rightarrow> 'a list \<Rightarrow> bool" where
  "ContainsAny s bs \<longleftrightarrow> IndexAny s bs \<noteq> None"

definition TrimLeft :: "'a list \<Rightarrow> 'a list \<Rightarrow> 'a list" where
  "TrimLeft s cutset = dropWhile (\<lambda>c. c \<in> set cutset) s"

definition TrimRight :: "'a list \<Rightarrow> 'a list \<Rightarrow> 'a list" where
  "TrimRight s cutset = rev (TrimLeft (rev s) cutset)"

fun SplitByte :: "'a \<Rightarrow> 'a list \<Rightarrow> 'a list list" where
  "SplitByte b [] = [[]]"
| "SplitByte b (c # s) =
     (if c = b then [] # SplitByte b s
      else (case SplitByte b s of [] \<Rightarrow> [[c]] | t # ts \<Rightarrow> (c # t) # ts))"

lemma IndexByte_Some:
  "IndexByte s b = Some i \<Longrightarrow> i < length s \<and> s ! i = b \<and> b \<notin> set (take i s)"
proof (induction s arbitrary: i)
  case (Cons c s)
  then show ?case by (cases i) (auto split: if_splits)
qed simp

lemma IndexByte_None: "IndexByte s b = None \<longleftrightarrow> b \<notin> set s"
  by (induction s) auto

lemma IndexAny_None: "IndexAny s bs = None \<longleftrightarrow> set s \<inter> set bs = {}"
  by (induction s) auto

lemma ContainsAny_iff: "ContainsAny s bs \<longleftrightarrow> set s \<inter> set bs \<noteq> {}"
  by (simp add: ContainsAny_def IndexAny_None)

section \<open>Replacing and counting\<close>

text \<open>
  \<open>strings.ReplaceAll\<close> and \<open>strings.Count\<close> for a non-empty pattern, the only use the sources make
  of them: the scan takes the leftmost match and goes on behind it.
\<close>

function ReplaceAll :: "'a list \<Rightarrow> 'a list \<Rightarrow> 'a list \<Rightarrow> 'a list" where
  "ReplaceAll s old new =
     (case s of [] \<Rightarrow> []
      | c # cs \<Rightarrow> if old \<noteq> [] \<and> HasPrefix s old
                 then new @ ReplaceAll (drop (length old) s) old new
                 else c # ReplaceAll cs old new)"
  by pat_completeness auto
termination
  by (relation "measure (\<lambda>(s, old, new). length s)") (auto simp: HasPrefix_def)

declare ReplaceAll.simps [simp del]

lemma ReplaceAll_Nil [simp]: "ReplaceAll [] old new = []"
  by (subst ReplaceAll.simps) simp

lemma ReplaceAll_match: "old \<noteq> [] \<Longrightarrow> ReplaceAll (old @ s) old new = new @ ReplaceAll s old new"
  by (cases old) (simp_all add: ReplaceAll.simps[of "_ # _"])

lemma ReplaceAll_skip:
  "\<not> HasPrefix (c # s) old \<Longrightarrow> ReplaceAll (c # s) old new = c # ReplaceAll s old new"
  by (subst ReplaceAll.simps) auto

function Count :: "'a list \<Rightarrow> 'a list \<Rightarrow> nat" where
  "Count s sub =
     (case s of [] \<Rightarrow> 0
      | c # cs \<Rightarrow> if sub \<noteq> [] \<and> HasPrefix s sub
                 then Suc (Count (drop (length sub) s) sub)
                 else Count cs sub)"
  by pat_completeness auto
termination
  by (relation "measure (\<lambda>(s, sub). length s)") (auto simp: HasPrefix_def)

declare Count.simps [simp del]

lemma Count_Nil [simp]: "Count [] sub = 0"
  by (subst Count.simps) simp

lemma Count_match: "sub \<noteq> [] \<Longrightarrow> Count (sub @ s) sub = Suc (Count s sub)"
  by (cases sub) (simp_all add: Count.simps[of "_ # _"])

lemma Count_skip: "\<not> HasPrefix (c # s) sub \<Longrightarrow> Count (c # s) sub = Count s sub"
  by (subst Count.simps) auto

text \<open>A pattern that is not counted is not replaced.\<close>

lemma ReplaceAll_Count_0: "old \<noteq> [] \<Longrightarrow> Count s old = 0 \<Longrightarrow> ReplaceAll s old new = s"
proof (induction s)
  case (Cons c s)
  have "\<not> HasPrefix (c # s) old"
    using Cons.prems Count_match[of old] by (auto simp: HasPrefix_iff)
  then show ?case using Cons by (simp add: Count_skip ReplaceAll_skip)
qed simp

section \<open>Canonical header names\<close>

text \<open>
  \<open>textproto.CanonicalMIMEHeaderKey\<close>, which \<open>http.CanonicalHeaderKey\<close> and the methods of
  \<open>http.Header\<close> call: a name with a byte outside the token alphabet is returned as it is.
\<close>

definition valid_header_byte :: "char \<Rightarrow> bool" where
  "valid_header_byte c \<longleftrightarrow> is_upper c \<or> is_lower c \<or> is_digit c \<or>
     c \<in> set ''!#$%&*+-.^_`|~'' \<or> of_char c = (39::nat)"

fun canon_letters :: "bool \<Rightarrow> string \<Rightarrow> string" where
  "canon_letters up [] = []"
| "canon_letters up (c # s) =
     (if up then upper_char c else lower_char c) # canon_letters (c = CHR ''-'') s"

definition CanonicalHeaderKey :: "string \<Rightarrow> string" where
  "CanonicalHeaderKey s = (if list_all valid_header_byte s then canon_letters True s else s)"

lemma canon_letters_fold: "ToLower (canon_letters up s) = ToLower s"
  by (induction s arbitrary: up) auto

lemma EqualFold_canonical [fold_simps]: "EqualFold (CanonicalHeaderKey s) t \<longleftrightarrow> EqualFold s t"
  by (simp add: EqualFold_def CanonicalHeaderKey_def canon_letters_fold)

lemma EqualFold_canonical_right [fold_simps]:
  "EqualFold s (CanonicalHeaderKey t) \<longleftrightarrow> EqualFold s t"
  by (simp add: EqualFold_def CanonicalHeaderKey_def canon_letters_fold)

lemma upper_char_lower_cong: "lower_char c = lower_char d \<Longrightarrow> upper_char c = upper_char d"
proof -
  assume "lower_char c = lower_char d"
  then have "(of_char (lower_char c) :: nat) = of_char (lower_char d)" by simp
  then show ?thesis
    by (intro char_eqI)
      (auto simp: of_char_lower_char of_char_upper_char is_upper_def is_lower_def split: if_splits)
qed

lemma lower_char_hyphen: "lower_char c = lower_char d \<Longrightarrow> (c = CHR ''-'') = (d = CHR ''-'')"
proof -
  assume "lower_char c = lower_char d"
  then have "(of_char (lower_char c) :: nat) = of_char (lower_char d)" by simp
  then have "of_char c = (45::nat) \<longleftrightarrow> of_char d = (45::nat)"
    by (auto simp: of_char_lower_char is_upper_def split: if_splits)
  moreover have "\<And>x. x = CHR ''-'' \<longleftrightarrow> of_char x = (45::nat)"
    by (auto intro: char_eqI)
  ultimately show ?thesis by simp
qed

lemma valid_header_byte_cong:
  "lower_char c = lower_char d \<Longrightarrow> valid_header_byte c \<Longrightarrow> valid_header_byte d"
proof -
  assume eq: "lower_char c = lower_char d" and v: "valid_header_byte c"
  from eq have n: "(of_char (lower_char c) :: nat) = of_char (lower_char d)" by simp
  show ?thesis
  proof (cases "is_upper d \<or> is_lower d")
    case True
    then show ?thesis by (auto simp: valid_header_byte_def)
  next
    case False
    with n have "of_char c = (of_char d :: nat)"
      by (auto simp: of_char_lower_char is_upper_def is_lower_def split: if_splits)
    then show ?thesis using v char_eqI by metis
  qed
qed

lemma canon_letters_cong:
  "ToLower s = ToLower t \<Longrightarrow> canon_letters up s = canon_letters up t"
proof (induction s arbitrary: t up)
  case (Cons c s)
  then obtain d u where t: "t = d # u" and eq: "lower_char c = lower_char d" "ToLower s = ToLower u"
    by (cases t) auto
  have "canon_letters (c = CHR ''-'') s = canon_letters (d = CHR ''-'') u"
    using Cons.IH[OF eq(2)] lower_char_hyphen[OF eq(1)] by simp
  then show ?case using t eq upper_char_lower_cong[OF eq(1)] by simp
qed auto

lemma list_all_valid_cong:
  "ToLower s = ToLower t \<Longrightarrow> list_all valid_header_byte s \<Longrightarrow> list_all valid_header_byte t"
proof (induction s arbitrary: t)
  case (Cons c s)
  then show ?case by (cases t) (auto intro: valid_header_byte_cong)
qed auto

text \<open>On token names, canonical form and case folding agree.\<close>

lemma CanonicalHeaderKey_eq_iff:
  assumes "list_all valid_header_byte s"
  shows "CanonicalHeaderKey s = CanonicalHeaderKey t \<longleftrightarrow> EqualFold s t"
proof
  assume "CanonicalHeaderKey s = CanonicalHeaderKey t"
  then have "EqualFold (CanonicalHeaderKey s) (CanonicalHeaderKey t)" by simp
  then show "EqualFold s t" by (simp add: fold_simps)
next
  assume "EqualFold s t"
  then have eq: "ToLower s = ToLower t" by (simp add: EqualFold_def)
  then show "CanonicalHeaderKey s = CanonicalHeaderKey t"
    using assms list_all_valid_cong[OF eq assms] canon_letters_cong[OF eq]
    by (simp add: CanonicalHeaderKey_def)
qed

lemma CanonicalHeaderKey_idem [simp]: "CanonicalHeaderKey (CanonicalHeaderKey s) = CanonicalHeaderKey s"
proof (cases "list_all valid_header_byte s")
  case True
  then show ?thesis
    using CanonicalHeaderKey_eq_iff[OF True, of "CanonicalHeaderKey s"] by (simp add: fold_simps)
qed (simp add: CanonicalHeaderKey_def)

lemma CanonicalHeaderKey_empty: "CanonicalHeaderKey s = [] \<longleftrightarrow> s = []"
proof -
  have "length (canon_letters up s) = length s" for up
    by (induction s arbitrary: up) auto
  then show ?thesis by (metis CanonicalHeaderKey_def length_0_conv)
qed

end
