(* ===== verification/Multimap.thy ===== *)
theory Multimap
  imports Go_Strings
begin

text \<open>
  The contract of a multimap from names to values, which four structures of the program promise:
  \<open>http.Header\<close>, \<open>url.Values\<close>, the tagged header occurrences of a builder and the ordered headers.
  They differ in when two names are the same (\<open>eqv\<close>) and in what they keep beside the values. The
  clients' lemmas are proved once here; \<open>http.Header\<close> and \<open>url.Values\<close> are interpreted below, the
  other two in their own theories.
\<close>

section \<open>The interface\<close>

locale name_multimap =
  fixes eqv :: "string \<Rightarrow> string \<Rightarrow> bool"
    and vals :: "'m \<Rightarrow> string \<Rightarrow> 'v list"
    and add_val :: "'m \<Rightarrow> string \<Rightarrow> 'v \<Rightarrow> 'm"
    and set_val :: "'m \<Rightarrow> string \<Rightarrow> 'v \<Rightarrow> 'm"
    and del_name :: "'m \<Rightarrow> string \<Rightarrow> 'm"
    and invar :: "'m \<Rightarrow> bool"
  assumes eqv_refl: "eqv k k"
    and eqv_sym: "eqv k k' \<Longrightarrow> eqv k' k"
    and eqv_trans: "eqv k k' \<Longrightarrow> eqv k' k'' \<Longrightarrow> eqv k k''"
    and vals_add: "invar m \<Longrightarrow> vals (add_val m k v) k' = (if eqv k k' then vals m k' @ [v] else vals m k')"
    and vals_set: "invar m \<Longrightarrow> vals (set_val m k v) k' = (if eqv k k' then [v] else vals m k')"
    and vals_del: "invar m \<Longrightarrow> vals (del_name m k) k' = (if eqv k k' then [] else vals m k')"
    and invar_add: "invar m \<Longrightarrow> invar (add_val m k v)"
    and invar_set: "invar m \<Longrightarrow> invar (set_val m k v)"
    and invar_del: "invar m \<Longrightarrow> invar (del_name m k)"
begin

lemmas laws = vals_add vals_set vals_del invar_add invar_set invar_del

lemma invar_add_pairs: "invar m \<Longrightarrow> invar (foldl (\<lambda>m p. add_val m (fst p) (snd p)) m ps)"
  by (induction ps arbitrary: m) (simp_all add: invar_add)

lemma invar_del_names: "invar m \<Longrightarrow> invar (foldl del_name m ks)"
  by (induction ks arbitrary: m) (simp_all add: invar_del)

text \<open>Adding a sequence of pairs appends, per name, the values of that name in their order.\<close>

lemma vals_add_pairs:
  "invar m \<Longrightarrow> vals (foldl (\<lambda>m p. add_val m (fst p) (snd p)) m ps) k =
     vals m k @ map snd (filter (\<lambda>p. eqv (fst p) k) ps)"
  by (induction ps arbitrary: m) (simp_all add: laws)

lemma vals_del_names:
  "invar m \<Longrightarrow> vals (foldl del_name m ks) k = (if \<exists>k'\<in>set ks. eqv k' k then [] else vals m k)"
  by (induction ks arbitrary: m) (simp_all add: laws)

lemma set_is_del_add: "invar m \<Longrightarrow> vals (set_val m k v) k' = vals (add_val (del_name m k) k v) k'"
  by (simp add: laws)

lemma vals_set_same: "invar m \<Longrightarrow> eqv k k' \<Longrightarrow> vals (set_val m k v) k' = [v]"
  by (simp add: laws)

lemma del_idem: "invar m \<Longrightarrow> vals (del_name (del_name m k) k) k' = vals (del_name m k) k'"
  by (simp add: laws)

text \<open>Overlay: delete every name of the second layer, then add it; the second layer wins per name.\<close>

lemma vals_overlay:
  assumes "invar m"
  shows "vals (foldl (\<lambda>m p. add_val m (fst p) (snd p)) (foldl del_name m (map fst ps)) ps) k =
     (if \<exists>p\<in>set ps. eqv (fst p) k then map snd (filter (\<lambda>p. eqv (fst p) k) ps) else vals m k)"
  using assms by (auto simp: vals_add_pairs vals_del_names invar_del_names filter_False_iff)

end

section \<open>Two multimaps kept in step\<close>

text \<open>
  A component that keeps the same names in two multimaps, say tagged values in one and raw values in
  the other, stays in step as long as every change is made to both; \<open>scope\<close> are the names for which
  the two must agree.
\<close>

locale synced_multimaps =
  l: name_multimap eqv lvals ladd lset ldel linv + r: name_multimap eqv rvals radd rset rdel rinv
  for eqv and lvals :: "'l \<Rightarrow> string \<Rightarrow> 'v list" and ladd lset ldel linv
    and rvals :: "'r \<Rightarrow> string \<Rightarrow> 'w list" and radd rset rdel rinv +
  fixes proj :: "'v \<Rightarrow> 'w" and scope :: "string \<Rightarrow> bool"
begin

definition in_sync :: "'l \<Rightarrow> 'r \<Rightarrow> bool" where
  "in_sync a b \<longleftrightarrow> linv a \<and> rinv b \<and> (\<forall>k. scope k \<longrightarrow> rvals b k = map proj (lvals a k))"

lemma sync_add: "in_sync a b \<Longrightarrow> in_sync (ladd a k v) (radd b k (proj v))"
  by (simp add: in_sync_def l.laws r.laws)

lemma sync_set: "in_sync a b \<Longrightarrow> in_sync (lset a k v) (rset b k (proj v))"
  by (simp add: in_sync_def l.laws r.laws)

lemma sync_del: "in_sync a b \<Longrightarrow> in_sync (ldel a k) (rdel b k)"
  by (simp add: in_sync_def l.laws r.laws)

lemma sync_del_names: "in_sync a b \<Longrightarrow> in_sync (foldl ldel a ks) (foldl rdel b ks)"
  by (induction ks arbitrary: a b) (simp_all add: sync_del)

end

section \<open>http.Header\<close>

type_synonym httpHeader = "(string, string list) gomap"

definition Header_Values :: "httpHeader \<Rightarrow> string \<Rightarrow> string list" where
  "Header_Values h k = (case map_of h (CanonicalHeaderKey k) of None \<Rightarrow> [] | Some vs \<Rightarrow> vs)"

definition Header_Get :: "httpHeader \<Rightarrow> string \<Rightarrow> string" where
  "Header_Get h k = (case Header_Values h k of [] \<Rightarrow> [] | v # _ \<Rightarrow> v)"

definition Header_Set :: "httpHeader \<Rightarrow> string \<Rightarrow> string \<Rightarrow> httpHeader" where
  "Header_Set h k v = AList.update (CanonicalHeaderKey k) [v] h"

definition Header_Add :: "httpHeader \<Rightarrow> string \<Rightarrow> string \<Rightarrow> httpHeader" where
  "Header_Add h k v = AList.update (CanonicalHeaderKey k) (Header_Values h k @ [v]) h"

definition Header_Del :: "httpHeader \<Rightarrow> string \<Rightarrow> httpHeader" where
  "Header_Del h k = AList.delete (CanonicalHeaderKey k) h"

definition header_eqv :: "string \<Rightarrow> string \<Rightarrow> bool" where
  "header_eqv k k' \<longleftrightarrow> CanonicalHeaderKey k = CanonicalHeaderKey k'"

definition header_pairs :: "httpHeader \<Rightarrow> (string \<times> string) list" where
  "header_pairs h = concat (map (\<lambda>(k, vs). map (Pair k) vs) h)"

interpretation hdr: name_multimap header_eqv Header_Values Header_Add Header_Set Header_Del
    "\<lambda>_. True"
  by unfold_locales
    (auto simp: header_eqv_def Header_Values_def Header_Add_def Header_Set_def Header_Del_def
      map_of_alist_update map_of_alist_delete)

lemma header_eqv_fold: "header_eqv k k' \<Longrightarrow> EqualFold k k'"
  by (metis EqualFold_canonical EqualFold_canonical_right EqualFold_refl header_eqv_def)

lemma header_eqv_token: "list_all valid_header_byte k \<Longrightarrow> header_eqv k k' \<longleftrightarrow> EqualFold k k'"
  by (simp add: header_eqv_def CanonicalHeaderKey_eq_iff)

lemma distinct_header_ops [wf_intros]:
  "distinct (map fst h) \<Longrightarrow> distinct (map fst (Header_Set h k v))"
  "distinct (map fst h) \<Longrightarrow> distinct (map fst (Header_Add h k v))"
  "distinct (map fst h) \<Longrightarrow> distinct (map fst (Header_Del h k))"
  by (simp_all add: Header_Set_def Header_Add_def Header_Del_def distinct_update distinct_delete)

section \<open>url.Values\<close>

type_synonym urlValues = "(string, string list) gomap"

definition Values_All :: "urlValues \<Rightarrow> string \<Rightarrow> string list" where
  "Values_All q k = (case map_of q k of None \<Rightarrow> [] | Some vs \<Rightarrow> vs)"

definition Values_Add :: "urlValues \<Rightarrow> string \<Rightarrow> string \<Rightarrow> urlValues" where
  "Values_Add q k v = AList.update k (Values_All q k @ [v]) q"

definition Values_Set :: "urlValues \<Rightarrow> string \<Rightarrow> string \<Rightarrow> urlValues" where
  "Values_Set q k v = AList.update k [v] q"

definition Values_Del :: "urlValues \<Rightarrow> string \<Rightarrow> urlValues" where
  "Values_Del q k = AList.delete k q"

interpretation qry: name_multimap "(=)" Values_All Values_Add Values_Set Values_Del "\<lambda>_. True"
  by unfold_locales
    (auto simp: Values_All_def Values_Add_def Values_Set_def Values_Del_def
      map_of_alist_update map_of_alist_delete)

end
