(* ===== verification/Go_Escape.thy ===== *)
theory Go_Escape
  imports Multimap
begin

text \<open>
  Percent-encoding and query strings of Go's \<open>net/url\<close>: \<open>shouldEscape\<close>, \<open>escape\<close>, \<open>unescape\<close> in the
  modes the sources reach, \<open>PathEscape\<close>, \<open>PathUnescape\<close>, \<open>ParseQuery\<close> and \<open>Values.Encode\<close>, with the
  round trips the request resolver depends on. The cap on the number of query parameters that
  recent releases add to \<open>ParseQuery\<close> is not modelled.
\<close>

section \<open>Escaping\<close>

datatype encoding = encodePath | encodePathSegment | encodeUserPassword | encodeQueryComponent
  | encodeFragment | encodeHost

definition is_alnum :: "char \<Rightarrow> bool" where
  "is_alnum c \<longleftrightarrow> is_lower c \<or> is_upper c \<or> is_digit c"

fun reserved_escaped :: "char \<Rightarrow> encoding \<Rightarrow> bool" where
  "reserved_escaped c encodePath = (c = CHR ''?'')"
| "reserved_escaped c encodePathSegment = (c \<in> set ''/;,?'')"
| "reserved_escaped c encodeUserPassword = (c \<in> set ''@/?:'')"
| "reserved_escaped c encodeQueryComponent = True"
| "reserved_escaped c encodeFragment = False"
| "reserved_escaped c encodeHost = True"

definition shouldEscape :: "char \<Rightarrow> encoding \<Rightarrow> bool" where
  "shouldEscape c m =
     (if is_alnum c then False
      else if m = encodeHost \<and> (c \<in> set ''!$&()*+,;=:[]<>'' \<or> of_char c \<in> {34, 39::nat}) then False
      else if c \<in> set ''-_.~'' then False
      else if c \<in> set ''$&+,/:;=?@'' then reserved_escaped c m
      else if m = encodeFragment \<and> c \<in> set ''!()*'' then False
      else True)"

definition hex_digit :: "nat \<Rightarrow> char" where
  "hex_digit n = (if n < 10 then char_of (48 + n) else char_of (55 + n))"

definition ishex :: "char \<Rightarrow> bool" where
  "ishex c \<longleftrightarrow> is_digit c \<or> (97 \<le> (of_char c :: nat) \<and> of_char c \<le> (102::nat))
     \<or> (65 \<le> (of_char c :: nat) \<and> of_char c \<le> (70::nat))"

definition unhex :: "char \<Rightarrow> nat" where
  "unhex c = (if is_digit c then of_char c - 48
     else if (97::nat) \<le> of_char c then of_char c - 87 else of_char c - 55)"

definition escape_char :: "encoding \<Rightarrow> char \<Rightarrow> string" where
  "escape_char m c =
     (if c = CHR '' '' \<and> m = encodeQueryComponent then ''+''
      else if shouldEscape c m
      then [CHR ''%'', hex_digit (of_char c div 16), hex_digit (of_char c mod 16)]
      else [c])"

definition escape :: "encoding \<Rightarrow> string \<Rightarrow> string" where
  "escape m s = concat (map (escape_char m) s)"

fun unescape :: "encoding \<Rightarrow> string \<Rightarrow> string option" where
  "unescape m [] = Some []"
| "unescape m (c # s) =
     (if c = CHR ''%'' then
        (case s of
           h # l # r \<Rightarrow> if ishex h \<and> ishex l
                       then map_option (Cons (char_of (unhex h * 16 + unhex l))) (unescape m r)
                       else None
         | _ \<Rightarrow> None)
      else map_option
             (Cons (if c = CHR ''+'' \<and> m = encodeQueryComponent then CHR '' '' else c))
             (unescape m s))"

definition PathEscape :: "string \<Rightarrow> string" where
  "PathEscape = escape encodePathSegment"

definition PathUnescape :: "string \<Rightarrow> string option" where
  "PathUnescape = unescape encodePathSegment"

definition QueryEscape :: "string \<Rightarrow> string" where
  "QueryEscape = escape encodeQueryComponent"

definition QueryUnescape :: "string \<Rightarrow> string option" where
  "QueryUnescape = unescape encodeQueryComponent"

lemma escape_simps [simp]:
  "escape m [] = []" "escape m (c # s) = escape_char m c @ escape m s"
  "escape m (s @ t) = escape m s @ escape m t"
  by (simp_all add: escape_def)

lemma of_char_hex_digit: "n < 16 \<Longrightarrow> of_char (hex_digit n) = (if n < 10 then 48 + n else 55 + n)"
  by (simp add: hex_digit_def)

lemma ishex_hex_digit: "n < 16 \<Longrightarrow> ishex (hex_digit n)"
  by (simp add: ishex_def is_digit_def of_char_hex_digit)

lemma unhex_hex_digit: "n < 16 \<Longrightarrow> unhex (hex_digit n) = n"
  by (auto simp: unhex_def is_digit_def of_char_hex_digit)

lemma of_char_nibbles: "of_char c div 16 < (16::nat)" "of_char c mod 16 < (16::nat)"
  by (rule less_mult_imp_div_less) simp_all

lemma unescape_escape_char:
  "unescape m (escape_char m c @ s) = map_option (Cons c) (unescape m s)"
proof -
  note lt = of_char_nibbles[of c]
  have pct: "shouldEscape CHR ''%'' m"
    by (simp add: shouldEscape_def is_alnum_def is_lower_def is_upper_def is_digit_def)
  have plus: "shouldEscape CHR ''+'' encodeQueryComponent"
    by (simp add: shouldEscape_def is_alnum_def is_lower_def is_upper_def is_digit_def)
  show ?thesis
    using pct plus
    by (auto simp: escape_char_def ishex_hex_digit[OF lt(1)] ishex_hex_digit[OF lt(2)]
        unhex_hex_digit[OF lt(1)] unhex_hex_digit[OF lt(2)])
qed

text \<open>Unescaping inverts escaping in every mode.\<close>

lemma unescape_escape: "unescape m (escape m s) = Some s"
  by (induction s) (simp_all add: unescape_escape_char)

text \<open>What an escaped string can contain.\<close>

lemma set_escape_char:
  "x \<in> set (escape_char m c) \<Longrightarrow>
     (x = c \<and> \<not> shouldEscape c m) \<or> x = CHR ''%'' \<or> (x = CHR ''+'' \<and> m = encodeQueryComponent)
     \<or> is_digit x \<or> is_upper x"
proof -
  note lt = of_char_nibbles[of c]
  have hex: "is_digit (hex_digit n) \<or> is_upper (hex_digit n)" if "n < 16" for n
    using that by (auto simp: is_digit_def is_upper_def of_char_hex_digit)
  assume "x \<in> set (escape_char m c)"
  then show ?thesis using hex[OF lt(1)] hex[OF lt(2)]
    by (auto simp: escape_char_def split: if_splits)
qed

lemma escape_notin:
  assumes "shouldEscape x m" and "x \<noteq> CHR ''%''" and "x = CHR ''+'' \<longrightarrow> m \<noteq> encodeQueryComponent"
  shows "x \<notin> set (escape m s)"
proof -
  have "\<not> is_digit x" "\<not> is_upper x"
    using assms(1) by (auto simp: shouldEscape_def is_alnum_def split: if_splits)
  then show ?thesis using assms by (auto simp: escape_def dest: set_escape_char)
qed

lemma PathEscape_notin:
  "x \<in> set ''{}/?#;, '' \<Longrightarrow> x \<notin> set (PathEscape s)"
proof -
  assume "x \<in> set ''{}/?#;, ''"
  moreover have "list_all (\<lambda>x. shouldEscape x encodePathSegment \<and> x \<noteq> CHR ''%'') ''{}/?#;, ''"
    by (simp add: shouldEscape_def is_alnum_def is_lower_def is_upper_def is_digit_def)
  ultimately have "shouldEscape x encodePathSegment" "x \<noteq> CHR ''%''"
    by (simp_all only: list_all_iff not_False_eq_True)
  then show ?thesis unfolding PathEscape_def by (intro escape_notin) simp_all
qed

section \<open>Query strings\<close>

definition Cut :: "'a list \<Rightarrow> 'a \<Rightarrow> 'a list \<times> 'a list" where
  "Cut s b = (takeWhile (\<lambda>c. c \<noteq> b) s, tl (dropWhile (\<lambda>c. c \<noteq> b) s))"

text \<open>
  \<open>parseQuery\<close> works on the pieces between \<open>&\<close>: an empty piece is skipped; a piece with a semicolon
  or a bad escape is left out and makes the call fail, the good pieces are still collected (which
  is what \<open>URL.Query\<close> returns).
\<close>

definition parse_query_piece :: "string \<Rightarrow> (string \<times> string) option option" where
  "parse_query_piece piece =
     (if CHR '';'' \<in> set piece then Some None
      else if piece = [] then None
      else case QueryUnescape (fst (Cut piece CHR ''='')) of
        None \<Rightarrow> Some None
      | Some k \<Rightarrow> (case QueryUnescape (snd (Cut piece CHR ''='')) of
                    None \<Rightarrow> Some None
                  | Some v \<Rightarrow> Some (Some (k, v))))"

definition query_pieces :: "string \<Rightarrow> (string \<times> string) option list" where
  "query_pieces s = List.map_filter parse_query_piece (SplitByte CHR ''&'' s)"

definition Query_lenient :: "string \<Rightarrow> urlValues" where
  "Query_lenient s =
     foldl (\<lambda>q p. Values_Add q (fst p) (snd p)) [] (List.map_filter id (query_pieces s))"

definition ParseQuery :: "string \<Rightarrow> urlValues option" where
  "ParseQuery s = (if None \<in> set (query_pieces s) then None else Some (Query_lenient s))"

definition encode_pair :: "string \<times> string \<Rightarrow> string" where
  "encode_pair p = QueryEscape (fst p) @ ''='' @ QueryEscape (snd p)"

fun join_amp :: "string list \<Rightarrow> string" where
  "join_amp [] = []"
| "join_amp [s] = s"
| "join_amp (s # t # ts) = s @ ''&'' @ join_amp (t # ts)"

definition sorted_pairs :: "urlValues \<Rightarrow> (string \<times> string) list" where
  "sorted_pairs q = concat (map (\<lambda>k. map (Pair k) (Values_All q k)) (sort (map fst q)))"

definition Values_Encode :: "urlValues \<Rightarrow> string" where
  "Values_Encode q = join_amp (map encode_pair (sorted_pairs q))"

lemma Cut_append: "b \<notin> set s \<Longrightarrow> Cut (s @ b # t) b = (s, t)"
  by (induction s) (auto simp: Cut_def)

lemma QueryEscape_notin: "x \<in> set ''&=;'' \<Longrightarrow> x \<notin> set (QueryEscape s)"
proof -
  assume "x \<in> set ''&=;''"
  moreover have "list_all (\<lambda>x. shouldEscape x encodeQueryComponent \<and> x \<noteq> CHR ''%'' \<and> x \<noteq> CHR ''+'') ''&=;''"
    by (simp add: shouldEscape_def is_alnum_def is_lower_def is_upper_def is_digit_def)
  ultimately have "shouldEscape x encodeQueryComponent" "x \<noteq> CHR ''%''" "x \<noteq> CHR ''+''"
    by (simp_all only: list_all_iff not_False_eq_True)
  then show ?thesis unfolding QueryEscape_def by (intro escape_notin) simp_all
qed

lemma parse_encode_pair: "parse_query_piece (encode_pair p) = Some (Some p)"
proof -
  have "CHR '';'' \<notin> set (encode_pair p)"
    using QueryEscape_notin[of "CHR '';''"] by (simp add: encode_pair_def)
  moreover have "Cut (encode_pair p) CHR ''='' = (QueryEscape (fst p), QueryEscape (snd p))"
    using Cut_append[OF QueryEscape_notin[of "CHR ''=''"]] by (simp add: encode_pair_def)
  moreover have "encode_pair p \<noteq> []" by (simp add: encode_pair_def)
  ultimately show ?thesis
    by (simp add: parse_query_piece_def QueryUnescape_def QueryEscape_def unescape_escape)
qed

lemma SplitByte_append:
  "b \<notin> set s \<Longrightarrow> SplitByte b (s @ b # t) = s # SplitByte b t"
  by (induction s) auto

lemma SplitByte_notin: "b \<notin> set s \<Longrightarrow> SplitByte b s = [s]"
  by (induction s) auto

lemma query_pieces_join:
  "query_pieces (join_amp (map encode_pair ps)) = map Some ps"
proof (induction ps rule: induct_list012)
  case (3 p q ps)
  have "CHR ''&'' \<notin> set (encode_pair p)"
    using QueryEscape_notin[of "CHR ''&''"] by (simp add: encode_pair_def)
  then have "SplitByte CHR ''&'' (join_amp (map encode_pair (p # q # ps))) =
      encode_pair p # SplitByte CHR ''&'' (join_amp (map encode_pair (q # ps)))"
    by (simp add: SplitByte_append)
  then show ?case using 3(2)
    by (simp add: query_pieces_def parse_encode_pair List.map_filter_simps)
next
  case (2 p)
  have "CHR ''&'' \<notin> set (encode_pair p)"
    using QueryEscape_notin[of "CHR ''&''"] by (simp add: encode_pair_def)
  then show ?case
    by (simp add: query_pieces_def SplitByte_notin parse_encode_pair List.map_filter_simps)
qed (simp add: query_pieces_def parse_query_piece_def List.map_filter_simps)

lemma map_filter_id_Some: "List.map_filter id (map Some xs) = xs"
  by (induction xs) (simp_all add: List.map_filter_simps)

text \<open>Decoding an encoded query gives every name its values in their order.\<close>

lemma sorted_pairs_vals:
  assumes "distinct (map fst q)"
  shows "map snd (filter (\<lambda>p. fst p = k) (sorted_pairs q)) = Values_All q k"
proof -
  have *: "map snd (filter (\<lambda>p. fst p = k) (concat (map (\<lambda>k. map (Pair k) (Values_All q k)) ks))) =
      (if k \<in> set ks then Values_All q k else [])" if "distinct ks" for ks
    using that by (induction ks) (auto simp: filter_map comp_def filter_False_iff)
  have "Values_All q k = []" if "k \<notin> set (map fst q)"
    using that by (auto simp: Values_All_def map_of_eq_None_iff[THEN iffD2] split: option.splits)
  then show ?thesis using *[of "sort (map fst q)"] assms by (auto simp: sorted_pairs_def)
qed

lemma Query_Encode:
  assumes "distinct (map fst q)"
  shows "Values_All (Query_lenient (Values_Encode q)) k = Values_All q k"
  using sorted_pairs_vals[OF assms, of k]
  by (simp add: Query_lenient_def Values_Encode_def query_pieces_join map_filter_id_Some
      qry.vals_add_pairs Values_All_def[of "[]"])

lemma ParseQuery_Encode: "ParseQuery (Values_Encode q) = Some (Query_lenient (Values_Encode q))"
  by (simp add: ParseQuery_def Values_Encode_def query_pieces_join)

lemma distinct_Values_Add [wf_intros]:
  "distinct (map fst q) \<Longrightarrow> distinct (map fst (Values_Add q k v))"
  by (simp add: Values_Add_def distinct_update)

lemma distinct_foldl_Values_Add [wf_intros]:
  "distinct (map fst q) \<Longrightarrow> distinct (map fst (foldl (\<lambda>q p. Values_Add q (fst p) (snd p)) q ps))"
  by (induction ps arbitrary: q) (simp_all add: wf_intros)

lemma distinct_Query_lenient [wf_intros]: "distinct (map fst (Query_lenient s))"
  by (simp add: Query_lenient_def wf_intros)

end
