(* ===== verification/Request_Metadata.thy ===== *)
theory Request_Metadata
  imports Request_Value Go_Escape
begin

text \<open>
  Model of \<open>request_metadata.go\<close>: the tagged queries, headers and cookies of a client or a builder
  and the request target. A Go slice is a list, a \<open>*http.Cookie\<close> an option; the filters that reuse
  the backing array (\<open>kept := m.headers[:0]\<close>) are filters of lists, since no other slice of the
  program shares that array.
\<close>

section \<open>Data\<close>

record httpCookie =
  ck_name :: string
  ck_value :: string
  ck_quoted :: bool
  ck_unparsed :: "string list"

record requestOccurrence =
  occ_name :: string
  occ_value :: Value

record requestCookieOccurrence =
  co_name :: string
  co_value :: Value
  co_cookie :: "httpCookie option"

record requestMetadata =
  md_queries :: "requestOccurrence list"
  md_headers :: "requestOccurrence list"
  md_cookies :: "requestCookieOccurrence list"

record requestTarget =
  tg_path :: Value
  tg_pathParams :: "(string, Value) gomap"

definition empty_metadata :: requestMetadata where
  "empty_metadata = \<lparr>md_queries = [], md_headers = [], md_cookies = []\<rparr>"

section \<open>The target\<close>

definition newRequestTarget :: "string \<Rightarrow> requestTarget" where
  "newRequestTarget p = \<lparr>tg_path = privateRequestValue p, tg_pathParams = []\<rparr>"

definition setPath :: "Value \<Rightarrow> requestTarget \<Rightarrow> requestTarget" where
  "setPath v t = t\<lparr>tg_path := v\<rparr>"

definition setPathParamValue :: "string \<Rightarrow> Value \<Rightarrow> requestTarget \<Rightarrow> requestTarget" where
  "setPathParamValue name v t = t\<lparr>tg_pathParams := AList.update name v (tg_pathParams t)\<rparr>"

definition setPathParam :: "string \<Rightarrow> string \<Rightarrow> requestTarget \<Rightarrow> requestTarget" where
  "setPathParam name v t = setPathParamValue name (privateRequestValue v) t"

definition setPathParams :: "(string, string) gomap \<Rightarrow> requestTarget \<Rightarrow> requestTarget" where
  "setPathParams vs t =
     t\<lparr>tg_pathParams :=
        foldl (\<lambda>m p. AList.update (fst p) (privateRequestValue (snd p)) m) (tg_pathParams t) vs\<rparr>"

definition deletePathParams :: "string list \<Rightarrow> requestTarget \<Rightarrow> requestTarget" where
  "deletePathParams names t =
     t\<lparr>tg_pathParams := foldl (\<lambda>m n. AList.delete n m) (tg_pathParams t) names\<rparr>"

definition path_token :: "string \<Rightarrow> string" where
  "path_token name = ''{'' @ name @ ''}''"

fun substitute_params :: "(string, Value) gomap \<Rightarrow> string \<Rightarrow> string" where
  "substitute_params [] path = path"
| "substitute_params ((name, v) # ps) path =
     substitute_params ps (ReplaceAll path (path_token name) (PathEscape (rawValue v)))"

definition resolvedPath :: "requestTarget \<Rightarrow> string" where
  "resolvedPath t = substitute_params (tg_pathParams t) (rawValue (tg_path t))"

section \<open>Queries\<close>

definition addQuery :: "requestMetadata \<Rightarrow> string \<Rightarrow> Value \<Rightarrow> requestMetadata" where
  "addQuery m name v = m\<lparr>md_queries := md_queries m @ [\<lparr>occ_name = name, occ_value = v\<rparr>]\<rparr>"

definition deleteQueries :: "requestMetadata \<Rightarrow> string list \<Rightarrow> requestMetadata" where
  "deleteQueries m names =
     (if md_queries m = [] \<or> names = [] then m
      else m\<lparr>md_queries := filter (\<lambda>occ. occ_name occ \<notin> set names) (md_queries m)\<rparr>)"

definition queryValues :: "requestMetadata \<Rightarrow> urlValues" where
  "queryValues m = foldl (\<lambda>q occ. Values_Add q (occ_name occ) (rawValue (occ_value occ))) [] (md_queries m)"

section \<open>Headers\<close>

definition canonicalRequestHeaderName :: "string \<Rightarrow> string" where
  "canonicalRequestHeaderName name =
     (let canonical = CanonicalHeaderKey name in if canonical \<noteq> [] then canonical else name)"

definition equalHeaderName :: "string \<Rightarrow> string \<Rightarrow> bool" where
  "equalHeaderName l r = EqualFold l r"

definition isCredentialRequestHeader :: "string \<Rightarrow> bool" where
  "isCredentialRequestHeader name \<longleftrightarrow>
     equalHeaderName name ''Authorization'' \<or> equalHeaderName name ''Proxy-Authorization''"

definition deleteHeaders :: "requestMetadata \<Rightarrow> string list \<Rightarrow> requestMetadata" where
  "deleteHeaders m names =
     (if md_headers m = [] \<or> names = [] then m
      else m\<lparr>md_headers :=
        filter (\<lambda>occ. \<not> list_ex (equalHeaderName (occ_name occ)) names) (md_headers m)\<rparr>)"

definition addHeader :: "requestMetadata \<Rightarrow> string \<Rightarrow> Value \<Rightarrow> requestMetadata" where
  "addHeader m name v =
     m\<lparr>md_headers := md_headers m @ [\<lparr>occ_name = canonicalRequestHeaderName name, occ_value = v\<rparr>]\<rparr>"

definition setHeader :: "requestMetadata \<Rightarrow> string \<Rightarrow> Value \<Rightarrow> requestMetadata" where
  "setHeader m name v = addHeader (deleteHeaders m [name]) name v"

definition setHeaders :: "requestMetadata \<Rightarrow> httpHeader \<Rightarrow> requestMetadata" where
  "setHeaders m headers =
     foldl (\<lambda>m (name, vs). foldl (\<lambda>m v. addHeader m name (privateRequestValue v)) (deleteHeaders m [name]) vs)
       m headers"

definition occurrencesHeaderValues :: "requestOccurrence list \<Rightarrow> httpHeader" where
  "occurrencesHeaderValues occs =
     foldl (\<lambda>h occ. Header_Add h (occ_name occ) (rawValue (occ_value occ))) [] occs"

definition headerValues :: "requestMetadata \<Rightarrow> httpHeader" where
  "headerValues m = occurrencesHeaderValues (md_headers m)"

section \<open>Cookies\<close>

definition addCookie :: "requestMetadata \<Rightarrow> string \<Rightarrow> Value \<Rightarrow> requestMetadata" where
  "addCookie m name v =
     m\<lparr>md_cookies := md_cookies m @
        [\<lparr>co_name = name, co_value = v,
          co_cookie = Some \<lparr>ck_name = name, ck_value = rawValue v, ck_quoted = False, ck_unparsed = []\<rparr>\<rparr>]\<rparr>"

definition deleteCookies :: "requestMetadata \<Rightarrow> string list \<Rightarrow> requestMetadata" where
  "deleteCookies m names =
     (if md_cookies m = [] \<or> names = [] then m
      else m\<lparr>md_cookies := filter (\<lambda>occ. co_name occ \<notin> set names) (md_cookies m)\<rparr>)"

definition empty_cookie :: httpCookie where
  "empty_cookie = \<lparr>ck_name = [], ck_value = [], ck_quoted = False, ck_unparsed = []\<rparr>"

definition cookieValues :: "requestMetadata \<Rightarrow> httpCookie list" where
  "cookieValues m =
     map (\<lambda>occ. (case co_cookie occ of None \<Rightarrow> empty_cookie | Some ck \<Rightarrow> ck)
            \<lparr>ck_name := co_name occ, ck_value := rawValue (co_value occ)\<rparr>) (md_cookies m)"

definition metadata_clone :: "requestMetadata \<Rightarrow> requestMetadata" where
  "metadata_clone m =
     \<lparr>md_queries = md_queries m, md_headers = md_headers m,
      md_cookies = (if md_cookies m = [] then [] else
        map (\<lambda>occ. case co_cookie occ of None \<Rightarrow> occ | Some ck \<Rightarrow> occ\<lparr>co_cookie := Some ck\<rparr>) (md_cookies m))\<rparr>"

section \<open>Header occurrences are a multimap up to case\<close>

definition md_vals :: "requestMetadata \<Rightarrow> string \<Rightarrow> Value list" where
  "md_vals m k = map occ_value (filter (\<lambda>occ. EqualFold (occ_name occ) k) (md_headers m))"

lemma canonicalRequestHeaderName_eq [simp]: "canonicalRequestHeaderName k = CanonicalHeaderKey k"
  using CanonicalHeaderKey_empty[of k] by (auto simp: canonicalRequestHeaderName_def Let_def)

lemma md_headers_delete:
  "md_headers (deleteHeaders m ks) =
     filter (\<lambda>occ. \<not> list_ex (EqualFold (occ_name occ)) ks) (md_headers m)"
  by (auto simp: deleteHeaders_def equalHeaderName_def[abs_def])

interpretation mdh: name_multimap EqualFold md_vals addHeader setHeader "\<lambda>m k. deleteHeaders m [k]"
    "\<lambda>_. True"
proof unfold_locales
  fix m k v k'
  show add: "md_vals (addHeader m k v) k' = (if EqualFold k k' then md_vals m k' @ [v] else md_vals m k')"
    for m by (simp add: md_vals_def addHeader_def fold_simps)
  show del: "md_vals (deleteHeaders m [k]) k' = (if EqualFold k k' then [] else md_vals m k')"
    by (auto simp: md_vals_def md_headers_delete filter_False_iff EqualFold_def
        intro!: arg_cong[of _ _ "map occ_value"] filter_cong)
  show "md_vals (setHeader m k v) k' = (if EqualFold k k' then [v] else md_vals m k')"
    by (simp add: setHeader_def add del)
qed (auto intro: EqualFold_sym EqualFold_trans)

lemma metadata_clone_id [simp]: "metadata_clone m = m"
proof -
  have "map (\<lambda>occ. case co_cookie occ of None \<Rightarrow> occ | Some ck \<Rightarrow> occ\<lparr>co_cookie := Some ck\<rparr>) xs = xs"
    for xs :: "requestCookieOccurrence list"
    by (rule map_idI) (auto split: option.splits)
  then show ?thesis by (cases m) (simp add: metadata_clone_def)
qed

lemma deleteHeaders_frame [simp]:
  "md_queries (deleteHeaders m ks) = md_queries m" "md_cookies (deleteHeaders m ks) = md_cookies m"
  by (simp_all add: deleteHeaders_def)

text \<open>The query string view of the builder's occurrences keeps each name's values in call order.\<close>

lemma queryValues_vals:
  "Values_All (queryValues m) k =
     map (\<lambda>occ. rawValue (occ_value occ)) (filter (\<lambda>occ. occ_name occ = k) (md_queries m))"
proof -
  have "queryValues m = foldl (\<lambda>q p. Values_Add q (fst p) (snd p)) []
      (map (\<lambda>occ. (occ_name occ, rawValue (occ_value occ))) (md_queries m))"
    by (simp add: queryValues_def foldl_map)
  then show ?thesis
    by (simp add: qry.vals_add_pairs filter_map comp_def Values_All_def[of "[]"])
qed

lemma distinct_queryValues [wf_intros]: "distinct (map fst (queryValues m))"
proof -
  have "queryValues m = foldl (\<lambda>q p. Values_Add q (fst p) (snd p)) []
      (map (\<lambda>occ. (occ_name occ, rawValue (occ_value occ))) (md_queries m))"
    by (simp add: queryValues_def foldl_map)
  then show ?thesis by (simp add: wf_intros)
qed

text \<open>The semantic header view of a list of occurrences.\<close>

lemma occurrencesHeaderValues_vals:
  "Header_Values (occurrencesHeaderValues occs) k =
     map (\<lambda>occ. rawValue (occ_value occ)) (filter (\<lambda>occ. header_eqv (occ_name occ) k) occs)"
proof -
  have "occurrencesHeaderValues occs = foldl (\<lambda>h p. Header_Add h (fst p) (snd p)) []
      (map (\<lambda>occ. (occ_name occ, rawValue (occ_value occ))) occs)"
    by (simp add: occurrencesHeaderValues_def foldl_map)
  then show ?thesis
    by (simp add: hdr.vals_add_pairs filter_map comp_def Header_Values_def[of "[]"])
qed

end
