(* ===== verification/Path_Template.thy ===== *)
theory Path_Template
  imports Request_Metadata "HOL-Library.Multiset"
begin

text \<open>
  Substitution of path parameters (\<open>requestTarget.resolvedPath\<close>). The source ranges over a Go map,
  so the placeholders are replaced in an order that differs from run to run. This theory shows
  when the result does not depend on that order: parameter names without braces and a template in
  which no placeholder opens inside another. Escaped values never contain braces.
\<close>

section \<open>Templates\<close>

definition brace_free :: "string \<Rightarrow> bool" where
  "brace_free s \<longleftrightarrow> CHR ''{'' \<notin> set s \<and> CHR ''}'' \<notin> set s"

fun flat :: "bool \<Rightarrow> string \<Rightarrow> bool" where
  "flat opened [] = True"
| "flat opened (c # s) =
     (if c = CHR ''{'' then \<not> opened \<and> flat True s
      else if c = CHR ''}'' then flat False s
      else flat opened s)"

definition flat_template :: "string \<Rightarrow> bool" where
  "flat_template s = flat False s"

lemma brace_free_PathEscape: "brace_free (PathEscape s)"
  using PathEscape_notin[of "CHR ''{''"] PathEscape_notin[of "CHR ''}''"]
  by (simp add: brace_free_def)

lemma brace_free_Cons [simp]:
  "brace_free []" "brace_free (c # s) \<longleftrightarrow> c \<noteq> CHR ''{'' \<and> c \<noteq> CHR ''}'' \<and> brace_free s"
  by (auto simp: brace_free_def)

lemma flat_brace_free: "brace_free r \<Longrightarrow> flat b (r @ s) = flat b s"
  by (induction r) auto

lemma flat_token: "brace_free n \<Longrightarrow> flat b (path_token n @ s) \<longleftrightarrow> \<not> b \<and> flat False s"
  by (simp add: path_token_def flat_brace_free)

lemma path_token_neq_Nil [simp]: "path_token n \<noteq> []"
  by (simp add: path_token_def)

lemma HasPrefix_token: "HasPrefix (c # s) (path_token n) \<longleftrightarrow> c = CHR ''{'' \<and> HasPrefix s (n @ ''}'')"
  by (auto simp: path_token_def)

text \<open>Scanning for a placeholder passes over text without an opening brace.\<close>

lemma ReplaceAll_no_open:
  "CHR ''{'' \<notin> set u \<Longrightarrow> ReplaceAll (u @ s) (path_token n) r = u @ ReplaceAll s (path_token n) r"
  by (induction u) (auto simp: ReplaceAll_skip HasPrefix_token)

lemma brace_free_prefix_eq:
  "brace_free m \<Longrightarrow> brace_free n \<Longrightarrow> HasPrefix (m @ CHR ''}'' # s) (n @ ''}'') \<Longrightarrow> m = n"
proof (induction m arbitrary: n)
  case Nil
  then show ?case by (cases n) auto
next
  case (Cons c m)
  then show ?case by (cases n) auto
qed

lemma ReplaceAll_other_token:
  assumes "brace_free m" "brace_free n" "m \<noteq> n"
  shows "ReplaceAll (path_token m @ s) (path_token n) r = path_token m @ ReplaceAll s (path_token n) r"
proof -
  have "\<not> HasPrefix (CHR ''{'' # m @ CHR ''}'' # s) (path_token n)"
    using brace_free_prefix_eq[OF assms(1,2)] assms(3) by (auto simp: HasPrefix_token)
  moreover have "ReplaceAll ((m @ ''}'') @ s) (path_token n) r = (m @ ''}'') @ ReplaceAll s (path_token n) r"
    using assms(1) by (intro ReplaceAll_no_open) (auto simp: brace_free_def)
  ultimately show ?thesis by (simp add: path_token_def[of m] ReplaceAll_skip)
qed

text \<open>Inside an opened placeholder no replacement takes place before its closing brace.\<close>

lemma HasPrefix_name_ReplaceAll:
  assumes "brace_free n" "flat True s"
  shows "HasPrefix (ReplaceAll s (path_token m) r) (n @ ''}'') \<longleftrightarrow> HasPrefix s (n @ ''}'')"
  using assms
proof (induction s arbitrary: n)
  case (Cons c s)
  then have c: "c \<noteq> CHR ''{''" by auto
  then have skip: "ReplaceAll (c # s) (path_token m) r = c # ReplaceAll s (path_token m) r"
    by (simp add: ReplaceAll_skip HasPrefix_token)
  show ?case
  proof (cases n)
    case Nil
    then show ?thesis by (simp add: skip)
  next
    case (Cons d k)
    then show ?thesis
      using Cons.IH[of k] \<open>flat True (c # s)\<close> \<open>brace_free n\<close> c by (auto simp: skip)
  qed
qed simp

lemma ReplaceAll_unmatched:
  assumes "brace_free n" "flat b (c # s)" "\<not> HasPrefix (c # s) (path_token n)"
  shows "\<not> HasPrefix (c # ReplaceAll s (path_token m) r) (path_token n)"
  using assms HasPrefix_name_ReplaceAll[of n s m r] by (auto simp: HasPrefix_token)

text \<open>Induction on a flat template: a placeholder of one of two names, or one more character.\<close>

lemma flat_induct [consumes 3, case_names Nil first second skip]:
  assumes "flat b s" "brace_free m" "brace_free n"
    and "\<And>b. P b []"
    and "\<And>s. flat False s \<Longrightarrow> P False s \<Longrightarrow> P False (path_token m @ s)"
    and "\<And>s. flat False s \<Longrightarrow> P False s \<Longrightarrow> P False (path_token n @ s)"
    and "\<And>b c s. flat b (c # s) \<Longrightarrow> \<not> HasPrefix (c # s) (path_token m) \<Longrightarrow>
           \<not> HasPrefix (c # s) (path_token n) \<Longrightarrow> (\<And>b'. flat b' s \<Longrightarrow> P b' s) \<Longrightarrow> P b (c # s)"
  shows "P b s"
  using assms(1)
proof (induction s arbitrary: b rule: length_induct)
  case (1 s)
  show ?case
  proof (cases s)
    case Nil
    then show ?thesis using assms(4) by simp
  next
    case (Cons c t)
    have tok: "P b s" if pre: "HasPrefix s (path_token k)" and bf: "brace_free k"
      and st: "\<And>s. flat False s \<Longrightarrow> P False s \<Longrightarrow> P False (path_token k @ s)" for k
    proof -
      obtain u where u: "s = path_token k @ u" using pre by (auto simp: HasPrefix_iff)
      with 1(2) bf have "\<not> b" "flat False u" by (auto simp: flat_token)
      moreover have "length u < length s" by (simp add: u)
      ultimately show ?thesis using 1(1) st u by auto
    qed
    show ?thesis
    proof (cases "HasPrefix s (path_token m) \<or> HasPrefix s (path_token n)")
      case True
      then show ?thesis using tok assms(2,3,5,6) by blast
    next
      case False
      then show ?thesis using 1 Cons assms(7)[of b c t] by auto
    qed
  qed
qed

section \<open>Replacements commute\<close>

lemma ReplaceAll_commute:
  assumes "flat b s" "brace_free m" "brace_free n" "m \<noteq> n" "brace_free r" "brace_free q"
  shows "ReplaceAll (ReplaceAll s (path_token m) r) (path_token n) q =
         ReplaceAll (ReplaceAll s (path_token n) q) (path_token m) r"
  using assms(1-3)
proof (induction rule: flat_induct)
  case (first s)
  have "CHR ''{'' \<notin> set r" using assms(5) by (simp add: brace_free_def)
  then show ?case using first assms
    by (simp add: ReplaceAll_match ReplaceAll_other_token ReplaceAll_no_open)
next
  case (second s)
  have "CHR ''{'' \<notin> set q" using assms(6) by (simp add: brace_free_def)
  then show ?case using second assms
    by (simp add: ReplaceAll_match ReplaceAll_other_token ReplaceAll_no_open)
next
  case (skip b c s)
  have "flat (c = CHR ''{'' \<or> (b \<and> c \<noteq> CHR ''}'')) s" using skip(1) by (auto split: if_splits)
  then show ?case using skip assms(2,3)
    by (simp add: ReplaceAll_skip ReplaceAll_unmatched[OF _ skip(1)])
qed simp

lemma flat_ReplaceAll:
  assumes "flat b s" "brace_free m" "brace_free r"
  shows "flat b (ReplaceAll s (path_token m) r)"
  using assms(1,2,2)
proof (induction rule: flat_induct)
  case (skip b c s)
  then show ?case by (auto simp: ReplaceAll_skip split: if_splits)
qed (simp_all add: ReplaceAll_match flat_brace_free assms(3))

lemma Count_no_open: "CHR ''{'' \<notin> set u \<Longrightarrow> Count (u @ s) (path_token n) = Count s (path_token n)"
  by (induction u) (auto simp: Count_skip HasPrefix_token)

lemma Count_other_token:
  assumes "brace_free m" "brace_free n" "m \<noteq> n"
  shows "Count (path_token m @ s) (path_token n) = Count s (path_token n)"
proof -
  have "\<not> HasPrefix (CHR ''{'' # m @ CHR ''}'' # s) (path_token n)"
    using brace_free_prefix_eq[OF assms(1,2)] assms(3) by (auto simp: HasPrefix_token)
  moreover have "Count ((m @ ''}'') @ s) (path_token n) = Count s (path_token n)"
    using assms(1) by (intro Count_no_open) (auto simp: brace_free_def)
  ultimately show ?thesis by (simp add: path_token_def[of m] Count_skip)
qed

text \<open>Replacing one placeholder removes it and leaves the others where they were.\<close>

lemma Count_ReplaceAll:
  assumes "flat b s" "brace_free m" "brace_free n" "brace_free r"
  shows "Count (ReplaceAll s (path_token m) r) (path_token n) =
    (if m = n then 0 else Count s (path_token n))"
  using assms(1-3)
proof (induction rule: flat_induct)
  case (first s)
  have "CHR ''{'' \<notin> set r" using assms(4) by (simp add: brace_free_def)
  then show ?case using first assms by (simp add: ReplaceAll_match Count_no_open Count_other_token)
next
  case (second s)
  have "CHR ''{'' \<notin> set r" using assms(4) by (simp add: brace_free_def)
  then show ?case using second assms
    by (cases "m = n") (simp_all add: ReplaceAll_match ReplaceAll_other_token Count_match Count_no_open)
next
  case (skip b c s)
  have "flat (c = CHR ''{'' \<or> (b \<and> c \<noteq> CHR ''}'')) s" using skip(1) by (auto split: if_splits)
  then show ?case using skip assms(3)
    by (simp add: ReplaceAll_skip Count_skip ReplaceAll_unmatched[OF _ skip(1)])
qed simp

section \<open>Resolution does not depend on the order of the parameters\<close>

definition brace_free_names :: "(string, Value) gomap \<Rightarrow> bool" where
  "brace_free_names ps \<longleftrightarrow> list_all (\<lambda>p. brace_free (fst p)) ps"

lemma substitute_front:
  assumes "flat_template s" "brace_free_names (ps @ p # qs)" "fst p \<notin> fst ` set ps"
  shows "substitute_params (ps @ p # qs) s = substitute_params (p # ps @ qs) s"
  using assms
proof (induction ps arbitrary: s)
  case (Cons a ps)
  obtain m v n w where [simp]: "a = (m, v)" "p = (n, w)" by (cases a, cases p)
  let ?s = "ReplaceAll s (path_token m) (PathEscape (rawValue v))"
  have "flat_template ?s" using Cons.prems
    by (simp add: flat_template_def flat_ReplaceAll brace_free_names_def brace_free_PathEscape)
  then have "substitute_params (ps @ p # qs) ?s = substitute_params (p # ps @ qs) ?s"
    using Cons by (simp add: brace_free_names_def)
  moreover have "ReplaceAll ?s (path_token n) (PathEscape (rawValue w)) =
      ReplaceAll (ReplaceAll s (path_token n) (PathEscape (rawValue w))) (path_token m) (PathEscape (rawValue v))"
    using Cons.prems by (intro ReplaceAll_commute[of False])
      (auto simp: flat_template_def brace_free_names_def brace_free_PathEscape)
  ultimately show ?case by simp
qed simp

lemma substitute_perm:
  assumes "flat_template s" "brace_free_names ps" "distinct (map fst ps)" "mset ps = mset qs"
  shows "substitute_params ps s = substitute_params qs s"
  using assms
proof (induction ps arbitrary: qs s)
  case (Cons p ps)
  obtain n v where p: "p = (n, v)" by (cases p)
  from Cons.prems(4) have "p \<in> set qs" by (metis list.set_intros(1) mset_eq_setD)
  then obtain as bs where qs: "qs = as @ p # bs" by (auto simp: in_set_conv_decomp)
  with Cons.prems(4) have ms: "mset ps = mset (as @ bs)" by simp
  then have sets: "set ps = set (as @ bs)" by (rule mset_eq_setD)
  let ?s = "ReplaceAll s (path_token n) (PathEscape (rawValue v))"
  have "flat_template ?s" using Cons.prems(1,2)
    by (simp add: p flat_template_def flat_ReplaceAll brace_free_names_def brace_free_PathEscape)
  then have "substitute_params ps ?s = substitute_params (as @ bs) ?s"
    using Cons ms by (simp add: brace_free_names_def)
  moreover have "brace_free_names qs" using Cons.prems(2,4) unfolding brace_free_names_def
    by (metis list_all_iff mset_eq_setD)
  moreover have "fst p \<notin> fst ` set as" using Cons.prems(3) sets by auto
  ultimately show ?case
    using substitute_front[OF Cons.prems(1), of as p bs] by (simp add: qs p)
qed simp

lemma substitute_Count:
  assumes "flat_template s" "brace_free_names ps" "brace_free n" 
  shows "Count (substitute_params ps s) (path_token n) =
    (if n \<in> fst ` set ps then 0 else Count s (path_token n))"
  using assms
proof (induction ps arbitrary: s)
  case (Cons p ps)
  obtain m v where p: "p = (m, v)" by (cases p)
  let ?s = "ReplaceAll s (path_token m) (PathEscape (rawValue v))"
  have "flat_template ?s" using Cons.prems(1,2)
    by (simp add: p flat_template_def flat_ReplaceAll brace_free_names_def brace_free_PathEscape)
  then show ?case using Cons Count_ReplaceAll[of False s m n "PathEscape (rawValue v)"]
    by (auto simp: p brace_free_names_def flat_template_def brace_free_PathEscape)
qed simp

text \<open>A parameter whose placeholder does not occur in the template has no influence.\<close>

lemma substitute_low:
  assumes "flat_template s" "brace_free_names ps"
    and "list_all2 (\<lambda>p q. fst p = fst q \<and> (Count s (path_token (fst p)) > 0 \<longrightarrow> rawValue (snd p) = rawValue (snd q))) ps qs"
  shows "substitute_params ps s = substitute_params qs s"
  using assms
proof (induction ps arbitrary: qs s)
  case (Cons p ps)
  obtain n v where p: "p = (n, v)" by (cases p)
  from Cons.prems(3) obtain w qs' where qs: "qs = (n, w) # qs'"
    and w: "Count s (path_token n) > 0 \<longrightarrow> rawValue v = rawValue w"
    and rest: "list_all2 (\<lambda>p q. fst p = fst q \<and> (Count s (path_token (fst p)) > 0 \<longrightarrow> rawValue (snd p) = rawValue (snd q))) ps qs'"
    by (auto simp: p list_all2_Cons1)
  let ?s = "ReplaceAll s (path_token n) (PathEscape (rawValue v))"
  have eq: "?s = ReplaceAll s (path_token n) (PathEscape (rawValue w))"
    using w by (cases "Count s (path_token n) = 0") (simp_all add: ReplaceAll_Count_0)
  have "flat_template ?s" using Cons.prems(1,2)
    by (simp add: p flat_template_def flat_ReplaceAll brace_free_names_def brace_free_PathEscape)
  moreover have "list_all2 (\<lambda>p q. fst p = fst q \<and> (Count ?s (path_token (fst p)) > 0 \<longrightarrow> rawValue (snd p) = rawValue (snd q))) ps qs'"
  proof (rule list.rel_mono_strong[OF rest])
    fix a b assume "a \<in> set ps"
      and ab: "fst a = fst b \<and> (Count s (path_token (fst a)) > 0 \<longrightarrow> rawValue (snd a) = rawValue (snd b))"
    then have "brace_free (fst a)" "brace_free n" using Cons.prems(2)
      by (auto simp: p brace_free_names_def list_all_iff)
    then have "Count ?s (path_token (fst a)) = (if n = fst a then 0 else Count s (path_token (fst a)))"
      using Cons.prems(1) by (intro Count_ReplaceAll) (auto simp: flat_template_def brace_free_PathEscape)
    then show "fst a = fst b \<and> (Count ?s (path_token (fst a)) > 0 \<longrightarrow> rawValue (snd a) = rawValue (snd b))"
      using ab by auto
  qed
  ultimately have "substitute_params ps ?s = substitute_params qs' ?s"
    using Cons.IH[of ?s qs'] Cons.prems(2) by (simp add: brace_free_names_def)
  then show ?case by (simp add: p qs eq)
qed simp

section \<open>Properties\<close>


definition ex_target :: "(string, Value) gomap \<Rightarrow> string \<Rightarrow> requestTarget" where
  "ex_target ps path = \<lparr>tg_path = privateRequestValue path, tg_pathParams = ps\<rparr>"


text \<open>
  Resolving the path replaces every placeholder that has a parameter and leaves the
  number of every other placeholder as it was.
\<close>

lemma resolvedPath_replaces_placeholders:
  assumes "flat_template (rawValue (tg_path t))" and "brace_free_names (tg_pathParams t)" and "brace_free n"
  shows "Count (resolvedPath t) (path_token n) =
    (if n \<in> fst ` set (tg_pathParams t) then 0 else Count (rawValue (tg_path t)) (path_token n))"
  using substitute_Count[OF assms] by (simp add: resolvedPath_def)

lemma resolvedPath_replaces_placeholders_example:
  "Count (resolvedPath (ex_target [(''a'', Public ''{c}'')] ''/{a}/{c}/{c}'')) (path_token ''a'') = 0"
  using resolvedPath_replaces_placeholders[of "ex_target [(''a'', Public ''{c}'')] ''/{a}/{c}/{c}''" "''a''"]
  by (simp add: ex_target_def flat_template_def brace_free_names_def brace_free_def)

text \<open>
  The hypothesis on nesting is needed: with a placeholder inside another the two orders of the same
  two parameters give different paths.
\<close>

lemma resolvedPath_nested_order_dependent:
  "resolvedPath (ex_target [(''b'', Public ''y''), (''xy'', Public ''1'')] ''/{x{b}}'') \<noteq>
   resolvedPath (ex_target [(''xy'', Public ''1''), (''b'', Public ''y'')] ''/{x{b}}'')"
  by (simp add: ex_target_def resolvedPath_def path_token_def ReplaceAll.simps HasPrefix_def
      PathEscape_def escape_char_def shouldEscape_def is_alnum_def is_lower_def is_upper_def is_digit_def)

end
