(* ===== verification/Go_URL.thy ===== *)
theory Go_URL
  imports Go_Escape
begin

text \<open>
  The URL type of Go's \<open>net/url\<close> with \<open>Parse\<close>, \<open>EscapedPath\<close>, \<open>Query\<close> and \<open>String\<close>. The validation
  of the host part (\<open>parseHost\<close>, whose rules for brackets and colons differ between releases) is the
  parameter \<open>ph\<close>, a function from the raw host to the accepted host or \<open>None\<close>.
\<close>

section \<open>URLs\<close>

record Userinfo =
  ui_username :: string
  ui_password :: "string option"

record URL =
  url_scheme :: string
  url_opaque :: string
  url_user :: "Userinfo option"
  url_host :: string
  url_path :: string
  url_rawPath :: string
  url_omitHost :: bool
  url_forceQuery :: bool
  url_rawQuery :: string
  url_fragment :: string
  url_rawFragment :: string

definition empty_URL :: URL where
  "empty_URL = \<lparr>url_scheme = [], url_opaque = [], url_user = None, url_host = [], url_path = [],
     url_rawPath = [], url_omitHost = False, url_forceQuery = False, url_rawQuery = [],
     url_fragment = [], url_rawFragment = []\<rparr>"

definition IsAbs :: "URL \<Rightarrow> bool" where
  "IsAbs u \<longleftrightarrow> url_scheme u \<noteq> []"

definition URL_Query :: "URL \<Rightarrow> urlValues" where
  "URL_Query u = Query_lenient (url_rawQuery u)"

definition validEncoded :: "string \<Rightarrow> encoding \<Rightarrow> bool" where
  "validEncoded s m \<longleftrightarrow>
     list_all (\<lambda>c. c \<in> set ''!$&()*+,;=:@[]%'' \<or> of_char c = (39::nat) \<or> \<not> shouldEscape c m) s"

definition EscapedPath :: "URL \<Rightarrow> string" where
  "EscapedPath u =
     (if url_rawPath u \<noteq> [] \<and> validEncoded (url_rawPath u) encodePath
         \<and> unescape encodePath (url_rawPath u) = Some (url_path u)
      then url_rawPath u
      else if url_path u = ''*'' then ''*''
      else escape encodePath (url_path u))"

definition EscapedFragment :: "URL \<Rightarrow> string" where
  "EscapedFragment u =
     (if url_rawFragment u \<noteq> [] \<and> validEncoded (url_rawFragment u) encodeFragment
         \<and> unescape encodeFragment (url_rawFragment u) = Some (url_fragment u)
      then url_rawFragment u
      else escape encodeFragment (url_fragment u))"

definition Userinfo_String :: "Userinfo \<Rightarrow> string" where
  "Userinfo_String ui = escape encodeUserPassword (ui_username ui) @
     (case ui_password ui of None \<Rightarrow> [] | Some p \<Rightarrow> '':'' @ escape encodeUserPassword p)"

definition URL_String :: "URL \<Rightarrow> string" where
  "URL_String u =
     (let scheme = (if url_scheme u \<noteq> [] then url_scheme u @ '':'' else []);
          hier =
            (let authority =
                  (if url_scheme u = [] \<and> url_host u = [] \<and> url_user u = None then []
                   else if url_omitHost u \<and> url_host u = [] \<and> url_user u = None then []
                   else (if url_host u \<noteq> [] \<or> url_path u \<noteq> [] \<or> url_user u \<noteq> None then ''//'' else []) @
                        (case url_user u of None \<Rightarrow> [] | Some ui \<Rightarrow> Userinfo_String ui @ ''@'') @
                        (if url_host u \<noteq> [] then escape encodeHost (url_host u) else []));
                 path = EscapedPath u;
                 slash = (if path \<noteq> [] \<and> hd path \<noteq> CHR ''/'' \<and> url_host u \<noteq> [] then ''/'' else []);
                 dot = (if scheme @ authority @ slash = [] \<and> CHR '':'' \<in> set (fst (Cut path CHR ''/''))
                        then ''./'' else [])
             in authority @ slash @ dot @ path)
      in scheme @ (if url_opaque u \<noteq> [] then url_opaque u else hier) @
         (if url_forceQuery u \<or> url_rawQuery u \<noteq> [] then ''?'' @ url_rawQuery u else []) @
         (if url_fragment u \<noteq> [] then ''#'' @ EscapedFragment u else []))"

section \<open>Parsing\<close>

fun getScheme_from :: "bool \<Rightarrow> string \<Rightarrow> string \<Rightarrow> string \<Rightarrow> (string \<times> string) option" where
  "getScheme_from first acc [] raw = Some ([], raw)"
| "getScheme_from first acc (c # s) raw =
     (if is_lower c \<or> is_upper c then getScheme_from False (acc @ [c]) s raw
      else if is_digit c \<or> c \<in> set ''+-.''
      then if first then Some ([], raw) else getScheme_from False (acc @ [c]) s raw
      else if c = CHR '':'' then if first then None else Some (acc, s)
      else Some ([], raw))"

definition getScheme :: "string \<Rightarrow> (string \<times> string) option" where
  "getScheme raw = getScheme_from True [] raw raw"

definition ctl_byte :: "char \<Rightarrow> bool" where
  "ctl_byte c \<longleftrightarrow> of_char c < (32::nat) \<or> of_char c = (127::nat)"

definition validUserinfo :: "string \<Rightarrow> bool" where
  "validUserinfo s \<longleftrightarrow>
     list_all (\<lambda>c. is_alnum c \<or> c \<in> set ''-._:~!$&()*+,;=%@'' \<or> of_char c = (39::nat)) s"

definition parse_user :: "string \<Rightarrow> Userinfo option" where
  "parse_user s =
     (if CHR '':'' \<notin> set s
      then map_option (\<lambda>n. \<lparr>ui_username = n, ui_password = None\<rparr>) (unescape encodeUserPassword s)
      else case unescape encodeUserPassword (fst (Cut s CHR '':'')) of
             None \<Rightarrow> None
           | Some n \<Rightarrow> map_option (\<lambda>p. \<lparr>ui_username = n, ui_password = Some p\<rparr>)
                        (unescape encodeUserPassword (snd (Cut s CHR '':''))))"

definition parseAuthority ::
    "(string \<Rightarrow> string option) \<Rightarrow> string \<Rightarrow> (Userinfo option \<times> string) option" where
  "parseAuthority ph authority =
     (case LastIndexByte authority CHR ''@'' of
        None \<Rightarrow> map_option (Pair None) (ph authority)
      | Some i \<Rightarrow>
          (case ph (drop (Suc i) authority) of
             None \<Rightarrow> None
           | Some host \<Rightarrow>
               if \<not> validUserinfo (take i authority) then None
               else map_option (\<lambda>ui. (Some ui, host)) (parse_user (take i authority))))"

definition set_url_path :: "URL \<Rightarrow> string \<Rightarrow> URL option" where
  "set_url_path u p =
     map_option (\<lambda>path. u\<lparr>url_path := path,
        url_rawPath := (if p = escape encodePath path then [] else p)\<rparr>) (unescape encodePath p)"

definition set_fragment :: "URL \<Rightarrow> string \<Rightarrow> URL option" where
  "set_fragment u f =
     map_option (\<lambda>frag. u\<lparr>url_fragment := frag,
        url_rawFragment := (if f = escape encodeFragment frag then [] else f)\<rparr>) (unescape encodeFragment f)"

definition split_query :: "string \<Rightarrow> string \<times> bool \<times> string" where
  "split_query rest =
     (if HasSuffix rest ''?'' \<and> Count rest ''?'' = 1 then (butlast rest, True, [])
      else (fst (Cut rest CHR ''?''), False, snd (Cut rest CHR ''?'')))"

definition parse_hier :: "(string \<Rightarrow> string option) \<Rightarrow> URL \<Rightarrow> string \<Rightarrow> URL option" where
  "parse_hier ph u rest =
     (if (url_scheme u \<noteq> [] \<or> \<not> HasPrefix rest ''///'') \<and> HasPrefix rest ''//''
      then let authority = takeWhile (\<lambda>c. c \<noteq> CHR ''/'') (drop 2 rest);
               path = dropWhile (\<lambda>c. c \<noteq> CHR ''/'') (drop 2 rest)
           in (case parseAuthority ph authority of
                 None \<Rightarrow> None
               | Some (user, host) \<Rightarrow> set_url_path (u\<lparr>url_user := user, url_host := host\<rparr>) path)
      else set_url_path
             (if url_scheme u \<noteq> [] \<and> HasPrefix rest ''/'' then u\<lparr>url_omitHost := True\<rparr> else u) rest)"

definition parse_no_fragment :: "(string \<Rightarrow> string option) \<Rightarrow> string \<Rightarrow> URL option" where
  "parse_no_fragment ph raw =
     (if list_ex ctl_byte raw then None
      else if raw = ''*'' then Some (empty_URL\<lparr>url_path := ''*''\<rparr>)
      else case getScheme raw of
        None \<Rightarrow> None
      | Some (scheme, rest0) \<Rightarrow>
          (let (rest, force, q) = split_query rest0;
               u = empty_URL\<lparr>url_scheme := ToLower scheme, url_forceQuery := force, url_rawQuery := q\<rparr>
           in if \<not> HasPrefix rest ''/'' \<and> scheme \<noteq> [] then Some (u\<lparr>url_opaque := rest\<rparr>)
              else if \<not> HasPrefix rest ''/'' \<and> CHR '':'' \<in> set (fst (Cut rest CHR ''/'')) then None
              else parse_hier ph u rest))"

definition URL_Parse :: "(string \<Rightarrow> string option) \<Rightarrow> string \<Rightarrow> URL option" where
  "URL_Parse ph raw =
     (let (u, frag) = Cut raw CHR ''#'' in
      case parse_no_fragment ph u of
        None \<Rightarrow> None
      | Some url \<Rightarrow> if frag = [] then Some url else set_fragment url frag)"

section \<open>Lemmas\<close>

text \<open>A path without a raw form is written in the default encoding.\<close>

lemma EscapedPath_default: "url_rawPath u = [] \<Longrightarrow> url_path u \<noteq> ''*'' \<Longrightarrow> EscapedPath u = escape encodePath (url_path u)"
  by (simp add: EscapedPath_def)

lemma unescape_EscapedPath: "unescape encodePath (EscapedPath u) = Some (url_path u)"
  by (auto simp: EscapedPath_def unescape_escape split: if_splits)

end
