(* ===== verification/Errors.thy ===== *)
theory Errors
  imports Go_URL
begin

text \<open>
  Model of \<open>errors.go\<close> and of the error sanitising part of \<open>request.go\<close>. A Go error is a tree: the
  package's sentinels, \<open>fmt.Errorf\<close> wrappers, joins, \<open>*url.Error\<close>, \<open>*net.OpError\<close>, wrappers of other
  packages (which may implement \<open>net.Error\<close> or \<open>Is\<close>) and the package's own error types. Typed nil
  pointers and wrappers without a cause are outside the model.
\<close>

section \<open>Errors as trees\<close>

datatype sentinel =
    ErrUnsupportedContentType | ErrEncodingFailed | ErrRequestCreationFailed
  | ErrRequestBodyNotReplayable | ErrRequestBodyReadIncomplete | ErrResponseReadFailed
  | ErrResponseBodyTooLarge | ErrUnsupportedScheme | ErrNoProxies | ErrUnsupportedFormFieldsType
  | ErrUnsupportedSaveType | ErrInvalidTransportType | ErrResponseNil | ErrAutoRedirectDisabled
  | ErrTooManyRedirects | ErrRedirectNotAllowed | ErrInvalidConfigValue
  | ErrPreparationInvalidBudget | ErrPreparationNotPreparable | ErrPreparationBodyTooLarge
  | ContextCanceled | ContextDeadlineExceeded | IoEOF | OtherError string

datatype preparationErrorClass =
    preparationErrorClassUnknown | preparationErrorClassInvalidConfigValue
  | preparationErrorClassUnsupportedFormFieldsType

datatype goerr =
    Sentinel sentinel
  | Wrapf string goerr
  | Multi "goerr list"
  | UrlError string string goerr
  | OpError string goerr
  | Custom string goerr "bool option" "sentinel list option"
  | NetLeaf string bool
  | ResponseBodyLimitError int int
  | SanitizedDiagnosticError goerr goerr
  | SanitizedDiagnosticNetError goerr goerr
  | RequestPlanCreationError goerr
  | PreviewPreparationError bool bool
  | PreparationRetainedError preparationErrorClass

text \<open>\<open>invalidOptionValue\<close> of \<open>client_option.go\<close>, and the wrapping \<open>fmt.Errorf("%w: ...", sentinel)\<close>.\<close>

definition wrapped :: "sentinel \<Rightarrow> string \<Rightarrow> goerr" where
  "wrapped s detail = Wrapf detail (Sentinel s)"

definition invalidOptionValue :: "string \<Rightarrow> goerr" where
  "invalidOptionValue name = wrapped ErrInvalidConfigValue name"

section \<open>errors.Is and errors.As\<close>

fun has_is_method :: "goerr \<Rightarrow> bool" where
  "has_is_method (Custom m e n i) = (i \<noteq> None)"
| "has_is_method (SanitizedDiagnosticError e orig) = True"
| "has_is_method (SanitizedDiagnosticNetError e orig) = True"
| "has_is_method (RequestPlanCreationError e) = True"
| "has_is_method (PreviewPreparationError a b) = True"
| "has_is_method (PreparationRetainedError c) = True"
| "has_is_method _ = False"

fun is_method :: "goerr \<Rightarrow> sentinel \<Rightarrow> bool" where
  "is_method (Custom m e n i) s = (case i of None \<Rightarrow> False | Some l \<Rightarrow> s \<in> set l)"
| "is_method (SanitizedDiagnosticError e orig) s = (has_is_method orig \<and> is_method orig s)"
| "is_method (SanitizedDiagnosticNetError e orig) s = (has_is_method orig \<and> is_method orig s)"
| "is_method (RequestPlanCreationError e) s = (s = ErrRequestCreationFailed)"
| "is_method (PreviewPreparationError a b) s =
     (if s = ErrInvalidConfigValue then a else if s = ErrUnsupportedFormFieldsType then b else False)"
| "is_method (PreparationRetainedError c) s =
     (case c of
        preparationErrorClassInvalidConfigValue \<Rightarrow> s = ErrInvalidConfigValue
      | preparationErrorClassUnsupportedFormFieldsType \<Rightarrow> s = ErrUnsupportedFormFieldsType
      | preparationErrorClassUnknown \<Rightarrow> False)"
| "is_method _ s = False"

fun errors_is :: "goerr \<Rightarrow> sentinel \<Rightarrow> bool" where
  "errors_is (Sentinel t) s = (t = s)"
| "errors_is (Wrapf m e) s = errors_is e s"
| "errors_is (Multi es) s = list_ex (\<lambda>e. errors_is e s) es"
| "errors_is (UrlError op u e) s = errors_is e s"
| "errors_is (OpError op e) s = errors_is e s"
| "errors_is (Custom m e n i) s = (is_method (Custom m e n i) s \<or> errors_is e s)"
| "errors_is (NetLeaf m t) s = False"
| "errors_is (ResponseBodyLimitError l n) s = (s = ErrResponseBodyTooLarge)"
| "errors_is (SanitizedDiagnosticError e orig) s =
     (is_method (SanitizedDiagnosticError e orig) s \<or> errors_is e s)"
| "errors_is (SanitizedDiagnosticNetError e orig) s =
     (is_method (SanitizedDiagnosticNetError e orig) s \<or> errors_is e s)"
| "errors_is (RequestPlanCreationError e) s =
     (is_method (RequestPlanCreationError e) s \<or> errors_is e s)"
| "errors_is (PreviewPreparationError a b) s = is_method (PreviewPreparationError a b) s"
| "errors_is (PreparationRetainedError c) s = is_method (PreparationRetainedError c) s"

text \<open>
  The \<open>Timeout\<close> method of an error itself. \<open>*url.Error\<close> and \<open>*net.OpError\<close> ask their cause for a
  \<open>Timeout\<close> method, not for a \<open>net.Error\<close>.
\<close>

fun timeout_method :: "goerr \<Rightarrow> bool" where
  "timeout_method (Sentinel s) = (s = ContextDeadlineExceeded)"
| "timeout_method (UrlError op u e) = timeout_method e"
| "timeout_method (OpError op e) = timeout_method e"
| "timeout_method (Custom m e n i) = (n = Some True)"
| "timeout_method (NetLeaf m t) = t"
| "timeout_method (SanitizedDiagnosticNetError e orig) = timeout_method orig"
| "timeout_method _ = False"

text \<open>
  \<open>errors.AsType[net.Error]\<close>: the \<open>Timeout\<close> of the first \<open>net.Error\<close> in pre-order. The package's
  \<open>sanitizedDiagnosticNetError\<close> has no \<open>Temporary\<close> method and is not one.
\<close>

fun as_net_error :: "goerr \<Rightarrow> bool option" where
  "as_net_error (Sentinel s) = (if s = ContextDeadlineExceeded then Some True else None)"
| "as_net_error (Wrapf m e) = as_net_error e"
| "as_net_error (Multi es) = (case find (\<lambda>b. b \<noteq> None) (map as_net_error es) of None \<Rightarrow> None | Some b \<Rightarrow> b)"
| "as_net_error (UrlError op u e) = Some (timeout_method e)"
| "as_net_error (OpError op e) = Some (timeout_method e)"
| "as_net_error (Custom m e n i) = (case n of Some t \<Rightarrow> Some t | None \<Rightarrow> as_net_error e)"
| "as_net_error (NetLeaf m t) = Some t"
| "as_net_error (SanitizedDiagnosticError e orig) = as_net_error e"
| "as_net_error (SanitizedDiagnosticNetError e orig) = as_net_error e"
| "as_net_error (RequestPlanCreationError e) = as_net_error e"
| "as_net_error _ = None"

fun as_op_error :: "goerr \<Rightarrow> bool" where
  "as_op_error (OpError op e) = True"
| "as_op_error (Wrapf m e) = as_op_error e"
| "as_op_error (Multi es) = list_ex as_op_error es"
| "as_op_error (UrlError op u e) = as_op_error e"
| "as_op_error (Custom m e n i) = as_op_error e"
| "as_op_error (SanitizedDiagnosticError e orig) = as_op_error e"
| "as_op_error (SanitizedDiagnosticNetError e orig) = as_op_error e"
| "as_op_error (RequestPlanCreationError e) = as_op_error e"
| "as_op_error _ = False"

section \<open>Classification\<close>

definition IsTimeout :: "goerr option \<Rightarrow> bool" where
  "IsTimeout err =
     (case err of None \<Rightarrow> False
      | Some e \<Rightarrow> errors_is e ContextDeadlineExceeded \<or> as_net_error e = Some True)"

definition IsCanceled :: "goerr option \<Rightarrow> bool" where
  "IsCanceled err = (case err of None \<Rightarrow> False | Some e \<Rightarrow> errors_is e ContextCanceled)"

definition IsConnectionError :: "goerr option \<Rightarrow> bool" where
  "IsConnectionError err = (case err of None \<Rightarrow> False | Some e \<Rightarrow> as_op_error e)"

section \<open>Sanitising diagnostics\<close>

definition sanitizeDiagnosticURL :: "(string \<Rightarrow> string option) \<Rightarrow> string \<Rightarrow> string" where
  "sanitizeDiagnosticURL ph rawURL =
     (case URL_Parse ph rawURL of
        None \<Rightarrow> ''<redacted>''
      | Some u \<Rightarrow> URL_String (u\<lparr>url_user := None, url_rawQuery := [], url_forceQuery := False,
                                 url_fragment := [], url_rawFragment := []\<rparr>))"

fun sanitizeTree :: "(string \<Rightarrow> string option) \<Rightarrow> goerr \<Rightarrow> bool \<times> goerr" where
  "sanitizeTree ph (UrlError op u e) =
     (True, UrlError op (sanitizeDiagnosticURL ph u) (snd (sanitizeTree ph e)))"
| "sanitizeTree ph (OpError op e) =
     (if fst (sanitizeTree ph e) then (True, OpError op (snd (sanitizeTree ph e))) else (False, OpError op e))"
| "sanitizeTree ph (Multi es) =
     (if list_ex (\<lambda>e. fst (sanitizeTree ph e)) es
      then (True, Multi (map (\<lambda>e. snd (sanitizeTree ph e)) es)) else (False, Multi es))"
| "sanitizeTree ph (Wrapf m e) =
     (if fst (sanitizeTree ph e) then (True, snd (sanitizeTree ph e)) else (False, Wrapf m e))"
| "sanitizeTree ph (Custom m e n i) =
     (if fst (sanitizeTree ph e)
      then (True, if n \<noteq> None then SanitizedDiagnosticNetError (snd (sanitizeTree ph e)) (Custom m e n i)
                  else if i \<noteq> None then SanitizedDiagnosticError (snd (sanitizeTree ph e)) (Custom m e n i)
                  else snd (sanitizeTree ph e))
      else (False, Custom m e n i))"
| "sanitizeTree ph (SanitizedDiagnosticError e orig) =
     (if fst (sanitizeTree ph e)
      then (True, SanitizedDiagnosticError (snd (sanitizeTree ph e)) (SanitizedDiagnosticError e orig))
      else (False, SanitizedDiagnosticError e orig))"
| "sanitizeTree ph (SanitizedDiagnosticNetError e orig) =
     (if fst (sanitizeTree ph e)
      then (True, SanitizedDiagnosticError (snd (sanitizeTree ph e)) (SanitizedDiagnosticNetError e orig))
      else (False, SanitizedDiagnosticNetError e orig))"
| "sanitizeTree ph (RequestPlanCreationError e) =
     (if fst (sanitizeTree ph e)
      then (True, SanitizedDiagnosticError (snd (sanitizeTree ph e)) (RequestPlanCreationError e))
      else (False, RequestPlanCreationError e))"
| "sanitizeTree ph e = (False, e)"

definition sanitizeURLDiagnosticError :: "(string \<Rightarrow> string option) \<Rightarrow> goerr option \<Rightarrow> goerr option" where
  "sanitizeURLDiagnosticError ph err = map_option (\<lambda>e. snd (sanitizeTree ph e)) err"

section \<open>What sanitising keeps and removes\<close>

lemma stripped_URL:
  "u\<lparr>url_user := None, url_rawQuery := [], url_forceQuery := False, url_fragment := [], url_rawFragment := []\<rparr> =
   \<lparr>url_scheme = url_scheme u, url_opaque = url_opaque u, url_user = None, url_host = url_host u,
    url_path = url_path u, url_rawPath = url_rawPath u, url_omitHost = url_omitHost u,
    url_forceQuery = False, url_rawQuery = [], url_fragment = [], url_rawFragment = []\<rparr>"
  for u :: URL by (cases u) simp

lemma sanitizeDiagnosticURL_stripped:
  "sanitizeDiagnosticURL ph raw =
     (case map_option (\<lambda>u. (url_scheme u, url_opaque u, url_host u, url_path u, url_rawPath u, url_omitHost u))
             (URL_Parse ph raw) of
        None \<Rightarrow> ''<redacted>''
      | Some (s, opq, h, p, rp, oh) \<Rightarrow>
          URL_String \<lparr>url_scheme = s, url_opaque = opq, url_user = None, url_host = h, url_path = p,
            url_rawPath = rp, url_omitHost = oh, url_forceQuery = False, url_rawQuery = [],
            url_fragment = [], url_rawFragment = []\<rparr>)"
  by (simp only: sanitizeDiagnosticURL_def stripped_URL) (simp split: option.splits)

lemma sanitizeTree_unchanged: "\<not> fst (sanitizeTree ph e) \<Longrightarrow> snd (sanitizeTree ph e) = e"
  by (cases "(ph, e)" rule: sanitizeTree.cases) (auto split: if_splits)

lemma list_ex_cong_map: "(\<And>x. x \<in> set xs \<Longrightarrow> P (f x) = P x) \<Longrightarrow> list_ex P (map f xs) = list_ex P xs"
  by (induction xs) auto

lemma errors_is_sanitizeTree: "errors_is (snd (sanitizeTree ph e)) s = errors_is e s"
proof (induction ph e rule: sanitizeTree.induct)
  case (3 ph es)
  then show ?case by (auto simp: list_ex_iff)
next
  case (5 ph m e n i)
  then show ?case by (auto simp: sanitizeTree_unchanged)
qed auto

lemma as_op_error_sanitizeTree: "as_op_error (snd (sanitizeTree ph e)) = as_op_error e"
proof (induction ph e rule: sanitizeTree.induct)
  case (3 ph es)
  then show ?case by (auto simp: list_ex_iff)
qed auto

text \<open>The URLs an error prints: those of every \<open>*url.Error\<close> reachable through its causes.\<close>

fun printed_urls :: "goerr \<Rightarrow> string list" where
  "printed_urls (UrlError op u e) = u # printed_urls e"
| "printed_urls (OpError op e) = printed_urls e"
| "printed_urls (Wrapf m e) = printed_urls e"
| "printed_urls (Multi es) = concat (map printed_urls es)"
| "printed_urls (Custom m e n i) = printed_urls e"
| "printed_urls (SanitizedDiagnosticError e orig) = printed_urls e"
| "printed_urls (SanitizedDiagnosticNetError e orig) = printed_urls e"
| "printed_urls (RequestPlanCreationError e) = printed_urls e"
| "printed_urls _ = []"

lemma unchanged_no_urls: "\<not> fst (sanitizeTree ph e) \<Longrightarrow> printed_urls e = []"
proof (induction ph e rule: sanitizeTree.induct)
  case (3 ph es)
  then show ?case by (auto simp: list_ex_iff split: if_splits)
qed (auto split: if_splits)

lemma printed_urls_sanitizeTree:
  "printed_urls (snd (sanitizeTree ph e)) = map (sanitizeDiagnosticURL ph) (printed_urls e)"
proof (induction ph e rule: sanitizeTree.induct)
  case (3 ph es)
  show ?case
  proof (cases "list_ex (\<lambda>e. fst (sanitizeTree ph e)) es")
    case True
    have "map (\<lambda>e. printed_urls (snd (sanitizeTree ph e))) es =
        map (\<lambda>e. map (sanitizeDiagnosticURL ph) (printed_urls e)) es" using 3 by simp
    then have "concat (map (\<lambda>e. printed_urls (snd (sanitizeTree ph e))) es) =
        concat (map (\<lambda>e. map (sanitizeDiagnosticURL ph) (printed_urls e)) es)" by (rule arg_cong)
    then show ?thesis using True by (simp add: map_concat comp_def)
  next
    case False
    then have "\<forall>e\<in>set es. printed_urls e = []" using unchanged_no_urls by (auto simp: list_ex_iff)
    then have "concat (map printed_urls es) = []" by simp
    then show ?thesis using False by (simp del: concat_eq_Nil_conv)
  qed
qed (auto dest: unchanged_no_urls)

section \<open>Properties\<close>


text \<open>
  Claim C10: every URL that the sanitised error prints is a sanitised URL, and the sanitised form of
  a URL depends on scheme, opaque part, host and path only: URLs that differ in user info, query
  or fragment have the same one.
\<close>

theorem sanitize_redacts_urls:
  "list_all (\<lambda>u. \<exists>raw. u = sanitizeDiagnosticURL ph raw) (printed_urls (snd (sanitizeTree ph e))) \<and>
   sanitizeDiagnosticURL ph raw =
     (case map_option (\<lambda>u. (url_scheme u, url_opaque u, url_host u, url_path u, url_rawPath u, url_omitHost u))
             (URL_Parse ph raw) of
        None \<Rightarrow> ''<redacted>''
      | Some (s, opq, h, p, rp, oh) \<Rightarrow>
          URL_String \<lparr>url_scheme = s, url_opaque = opq, url_user = None, url_host = h, url_path = p,
            url_rawPath = rp, url_omitHost = oh, url_forceQuery = False, url_rawQuery = [],
            url_fragment = [], url_rawFragment = []\<rparr>)"
proof
  show "list_all (\<lambda>u. \<exists>raw. u = sanitizeDiagnosticURL ph raw) (printed_urls (snd (sanitizeTree ph e)))"
    by (auto simp: printed_urls_sanitizeTree list_all_iff)
qed (rule sanitizeDiagnosticURL_stripped)

text \<open>
  The timeout classification is not among them: dropping a \<open>fmt.Errorf\<close> wrapper brings the
  \<open>Timeout\<close> method of what it wrapped into the reach of the enclosing \<open>*url.Error\<close>.
\<close>

lemma sanitize_changes_timeout:
  "\<not> IsTimeout (Some (UrlError ''Get'' u (Wrapf m (Custom c (UrlError ''Get'' u (Sentinel IoEOF)) (Some True) None)))) \<and>
   IsTimeout (sanitizeURLDiagnosticError ph
     (Some (UrlError ''Get'' u (Wrapf m (Custom c (UrlError ''Get'' u (Sentinel IoEOF)) (Some True) None)))))"
  by (simp add: IsTimeout_def sanitizeURLDiagnosticError_def)

end
