(* ===== verification/Go_Http.thy ===== *)
theory Go_Http
  imports Errors Multimap Request_Metadata
begin

text \<open>
  What the package uses of \<open>net/http\<close>, \<open>io\<close> and \<open>strconv\<close>: readers as the bytes they yield and the
  error they end with, requests and responses as records, \<open>http.NewRequestWithContext\<close>,
  \<open>Request.AddCookie\<close>, \<open>Request.SetBasicAuth\<close>, \<open>errors.Join\<close> and \<open>strconv.Atoi\<close>. A \<open>*http.Request\<close>
  that a callee mutates is an in-out argument of the model.
\<close>

section \<open>Readers\<close>

text \<open>
  \<open>MemReader\<close> is a \<open>*bytes.Reader\<close> or \<open>*strings.Reader\<close> at its start, \<open>MemBuffer\<close> a \<open>*bytes.Buffer\<close>.
  \<open>SizedAt pos size readAt rest\<close> is a caller's reader with \<open>ReadAt\<close>, \<open>Seek\<close> and \<open>Size\<close>: what
  \<open>Seek(0, SeekCurrent)\<close> and \<open>Size\<close> return, the bytes and error of \<open>ReadAt\<close> at that position into a
  buffer of a given length, and what \<open>Read\<close> yields. \<open>Stream\<close> is any other reader.
\<close>

datatype goReader =
    MemReader bytes
  | MemBuffer bytes
  | SizedAt "goerr + int" int "int \<Rightarrow> int \<Rightarrow> bytes \<times> goerr option" bytes
  | Stream bytes "goerr option"

text \<open>\<open>io.ReadAll\<close>.\<close>

fun ReadAll :: "goReader \<Rightarrow> goerr + bytes" where
  "ReadAll (MemReader d) = Inr d"
| "ReadAll (MemBuffer d) = Inr d"
| "ReadAll (SizedAt p n f d) = Inr d"
| "ReadAll (Stream d None) = Inr d"
| "ReadAll (Stream d (Some e)) = Inl e"

section \<open>Bodies, requests and responses\<close>

text \<open>
  A request body is nil, \<open>http.NoBody\<close>, the wrapper \<open>do\<close> puts around the body it was given
  (\<open>deliveryBody\<close> in the code), or another reader.
\<close>

datatype reqBody = BodyNil | BodyNoBody | BodyOriginal goReader | BodyOf goReader

record 'o httpRequest =
  rq_method :: string
  rq_url :: URL
  rq_host :: string
  rq_header :: httpHeader
  rq_body :: reqBody
  rq_getBody :: "(nat \<Rightarrow> goerr + goReader) option"
  rq_contentLength :: int
  rq_ordered :: "'o option"

text \<open>
  \<open>rq_getBody\<close> is indexed by the number of earlier calls, so that a caller's callback may answer
  differently each time. A response body is its bytes, the error its reads end with (None for
  \<open>io.EOF\<close>) and the result of \<open>Close\<close>; \<open>http.NoBody\<close> is the empty one. A non-nil \<open>*http.Response\<close> of
  \<open>net/http\<close> always has a body.
\<close>

record respBody =
  rb_data :: bytes
  rb_err :: "goerr option"
  rb_closeErr :: "goerr option"

definition NoBody :: respBody where
  "NoBody = \<lparr>rb_data = [], rb_err = None, rb_closeErr = None\<rparr>"

record httpResponse =
  rs_status :: int
  rs_header :: httpHeader
  rs_contentLength :: int
  rs_body :: respBody

section \<open>errors.Join\<close>

definition errors_Join :: "goerr option list \<Rightarrow> goerr option" where
  "errors_Join es = (case List.map_filter id es of [] \<Rightarrow> None | xs \<Rightarrow> Some (Multi xs))"

lemma errors_Join_None_iff: "errors_Join es = None \<longleftrightarrow> (\<forall>e\<in>set es. e = None)"
  by (induction es) (auto simp: errors_Join_def List.map_filter_def split: list.splits option.splits)

section \<open>strconv.Atoi\<close>

definition digit_val :: "char \<Rightarrow> int" where
  "digit_val c = int (of_char c) - 48"

definition dec_value :: "string \<Rightarrow> int" where
  "dec_value ds = foldl (\<lambda>n c. 10 * n + digit_val c) 0 ds"

definition Atoi :: "string \<Rightarrow> int option" where
  "Atoi s =
     (let neg = (s \<noteq> [] \<and> hd s = CHR ''-'');
          ds = (if s \<noteq> [] \<and> hd s \<in> {CHR ''-'', CHR ''+''} then tl s else s);
          n = (if neg then - dec_value ds else dec_value ds)
      in if ds = [] \<or> \<not> list_all is_digit ds \<or> \<not> in_int64 n then None else Some n)"

lemma Atoi_in_int64: "Atoi s = Some n \<Longrightarrow> in_int64 n"
  by (auto simp: Atoi_def Let_def split: if_splits)

section \<open>Cookies and basic authentication\<close>

definition sanitizeCookieName :: "string \<Rightarrow> string" where
  "sanitizeCookieName n = map (\<lambda>c. if c = CHR 0x0A \<or> c = CHR 0x0D then CHR ''-'' else c) n"

definition validCookieValueByte :: "char \<Rightarrow> bool" where
  "validCookieValueByte c \<longleftrightarrow>
     0x20 \<le> (of_char c :: nat) \<and> (of_char c :: nat) < 0x7F \<and> c \<notin> {CHR 0x22, CHR '';'', CHR 0x5C}"

definition sanitizeCookieValue :: "string \<Rightarrow> bool \<Rightarrow> string" where
  "sanitizeCookieValue v quoted =
     (let w = filter validCookieValueByte v
      in if w = [] then w
         else if CHR '' '' \<in> set w \<or> CHR '','' \<in> set w \<or> quoted then [CHR 0x22] @ w @ [CHR 0x22]
         else w)"

definition cookie_text :: "httpCookie \<Rightarrow> string" where
  "cookie_text c = sanitizeCookieName (ck_name c) @ ''='' @ sanitizeCookieValue (ck_value c) (ck_quoted c)"

definition header_AddCookie :: "httpHeader \<Rightarrow> httpCookie \<Rightarrow> httpHeader" where
  "header_AddCookie h c =
     (if Header_Get h ''Cookie'' \<noteq> [] then Header_Set h ''Cookie'' (Header_Get h ''Cookie'' @ ''; '' @ cookie_text c)
      else Header_Set h ''Cookie'' (cookie_text c))"

definition Request_AddCookie :: "httpCookie \<Rightarrow> 'o httpRequest \<Rightarrow> 'o httpRequest" where
  "Request_AddCookie c r = r\<lparr>rq_header := header_AddCookie (rq_header r) c\<rparr>"

definition base64_alphabet :: string where
  "base64_alphabet = ''ABCDEFGHIJKLMNOPQRSTUVWXYZabcdefghijklmnopqrstuvwxyz0123456789+/''"

definition b64 :: "nat \<Rightarrow> char" where
  "b64 n = base64_alphabet ! (n mod 64)"

fun base64_encode :: "bytes \<Rightarrow> string" where
  "base64_encode [] = []"
| "base64_encode [a] =
     (let n = of_char a * 65536 in [b64 (n div 262144), b64 (n div 4096), CHR ''='', CHR ''=''])"
| "base64_encode [a, b] =
     (let n = of_char a * 65536 + of_char b * 256
      in [b64 (n div 262144), b64 (n div 4096), b64 (n div 64), CHR ''=''])"
| "base64_encode (a # b # c # xs) =
     (let n = of_char a * 65536 + of_char b * 256 + of_char c
      in [b64 (n div 262144), b64 (n div 4096), b64 (n div 64), b64 n] @ base64_encode xs)"

definition SetBasicAuth :: "string \<Rightarrow> string \<Rightarrow> 'o httpRequest \<Rightarrow> 'o httpRequest" where
  "SetBasicAuth user pass r =
     r\<lparr>rq_header := Header_Set (rq_header r) ''Authorization'' (''Basic '' @ base64_encode (user @ '':'' @ pass))\<rparr>"

section \<open>http.NewRequestWithContext\<close>

definition validMethod :: "string \<Rightarrow> bool" where
  "validMethod m \<longleftrightarrow> m \<noteq> [] \<and> list_all valid_header_byte m"

datatype bodySource = SrcNil | SrcNoBody | Src goReader

fun new_request_body :: "bodySource \<Rightarrow> reqBody" where
  "new_request_body SrcNil = BodyNil"
| "new_request_body SrcNoBody = BodyNoBody"
| "new_request_body (Src (MemReader d)) = (if d = [] then BodyNoBody else BodyOf (MemReader d))"
| "new_request_body (Src (MemBuffer d)) = (if d = [] then BodyNoBody else BodyOf (MemBuffer d))"
| "new_request_body (Src r) = BodyOf r"

text \<open>
  The empty method is GET. A host with an empty port loses the colon. \<open>GetBody\<close> and
  \<open>ContentLength\<close>, which the callers overwrite, are left unset.
\<close>

definition removeEmptyPort :: "string \<Rightarrow> string" where
  "removeEmptyPort h = (if h \<noteq> [] \<and> last h = CHR '':'' then butlast h else h)"

definition NewRequest :: "(string \<Rightarrow> string option) \<Rightarrow> string \<Rightarrow> string \<Rightarrow> bodySource \<Rightarrow> goerr + 'o httpRequest" where
  "NewRequest ph m u body =
     (let meth = (if m = [] then ''GET'' else m)
      in if \<not> validMethod meth then Inl (Sentinel (OtherError ''net/http: invalid method''))
         else case URL_Parse ph u of
                None \<Rightarrow> Inl (UrlError ''parse'' u (Sentinel (OtherError ''invalid URL'')))
              | Some url \<Rightarrow>
                  Inr \<lparr>rq_method = meth, rq_url = url\<lparr>url_host := removeEmptyPort (url_host url)\<rparr>,
                       rq_host = removeEmptyPort (url_host url),
                       rq_header = [], rq_body = new_request_body body, rq_getBody = None,
                       rq_contentLength = 0, rq_ordered = None\<rparr>)"

end
