(* ===== verification/Retry.thy ===== *)
theory Retry
  imports Complex_Main Go_Http
begin

text \<open>
  Model of \<open>retry.go\<close>. Durations are nanoseconds, wrapped to 64 bits as Go wraps them. Three things
  are arguments: \<open>powm\<close>, the float computation \<open>time.Duration(math.Pow(multiplier, attempt))\<close>;
  \<open>jittered\<close>, the float computation of a jittered delay for the random draw of that attempt; and
  the clock with \<open>http.ParseTime\<close> (\<open>parseTime\<close> gives nanoseconds on the axis of \<open>now\<close>).
\<close>

section \<open>Backoff strategies\<close>

type_synonym BackoffStrategy = "int \<Rightarrow> int"

definition second :: int where "second = 1000000000"

definition ConstantBackoffStrategy :: "int \<Rightarrow> BackoffStrategy" where
  "ConstantBackoffStrategy delay = (\<lambda>_. delay)"

definition LinearBackoffStrategy :: "int \<Rightarrow> BackoffStrategy" where
  "LinearBackoffStrategy initialInterval = (\<lambda>attempt. wrap64 (initialInterval * wrap64 (attempt + 1)))"

definition ExponentialBackoffStrategy :: "int \<Rightarrow> (int \<Rightarrow> int) \<Rightarrow> int \<Rightarrow> BackoffStrategy" where
  "ExponentialBackoffStrategy initialInterval powm maxBackoffTime =
     (\<lambda>attempt. min (wrap64 (initialInterval * powm attempt)) maxBackoffTime)"

definition JitterBackoffStrategy :: "BackoffStrategy \<Rightarrow> rat \<Rightarrow> (int \<Rightarrow> int \<Rightarrow> int) \<Rightarrow> BackoffStrategy" where
  "JitterBackoffStrategy base fraction jittered =
     (\<lambda>attempt. let delay = base attempt
                in if fraction \<le> 0 then delay else max (jittered attempt delay) 0)"

section \<open>The retry policy\<close>

type_synonym 'o RetryIfFunc = "'o httpRequest \<Rightarrow> httpResponse option \<Rightarrow> goerr option \<Rightarrow> bool"

record 'o RetryPolicy =
  rp_Max :: int
  rp_Backoff :: "BackoffStrategy option"
  rp_ShouldRetry :: "'o RetryIfFunc option"
  rp_IgnoreRetryAfter :: bool

definition DefaultRetryIf :: "'o RetryIfFunc" where
  "DefaultRetryIf req resp err =
     (case err of
        Some e \<Rightarrow> if IsCanceled (Some e) then False else IsTimeout (Some e) \<or> IsConnectionError (Some e)
      | None \<Rightarrow>
          (case resp of
             None \<Rightarrow> False
           | Some r \<Rightarrow> rs_status r = 408 \<or> rs_status r = 429 \<or> rs_status r \<ge> 500))"

definition DefaultRetryPolicy :: "'o RetryPolicy" where
  "DefaultRetryPolicy =
     \<lparr>rp_Max = 0, rp_Backoff = Some (ConstantBackoffStrategy second),
      rp_ShouldRetry = Some DefaultRetryIf, rp_IgnoreRetryAfter = False\<rparr>"

definition zeroRetryPolicy :: "'o RetryPolicy" where
  "zeroRetryPolicy = \<lparr>rp_Max = 0, rp_Backoff = None, rp_ShouldRetry = None, rp_IgnoreRetryAfter = False\<rparr>"

definition RetryPolicy_normalize :: "'o RetryPolicy \<Rightarrow> 'o RetryPolicy" where
  "RetryPolicy_normalize p =
     (let p1 = (if rp_Max p < 0 then p\<lparr>rp_Max := 0\<rparr> else p);
          p2 = (if rp_Backoff p1 = None then p1\<lparr>rp_Backoff := Some (ConstantBackoffStrategy second)\<rparr> else p1)
      in if rp_ShouldRetry p2 = None then p2\<lparr>rp_ShouldRetry := Some DefaultRetryIf\<rparr> else p2)"

text \<open>The clock of one call: \<open>now\<close> is read by \<open>time.Until\<close>, whose result saturates.\<close>

record retryClock =
  clk_now :: int
  clk_parseTime :: "string \<Rightarrow> int option"

definition time_Until :: "retryClock \<Rightarrow> int \<Rightarrow> int" where
  "time_Until clk t = max int64_min (min int64_max (t - clk_now clk))"

definition retryAfterDelay :: "retryClock \<Rightarrow> httpResponse option \<Rightarrow> int \<Rightarrow> int" where
  "retryAfterDelay clk resp fallback =
     (case resp of
        None \<Rightarrow> fallback
      | Some r \<Rightarrow>
          if rs_status r \<noteq> 429 \<and> rs_status r \<noteq> 503 then fallback
          else let header = Header_Get (rs_header r) ''Retry-After''
               in if header = [] then fallback
                  else case Atoi header of
                         Some seconds \<Rightarrow> if seconds < 0 then fallback else wrap64 (seconds * second)
                       | None \<Rightarrow>
                           (case clk_parseTime clk header of
                              Some t \<Rightarrow> max (time_Until clk t) 0
                            | None \<Rightarrow> fallback))"

definition callBackoff :: "'o RetryPolicy \<Rightarrow> int \<Rightarrow> int" where
  "callBackoff p attempt = (case rp_Backoff p of Some f \<Rightarrow> f attempt | None \<Rightarrow> 0)"

definition callShouldRetry :: "'o RetryPolicy \<Rightarrow> 'o RetryIfFunc" where
  "callShouldRetry p req resp err = (case rp_ShouldRetry p of Some f \<Rightarrow> f req resp err | None \<Rightarrow> False)"

definition delay :: "retryClock \<Rightarrow> 'o RetryPolicy \<Rightarrow> int \<Rightarrow> httpResponse option \<Rightarrow> int" where
  "delay clk p attempt resp =
     (let d = callBackoff p attempt
      in if rp_IgnoreRetryAfter p then d else retryAfterDelay clk resp d)"

text \<open>
  \<open>delay\<close> and the delivery loop run on normalised policies only, where neither callback is nil; a
  call of a nil callback would panic.
\<close>

lemma normalize_total:
  "rp_Max (RetryPolicy_normalize p) \<ge> 0" "rp_Backoff (RetryPolicy_normalize p) \<noteq> None" "rp_ShouldRetry (RetryPolicy_normalize p) \<noteq> None"
  by (simp_all add: RetryPolicy_normalize_def Let_def)

lemma normalize_fields:
  "rp_Max (RetryPolicy_normalize p) = max (rp_Max p) 0"
  "rp_IgnoreRetryAfter (RetryPolicy_normalize p) = rp_IgnoreRetryAfter p"
  "rp_Backoff p \<noteq> None \<Longrightarrow> rp_Backoff (RetryPolicy_normalize p) = rp_Backoff p"
  "rp_ShouldRetry p \<noteq> None \<Longrightarrow> rp_ShouldRetry (RetryPolicy_normalize p) = rp_ShouldRetry p"
  by (auto simp: RetryPolicy_normalize_def Let_def max_def)

lemma normalize_idem: "RetryPolicy_normalize (RetryPolicy_normalize p) = RetryPolicy_normalize p"
  using normalize_total[of p] by (auto simp: RetryPolicy_normalize_def [of "RetryPolicy_normalize p"] Let_def)

section \<open>Retry-After\<close>

lemma digit_val_nonneg: "is_digit c \<Longrightarrow> 0 \<le> digit_val c"
  by (simp add: is_digit_def digit_val_def)

lemma dec_value_snoc: "dec_value (ds @ [c]) = 10 * dec_value ds + digit_val c"
  by (simp add: dec_value_def)

lemma dec_value_nonneg: "list_all is_digit ds \<Longrightarrow> 0 \<le> dec_value ds"
proof (induction ds rule: rev_induct)
  case (snoc c ds)
  then show ?case using digit_val_nonneg[of c] by (simp add: dec_value_snoc)
qed (simp add: dec_value_def)

lemma digit_not_sign: "is_digit c \<Longrightarrow> c \<noteq> CHR ''-'' \<and> c \<noteq> CHR ''+''"
  by (auto simp: is_digit_def)

lemma Atoi_digits:
  assumes "ds \<noteq> []" and "list_all is_digit ds" and "dec_value ds \<le> int64_max"
  shows "Atoi ds = Some (dec_value ds)"
proof -
  have "is_digit (hd ds)" using assms(1,2) by (cases ds) simp_all
  then have "hd ds \<noteq> CHR ''-'' \<and> hd ds \<noteq> CHR ''+''" by (rule digit_not_sign)
  moreover have "in_int64 (dec_value ds)"
    using assms(2,3) dec_value_nonneg by (auto simp: in_int64_def int64_min_def intro: order_trans[of _ 0])
  ultimately show ?thesis using assms(1,2) by (simp add: Atoi_def)
qed

lemma seconds_no_wrap: "0 \<le> n \<Longrightarrow> n \<le> 9223372036 \<Longrightarrow> wrap64 (n * second) = n * second"
  by (rule wrap64_id) (simp add: in_int64_def int64_min_def int64_max_def second_def)

text \<open>
  On a 429 or 503 response whose Retry-After is a number of seconds that fits in a
  duration, the policy waits exactly that long, whatever its backoff says; with IgnoreRetryAfter
  it waits what the backoff says.
\<close>

lemma retryAfter_seconds:
  assumes "rs_status r = 429 \<or> rs_status r = 503"
    and "Header_Get (rs_header r) ''Retry-After'' = ds"
    and "ds \<noteq> []" and "list_all is_digit ds" and "dec_value ds \<le> 9223372036"
  shows "delay clk p attempt (Some r) =
     (if rp_IgnoreRetryAfter p then callBackoff p attempt else dec_value ds * second)"
proof -
  have "Atoi ds = Some (dec_value ds)"
    using assms(3-5) by (intro Atoi_digits) (auto simp: int64_max_def)
  moreover have "0 \<le> dec_value ds" using assms(4) by (rule dec_value_nonneg)
  ultimately show ?thesis
    using assms by (auto simp: delay_def retryAfterDelay_def seconds_no_wrap)
qed

definition ex_response :: "int \<Rightarrow> string \<Rightarrow> httpResponse" where
  "ex_response code after =
     \<lparr>rs_status = code, rs_header = [(''Retry-After'', [after])], rs_contentLength = 0, rs_body = NoBody\<rparr>"

definition ex_clock :: retryClock where
  "ex_clock = \<lparr>clk_now = 0, clk_parseTime = (\<lambda>_. None)\<rparr>"

lemma Header_Get_ex_response: "Header_Get (rs_header (ex_response code after)) ''Retry-After'' = after"
proof -
  have "CanonicalHeaderKey ''Retry-After'' = ''Retry-After''" by code_simp
  then show ?thesis by (simp add: ex_response_def Header_Get_def Header_Values_def)
qed

lemma retryAfter_seconds_example:
  "delay ex_clock (DefaultRetryPolicy :: unit RetryPolicy) 0 (Some (ex_response 503 ''120'')) = 120 * second"
proof -
  have "dec_value ''120'' = 120" by code_simp
  moreover have "list_all is_digit ''120''" by code_simp
  ultimately show ?thesis
    using retryAfter_seconds[of "ex_response 503 ''120''" "''120''" ex_clock "DefaultRetryPolicy :: unit RetryPolicy" 0]
      Header_Get_ex_response[of 503 "''120''"]
    by (simp add: DefaultRetryPolicy_def ex_response_def)
qed

text \<open>
  One second beyond the bound the product wraps around and the delay is negative, so that a server
  asking for the longest pause gets an immediate retry. The exponential strategy has the same
  wrap-around below its cap.
\<close>

lemma retryAfter_overflow_negative:
  "delay clk DefaultRetryPolicy 0 (Some (ex_response 503 ''9223372037'')) < 0"
proof -
  have "Atoi ''9223372037'' = Some 9223372037" by code_simp
  then show ?thesis
    using Header_Get_ex_response[of 503 "''9223372037''"]
    by (simp add: delay_def DefaultRetryPolicy_def retryAfterDelay_def ex_response_def)
      (simp add: wrap64_def second_def)
qed

lemma exponential_overflow_negative:
  "ExponentialBackoffStrategy second (\<lambda>a. 2 ^ nat a) (60 * second) 34 < 0"
  by (simp add: ExponentialBackoffStrategy_def wrap64_def second_def)

section \<open>Strategies\<close>



end
