(* ===== verification/Delivery_Loop.thy ===== *)
theory Delivery_Loop
  imports Retry
begin

text \<open>
  Model of the delivery loop of \<open>delivery.go\<close> (\<open>openedDelivery.do\<close> with the helpers it calls), of
  \<open>middleware.go\<close> and of \<open>middlewares/\<close>. The world outside is the record \<open>denv\<close>: what the n-th call of
  \<open>http.Client.Do\<close> returns, whether the context ends during the wait after it, and the clock there.
  Effects are kept in \<open>dstate\<close>: the attempt counter, the number of \<open>GetBody\<close> calls, whether the
  once-only close of the original body has run, and the trace of what happened. Log output is not
  modelled.
\<close>

section \<open>Environment and state\<close>

record 'o denv =
  en_do :: "nat \<Rightarrow> 'o httpRequest \<Rightarrow> httpResponse option \<times> goerr option"
  en_ctx :: "nat \<Rightarrow> goerr option"
  en_clock :: "nat \<Rightarrow> retryClock"
  en_parseHost :: "string \<Rightarrow> string option"

datatype 'o event =
    EvDo "'o httpRequest" "httpResponse option" "goerr option"
  | EvDrainClose respBody
  | EvWait int
  | EvCloseBody reqBody

record 'o dstate =
  ds_attempts :: nat
  ds_gets :: nat
  ds_originalClosed :: bool
  ds_trace :: "'o event list"

definition emit :: "'o event \<Rightarrow> 'o dstate \<Rightarrow> 'o dstate" where
  "emit ev ds = ds\<lparr>ds_trace := ds_trace ds @ [ev]\<rparr>"

definition initial_dstate :: "'o dstate" where
  "initial_dstate = \<lparr>ds_attempts = 0, ds_gets = 0, ds_originalClosed = False, ds_trace = []\<rparr>"

type_synonym 'o handler =
  "'o httpRequest \<Rightarrow> 'o dstate \<Rightarrow> (httpResponse option \<times> goerr option) \<times> 'o httpRequest \<times> 'o dstate"

type_synonym 'o Middleware = "'o handler \<Rightarrow> 'o handler"

section \<open>Body replay\<close>

definition body_absent :: "reqBody \<Rightarrow> bool" where
  "body_absent b \<longleftrightarrow> b = BodyNil \<or> b = BodyNoBody"

lemma body_absent_code [code]: "body_absent b = (case b of BodyNil \<Rightarrow> True | BodyNoBody \<Rightarrow> True | _ \<Rightarrow> False)"
  by (simp add: body_absent_def split: reqBody.split)

definition canReplayRequestBody :: "'o httpRequest \<Rightarrow> bool" where
  "canReplayRequestBody req \<longleftrightarrow> body_absent (rq_body req) \<or> rq_getBody req \<noteq> None"

definition resetRequestBody :: "'o httpRequest \<Rightarrow> 'o dstate \<Rightarrow> (goerr + 'o httpRequest) \<times> 'o dstate" where
  "resetRequestBody req ds =
     (if body_absent (rq_body req) then (Inr req, ds)
      else case rq_getBody req of
             None \<Rightarrow> (Inl (Sentinel ErrRequestBodyNotReplayable), ds)
           | Some getBody \<Rightarrow>
               (case getBody (ds_gets ds) of
                  Inl e \<Rightarrow> (Inl (Wrapf ''reset request body'' e), ds\<lparr>ds_gets := ds_gets ds + 1\<rparr>)
                | Inr r \<Rightarrow> (Inr (req\<lparr>rq_body := BodyOf r\<rparr>), ds\<lparr>ds_gets := ds_gets ds + 1\<rparr>)))"

definition maxRetryDrainBytes :: nat where "maxRetryDrainBytes = 65536"

text \<open>
  \<open>io.Copy\<close> over \<open>io.LimitReader\<close> stops after the limit; a read error behind it is not seen.
\<close>

definition drainAndCloseBody :: "respBody \<Rightarrow> goerr option" where
  "drainAndCloseBody b =
     errors_Join [if length (rb_data b) < maxRetryDrainBytes then rb_err b else None, rb_closeErr b]"

section \<open>The retry loop\<close>

fun nat_digits :: "nat \<Rightarrow> string" where
  "nat_digits n = (if n < 10 then [char_of (48 + n)] else nat_digits (n div 10) @ [char_of (48 + n mod 10)])"

declare nat_digits.simps [simp del]

definition attempt_prefix :: "int \<Rightarrow> int \<Rightarrow> string" where
  "attempt_prefix attempt mx = ''attempt '' @ nat_digits (nat (attempt + 1)) @ ''/'' @ nat_digits (nat (mx + 1))"

datatype 'o outcome =
    Return "httpResponse option \<times> goerr option" "'o httpRequest" "'o dstate"
  | Again "goerr list" "httpResponse option" "'o httpRequest" "'o dstate"

text \<open>
  What an attempt does once the transport has answered. On an error with a response \<open>net/http\<close> has
  closed the body already, so it is replaced by \<open>http.NoBody\<close>.
\<close>

definition after_attempt ::
  "'o denv \<Rightarrow> 'o RetryPolicy \<Rightarrow> int \<Rightarrow> nat \<Rightarrow> goerr list \<Rightarrow> httpResponse option \<Rightarrow> goerr option \<Rightarrow>
   'o httpRequest \<Rightarrow> 'o dstate \<Rightarrow> 'o outcome" where
  "after_attempt env retry attempt n errs resp err req ds =
     (let diagnosticErr = sanitizeURLDiagnosticError (en_parseHost env) err;
          errs1 = (case diagnosticErr of None \<Rightarrow> errs
                   | Some e \<Rightarrow> errs @ [Wrapf (attempt_prefix attempt (rp_Max retry)) e])
      in if \<not> callShouldRetry retry req resp err \<or> attempt = rp_Max retry then
           (if err \<noteq> None
            then Return (resp, if length errs1 > 1 then errors_Join (map Some errs1) else diagnosticErr) req ds
            else Return (resp, None) req ds)
         else if \<not> canReplayRequestBody req then
           Return (resp, if err \<noteq> None then errors_Join [diagnosticErr, Some (Sentinel ErrRequestBodyNotReplayable)]
                         else Some (Sentinel ErrRequestBodyNotReplayable)) req ds
         else
           (let (drain, ds1) =
              (case (resp, err) of
                 (Some r, None) \<Rightarrow> (drainAndCloseBody (rs_body r), emit (EvDrainClose (rs_body r)) ds)
               | _ \<Rightarrow> (None, ds))
            in case drain of
                 Some e \<Rightarrow> Return (None, Some (Wrapf ''cleaning retry response body'' e)) req ds1
               | None \<Rightarrow>
                   (let ds2 = emit (EvWait (delay (en_clock env n) retry attempt resp)) ds1
                    in case en_ctx env n of
                         Some e \<Rightarrow> Return (None, Some e) req ds2
                       | None \<Rightarrow> Again errs1 resp req ds2)))"

definition attempt_step ::
  "'o denv \<Rightarrow> 'o RetryPolicy \<Rightarrow> int \<Rightarrow> goerr list \<Rightarrow> 'o httpRequest \<Rightarrow> 'o dstate \<Rightarrow> 'o outcome" where
  "attempt_step env retry attempt errs req ds =
     (case (if attempt > 0 then resetRequestBody req ds else (Inr req, ds)) of
        (Inl e, ds1) \<Rightarrow> Return (None, Some e) req ds1
      | (Inr req1, ds1) \<Rightarrow>
          (let n = ds_attempts ds1;
               (resp0, err) = en_do env n req1;
               resp = (if err \<noteq> None then map_option (\<lambda>r. r\<lparr>rs_body := NoBody\<rparr>) resp0 else resp0)
           in after_attempt env retry attempt n errs resp err req1
                (emit (EvDo req1 resp err) (ds1\<lparr>ds_attempts := n + 1\<rparr>))))"

text \<open>\<open>for attempt := range retry.Max + 1\<close>; the sum wraps around at 64 bits.\<close>

function retry_loop ::
  "'o denv \<Rightarrow> 'o RetryPolicy \<Rightarrow> int \<Rightarrow> goerr list \<Rightarrow> httpResponse option \<Rightarrow> 'o handler" where
  "retry_loop env retry attempt errs resp req ds =
     (if attempt \<ge> wrap64 (rp_Max retry + 1) then ((resp, None), req, ds)
      else case attempt_step env retry attempt errs req ds of
             Return res req1 ds1 \<Rightarrow> (res, req1, ds1)
           | Again errs1 resp1 req1 ds1 \<Rightarrow> retry_loop env retry (attempt + 1) errs1 resp1 req1 ds1)"
  by pat_completeness auto
termination
  by (relation "measure (\<lambda>(env, retry, attempt, _). nat (wrap64 (rp_Max retry + 1) - attempt))") auto

declare retry_loop.simps [simp del]

definition finalHandler :: "'o denv \<Rightarrow> 'o RetryPolicy \<Rightarrow> 'o handler" where
  "finalHandler env retry = retry_loop env retry 0 [] None"

section \<open>Middleware\<close>

text \<open>\<open>for _, mw := range slices.Backward(mws) { h = mw(h) }\<close>\<close>

definition wrap_handlers :: "'o Middleware list \<Rightarrow> 'o handler \<Rightarrow> 'o handler" where
  "wrap_handlers mws h = foldl (\<lambda>h mw. mw h) h (rev mws)"

definition AddHeaders :: "httpHeader \<Rightarrow> 'o Middleware" where
  "AddHeaders headers next = (\<lambda>req.
     next (req\<lparr>rq_header := foldl (\<lambda>h (k, vs). foldl (\<lambda>h v. Header_Add h k v) h vs) (rq_header req) headers\<rparr>))"

definition AddCookies :: "httpCookie list \<Rightarrow> 'o Middleware" where
  "AddCookies cookies next = (\<lambda>req. next (foldl (\<lambda>r c. Request_AddCookie c r) req cookies))"

section \<open>do\<close>

definition closeBody :: "reqBody \<Rightarrow> 'o dstate \<Rightarrow> 'o dstate" where
  "closeBody b ds =
     (case b of
        BodyNil \<Rightarrow> ds
      | BodyOriginal r \<Rightarrow>
          if ds_originalClosed ds then ds else emit (EvCloseBody b) (ds\<lparr>ds_originalClosed := True\<rparr>)
      | _ \<Rightarrow> emit (EvCloseBody b) ds)"

definition wrap_original :: "'o httpRequest \<Rightarrow> 'o httpRequest" where
  "wrap_original req = (case rq_body req of BodyOf r \<Rightarrow> req\<lparr>rq_body := BodyOriginal r\<rparr> | _ \<Rightarrow> req)"

definition do_delivery ::
  "'o denv \<Rightarrow> 'o RetryPolicy \<Rightarrow> 'o Middleware list \<Rightarrow> 'o Middleware list \<Rightarrow> 'o httpRequest \<Rightarrow>
   (httpResponse option \<times> nat \<times> goerr option) \<times> 'o dstate" where
  "do_delivery env retry requestMws clientMws req =
     (let req0 = wrap_original req;
          h = wrap_handlers clientMws (wrap_handlers requestMws (finalHandler env retry));
          ((resp, err), req1, ds) = h req0 initial_dstate;
          ds1 = (if ds_attempts ds = 0
                 then (let dsa = closeBody (rq_body req1) ds
                       in if \<not> body_absent (rq_body req0) then closeBody (rq_body req0) dsa else dsa)
                 else ds)
      in ((resp, ds_attempts ds, err), ds1))"

end
