(* ===== verification/Delivery_Properties.thy ===== *)
theory Delivery_Properties
  imports Delivery_Loop
begin

text \<open>
  Correctness of the delivery loop: how often the transport is called, what happens to the bodies
  of the responses that are thrown away, when a request body may be resent, what error comes out,
  in which order middlewares run, and that an undelivered body is closed.
\<close>

section \<open>One attempt\<close>

lemma sanitizeURLDiagnosticError_None_iff [simp]: "sanitizeURLDiagnosticError ph err = None \<longleftrightarrow> err = None"
  by (simp add: sanitizeURLDiagnosticError_def)

lemma emit_fields [simp]:
  "ds_attempts (emit ev ds) = ds_attempts ds" "ds_gets (emit ev ds) = ds_gets ds"
  "ds_originalClosed (emit ev ds) = ds_originalClosed ds" "ds_trace (emit ev ds) = ds_trace ds @ [ev]"
  by (simp_all add: emit_def)

definition drain_events :: "httpResponse option \<Rightarrow> goerr option \<Rightarrow> 'o event list" where
  "drain_events resp err = (case (resp, err) of (Some r, None) \<Rightarrow> [EvDrainClose (rs_body r)] | _ \<Rightarrow> [])"

lemma after_attempt_AgainD:
  assumes "after_attempt env retry a n errs resp err req ds = Again errs1 resp1 req1 ds1"
  shows "a \<noteq> rp_Max retry" and "callShouldRetry retry req resp err" and "canReplayRequestBody req"
    and "req1 = req" and "resp1 = resp" and "en_ctx env n = None"
    and "ds_attempts ds1 = ds_attempts ds" and "ds_gets ds1 = ds_gets ds"
    and "errs1 = errs @ (case sanitizeURLDiagnosticError (en_parseHost env) err of None \<Rightarrow> []
                         | Some e \<Rightarrow> [Wrapf (attempt_prefix a (rp_Max retry)) e])"
    and "ds_trace ds1 = ds_trace ds @ drain_events resp err @ [EvWait (delay (en_clock env n) retry a resp)]"
  using assms
  by (auto simp: after_attempt_def Let_def drain_events_def sanitizeURLDiagnosticError_def
      split: if_splits option.splits)

lemma after_attempt_ReturnD:
  assumes "after_attempt env retry a n errs resp err req ds = Return res req1 ds1"
  shows "req1 = req \<and> ds_attempts ds1 = ds_attempts ds \<and>
    (ds1 = ds \<and> fst res = resp \<or>
     (\<exists>ws. fst res = None \<and> ds_trace ds1 = ds_trace ds @ drain_events resp err @ ws \<and>
       (ws = [] \<or> (\<exists>d. ws = [EvWait d]))))"
  using assms
  by (auto simp: after_attempt_def Let_def drain_events_def split: if_splits option.splits)

lemma resetRequestBody_state:
  "ds_attempts (snd (resetRequestBody req ds)) = ds_attempts ds \<and>
   ds_trace (snd (resetRequestBody req ds)) = ds_trace ds"
  by (auto simp: resetRequestBody_def split: option.splits sum.splits)

lemma resetRequestBody_req:
  "fst (resetRequestBody req ds) = Inr req1 \<Longrightarrow>
   \<exists>b. req1 = req\<lparr>rq_body := b\<rparr> \<and> body_absent b = body_absent (rq_body req)"
  by (cases req) (auto simp: resetRequestBody_def body_absent_def split: option.splits sum.splits if_splits)

text \<open>The part of an attempt before the transport answers, as the two ways it can go on.\<close>

lemma attempt_step_cases:
  obtains (reset_failed) e ds1 where "a > 0" "fst (resetRequestBody req ds) = Inl e"
      "attempt_step env retry a errs req ds = Return (None, Some e) req ds1"
      "ds_attempts ds1 = ds_attempts ds" "ds_trace ds1 = ds_trace ds"
  | (sent) b resp0 resp err ds1 where
      "body_absent b = body_absent (rq_body req)" "a \<le> 0 \<longrightarrow> b = rq_body req"
      "en_do env (ds_attempts ds) (req\<lparr>rq_body := b\<rparr>) = (resp0, err)"
      "resp = (if err \<noteq> None then map_option (\<lambda>r. r\<lparr>rs_body := NoBody\<rparr>) resp0 else resp0)"
      "attempt_step env retry a errs req ds =
         after_attempt env retry a (ds_attempts ds) errs resp err (req\<lparr>rq_body := b\<rparr>) ds1"
      "ds_attempts ds1 = ds_attempts ds + 1"
      "ds_trace ds1 = ds_trace ds @ [EvDo (req\<lparr>rq_body := b\<rparr>) resp err]"
proof -
  obtain x d where rr: "(if a > 0 then resetRequestBody req ds else (Inr req, ds)) = (x, d)" by fastforce
  then have st: "ds_attempts d = ds_attempts ds" "ds_trace d = ds_trace ds"
    using resetRequestBody_state[of req ds] by (auto split: if_splits)
  show thesis
  proof (cases x)
    case (Inl e)
    then have "a > 0" and "fst (resetRequestBody req ds) = Inl e" using rr by (auto split: if_splits)
    then show thesis using reset_failed[of e d] Inl st rr by (simp add: attempt_step_def)
  next
    case (Inr req1)
    obtain b where b: "req1 = req\<lparr>rq_body := b\<rparr>" "body_absent b = body_absent (rq_body req)"
        "a \<le> 0 \<longrightarrow> b = rq_body req"
    proof (cases "a > 0")
      case True
      then show ?thesis using resetRequestBody_req[of req ds req1] Inr rr that by auto
    next
      case False
      then have "req1 = req\<lparr>rq_body := rq_body req\<rparr>" using Inr rr by simp
      then show ?thesis by (rule that) simp_all
    qed
    obtain resp0 err where en: "en_do env (ds_attempts ds) req1 = (resp0, err)" by fastforce
    define resp where "resp = (if err \<noteq> None then map_option (\<lambda>r. r\<lparr>rs_body := NoBody\<rparr>) resp0 else resp0)"
    have "attempt_step env retry a errs req ds = after_attempt env retry a (ds_attempts ds) errs resp err req1
        (emit (EvDo req1 resp err) (d\<lparr>ds_attempts := ds_attempts ds + 1\<rparr>))"
      unfolding attempt_step_def rr Inr by (simp add: en st resp_def Let_def)
    then show thesis
      using sent[OF b(2,3), of resp0 err resp] en b(1) st by (simp add: resp_def)
  qed
qed

section \<open>Invariants of the loop\<close>

lemma retry_loop_invariant:
  assumes "I a errs resp req ds"
    and again: "\<And>a errs resp req ds errs1 resp1 req1 ds1. I a errs resp req ds \<Longrightarrow> a < wrap64 (rp_Max retry + 1) \<Longrightarrow>
        attempt_step env retry a errs req ds = Again errs1 resp1 req1 ds1 \<Longrightarrow> I (a + 1) errs1 resp1 req1 ds1"
    and return: "\<And>a errs resp req ds res req1 ds1. I a errs resp req ds \<Longrightarrow> a < wrap64 (rp_Max retry + 1) \<Longrightarrow>
        attempt_step env retry a errs req ds = Return res req1 ds1 \<Longrightarrow> Q res req1 ds1"
    and exhausted: "\<And>a errs resp req ds. I a errs resp req ds \<Longrightarrow> a \<ge> wrap64 (rp_Max retry + 1) \<Longrightarrow> Q (resp, None) req ds"
    and "retry_loop env retry a errs resp req ds = (res, req1, ds1)"
  shows "Q res req1 ds1"
  using assms(1,5)
proof (induction "nat (wrap64 (rp_Max retry + 1) - a)" arbitrary: a errs resp req ds rule: less_induct)
  case less
  show ?case
  proof (cases "a < wrap64 (rp_Max retry + 1)")
    case True
    show ?thesis
    proof (cases "attempt_step env retry a errs req ds")
      case (Return x r d)
      then show ?thesis
        using return[OF less.prems(1) True Return] less.prems(2) True by (simp add: retry_loop.simps)
    next
      case (Again e x r d)
      moreover have "nat (wrap64 (rp_Max retry + 1) - (a + 1)) < nat (wrap64 (rp_Max retry + 1) - a)"
        using True by simp
      ultimately show ?thesis
        using less.hyps[OF _ again[OF less.prems(1) True Again]] less.prems(2) True
        by (simp add: retry_loop.simps[of env retry a])
    qed
  next
    case False
    then show ?thesis using exhausted[OF less.prems(1)] less.prems(2) by (simp add: retry_loop.simps)
  qed
qed

lemma attempt_step_first:
  "attempt_step env retry 0 errs req ds =
     (let (resp0, err) = en_do env (ds_attempts ds) req;
          resp = (if err \<noteq> None then map_option (\<lambda>r. r\<lparr>rs_body := NoBody\<rparr>) resp0 else resp0)
      in after_attempt env retry 0 (ds_attempts ds) errs resp err req
           (emit (EvDo req resp err) (ds\<lparr>ds_attempts := ds_attempts ds + 1\<rparr>)))"
  by (simp add: attempt_step_def Let_def)

section \<open>How often the transport is called\<close>

lemma bound_no_wrap: "0 \<le> m \<Longrightarrow> m < int64_max \<Longrightarrow> wrap64 (m + 1) = m + 1"
  by (rule wrap64_id) (simp add: in_int64_def int64_min_def int64_max_def)

lemma finalHandler_first:
  assumes "0 \<le> rp_Max retry" and "rp_Max retry < int64_max"
  shows "finalHandler env retry req ds =
    (case attempt_step env retry 0 [] req ds of
       Return res r d \<Rightarrow> (res, r, d) | Again errs r q d \<Rightarrow> retry_loop env retry 1 errs r q d)"
  using assms by (simp add: finalHandler_def retry_loop.simps[of env retry 0] bound_no_wrap split: outcome.split)

text \<open>
  Claim C3: with a policy of Max retries the transport is called at least once and at most Max + 1
  times, whatever the transport, the retry condition and the body do.
\<close>

theorem retry_attempts_bounded:
  assumes "0 \<le> rp_Max retry" and "rp_Max retry < int64_max"
    and "finalHandler env retry req ds = (res, req1, ds1)"
  shows "ds_attempts ds + 1 \<le> ds_attempts ds1 \<and> ds_attempts ds1 \<le> ds_attempts ds + nat (rp_Max retry) + 1"
proof (rule retry_loop_invariant[where
      I = "\<lambda>a _ _ _ d. 0 \<le> a \<and> a \<le> rp_Max retry \<and> ds_attempts d = ds_attempts ds + nat a"
      and Q = "\<lambda>_ _ d. ds_attempts ds + 1 \<le> ds_attempts d \<and> ds_attempts d \<le> ds_attempts ds + nat (rp_Max retry) + 1"])
  fix a errs resp req ds' errs1 resp1 req1 ds1
  assume I: "0 \<le> a \<and> a \<le> rp_Max retry \<and> ds_attempts ds' = ds_attempts ds + nat a"
    and st: "attempt_step env retry a errs req ds' = Again errs1 resp1 req1 ds1"
  show "0 \<le> a + 1 \<and> a + 1 \<le> rp_Max retry \<and> ds_attempts ds1 = ds_attempts ds + nat (a + 1)"
    using I st by (cases rule: attempt_step_cases[of a req ds' env retry errs]) (auto dest: after_attempt_AgainD)
next
  fix a errs resp req ds' res req1 ds1
  assume I: "0 \<le> a \<and> a \<le> rp_Max retry \<and> ds_attempts ds' = ds_attempts ds + nat a"
    and st: "attempt_step env retry a errs req ds' = Return res req1 ds1"
  show "ds_attempts ds + 1 \<le> ds_attempts ds1 \<and> ds_attempts ds1 \<le> ds_attempts ds + nat (rp_Max retry) + 1"
    using I st
    by (cases rule: attempt_step_cases[of a req ds' env retry errs]) (auto dest: after_attempt_ReturnD)
next
  show "retry_loop env retry 0 [] None req ds = (res, req1, ds1)" using assms(3) by (simp add: finalHandler_def)
qed (use assms(1,2) bound_no_wrap in auto)

definition ex_env :: "(nat \<Rightarrow> unit httpRequest \<Rightarrow> httpResponse option \<times> goerr option) \<Rightarrow> unit denv" where
  "ex_env f = \<lparr>en_do = f, en_ctx = (\<lambda>_. None), en_clock = (\<lambda>_. ex_clock), en_parseHost = Some\<rparr>"

definition ex_request :: "reqBody \<Rightarrow> (nat \<Rightarrow> goerr + goReader) option \<Rightarrow> unit httpRequest" where
  "ex_request b g =
     \<lparr>rq_method = ''POST'',
      rq_url = \<lparr>url_scheme = ''http'', url_opaque = [], url_user = None, url_host = ''h'', url_path = ''/'',
                url_rawPath = [], url_omitHost = False, url_forceQuery = False, url_rawQuery = [],
                url_fragment = [], url_rawFragment = []\<rparr>,
      rq_host = ''h'', rq_header = [], rq_body = b, rq_getBody = g, rq_contentLength = 0, rq_ordered = None\<rparr>"

definition ex_policy :: "int \<Rightarrow> unit RetryPolicy" where
  "ex_policy m = RetryPolicy_normalize (zeroRetryPolicy\<lparr>rp_Max := m, rp_IgnoreRetryAfter := True\<rparr>)"

definition status_response :: "int \<Rightarrow> string \<Rightarrow> httpResponse" where
  "status_response code txt =
     \<lparr>rs_status = code, rs_header = [], rs_contentLength = 0,
      rs_body = \<lparr>rb_data = txt, rb_err = None, rb_closeErr = None\<rparr>\<rparr>"

definition down_twice :: "nat \<Rightarrow> unit httpRequest \<Rightarrow> httpResponse option \<times> goerr option" where
  "down_twice n r = (Some (status_response (if n < 2 then 503 else 200) (if n < 2 then ''busy'' else ''ok'')), None)"

theorem retry_attempts_bounded_witness:
  "1 \<le> ds_attempts (snd (snd (finalHandler (ex_env down_twice) (ex_policy 3) (ex_request BodyNil None) initial_dstate))) \<and>
   ds_attempts (snd (snd (finalHandler (ex_env down_twice) (ex_policy 3) (ex_request BodyNil None) initial_dstate))) \<le> 4"
proof -
  have "rp_Max (ex_policy 3) = 3" by (simp add: ex_policy_def normalize_fields)
  then show ?thesis
    using retry_attempts_bounded[of "ex_policy 3" "ex_env down_twice" "ex_request BodyNil None" initial_dstate
        "fst (finalHandler (ex_env down_twice) (ex_policy 3) (ex_request BodyNil None) initial_dstate)"
        "fst (snd (finalHandler (ex_env down_twice) (ex_policy 3) (ex_request BodyNil None) initial_dstate))"
        "snd (snd (finalHandler (ex_env down_twice) (ex_policy 3) (ex_request BodyNil None) initial_dstate))"]
    by (simp add: initial_dstate_def int64_max_def)
qed

text \<open>
  The largest possible Max makes \<open>retry.Max + 1\<close> wrap around: the loop body never runs and the
  delivery reports no response and no error.
\<close>

lemma retry_max_overflow:
  assumes "rp_Max retry = int64_max"
  shows "finalHandler env retry req ds = ((None, None), req, ds)"
  using assms by (simp add: finalHandler_def retry_loop.simps wrap64_def int64_max_def)

section \<open>Response bodies\<close>

text \<open>The bodies a trace has opened and not yet drained and closed.\<close>

fun track :: "respBody list \<Rightarrow> 'o event \<Rightarrow> respBody list" where
  "track bs (EvDo req (Some r) None) = bs @ [rs_body r]"
| "track bs (EvDrainClose b) = remove1 b bs"
| "track bs _ = bs"

definition unreleased :: "'o event list \<Rightarrow> respBody list" where
  "unreleased tr = foldl track [] tr"

lemma unreleased_attempt:
  "unreleased tr = [] \<Longrightarrow> unreleased (tr @ [EvDo q resp err]) = (case (resp, err) of (Some r, None) \<Rightarrow> [rs_body r] | _ \<Rightarrow> [])"
  by (auto simp: unreleased_def split: option.splits)

lemma unreleased_drained:
  assumes "unreleased tr = []" and "ws = [] \<or> (\<exists>d. ws = [EvWait d])"
  shows "unreleased (tr @ EvDo q resp err # drain_events resp err @ ws) = []"
  using assms by (auto simp: unreleased_def drain_events_def split: option.splits)

lemma finalHandler_releases:
  assumes "unreleased (ds_trace ds) = []" and "finalHandler env retry req ds = (res, req1, ds1)"
  shows "unreleased (ds_trace ds1) = [] \<or> (\<exists>r. fst res = Some r \<and> unreleased (ds_trace ds1) = [rs_body r])"
proof (rule retry_loop_invariant[where I = "\<lambda>_ _ _ _ d. unreleased (ds_trace d) = []"
      and Q = "\<lambda>res _ d. unreleased (ds_trace d) = [] \<or> (\<exists>r. fst res = Some r \<and> unreleased (ds_trace d) = [rs_body r])"])
  fix a errs resp req ds errs1 resp1 req1 ds1
  assume "unreleased (ds_trace ds) = []"
    and "attempt_step env retry a errs req ds = Again errs1 resp1 req1 ds1"
  then show "unreleased (ds_trace ds1) = []"
    by (cases rule: attempt_step_cases[of a req ds env retry errs])
      (auto dest!: after_attempt_AgainD(10) simp: unreleased_drained)
next
  fix a errs resp req ds res req1 ds1
  assume un: "unreleased (ds_trace ds) = []"
    and st: "attempt_step env retry a errs req ds = Return res req1 ds1"
  show "unreleased (ds_trace ds1) = [] \<or> (\<exists>r. fst res = Some r \<and> unreleased (ds_trace ds1) = [rs_body r])"
  proof (cases rule: attempt_step_cases[of a req ds env retry errs])
    case (sent b resp0 resp err ds2)
    note tr = sent(7)
    from after_attempt_ReturnD[of env retry a "ds_attempts ds" errs resp err "req\<lparr>rq_body := b\<rparr>" ds2 res req1 ds1] st sent(5)
    consider "ds1 = ds2" "fst res = resp"
      | ws where "ds_trace ds1 = ds_trace ds2 @ drain_events resp err @ ws" "ws = [] \<or> (\<exists>d. ws = [EvWait d])"
      by auto
    then show ?thesis
    proof cases
      case 1
      then show ?thesis using tr unreleased_attempt[OF un] by (auto split: option.splits)
    next
      case 2
      then show ?thesis using tr unreleased_drained[OF un] by simp
    qed
  qed (use un st in simp)
next
  show "retry_loop env retry 0 [] None req ds = (res, req1, ds1)" using assms(2) by (simp add: finalHandler_def)
qed (use assms(1) in auto)

text \<open>
  Claim C2: every response the loop does not return has been drained and closed: when the loop
  ends, at most one body is still open, and it is the body of the response that is returned.
\<close>

theorem retry_releases_bodies:
  assumes "unreleased (ds_trace ds) = []" and "finalHandler env retry req ds = (res, req1, ds1)"
  shows "unreleased (ds_trace ds1) = [] \<or> (\<exists>r. fst res = Some r \<and> unreleased (ds_trace ds1) = [rs_body r])"
  using assms by (rule finalHandler_releases)

theorem retry_releases_bodies_witness:
  "unreleased (ds_trace (snd (snd (finalHandler (ex_env down_twice) (ex_policy 3) (ex_request BodyNil None) initial_dstate)))) = [] \<or>
   (\<exists>r. fst (fst (finalHandler (ex_env down_twice) (ex_policy 3) (ex_request BodyNil None) initial_dstate)) = Some r \<and>
      unreleased (ds_trace (snd (snd (finalHandler (ex_env down_twice) (ex_policy 3) (ex_request BodyNil None) initial_dstate)))) = [rs_body r])"
  by (rule retry_releases_bodies[of initial_dstate "ex_env down_twice" "ex_policy 3" "ex_request BodyNil None" _
        "fst (snd (finalHandler (ex_env down_twice) (ex_policy 3) (ex_request BodyNil None) initial_dstate))"])
    (simp_all add: initial_dstate_def unreleased_def)

section \<open>One-shot bodies\<close>

text \<open>
  Claim C4: a request body that cannot be replayed is sent once. If the retry condition asks for a
  retry, the delivery fails with an error that wraps ErrRequestBodyNotReplayable (and the error of
  the attempt, if there was one); otherwise the first attempt's outcome is returned.
\<close>

theorem one_shot_body_sent_once:
  assumes "\<not> canReplayRequestBody req" and "0 \<le> rp_Max retry" and "rp_Max retry < int64_max"
    and "en_do env (ds_attempts ds) req = (resp, err)"
    and "finalHandler env retry req ds = (res, req1, ds1)"
  shows "ds_attempts ds1 = ds_attempts ds + 1 \<and>
    (err = None \<longrightarrow> fst res = resp) \<and>
    (let retried = (callShouldRetry retry req (if err \<noteq> None then map_option (\<lambda>r. r\<lparr>rs_body := NoBody\<rparr>) resp else resp) err
                    \<and> rp_Max retry \<noteq> 0)
     in \<forall>s. (\<exists>e. snd res = Some e \<and> errors_is e s) \<longleftrightarrow>
           (\<exists>e. err = Some e \<and> errors_is e s) \<or> retried \<and> s = ErrRequestBodyNotReplayable)"
proof -
  define resp1 where "resp1 = (if err \<noteq> None then map_option (\<lambda>r. r\<lparr>rs_body := NoBody\<rparr>) resp else resp)"
  define ds2 where "ds2 = emit (EvDo req resp1 err) (ds\<lparr>ds_attempts := ds_attempts ds + 1\<rparr>)"
  have "attempt_step env retry 0 [] req ds = after_attempt env retry 0 (ds_attempts ds) [] resp1 err req ds2"
    using assms(4) by (simp add: attempt_step_first resp1_def ds2_def Let_def)
  then have "(res, req1, ds1) = (case after_attempt env retry 0 (ds_attempts ds) [] resp1 err req ds2 of
      Return res r d \<Rightarrow> (res, r, d) | Again errs r q d \<Rightarrow> retry_loop env retry 1 errs r q d)"
    using assms(2,3,5) by (simp add: finalHandler_first)
  then have "ds1 = ds2 \<and> fst res = resp1 \<and>
      (\<forall>s. (\<exists>e. snd res = Some e \<and> errors_is e s) \<longleftrightarrow> (\<exists>e. err = Some e \<and> errors_is e s) \<or>
         (callShouldRetry retry req resp1 err \<and> rp_Max retry \<noteq> 0) \<and> s = ErrRequestBodyNotReplayable)"
    using assms(1)
    by (cases err) (auto simp: after_attempt_def Let_def errors_Join_def List.map_filter_def
        sanitizeURLDiagnosticError_def errors_is_sanitizeTree split: if_splits)
  then show ?thesis by (auto simp: resp1_def ds2_def)
qed

theorem one_shot_body_sent_once_witness:
  "\<forall>s. (\<exists>e. snd (fst (finalHandler (ex_env down_twice) (ex_policy 3) (ex_request (BodyOf (Stream ''x'' None)) None) initial_dstate)) = Some e
          \<and> errors_is e s) \<longleftrightarrow> s = ErrRequestBodyNotReplayable"
proof -
  let ?r = "ex_request (BodyOf (Stream ''x'' None)) None"
  have "callShouldRetry (ex_policy 3) ?r (Some (status_response 503 ''busy'')) None"
    by (simp add: ex_policy_def callShouldRetry_def RetryPolicy_normalize_def zeroRetryPolicy_def
        DefaultRetryIf_def status_response_def)
  moreover have "rp_Max (ex_policy 3) = 3" by (simp add: ex_policy_def normalize_fields)
  moreover have "\<not> canReplayRequestBody ?r" by (simp add: canReplayRequestBody_def ex_request_def body_absent_def)
  moreover have "en_do (ex_env down_twice) (ds_attempts initial_dstate) ?r = (Some (status_response 503 ''busy''), None)"
    by (simp add: ex_env_def down_twice_def initial_dstate_def)
  moreover have "0 \<le> rp_Max (ex_policy 3) \<and> rp_Max (ex_policy 3) < int64_max"
    by (simp add: ex_policy_def normalize_fields int64_max_def)
  ultimately show ?thesis
    using one_shot_body_sent_once[of ?r "ex_policy 3" "ex_env down_twice" initial_dstate "Some (status_response 503 ''busy'')" None
        "fst (finalHandler (ex_env down_twice) (ex_policy 3) ?r initial_dstate)"
        "fst (snd (finalHandler (ex_env down_twice) (ex_policy 3) ?r initial_dstate))"
        "snd (snd (finalHandler (ex_env down_twice) (ex_policy 3) ?r initial_dstate))"]
    unfolding Let_def by auto
qed

section \<open>What the loop returns\<close>

text \<open>
  A scripted run: the transport answers by attempt, the retry condition looks at the answer only,
  the context stays alive, discarded responses drain cleanly and the body can be replayed. The run
  then ends at the first attempt the condition accepts, or at the last one.
\<close>

definition visible :: "httpResponse option \<times> goerr option \<Rightarrow> httpResponse option" where
  "visible p = (if snd p \<noteq> None then map_option (\<lambda>r. r\<lparr>rs_body := NoBody\<rparr>) (fst p) else fst p)"

definition replays :: "'o httpRequest \<Rightarrow> bool" where
  "replays req \<longleftrightarrow> body_absent (rq_body req) \<or> (\<exists>g. rq_getBody req = Some (\<lambda>n. Inr (g n)))"

definition scripted :: "'o denv \<Rightarrow> 'o RetryPolicy \<Rightarrow> (nat \<Rightarrow> httpResponse option \<times> goerr option) \<Rightarrow>
    (httpResponse option \<Rightarrow> goerr option \<Rightarrow> bool) \<Rightarrow> bool" where
  "scripted env retry script sr \<longleftrightarrow>
     (\<forall>n q. en_do env n q = script n) \<and> (\<forall>n. en_ctx env n = None) \<and>
     (\<forall>q r e. callShouldRetry retry q r e = sr r e) \<and>
     (\<forall>n r. script n = (Some r, None) \<longrightarrow> drainAndCloseBody (rs_body r) = None) \<and>
     0 \<le> rp_Max retry \<and> rp_Max retry < int64_max"

definition attempt_errors :: "'o denv \<Rightarrow> 'o RetryPolicy \<Rightarrow> (nat \<Rightarrow> httpResponse option \<times> goerr option) \<Rightarrow> nat \<Rightarrow> goerr list" where
  "attempt_errors env retry script n =
     concat (map (\<lambda>i. case sanitizeURLDiagnosticError (en_parseHost env) (snd (script i)) of None \<Rightarrow> []
                        | Some e \<Rightarrow> [Wrapf (attempt_prefix (int i) (rp_Max retry)) e]) [0..<n])"

lemma replays_reset:
  assumes "replays req"
  shows "\<exists>q d. resetRequestBody req ds = (Inr q, d) \<and> replays q \<and> ds_attempts d = ds_attempts ds"
proof (cases "body_absent (rq_body req)")
  case True
  then show ?thesis using assms by (auto simp: resetRequestBody_def)
next
  case False
  then obtain g where "rq_getBody req = Some (\<lambda>n. Inr (g n))" using assms by (auto simp: replays_def)
  then show ?thesis using False by (auto simp: resetRequestBody_def replays_def)
qed

lemma replays_can: "replays req \<Longrightarrow> canReplayRequestBody req"
  by (auto simp: replays_def canReplayRequestBody_def)

lemma scripted_step:
  assumes "scripted env retry script sr" and "replays req" and "ds_attempts ds = a"
  shows "\<exists>q d. replays q \<and> ds_attempts d = a + 1 \<and>
    attempt_step env retry (int a) errs req ds =
      after_attempt env retry (int a) a errs (visible (script a)) (snd (script a)) q d"
proof -
  obtain q d where "(if int a > 0 then resetRequestBody req ds else (Inr req, ds)) = (Inr q, d)"
      and "replays q" and "ds_attempts d = a"
    using replays_reset[OF assms(2), of ds] assms(2,3) by (cases "a = 0") auto
  moreover have "en_do env a q = script a" using assms(1) by (simp add: scripted_def)
  ultimately have "replays q \<and> ds_attempts (emit (EvDo q (visible (script a)) (snd (script a))) (d\<lparr>ds_attempts := a + 1\<rparr>)) = a + 1 \<and>
      attempt_step env retry (int a) errs req ds =
        after_attempt env retry (int a) a errs (visible (script a)) (snd (script a)) q
          (emit (EvDo q (visible (script a)) (snd (script a))) (d\<lparr>ds_attempts := a + 1\<rparr>))"
    unfolding attempt_step_def by (simp add: visible_def Let_def split_beta)
  then show ?thesis by blast
qed

lemma visible_None: "snd p = None \<Longrightarrow> p = (visible p, None)"
  by (cases p) (simp add: visible_def)

lemma scripted_again:
  assumes "scripted env retry script sr" and "replays q" and "int a < rp_Max retry"
    and "sr (visible (script a)) (snd (script a))"
  shows "\<exists>d1. ds_attempts d1 = ds_attempts d \<and>
    after_attempt env retry (int a) a (attempt_errors env retry script a) (visible (script a)) (snd (script a)) q d =
      Again (attempt_errors env retry script (a + 1)) (visible (script a)) q d1"
proof -
  have "callShouldRetry retry q (visible (script a)) (snd (script a))" and "en_ctx env a = None"
    using assms by (simp_all add: scripted_def)
  moreover have "drainAndCloseBody (rs_body r) = None" if "visible (script a) = Some r" "snd (script a) = None" for r
    using assms(1) visible_None[OF that(2)] that unfolding scripted_def by metis
  ultimately show ?thesis
    using assms(2,3) replays_can[OF assms(2)]
    by (cases "visible (script a)"; cases "snd (script a)")
      (simp_all add: after_attempt_def Let_def attempt_errors_def sanitizeURLDiagnosticError_def)
qed

definition final_error :: "'o denv \<Rightarrow> 'o RetryPolicy \<Rightarrow> (nat \<Rightarrow> httpResponse option \<times> goerr option) \<Rightarrow> nat \<Rightarrow> goerr option" where
  "final_error env retry script k =
     (if snd (script k) = None then None
      else if length (attempt_errors env retry script (k + 1)) > 1
      then errors_Join (map Some (attempt_errors env retry script (k + 1)))
      else sanitizeURLDiagnosticError (en_parseHost env) (snd (script k)))"

lemma attempt_errors_Suc:
  "attempt_errors env retry script (Suc a) = attempt_errors env retry script a @
     (case sanitizeURLDiagnosticError (en_parseHost env) (snd (script a)) of None \<Rightarrow> []
      | Some e \<Rightarrow> [Wrapf (attempt_prefix (int a) (rp_Max retry)) e])"
  by (simp add: attempt_errors_def)

lemma scripted_final:
  assumes "scripted env retry script sr" and "int k = rp_Max retry \<or> \<not> sr (visible (script k)) (snd (script k))"
  shows "after_attempt env retry (int k) k (attempt_errors env retry script k) (visible (script k)) (snd (script k)) q d =
    Return (visible (script k), final_error env retry script k) q d"
proof -
  have "callShouldRetry retry q (visible (script k)) (snd (script k)) = sr (visible (script k)) (snd (script k))"
    using assms(1) by (simp add: scripted_def)
  then show ?thesis
    using assms(2)
    by (cases "snd (script k)")
      (auto simp: after_attempt_def Let_def final_error_def attempt_errors_Suc sanitizeURLDiagnosticError_def)
qed

lemma scripted_loop:
  assumes "scripted env retry script sr" and "int k \<le> rp_Max retry"
    and "\<forall>i<k. sr (visible (script i)) (snd (script i))"
    and "int k = rp_Max retry \<or> \<not> sr (visible (script k)) (snd (script k))"
    and "a \<le> k" and "ds_attempts ds = a" and "replays req"
  shows "\<exists>q d. retry_loop env retry (int a) (attempt_errors env retry script a) resp req ds =
      ((visible (script k), final_error env retry script k), q, d) \<and> ds_attempts d = k + 1"
  using assms(5-7)
proof (induction "k - a" arbitrary: a resp req ds)
  case 0
  then have "a = k" by simp
  obtain q d where qd: "ds_attempts d = a + 1" "attempt_step env retry (int a) (attempt_errors env retry script a) req ds =
      after_attempt env retry (int a) a (attempt_errors env retry script a) (visible (script a)) (snd (script a)) q d"
    using scripted_step[OF assms(1) 0(4,3)] by blast
  have "\<not> wrap64 (rp_Max retry + 1) \<le> int k" using assms(1,2) by (simp add: scripted_def bound_no_wrap)
  then show ?case using qd \<open>a = k\<close> scripted_final[OF assms(1,4)] by (simp add: retry_loop.simps[of env retry "int k"])
next
  case (Suc j)
  then have "a < k" by simp
  obtain q d where qd: "replays q" "ds_attempts d = a + 1"
      "attempt_step env retry (int a) (attempt_errors env retry script a) req ds =
      after_attempt env retry (int a) a (attempt_errors env retry script a) (visible (script a)) (snd (script a)) q d"
    using scripted_step[OF assms(1) Suc(5,4)] by blast
  have "int a < rp_Max retry" using \<open>a < k\<close> assms(2) by simp
  from scripted_again[OF assms(1) qd(1) this] obtain d1 where d1: "ds_attempts d1 = a + 1"
      "after_attempt env retry (int a) a (attempt_errors env retry script a) (visible (script a)) (snd (script a)) q d =
       Again (attempt_errors env retry script (a + 1)) (visible (script a)) q d1"
    using assms(3) \<open>a < k\<close> qd(2) by metis
  have "\<not> wrap64 (rp_Max retry + 1) \<le> int a"
    using assms(1,2) \<open>a < k\<close> by (simp add: scripted_def bound_no_wrap)
  then have "retry_loop env retry (int a) (attempt_errors env retry script a) resp req ds =
      retry_loop env retry (int (a + 1)) (attempt_errors env retry script (a + 1)) (visible (script a)) q d1"
    using qd(3) d1(2) by (simp add: retry_loop.simps[of env retry "int a"] add.commute)
  then show ?case using Suc(1)[of "a + 1"] Suc(2) \<open>a < k\<close> d1(1) qd(1) by simp
qed

lemma attempt_errors_is:
  "list_ex (\<lambda>e. errors_is e s) (attempt_errors env retry script n) \<longleftrightarrow>
     (\<exists>i<n. \<exists>e. snd (script i) = Some e \<and> errors_is e s)"
proof (induction n)
  case (Suc n)
  have "list_ex (\<lambda>e. errors_is e s) (attempt_errors env retry script (Suc n)) \<longleftrightarrow>
      list_ex (\<lambda>e. errors_is e s) (attempt_errors env retry script n) \<or> (\<exists>e. snd (script n) = Some e \<and> errors_is e s)"
    by (auto simp: attempt_errors_def sanitizeURLDiagnosticError_def errors_is_sanitizeTree split: option.splits)
  then show ?case using Suc by (auto simp: less_Suc_eq)
qed (simp add: attempt_errors_def)

lemma final_error_is:
  assumes "final_error env retry script k = Some e"
  shows "errors_is e s \<longleftrightarrow> (\<exists>i\<le>k. \<exists>x. snd (script i) = Some x \<and> errors_is x s)"
proof -
  from assms obtain x where x: "snd (script k) = Some x" by (auto simp: final_error_def split: if_splits)
  have "errors_is e s \<longleftrightarrow> list_ex (\<lambda>e. errors_is e s) (attempt_errors env retry script (k + 1))"
  proof (cases "length (attempt_errors env retry script (k + 1)) > 1")
    case True
    then have "errors_Join (map Some (attempt_errors env retry script (k + 1))) =
        Some (Multi (attempt_errors env retry script (k + 1)))"
      by (cases "attempt_errors env retry script (k + 1)")
        (auto simp: errors_Join_def List.map_filter_def comp_def split: list.splits)
    then have "e = Multi (attempt_errors env retry script (k + 1))" using assms True x by (simp add: final_error_def)
    then show ?thesis by simp
  next
    case False
    then have "attempt_errors env retry script k = []"
      using x by (simp add: attempt_errors_Suc sanitizeURLDiagnosticError_def)
    then show ?thesis
      using assms x False by (auto simp: final_error_def attempt_errors_Suc sanitizeURLDiagnosticError_def)
  qed
  then show ?thesis by (simp only: attempt_errors_is) (auto simp: less_Suc_eq_le)
qed

text \<open>
  Claim C1: with a scripted transport and a live context, the loop calls the transport until the
  first answer the retry condition accepts (or the last attempt allowed), returns that answer's
  response, reports an error exactly when that answer has one, and the error wraps exactly the
  sentinels that the errors of the attempts made wrap.
\<close>

theorem retry_outcome:
  assumes "scripted env retry script sr" and "int k \<le> rp_Max retry"
    and "\<forall>i<k. sr (visible (script i)) (snd (script i))"
    and "int k = rp_Max retry \<or> \<not> sr (visible (script k)) (snd (script k))"
    and "replays req" and "ds_attempts ds = 0"
  shows "\<exists>err q d. finalHandler env retry req ds = ((visible (script k), err), q, d) \<and> ds_attempts d = k + 1 \<and>
    (err = None \<longleftrightarrow> snd (script k) = None) \<and>
    (\<forall>e s. err = Some e \<longrightarrow> (errors_is e s \<longleftrightarrow> (\<exists>i\<le>k. \<exists>x. snd (script i) = Some x \<and> errors_is x s)))"
proof -
  have "attempt_errors env retry script 0 = []" by (simp add: attempt_errors_def)
  then obtain q d where "finalHandler env retry req ds = ((visible (script k), final_error env retry script k), q, d)"
      and "ds_attempts d = k + 1"
    using scripted_loop[OF assms(1-4) _ assms(6,5), of None] by (auto simp: finalHandler_def)
  moreover have "final_error env retry script k = None \<longleftrightarrow> snd (script k) = None"
    by (auto simp: final_error_def errors_Join_None_iff)
  moreover have "\<forall>e s. final_error env retry script k = Some e \<longrightarrow>
      (errors_is e s \<longleftrightarrow> (\<exists>i\<le>k. \<exists>x. snd (script i) = Some x \<and> errors_is x s))"
    using final_error_is[of env retry script k] by metis
  ultimately show ?thesis by (intro exI conjI)
qed

definition flaky :: "nat \<Rightarrow> httpResponse option \<times> goerr option" where
  "flaky n = (if n = 0 then (None, Some (OpError ''dial'' (Sentinel IoEOF)))
              else if n = 1 then (Some (status_response 503 ''busy''), None)
              else (Some (status_response 200 ''ok''), None))"

definition default_sr :: "httpResponse option \<Rightarrow> goerr option \<Rightarrow> bool" where
  "default_sr r e = DefaultRetryIf (ex_request BodyNil None) r e"

lemma scripted_flaky: "scripted (ex_env (\<lambda>n _. flaky n)) (ex_policy 5) flaky default_sr"
proof -
  have "callShouldRetry (ex_policy 5) q r e = default_sr r e" for q r e
    by (simp add: ex_policy_def callShouldRetry_def RetryPolicy_normalize_def zeroRetryPolicy_def default_sr_def
        DefaultRetryIf_def)
  then show ?thesis
    by (auto simp: scripted_def ex_env_def flaky_def status_response_def drainAndCloseBody_def errors_Join_def
        List.map_filter_def ex_policy_def normalize_fields int64_max_def split: if_splits)
qed

theorem retry_outcome_witness:
  "\<exists>err q d. finalHandler (ex_env (\<lambda>n _. flaky n)) (ex_policy 5) (ex_request BodyNil None) initial_dstate =
       ((visible (flaky 2), err), q, d) \<and> ds_attempts d = 3 \<and> err = None"
proof -
  have "\<forall>i<2. default_sr (visible (flaky i)) (snd (flaky i))"
    by (auto simp: less_2_cases_iff default_sr_def flaky_def visible_def DefaultRetryIf_def IsConnectionError_def
        IsCanceled_def status_response_def)
  moreover have "\<not> default_sr (visible (flaky 2)) (snd (flaky 2))"
    by (simp add: default_sr_def flaky_def visible_def DefaultRetryIf_def status_response_def)
  moreover have "snd (flaky 2) = None" by (simp add: flaky_def)
  moreover have "replays (ex_request BodyNil None)" by (simp add: replays_def body_absent_def ex_request_def)
  moreover have "int 2 \<le> rp_Max (ex_policy 5)" by (simp add: ex_policy_def normalize_fields)
  ultimately show ?thesis
    using retry_outcome[OF scripted_flaky, of 2 "ex_request BodyNil None" initial_dstate]
    by (auto simp: initial_dstate_def)
qed

section \<open>Cancellation\<close>

text \<open>
  Claim C5: once the context has ended during the wait after call number n, the transport is not
  called again, and the loop returns the context's error.
\<close>

theorem cancelled_during_backoff:
  assumes "en_ctx env n = Some e" and "ds_attempts ds \<le> n" and "finalHandler env retry req ds = (res, req1, ds1)"
  shows "ds_attempts ds1 \<le> n + 1 \<and>
    (ds_attempts ds1 = n + 1 \<longrightarrow> (\<exists>w. last (ds_trace ds1) = EvWait w) \<longrightarrow> res = (None, Some e))"
proof (rule retry_loop_invariant[where I = "\<lambda>_ _ _ _ d. ds_attempts d \<le> n"
      and Q = "\<lambda>res _ d. ds_attempts d \<le> n + 1 \<and>
        (ds_attempts d = n + 1 \<longrightarrow> (\<exists>w. last (ds_trace d) = EvWait w) \<longrightarrow> res = (None, Some e))"])
  fix a errs resp req ds errs1 resp1 req1 ds1
  assume I: "ds_attempts ds \<le> n"
    and st: "attempt_step env retry a errs req ds = Again errs1 resp1 req1 ds1"
  show "ds_attempts ds1 \<le> n"
  proof (cases rule: attempt_step_cases[of a req ds env retry errs])
    case (sent b resp0 resp err ds2)
    with st have st2: "after_attempt env retry a (ds_attempts ds) errs resp err (req\<lparr>rq_body := b\<rparr>) ds2 = Again errs1 resp1 req1 ds1"
      by simp
    have "ds_attempts ds \<noteq> n" using after_attempt_AgainD(6)[OF st2] assms(1) by auto
    then show ?thesis using after_attempt_AgainD(7)[OF st2] sent(6) I by simp
  qed (use st in simp)
next
  fix a errs resp req ds res req1 ds1
  assume I: "ds_attempts ds \<le> n"
    and st: "attempt_step env retry a errs req ds = Return res req1 ds1"
  show "ds_attempts ds1 \<le> n + 1 \<and>
      (ds_attempts ds1 = n + 1 \<longrightarrow> (\<exists>w. last (ds_trace ds1) = EvWait w) \<longrightarrow> res = (None, Some e))"
  proof (cases rule: attempt_step_cases[of a req ds env retry errs])
    case (sent b resp0 resp err ds2)
    with st have st2: "after_attempt env retry a (ds_attempts ds) errs resp err (req\<lparr>rq_body := b\<rparr>) ds2 = Return res req1 ds1"
      by simp
    have "ds_attempts ds1 = ds_attempts ds + 1" using after_attempt_ReturnD[OF st2] sent(6) by simp
    moreover have "res = (None, Some e)" if "ds_attempts ds = n" "last (ds_trace ds1) = EvWait w" for w
      using st2 that assms(1) sent(7)
      by (auto simp: after_attempt_def Let_def split: if_splits option.splits)
    ultimately show ?thesis using I by auto
  qed (use I st in simp)
next
  show "retry_loop env retry 0 [] None req ds = (res, req1, ds1)" using assms(3) by (simp add: finalHandler_def)
qed (use assms(2) in auto)

theorem cancelled_during_backoff_witness:
  "ds_attempts (snd (snd (finalHandler ((ex_env down_twice)\<lparr>en_ctx := \<lambda>n. Some (Sentinel ContextCanceled)\<rparr>)
     (ex_policy 3) (ex_request BodyNil None) initial_dstate))) \<le> 1"
  using cancelled_during_backoff[of "(ex_env down_twice)\<lparr>en_ctx := \<lambda>n. Some (Sentinel ContextCanceled)\<rparr>" 0
      "Sentinel ContextCanceled" initial_dstate "ex_policy 3" "ex_request BodyNil None"
      "fst (finalHandler ((ex_env down_twice)\<lparr>en_ctx := \<lambda>n. Some (Sentinel ContextCanceled)\<rparr>)
         (ex_policy 3) (ex_request BodyNil None) initial_dstate)"
      "fst (snd (finalHandler ((ex_env down_twice)\<lparr>en_ctx := \<lambda>n. Some (Sentinel ContextCanceled)\<rparr>)
         (ex_policy 3) (ex_request BodyNil None) initial_dstate))"]
  by (simp add: initial_dstate_def)

section \<open>Middleware order\<close>

lemma wrap_handlers_foldr: "wrap_handlers mws h = foldr (\<lambda>mw h. mw h) mws h"
  by (simp add: wrap_handlers_def foldl_conv_foldr)

lemma wrap_handlers_append: "wrap_handlers (xs @ ys) h = wrap_handlers xs (wrap_handlers ys h)"
  by (simp add: wrap_handlers_foldr)

lemma foldl_header_pairs:
  "foldl (\<lambda>h (k, vs). foldl (\<lambda>h v. Header_Add h k v) h vs) h hs =
   foldl (\<lambda>h p. Header_Add h (fst p) (snd p)) h (header_pairs hs)"
proof (induction hs arbitrary: h)
  case (Cons kv hs)
  obtain k vs where "kv = (k, vs)" by fastforce
  then show ?case using Cons by (simp add: header_pairs_def foldl_map)
qed (simp add: header_pairs_def)

lemma wrap_AddHeaders:
  "\<exists>q. wrap_handlers (map AddHeaders hss) h req ds = h q ds \<and> q = req\<lparr>rq_header := rq_header q\<rparr> \<and>
     (\<forall>k. Header_Values (rq_header q) k = Header_Values (rq_header req) k @
        map snd (filter (\<lambda>p. header_eqv (fst p) k) (concat (map header_pairs hss))))"
proof (induction hss arbitrary: req)
  case Nil
  then show ?case by (intro exI[of _ req]) (simp add: wrap_handlers_foldr)
next
  case (Cons hs hss)
  define req1 where "req1 = req\<lparr>rq_header := foldl (\<lambda>h p. Header_Add h (fst p) (snd p)) (rq_header req) (header_pairs hs)\<rparr>"
  obtain q where q: "wrap_handlers (map AddHeaders hss) h req1 ds = h q ds" "q = req1\<lparr>rq_header := rq_header q\<rparr>"
      "\<forall>k. Header_Values (rq_header q) k = Header_Values (rq_header req1) k @
        map snd (filter (\<lambda>p. header_eqv (fst p) k) (concat (map header_pairs hss)))"
    using Cons by blast
  have "wrap_handlers (map AddHeaders (hs # hss)) h req ds = h q ds"
    using q(1) by (simp add: wrap_handlers_foldr AddHeaders_def foldl_header_pairs req1_def)
  moreover have "q = req\<lparr>rq_header := rq_header q\<rparr>" using q(2) by (simp add: req1_def)
  moreover have "\<forall>k. Header_Values (rq_header req1) k = Header_Values (rq_header req) k @
      map snd (filter (\<lambda>p. header_eqv (fst p) k) (header_pairs hs))"
    by (simp add: req1_def hdr.vals_add_pairs)
  ultimately show ?case using q(3) by (intro exI[of _ q]) simp
qed


section \<open>Undelivered bodies\<close>

definition original_closes :: "'o event list \<Rightarrow> nat" where
  "original_closes tr = length (filter (\<lambda>ev. \<exists>r. ev = EvCloseBody (BodyOriginal r)) tr)"

lemma original_closes_emit [simp]:
  "original_closes (ds_trace (emit ev ds)) =
     original_closes (ds_trace ds) + (if \<exists>r. ev = EvCloseBody (BodyOriginal r) then 1 else 0)"
  by (auto simp: original_closes_def)

lemma closeBody_keeps:
  assumes "original_closes (ds_trace ds) = of_bool (ds_originalClosed ds)"
  shows "original_closes (ds_trace (closeBody b ds)) = of_bool (ds_originalClosed (closeBody b ds))"
  using assms by (cases b) (auto simp: closeBody_def original_closes_def emit_def)

lemma closeBody_original: "ds_originalClosed (closeBody (BodyOriginal r) ds)"
  by (simp add: closeBody_def)

text \<open>
  Claim C6: if the middlewares answer without calling the transport, the request body is closed
  exactly once, also when a middleware replaced the body or had closed the original itself.
\<close>

theorem undelivered_body_closed_once:
  assumes "rq_body req = BodyOf r"
    and "wrap_handlers clientMws (wrap_handlers requestMws (finalHandler env retry)) (wrap_original req) initial_dstate = (res, req1, ds)"
    and "ds_attempts ds = 0" and "original_closes (ds_trace ds) = of_bool (ds_originalClosed ds)"
  shows "original_closes (ds_trace (snd (do_delivery env retry requestMws clientMws req))) = 1"
proof -
  have orig: "rq_body (wrap_original req) = BodyOriginal r" using assms(1) by (simp add: wrap_original_def)
  then have "snd (do_delivery env retry requestMws clientMws req) =
      closeBody (BodyOriginal r) (closeBody (rq_body req1) ds)"
    using assms(2,3) by (simp add: do_delivery_def body_absent_def Let_def split: prod.splits)
  then show ?thesis
    using closeBody_keeps[OF closeBody_keeps[OF assms(4)], of "BodyOriginal r" "rq_body req1"]
      closeBody_original[of r "closeBody (rq_body req1) ds"] by simp
qed

definition short_circuit :: "httpResponse \<Rightarrow> unit Middleware" where
  "short_circuit r next = (\<lambda>req ds. ((Some r, None), req, ds))"

theorem undelivered_body_closed_once_witness:
  "original_closes (ds_trace (snd (do_delivery (ex_env down_twice) (ex_policy 3) [] [short_circuit (status_response 200 ''cached'')]
     (ex_request (BodyOf (Stream ''x'' None)) None)))) = 1"
  by (rule undelivered_body_closed_once[of _ "Stream ''x'' None" _ _ _ _
        "(Some (status_response 200 ''cached''), None)" "wrap_original (ex_request (BodyOf (Stream ''x'' None)) None)" initial_dstate])
    (simp_all add: ex_request_def wrap_handlers_foldr short_circuit_def initial_dstate_def original_closes_def)

end
