(* ===== verification/Multipart_Body.thy ===== *)
theory Multipart_Body
  imports Go_Http
begin

text \<open>
  Model of \<open>multipart.go\<close> with what it uses of \<open>mime/multipart.Writer\<close>. The byte-level quoting of
  \<open>mime\<close> is an argument, the record \<open>mimeLib\<close>: \<open>escapeQuotes\<close>, \<open>FormatMediaType\<close> of a form-data
  disposition, whether \<open>ParseMediaType\<close> accepts a content type, and the random boundary the writer
  draws. A streaming body is the bytes the producer goroutine writes and the error it closes the
  pipe with.
\<close>

section \<open>The builder\<close>

record FilePart =
  fp_Field :: string
  fp_Filename :: string
  fp_ContentType :: string
  fp_Body :: "goReader option"

record Multipart =
  mp_fields :: urlValues
  mp_parts :: "FilePart list"
  mp_boundary :: string
  mp_canReplay :: bool
  mp_replayMaxBytes :: int

definition NewMultipart :: Multipart where
  "NewMultipart = \<lparr>mp_fields = [], mp_parts = [], mp_boundary = [], mp_canReplay = False, mp_replayMaxBytes = 0\<rparr>"

definition Multipart_Field :: "string \<Rightarrow> string \<Rightarrow> Multipart \<Rightarrow> Multipart" where
  "Multipart_Field name v m = m\<lparr>mp_fields := Values_Add (mp_fields m) name v\<rparr>"

definition Multipart_Part :: "FilePart \<Rightarrow> Multipart \<Rightarrow> Multipart" where
  "Multipart_Part part m = m\<lparr>mp_parts := mp_parts m @ [part]\<rparr>"

definition Multipart_File :: "string \<Rightarrow> string \<Rightarrow> goReader option \<Rightarrow> Multipart \<Rightarrow> Multipart" where
  "Multipart_File field filename r =
     Multipart_Part \<lparr>fp_Field = field, fp_Filename = filename, fp_ContentType = [], fp_Body = r\<rparr>"

definition Multipart_FileBytes :: "string \<Rightarrow> string \<Rightarrow> bytes \<Rightarrow> Multipart \<Rightarrow> Multipart" where
  "Multipart_FileBytes field filename data = Multipart_File field filename (Some (MemReader data))"

definition Multipart_FileString :: "string \<Rightarrow> string \<Rightarrow> string \<Rightarrow> Multipart \<Rightarrow> Multipart" where
  "Multipart_FileString field filename data = Multipart_File field filename (Some (MemReader data))"

definition Multipart_Boundary :: "string \<Rightarrow> Multipart \<Rightarrow> Multipart" where
  "Multipart_Boundary boundary m = m\<lparr>mp_boundary := boundary\<rparr>"

definition Multipart_Replayable :: "int \<Rightarrow> Multipart \<Rightarrow> Multipart" where
  "Multipart_Replayable maxBytes m = m\<lparr>mp_canReplay := True, mp_replayMaxBytes := maxBytes\<rparr>"

section \<open>Boundaries\<close>

definition boundary_char :: "char \<Rightarrow> bool" where
  "boundary_char c \<longleftrightarrow> is_upper c \<or> is_lower c \<or> is_digit c \<or> c \<in> set (CHR 0x27 # ''()+_,-./:=?'')"

fun boundary_loop :: "nat \<Rightarrow> nat \<Rightarrow> string \<Rightarrow> bool" where
  "boundary_loop i lst [] = True"
| "boundary_loop i lst (c # cs) =
     (if boundary_char c then boundary_loop (i + 1) lst cs
      else if c = CHR '' '' \<and> i \<noteq> lst then boundary_loop (i + 1) lst cs
      else False)"

definition validMultipartBoundary :: "string \<Rightarrow> bool" where
  "validMultipartBoundary boundary \<longleftrightarrow>
     \<not> (length boundary < 1 \<or> length boundary > 70) \<and> boundary_loop 0 (length boundary - 1) boundary"

section \<open>The writers\<close>

record mimeLib =
  mi_escapeQuotes :: "string \<Rightarrow> string"
  mi_formatDisposition :: "string \<Rightarrow> string \<Rightarrow> string"
  mi_validMediaType :: "string \<Rightarrow> bool"
  mi_randomBoundary :: string

text \<open>
  The state of a \<open>multipart.Writer\<close> over a \<open>limitWriter\<close>; the pipe of the streaming reader has no
  limit, which is \<open>lw_max = -1\<close>. An operation returns the state reached and the error, if any.
\<close>

record mwriter =
  lw_out :: bytes
  lw_max :: int
  lw_wrote :: int
  mw_boundary :: string
  mw_started :: bool

definition limitWriter_Write :: "bytes \<Rightarrow> mwriter \<Rightarrow> mwriter \<times> goerr option" where
  "limitWriter_Write p w =
     (if lw_max w \<ge> 0 \<and> wrap64 (lw_wrote w + int (length p)) > lw_max w
      then (w, Some (wrapped ErrInvalidConfigValue ''multipart replay body exceeds limit''))
      else (w\<lparr>lw_out := lw_out w @ p, lw_wrote := wrap64 (lw_wrote w + int (length p))\<rparr>, None))"

definition mthen :: "mwriter \<times> goerr option \<Rightarrow> (mwriter \<Rightarrow> mwriter \<times> goerr option) \<Rightarrow> mwriter \<times> goerr option" where
  "mthen r f = (case r of (w, Some e) \<Rightarrow> (w, Some e) | (w, None) \<Rightarrow> f w)"

definition wrap_err :: "string \<Rightarrow> mwriter \<times> goerr option \<Rightarrow> mwriter \<times> goerr option" where
  "wrap_err msg r = (fst r, map_option (Wrapf msg) (snd r))"

definition crlf :: string where "crlf = [CHR 0x0D, CHR 0x0A]"

definition CreatePart :: "(string \<times> string) list \<Rightarrow> mwriter \<Rightarrow> mwriter \<times> goerr option" where
  "CreatePart hs w =
     limitWriter_Write
       ((if mw_started w then crlf @ ''--'' else ''--'') @ mw_boundary w @ crlf @
        concat (map (\<lambda>(k, v). k @ '': '' @ v @ crlf) hs) @ crlf) (w\<lparr>mw_started := True\<rparr>)"

definition WriteField :: "mimeLib \<Rightarrow> string \<Rightarrow> string \<Rightarrow> mwriter \<Rightarrow> mwriter \<times> goerr option" where
  "WriteField lib name v w =
     mthen (CreatePart [(''Content-Disposition'',
              ''form-data; name='' @ [CHR 0x22] @ mi_escapeQuotes lib name @ [CHR 0x22])] w)
       (limitWriter_Write v)"

definition CreateFormFile :: "mimeLib \<Rightarrow> string \<Rightarrow> string \<Rightarrow> mwriter \<Rightarrow> mwriter \<times> goerr option" where
  "CreateFormFile lib field filename =
     CreatePart
       [(''Content-Disposition'',
         ''form-data; name='' @ [CHR 0x22] @ mi_escapeQuotes lib field @ [CHR 0x22] @
         ''; filename='' @ [CHR 0x22] @ mi_escapeQuotes lib filename @ [CHR 0x22]),
        (''Content-Type'', ''application/octet-stream'')]"

definition Writer_Close :: "mwriter \<Rightarrow> mwriter \<times> goerr option" where
  "Writer_Close w = limitWriter_Write (crlf @ ''--'' @ mw_boundary w @ ''--'' @ crlf) w"

text \<open>
  \<open>io.Copy\<close>: what the reader yields is written before its error is reported. It copies in chunks; the
  model writes one, which differs in the bytes a failed copy leaves behind only.
\<close>

fun copy_from :: "goReader \<Rightarrow> mwriter \<Rightarrow> mwriter \<times> goerr option" where
  "copy_from (Stream d (Some e)) w = mthen (limitWriter_Write d w) (\<lambda>w. (w, Some e))"
| "copy_from (Stream d None) w = limitWriter_Write d w"
| "copy_from (MemReader d) w = limitWriter_Write d w"
| "copy_from (MemBuffer d) w = limitWriter_Write d w"
| "copy_from (SizedAt p n f d) w = limitWriter_Write d w"

definition validateMultipartFileMetadata :: "mimeLib \<Rightarrow> FilePart \<Rightarrow> goerr option" where
  "validateMultipartFileMetadata lib part =
     (if mi_formatDisposition lib (fp_Field part) (fp_Filename part) = []
      then Some (wrapped ErrInvalidConfigValue ''multipart filename'')
      else if fp_ContentType part \<noteq> [] \<and> \<not> mi_validMediaType lib (fp_ContentType part)
      then Some (wrapped ErrInvalidConfigValue ''multipart content type'')
      else None)"

definition createFilePart :: "mimeLib \<Rightarrow> FilePart \<Rightarrow> mwriter \<Rightarrow> mwriter \<times> goerr option" where
  "createFilePart lib part w =
     wrap_err ''creating form file failed''
       (if fp_ContentType part = [] then CreateFormFile lib (fp_Field part) (fp_Filename part) w
        else CreatePart [(''Content-Disposition'', mi_formatDisposition lib (fp_Field part) (fp_Filename part)),
                         (''Content-Type'', fp_ContentType part)] w)"

definition writeFilePart :: "mimeLib \<Rightarrow> FilePart \<Rightarrow> mwriter \<Rightarrow> mwriter \<times> goerr option" where
  "writeFilePart lib part w =
     (if fp_Field part = [] then (w, Some (wrapped ErrInvalidConfigValue ''multipart field''))
      else case fp_Body part of
             None \<Rightarrow> (w, Some (wrapped ErrInvalidConfigValue ''multipart body''))
           | Some body \<Rightarrow>
               (case validateMultipartFileMetadata lib part of
                  Some e \<Rightarrow> (w, Some e)
                | None \<Rightarrow> mthen (createFilePart lib part w)
                            (\<lambda>w. wrap_err ''copying file content failed'' (copy_from body w))))"

fun mfold :: "('x \<Rightarrow> mwriter \<Rightarrow> mwriter \<times> goerr option) \<Rightarrow> 'x list \<Rightarrow> mwriter \<Rightarrow> mwriter \<times> goerr option" where
  "mfold f [] w = (w, None)"
| "mfold f (x # xs) w = mthen (f x w) (mfold f xs)"

definition field_pairs :: "urlValues \<Rightarrow> (string \<times> string) list" where
  "field_pairs fvs = concat (map (\<lambda>(k, vs). map (Pair k) vs) fvs)"

definition writeTo :: "mimeLib \<Rightarrow> Multipart \<Rightarrow> mwriter \<Rightarrow> mwriter \<times> goerr option" where
  "writeTo lib m w =
     mthen (mfold (\<lambda>(k, v) w. wrap_err ''writing form field failed'' (WriteField lib k v w)) (field_pairs (mp_fields m)) w)
       (mfold (writeFilePart lib) (mp_parts m))"

text \<open>\<open>Writer.SetBoundary\<close> makes the same check as \<open>validMultipartBoundary\<close>.\<close>

definition setBoundary :: "mimeLib \<Rightarrow> Multipart \<Rightarrow> goerr + string" where
  "setBoundary lib m =
     (if mp_boundary m = [] then Inr (mi_randomBoundary lib)
      else if validMultipartBoundary (mp_boundary m) then Inr (mp_boundary m)
      else Inl (Wrapf ''setting custom boundary failed'' (Sentinel (OtherError ''mime: invalid boundary''))))"

definition new_writer :: "int \<Rightarrow> string \<Rightarrow> mwriter" where
  "new_writer mx b = \<lparr>lw_out = [], lw_max = mx, lw_wrote = 0, mw_boundary = b, mw_started = False\<rparr>"

definition FormDataContentType :: "string \<Rightarrow> string" where
  "FormDataContentType b =
     ''multipart/form-data; boundary='' @
       (if list_ex (\<lambda>c. c \<in> set (''()<>@,;:'' @ [CHR 0x5C, CHR 0x22] @ ''/[]?= '')) b
        then [CHR 0x22] @ b @ [CHR 0x22] else b)"

definition streamingReader :: "mimeLib \<Rightarrow> Multipart \<Rightarrow> goerr + (goReader \<times> string)" where
  "streamingReader lib m =
     ebind (setBoundary lib m) (\<lambda>b.
       let (w1, err) = writeTo lib m (new_writer (-1) b);
           (w2, closeErr) = Writer_Close w1
       in Inr (Stream (lw_out w2) (if err = None then closeErr else err), FormDataContentType b))"

definition bufferedReader :: "mimeLib \<Rightarrow> Multipart \<Rightarrow> goerr + (goReader \<times> string)" where
  "bufferedReader lib m =
     (if mp_replayMaxBytes m < 0 then Inl (wrapped ErrInvalidConfigValue ''multipart replay maxBytes'')
      else ebind (setBoundary lib m) (\<lambda>b.
        case mthen (writeTo lib m (new_writer (mp_replayMaxBytes m) b)) Writer_Close of
          (w, Some e) \<Rightarrow> Inl e
        | (w, None) \<Rightarrow> Inr (MemReader (lw_out w), FormDataContentType b)))"

definition multipart_reader :: "mimeLib \<Rightarrow> Multipart \<Rightarrow> goerr + (goReader \<times> string)" where
  "multipart_reader lib m = (if mp_canReplay m then bufferedReader lib m else streamingReader lib m)"

end
