(* ===== verification/Multipart_Properties.thy ===== *)
theory Multipart_Properties
  imports Multipart_Body
begin

text \<open>
  Correctness of multipart bodies: the boundary check is the grammar of RFC 2046, and the buffered
  body is the streamed body whenever that fits into the replay limit, and an error otherwise.
\<close>

section \<open>Boundaries\<close>

lemma boundary_char_not_space: "\<not> boundary_char CHR '' ''"
  by (simp add: boundary_char_def is_upper_def is_lower_def is_digit_def)

lemma boundary_loop_eq:
  "i + length cs = Suc lst \<Longrightarrow> cs \<noteq> [] \<Longrightarrow>
     boundary_loop i lst cs \<longleftrightarrow>
       list_all (\<lambda>c. boundary_char c \<or> c = CHR '' '') (butlast cs) \<and> boundary_char (last cs)"
proof (induction cs arbitrary: i)
  case (Cons c cs)
  show ?case
  proof (cases cs)
    case Nil
    then show ?thesis using Cons.prems(1) boundary_char_not_space by auto
  next
    case (Cons d ds)
    then have "i \<noteq> lst" and "cs \<noteq> []" and "i + 1 + length cs = Suc lst" using Cons.prems(1) by auto
    then show ?thesis using Cons.IH[of "i + 1"] by auto
  qed
qed simp


section \<open>Limited and unlimited writers\<close>

text \<open>
  \<open>lim_sim M f\<close>: run on a writer with limit M and on one without, the operation f does the same as
  long as the output fits, and fails on the limited writer once it does not.
\<close>

definition same_writer :: "int \<Rightarrow> mwriter \<Rightarrow> mwriter \<Rightarrow> bool" where
  "same_writer M w wl \<longleftrightarrow>
     lw_max w = -1 \<and> lw_max wl = M \<and> lw_out wl = lw_out w \<and> lw_wrote wl = int (length (lw_out w)) \<and>
     mw_boundary wl = mw_boundary w \<and> mw_started wl = mw_started w \<and>
     int (length (lw_out w)) \<le> M"

definition lim_sim :: "int \<Rightarrow> (mwriter \<Rightarrow> mwriter \<times> goerr option) \<Rightarrow> bool" where
  "lim_sim M f \<longleftrightarrow>
     (\<forall>w. lw_max w = -1 \<longrightarrow> lw_max (fst (f w)) = -1 \<and> length (lw_out w) \<le> length (lw_out (fst (f w)))) \<and>
     (\<forall>w wl. same_writer M w wl \<longrightarrow> int (length (lw_out (fst (f w)))) \<le> int64_max \<longrightarrow>
        (if int (length (lw_out (fst (f w)))) \<le> M
         then same_writer M (fst (f w)) (fst (f wl)) \<and> snd (f wl) = snd (f w)
         else snd (f wl) \<noteq> None))"

lemma limitWriter_unlimited:
  "lw_max w = -1 \<Longrightarrow> limitWriter_Write p w =
     (w\<lparr>lw_out := lw_out w @ p, lw_wrote := wrap64 (lw_wrote w + int (length p))\<rparr>, None)"
  by (simp add: limitWriter_Write_def)

lemma lim_sim_write: "0 \<le> M \<Longrightarrow> lim_sim M (limitWriter_Write p)"
proof -
  assume "0 \<le> M"
  have "wrap64 (int (length (lw_out w)) + int (length p)) = int (length (lw_out w)) + int (length p)"
    if "int (length (lw_out w @ p)) \<le> int64_max" for w :: mwriter
    using that by (intro wrap64_id) (simp add: in_int64_def int64_min_def)
  then show ?thesis
    using \<open>0 \<le> M\<close>
    by (auto simp: lim_sim_def limitWriter_unlimited same_writer_def) (auto simp: limitWriter_Write_def)
qed

lemma lim_sim_mthen:
  assumes f: "lim_sim M f" and g: "lim_sim M g"
  shows "lim_sim M (\<lambda>w. mthen (f w) g)"
proof -
  have len: "lw_max w = -1 \<Longrightarrow> lw_max (fst (mthen (f w) g)) = -1 \<and>
      length (lw_out w) \<le> length (lw_out (fst (mthen (f w) g)))" for w
    using f g unfolding lim_sim_def mthen_def
    by (auto split: prod.splits option.splits) (metis fst_conv order_trans)+
  have lim: "if int (length (lw_out (fst (mthen (f w) g)))) \<le> M
      then same_writer M (fst (mthen (f w) g)) (fst (mthen (f wl) g)) \<and> snd (mthen (f wl) g) = snd (mthen (f w) g)
      else snd (mthen (f wl) g) \<noteq> None"
    if s: "same_writer M w wl" and b: "int (length (lw_out (fst (mthen (f w) g)))) \<le> int64_max" for w wl
  proof -
    obtain w1 e1 where fw: "f w = (w1, e1)" by fastforce
    obtain wl1 el1 where fl: "f wl = (wl1, el1)" by fastforce
    have "lw_max w = -1" using s by (simp add: same_writer_def)
    then have m1: "lw_max w1 = -1" using f fw by (auto simp: lim_sim_def)
    have f': "int (length (lw_out w1)) \<le> int64_max \<Longrightarrow>
        if int (length (lw_out w1)) \<le> M then same_writer M w1 wl1 \<and> el1 = e1 else el1 \<noteq> None"
      using f s fw fl unfolding lim_sim_def by (metis fst_conv snd_conv)
    show ?thesis
    proof (cases e1)
      case (Some e)
      then have "mthen (f w) g = (w1, Some e)" using fw by (simp add: mthen_def)
      then show ?thesis using f' b Some fl by (auto simp: mthen_def split: if_splits)
    next
      case None
      then have t: "mthen (f w) g = g w1" using fw by (simp add: mthen_def)
      have "length (lw_out w1) \<le> length (lw_out (fst (g w1)))" using g m1 by (simp add: lim_sim_def)
      moreover have "same_writer M w1 wl1 \<Longrightarrow>
          if int (length (lw_out (fst (g w1)))) \<le> M
          then same_writer M (fst (g w1)) (fst (g wl1)) \<and> snd (g wl1) = snd (g w1) else snd (g wl1) \<noteq> None"
        using g b t unfolding lim_sim_def by auto
      ultimately show ?thesis
        using f' b None fl t by (auto simp: mthen_def split: if_splits option.splits)
    qed
  qed
  show ?thesis unfolding lim_sim_def using len lim by blast
qed

lemma lim_sim_wrap_err: "lim_sim M f \<Longrightarrow> lim_sim M (\<lambda>w. wrap_err msg (f w))"
  by (auto simp: lim_sim_def wrap_err_def)

lemma lim_sim_fail: "lim_sim M (\<lambda>w. (w, Some e))"
  by (auto simp: lim_sim_def)

lemma lim_sim_skip: "lim_sim M (\<lambda>w. (w, None))"
  by (auto simp: lim_sim_def same_writer_def)

lemma lim_simD:
  assumes "lim_sim M f"
  shows "lw_max w = -1 \<Longrightarrow> lw_max (fst (f w)) = -1 \<and> length (lw_out w) \<le> length (lw_out (fst (f w)))"
    and "same_writer M w wl \<Longrightarrow> int (length (lw_out (fst (f w)))) \<le> int64_max \<Longrightarrow>
      (if int (length (lw_out (fst (f w)))) \<le> M then same_writer M (fst (f w)) (fst (f wl)) \<and> snd (f wl) = snd (f w)
       else snd (f wl) \<noteq> None)"
  using assms unfolding lim_sim_def by blast+

text \<open>An operation that reads a part of the state both writers share before it writes.\<close>

lemma lim_sim_at:
  assumes "\<And>c. lim_sim M (f c)"
    and "\<And>w wl. same_writer M w wl \<Longrightarrow> key wl = key w \<and> same_writer M (h w) (h wl)"
    and "\<And>w. lw_max (h w) = lw_max w \<and> lw_out (h w) = lw_out w"
  shows "lim_sim M (\<lambda>w. f (key w) (h w))"
  unfolding lim_sim_def
proof (intro conjI allI impI)
  fix w :: mwriter assume "lw_max w = -1"
  then have *: "lw_max (h w) = -1" using assms(3) by simp
  show "lw_max (fst (f (key w) (h w))) = -1" using lim_simD(1)[OF assms(1) *] by blast
  show "length (lw_out w) \<le> length (lw_out (fst (f (key w) (h w))))"
    using lim_simD(1)[OF assms(1) *] assms(3) by metis
next
  fix w wl
  assume s: "same_writer M w wl" and b: "int (length (lw_out (fst (f (key w) (h w))))) \<le> int64_max"
  have "key wl = key w" using assms(2)[OF s] by blast
  then show "if int (length (lw_out (fst (f (key w) (h w))))) \<le> M
      then same_writer M (fst (f (key w) (h w))) (fst (f (key wl) (h wl))) \<and> snd (f (key wl) (h wl)) = snd (f (key w) (h w))
      else snd (f (key wl) (h wl)) \<noteq> None"
    using lim_simD(2)[OF assms(1) conjunct2[OF assms(2)[OF s]] b] by simp
qed

lemma lim_sim_CreatePart: "0 \<le> M \<Longrightarrow> lim_sim M (CreatePart hs)"
  using lim_sim_at[of M limitWriter_Write
      "\<lambda>w. (if mw_started w then crlf @ ''--'' else ''--'') @ mw_boundary w @ crlf @
        concat (map (\<lambda>(k, v). k @ '': '' @ v @ crlf) hs) @ crlf" "\<lambda>w. w\<lparr>mw_started := True\<rparr>"] lim_sim_write[of M]
  by (simp add: CreatePart_def[abs_def] same_writer_def)

lemma lim_sim_Close: "0 \<le> M \<Longrightarrow> lim_sim M Writer_Close"
  using lim_sim_at[of M limitWriter_Write "\<lambda>w. crlf @ ''--'' @ mw_boundary w @ ''--'' @ crlf" "\<lambda>w. w"] lim_sim_write[of M]
  by (simp add: Writer_Close_def[abs_def] same_writer_def)

lemma copy_from_fun:
  "copy_from (Stream d (Some e)) = (\<lambda>w. mthen (limitWriter_Write d w) (\<lambda>w. (w, Some e)))"
  "copy_from (Stream d None) = limitWriter_Write d" "copy_from (MemReader d) = limitWriter_Write d"
  "copy_from (MemBuffer d) = limitWriter_Write d" "copy_from (SizedAt p n f d) = limitWriter_Write d"
  by (simp_all add: fun_eq_iff)

lemma mfold_fun:
  "mfold f [] = (\<lambda>w. (w, None))" "mfold f (x # xs) = (\<lambda>w. mthen (f x w) (mfold f xs))"
  by (simp_all add: fun_eq_iff)

lemma lim_sim_copy: "0 \<le> M \<Longrightarrow> lim_sim M (copy_from r)"
  by (cases "(r, undefined :: mwriter)" rule: copy_from.cases)
    (simp_all add: copy_from_fun lim_sim_write lim_sim_mthen lim_sim_fail)

lemma lim_sim_mfold: "(\<And>x. x \<in> set xs \<Longrightarrow> lim_sim M (f x)) \<Longrightarrow> lim_sim M (mfold f xs)"
proof (induction xs)
  case (Cons x xs)
  then show ?case using lim_sim_mthen[of M "f x" "mfold f xs"] by (simp add: mfold_fun)
qed (simp add: mfold_fun lim_sim_skip)

lemma lim_sim_writeFilePart: "0 \<le> M \<Longrightarrow> lim_sim M (writeFilePart lib part)"
proof -
  assume M: "0 \<le> M"
  have "lim_sim M (createFilePart lib part)"
    unfolding createFilePart_def[abs_def] CreateFormFile_def
    by (rule lim_sim_wrap_err) (cases "fp_ContentType part = []"; simp add: lim_sim_CreatePart M)
  then show ?thesis
    unfolding writeFilePart_def[abs_def]
    by (cases "fp_Field part = []"; cases "fp_Body part"; cases "validateMultipartFileMetadata lib part")
      (simp_all add: lim_sim_fail lim_sim_mthen lim_sim_wrap_err lim_sim_copy M)
qed

lemma lim_sim_writeTo: "0 \<le> M \<Longrightarrow> lim_sim M (writeTo lib m)"
  unfolding writeTo_def[abs_def] WriteField_def
  by (intro lim_sim_mthen lim_sim_mfold)
    (auto simp: lim_sim_writeFilePart intro!: lim_sim_wrap_err lim_sim_mthen lim_sim_CreatePart lim_sim_write)

section \<open>The buffered body is the streamed body\<close>

text \<open>
  Claim C12: a replayable multipart body is the streamed body, buffered: it is built exactly when
  streaming it would end without an error and produce no more bytes than the replay limit, and then
  the bytes and the content type are the same.
\<close>

theorem buffered_is_streamed:
  assumes "0 \<le> mp_replayMaxBytes m" and "streamingReader lib m = Inr (Stream d e, ct)"
    and "int (length d) \<le> int64_max"
  shows "((\<exists>x. bufferedReader lib m = Inr x) \<longleftrightarrow> e = None \<and> int (length d) \<le> mp_replayMaxBytes m) \<and>
    (\<forall>x. bufferedReader lib m = Inr x \<longrightarrow> x = (MemReader d, ct))"
proof -
  let ?M = "mp_replayMaxBytes m"
  obtain b where b: "setBoundary lib m = Inr b"
    using assms(2) by (cases "setBoundary lib m") (auto simp: streamingReader_def)
  obtain w1 e1 where w1: "writeTo lib m (new_writer (-1) b) = (w1, e1)" by fastforce
  obtain w2 e2 where w2: "Writer_Close w1 = (w2, e2)" by fastforce
  obtain wl1 el1 where wl1: "writeTo lib m (new_writer ?M b) = (wl1, el1)" by fastforce
  obtain wl2 el2 where wl2: "mthen (writeTo lib m (new_writer ?M b)) Writer_Close = (wl2, el2)" by fastforce
  have d: "d = lw_out w2" "e = (if e1 = None then e2 else e1)" "ct = FormDataContentType b"
    using assms(2) b w1 w2 by (auto simp: streamingReader_def)
  have s0: "same_writer ?M (new_writer (-1) b) (new_writer ?M b)"
    using assms(1) by (simp add: same_writer_def new_writer_def)
  have m1: "lw_max w1 = -1" using lim_sim_writeTo[OF assms(1), of lib m] s0 w1
    by (auto simp: lim_sim_def same_writer_def)
  then have l12: "length (lw_out w1) \<le> length (lw_out w2)"
    using lim_sim_Close[OF assms(1)] w2 by (auto simp: lim_sim_def)
  have buf: "bufferedReader lib m = (case el2 of Some e \<Rightarrow> Inl e | None \<Rightarrow> Inr (MemReader (lw_out wl2), FormDataContentType b))"
    using assms(1) b wl2 by (simp add: bufferedReader_def split: option.splits)
  show ?thesis
  proof (cases e1)
    case None
    have "lim_sim ?M (\<lambda>w. mthen (writeTo lib m w) Writer_Close)"
      by (intro lim_sim_mthen lim_sim_writeTo lim_sim_Close assms(1))
    moreover have "mthen (writeTo lib m (new_writer (-1) b)) Writer_Close = (w2, e2)"
      using w1 w2 None by (simp add: mthen_def)
    ultimately have "if int (length d) \<le> ?M then same_writer ?M w2 wl2 \<and> el2 = e2 else el2 \<noteq> None"
      using s0 assms(3) wl2 d(1) unfolding lim_sim_def by (metis fst_conv snd_conv)
    moreover have "e2 = None" using m1 w2 by (auto simp: Writer_Close_def limitWriter_unlimited)
    ultimately show ?thesis using None d buf by (auto simp: same_writer_def split: if_splits)
  next
    case (Some x)
    have "int (length (lw_out w1)) \<le> int64_max" using l12 assms(3) d(1) by simp
    then have "if int (length (lw_out w1)) \<le> ?M then same_writer ?M w1 wl1 \<and> el1 = e1 else el1 \<noteq> None"
      using lim_sim_writeTo[OF assms(1), of lib m] s0 w1 wl1 unfolding lim_sim_def by (metis fst_conv snd_conv)
    then have "el1 \<noteq> None" using Some by (auto split: if_splits)
    then have "el2 \<noteq> None" using wl1 wl2 by (auto simp: mthen_def)
    then show ?thesis using Some d buf by auto
  qed
qed

definition ex_lib :: mimeLib where
  "ex_lib = \<lparr>mi_escapeQuotes = (\<lambda>s. s), mi_formatDisposition = (\<lambda>f n. ''form-data; name='' @ f @ ''; filename='' @ n),
     mi_validMediaType = (\<lambda>_. True), mi_randomBoundary = ''b0''\<rparr>"

definition ex_multipart :: Multipart where
  "ex_multipart = Multipart_Replayable 20 (Multipart_Boundary ''xx'' (Multipart_Field ''a'' ''1'' NewMultipart))"

theorem buffered_is_streamed_witness:
  "\<exists>x. bufferedReader ex_lib (Multipart_Replayable 100 ex_multipart) = Inr x \<and>
     (\<nexists>y. bufferedReader ex_lib ex_multipart = Inr y)"
proof -
  let ?d = "''--xx'' @ crlf @ ''Content-Disposition: form-data; name='' @ [CHR 0x22] @ ''a'' @ [CHR 0x22] @ crlf @ crlf @
    ''1'' @ crlf @ ''--xx--'' @ crlf"
  have ev: "streamingReader ex_lib (Multipart_Replayable n ex_multipart) = Inr (Stream ?d None, ''multipart/form-data; boundary=xx'')" for n
    by (simp add: ex_multipart_def streamingReader_def setBoundary_def Multipart_Replayable_def Multipart_Boundary_def
        Multipart_Field_def NewMultipart_def validMultipartBoundary_def boundary_char_def is_upper_def is_lower_def
        writeTo_def field_pairs_def Values_Add_def Values_All_def WriteField_def CreatePart_def limitWriter_Write_def
        new_writer_def mthen_def wrap_err_def Writer_Close_def crlf_def ex_lib_def FormDataContentType_def)
  have "Multipart_Replayable 20 ex_multipart = ex_multipart" and "mp_replayMaxBytes ex_multipart = 20"
    by (simp_all add: ex_multipart_def Multipart_Replayable_def)
  then show ?thesis
    using buffered_is_streamed[OF _ ev[of 100]] buffered_is_streamed[OF _ ev[of 20]]
    by (simp add: Multipart_Replayable_def crlf_def int64_max_def)
qed

end
