(* ===== verification/Request_Body.thy ===== *)
theory Request_Body
  imports Multipart_Body
begin

text \<open>
  Model of the body half of \<open>body.go\<close> (the builder methods are in \<open>Request_Builder\<close>), of \<open>form.go\<close> and
  of the encoders of \<open>codec.go\<close>, \<open>json.go\<close>, \<open>xml.go\<close> and \<open>yaml.go\<close>. The marshalling functions of
  \<open>encoding/json\<close>, \<open>encoding/xml\<close> and \<open>goccy/go-yaml\<close> and \<open>query.Values\<close> of \<open>google/go-querystring\<close>
  are arguments.
\<close>

section \<open>Values of type any\<close>

datatype goany =
    GoNil
  | GoString string
  | GoBytes bytes
  | GoReader goReader
  | GoValues urlValues
  | GoStringMap "(string, string) gomap"
  | GoInt int
  | GoBool bool
  | GoList "goany list"
  | GoStruct "(string \<times> goany) list"

text \<open>\<open>fmt.Errorf("%w: %w", sentinel, err)\<close>\<close>

definition wrap2 :: "sentinel \<Rightarrow> goerr \<Rightarrow> goerr" where
  "wrap2 s e = Multi [Sentinel s, e]"

section \<open>Forms\<close>

definition stringMapToValues :: "(string, string) gomap \<Rightarrow> urlValues" where
  "stringMapToValues data = foldl (\<lambda>q p. Values_Set q (fst p) (snd p)) [] data"

definition parseFormFields :: "(goany \<Rightarrow> goerr + urlValues) \<Rightarrow> goany \<Rightarrow> goerr + urlValues" where
  "parseFormFields qv fvs =
     (case fvs of
        GoValues data \<Rightarrow> Inr data
      | GoStringMap data \<Rightarrow> Inr (stringMapToValues data)
      | _ \<Rightarrow> (case qv fvs of Inl e \<Rightarrow> Inl (wrap2 ErrUnsupportedFormFieldsType e) | Inr vs \<Rightarrow> Inr vs))"

section \<open>Encoders\<close>

type_synonym Encoder = "goany \<Rightarrow> goerr + goReader"

definition codec_Encode :: "(goany \<Rightarrow> goerr + bytes) \<Rightarrow> (goany \<Rightarrow> goerr + bytes) option \<Rightarrow> Encoder" where
  "codec_Encode dflt marshalFunc v =
     (case (case marshalFunc of Some f \<Rightarrow> f v | None \<Rightarrow> dflt v) of
        Inl e \<Rightarrow> Inl (wrap2 ErrEncodingFailed e)
      | Inr data \<Rightarrow> Inr (MemReader data))"

definition JSONEncoder_Encode :: "(goany \<Rightarrow> goerr + bytes) \<Rightarrow> (goany \<Rightarrow> goerr + bytes) option \<Rightarrow> Encoder" where
  "JSONEncoder_Encode json_Marshal marshalFunc = codec_Encode json_Marshal marshalFunc"

definition XMLEncoder_Encode :: "(goany \<Rightarrow> goerr + bytes) \<Rightarrow> (goany \<Rightarrow> goerr + bytes) option \<Rightarrow> Encoder" where
  "XMLEncoder_Encode xml_Marshal marshalFunc = codec_Encode xml_Marshal marshalFunc"

definition YAMLEncoder_Encode :: "(goany \<Rightarrow> goerr + bytes) \<Rightarrow> (goany \<Rightarrow> goerr + bytes) option \<Rightarrow> Encoder" where
  "YAMLEncoder_Encode yaml_Marshal marshalFunc = codec_Encode yaml_Marshal marshalFunc"

section \<open>Decoders\<close>

text \<open>
  \<open>Decode(r, v)\<close> fills what \<open>v\<close> points to: from the reader and the old contents, an error or the new
  contents. The unmarshalling functions of the codec packages are arguments.
\<close>

type_synonym Decoder = "goReader \<Rightarrow> goany \<Rightarrow> goerr + goany"

definition JSONDecoder_Decode :: "Decoder \<Rightarrow> Decoder option \<Rightarrow> Decoder" where
  "JSONDecoder_Decode unmarshalRead decodeFunc r v =
     (case decodeFunc of
        Some f \<Rightarrow> f r v
      | None \<Rightarrow> (case unmarshalRead r v of Inl e \<Rightarrow> Inl (Wrapf ''failed to decode JSON'' e) | Inr x \<Rightarrow> Inr x))"

definition XMLDecoder_Decode :: "(bytes \<Rightarrow> goany \<Rightarrow> goerr + goany) \<Rightarrow> (bytes \<Rightarrow> goany \<Rightarrow> goerr + goany) option \<Rightarrow> Decoder" where
  "XMLDecoder_Decode xml_Unmarshal unmarshalFunc r v =
     (case ReadAll r of
        Inl e \<Rightarrow> Inl (Wrapf ''failed to read XML data'' e)
      | Inr data \<Rightarrow>
          (case (case unmarshalFunc of Some f \<Rightarrow> f data v | None \<Rightarrow> xml_Unmarshal data v) of
             Inl e \<Rightarrow> Inl (Wrapf ''failed to unmarshal XML'' e) | Inr x \<Rightarrow> Inr x))"

definition YAMLDecoder_Decode :: "Decoder \<Rightarrow> Decoder option \<Rightarrow> Decoder" where
  "YAMLDecoder_Decode yaml_Decode decodeFunc r v =
     (case decodeFunc of
        Some f \<Rightarrow> f r v
      | None \<Rightarrow> (case yaml_Decode r v of Inl e \<Rightarrow> Inl (Wrapf ''failed to decode YAML'' e) | Inr x \<Rightarrow> Inr x))"

section \<open>Plans\<close>

datatype requestBodyKind =
    requestBodyNone | requestBodyJSON | requestBodyXML | requestBodyYAML | requestBodyText
  | requestBodyBytes | requestBodyReader | requestBodyForm | requestBodyMultipart

record requestBodyFormOccurrence =
  fo_name :: string
  fo_value :: Value

record requestBodyPlan =
  bp_kind :: requestBodyKind
  bp_value :: goany
  bp_valuePublic :: bool
  bp_formOccurrences :: "requestBodyFormOccurrence list"
  bp_multipart :: "Multipart option"
  bp_contentType :: string
  bp_generatedContentType :: bool
  bp_readerLength :: int
  bp_hasReaderLength :: bool

definition zeroBodyPlan :: requestBodyPlan where
  "zeroBodyPlan =
     \<lparr>bp_kind = requestBodyNone, bp_value = GoNil, bp_valuePublic = False, bp_formOccurrences = [],
      bp_multipart = None, bp_contentType = [], bp_generatedContentType = False, bp_readerLength = 0,
      bp_hasReaderLength = False\<rparr>"

definition formAllPublic :: "requestBodyPlan \<Rightarrow> bool" where
  "formAllPublic p \<longleftrightarrow>
     \<not> (bp_kind p \<noteq> requestBodyForm \<or> length (bp_formOccurrences p) = 0) \<and>
     list_all (\<lambda>occ. isPublic (fo_value occ)) (bp_formOccurrences p)"

section \<open>Materialised bodies\<close>

record requestBody =
  mb_body :: bodySource
  mb_getBody :: "(nat \<Rightarrow> goerr + goReader) option"
  mb_contentLength :: int
  mb_contentType :: string

definition zeroRequestBody :: requestBody where
  "zeroRequestBody = \<lparr>mb_body = SrcNil, mb_getBody = None, mb_contentLength = 0, mb_contentType = []\<rparr>"

definition replayableRequestBody :: "bytes \<Rightarrow> string \<Rightarrow> requestBody" where
  "replayableRequestBody data contentType =
     \<lparr>mb_body = Src (MemReader data), mb_getBody = Some (\<lambda>_. Inr (MemReader data)),
      mb_contentLength = int (length data), mb_contentType = contentType\<rparr>"

definition encodeDeliveryBody :: "goany \<Rightarrow> string \<Rightarrow> Encoder \<Rightarrow> goerr + requestBody" where
  "encodeDeliveryBody v contentType encode =
     (if contentType = [] then Inl (wrapped ErrUnsupportedContentType ''missing Content-Type'')
      else ebind (encode v) (\<lambda>body.
        case ReadAll body of
          Inl e \<Rightarrow> Inl (Wrapf ''read encoded request body'' e)
        | Inr data \<Rightarrow> Inr (replayableRequestBody data contentType)))"

text \<open>\<open>readSizedReaderAt\<close>: the position, the size, then one read of the rest.\<close>

definition readSizedReaderAt ::
  "goerr + int \<Rightarrow> int \<Rightarrow> (int \<Rightarrow> int \<Rightarrow> bytes \<times> goerr option) \<Rightarrow> goerr + bytes" where
  "readSizedReaderAt seek sz readAt =
     (case seek of
        Inl e \<Rightarrow> Inl (Wrapf ''read replayable request body position'' e)
      | Inr offset \<Rightarrow>
          if offset < 0 \<or> offset > sz
          then Inl (wrapped ErrRequestBodyReadIncomplete ''request body offset outside size'')
          else case readAt (sz - offset) offset of
                 (data, err) \<Rightarrow>
                   (case (case err of None \<Rightarrow> None | Some e \<Rightarrow> if errors_is e IoEOF then None else Some e) of
                      Some e \<Rightarrow> Inl (Wrapf ''read replayable request body'' e)
                    | None \<Rightarrow> if int (length data) \<noteq> sz - offset
                               then Inl (wrapped ErrRequestBodyReadIncomplete ''short read'')
                               else Inr data))"

fun snapshotReaderBody :: "goReader \<Rightarrow> goerr + bytes option" where
  "snapshotReaderBody (MemBuffer d) = Inr (Some d)"
| "snapshotReaderBody (MemReader d) =
     map_sum id Some (readSizedReaderAt (Inr 0) (int (length d)) (\<lambda>n off. (drop (nat off) d, if d = [] then Some (Sentinel IoEOF) else None)))"
| "snapshotReaderBody (SizedAt seek sz readAt rest) = map_sum id Some (readSizedReaderAt seek sz readAt)"
| "snapshotReaderBody (Stream d e) = Inr None"

definition readerDeliveryBody :: "goReader \<Rightarrow> string \<Rightarrow> goerr + requestBody" where
  "readerDeliveryBody body contentType =
     (let prepared = \<lparr>mb_body = Src body, mb_getBody = None, mb_contentLength = 0, mb_contentType = contentType\<rparr>
      in ebind (snapshotReaderBody body) (\<lambda>snap.
           case snap of
             None \<Rightarrow> Inr prepared
           | Some data \<Rightarrow> Inr (prepared\<lparr>mb_getBody := Some (\<lambda>_. Inr (MemReader data)),
                                        mb_contentLength := int (length data)\<rparr>)))"

definition encodeRawBody :: "goany \<Rightarrow> goerr + goReader" where
  "encodeRawBody v =
     (case v of
        GoString d \<Rightarrow> Inr (MemReader d)
      | GoBytes d \<Rightarrow> Inr (MemReader d)
      | GoReader r \<Rightarrow> Inr r
      | _ \<Rightarrow> Inl (wrapped ErrUnsupportedContentType ''expected string, []byte, or io.Reader''))"

text \<open>
  The encoders and the mime functions a snapshot brings along. A failed type assertion
  \<open>body.value.(string)\<close> would panic; the selections below make it impossible, and the model has it
  as an error value of its own.
\<close>

record codecs =
  cd_json :: Encoder
  cd_xml :: Encoder
  cd_yaml :: Encoder
  cd_mime :: mimeLib

definition panicTypeAssertion :: goerr where
  "panicTypeAssertion = Sentinel (OtherError ''panic: interface conversion'')"

definition buildDeliveryBody :: "codecs \<Rightarrow> requestBodyPlan \<Rightarrow> httpHeader \<Rightarrow> goerr + requestBody" where
  "buildDeliveryBody snap body headers =
     (let contentType = Header_Get headers ''Content-Type''
      in case bp_kind body of
           requestBodyNone \<Rightarrow> Inr zeroRequestBody
         | requestBodyJSON \<Rightarrow> encodeDeliveryBody (bp_value body) contentType (cd_json snap)
         | requestBodyXML \<Rightarrow> encodeDeliveryBody (bp_value body) contentType (cd_xml snap)
         | requestBodyYAML \<Rightarrow> encodeDeliveryBody (bp_value body) contentType (cd_yaml snap)
         | requestBodyText \<Rightarrow>
             (case bp_value body of GoString d \<Rightarrow> Inr (replayableRequestBody d contentType) | _ \<Rightarrow> Inl panicTypeAssertion)
         | requestBodyBytes \<Rightarrow>
             (case bp_value body of GoBytes d \<Rightarrow> Inr (replayableRequestBody d contentType) | _ \<Rightarrow> Inl panicTypeAssertion)
         | requestBodyReader \<Rightarrow>
             ebind (encodeRawBody (bp_value body)) (\<lambda>reader.
               if bp_hasReaderLength body
               then Inr \<lparr>mb_body = (if bp_readerLength body = 0 then SrcNoBody else Src reader), mb_getBody = None,
                         mb_contentLength = bp_readerLength body, mb_contentType = contentType\<rparr>
               else readerDeliveryBody reader contentType)
         | requestBodyForm \<Rightarrow>
             Inr (replayableRequestBody
               (Values_Encode (foldl (\<lambda>q occ. Values_Add q (fo_name occ) (rawValue (fo_value occ))) [] (bp_formOccurrences body)))
               contentType)
         | requestBodyMultipart \<Rightarrow>
             (case bp_multipart body of
                None \<Rightarrow> Inl (Sentinel (OtherError ''panic: nil multipart''))
              | Some m \<Rightarrow>
                  ebind (multipart_reader (cd_mime snap) m) (\<lambda>(reader, generated).
                    let ct = (if bp_generatedContentType body then generated else [])
                    in if \<not> mp_canReplay m
                       then Inr \<lparr>mb_body = Src reader, mb_getBody = None, mb_contentLength = 0, mb_contentType = ct\<rparr>
                       else case ReadAll reader of
                              Inl e \<Rightarrow> Inl (Wrapf ''read replayable multipart body'' e)
                            | Inr data \<Rightarrow> Inr (replayableRequestBody data ct))))"

section \<open>Replays\<close>

text \<open>
  The bytes a reader will yield. For a caller's sized reader the contract of \<open>io.ReaderAt\<close> and
  \<open>io.Seeker\<close> ties \<open>ReadAt\<close> at the current position to what \<open>Read\<close> yields.
\<close>

fun reader_ok :: "goReader \<Rightarrow> bool" where
  "reader_ok (SizedAt seek sz readAt rest) \<longleftrightarrow>
     (case seek of
        Inl e \<Rightarrow> True
      | Inr offset \<Rightarrow> int (length (fst (readAt (sz - offset) offset))) = sz - offset \<longrightarrow>
                      fst (readAt (sz - offset) offset) = rest)"
| "reader_ok _ = True"

lemma readSizedReaderAt_ok:
  assumes "reader_ok (SizedAt seek sz readAt rest)" and "readSizedReaderAt seek sz readAt = Inr d"
  shows "d = rest"
  using assms by (auto simp: readSizedReaderAt_def split: sum.splits if_splits prod.splits option.splits)

lemma snapshot_MemReader [simp]: "snapshotReaderBody (MemReader d) = Inr (Some d)"
  by (simp add: readSizedReaderAt_def)

declare snapshotReaderBody.simps(2) [simp del]

lemma snapshot_same_bytes:
  assumes "reader_ok r" and "snapshotReaderBody r = Inr (Some d)"
  shows "ReadAll r = Inr d"
  using assms
proof (cases r)
  case (SizedAt seek sz readAt rest)
  then have "readSizedReaderAt seek sz readAt = Inr d"
    using assms(2) by (cases "readSizedReaderAt seek sz readAt") auto
  then show ?thesis using readSizedReaderAt_ok[of seek sz readAt rest d] assms(1) SizedAt by simp
qed auto

definition body_reader_ok :: "requestBodyPlan \<Rightarrow> bool" where
  "body_reader_ok p \<longleftrightarrow> (case bp_value p of GoReader r \<Rightarrow> reader_ok r | _ \<Rightarrow> True)"

lemma encodeDeliveryBody_replayable:
  "encodeDeliveryBody v ct encode = Inr mb \<Longrightarrow> \<exists>d. mb = replayableRequestBody d ct"
  by (auto simp: encodeDeliveryBody_def ebind_Inr_iff split: if_splits sum.splits)
    (metis sum.exhaust)

lemma readerDelivery_same_bytes:
  assumes "readerDeliveryBody r ct = Inr mb" and "reader_ok r" and "mb_getBody mb = Some g"
  shows "\<exists>d. mb_body mb = Src r \<and> ReadAll r = Inr d \<and> mb_contentLength mb = int (length d) \<and> (\<forall>n. g n = Inr (MemReader d))"
proof -
  obtain d where d: "snapshotReaderBody r = Inr (Some d)"
    using assms(1,3) by (auto simp: readerDeliveryBody_def ebind_Inr_iff Let_def split: option.splits)
  then show ?thesis
    using assms snapshot_same_bytes[OF assms(2) d] by (auto simp: readerDeliveryBody_def Let_def)
qed

text \<open>
  Claim C11: whenever a materialised body can be replayed, every replay yields the bytes of the first
  delivery, and the declared content length is their number. (A caller's sized reader must keep the
  contract between ReadAt and Read.)
\<close>

theorem replays_same_bytes:
  assumes "buildDeliveryBody snap p headers = Inr mb" and "mb_getBody mb = Some g" and "body_reader_ok p"
  shows "\<exists>r d. mb_body mb = Src r \<and> ReadAll r = Inr d \<and> mb_contentLength mb = int (length d) \<and>
    (\<forall>n. g n = Inr (MemReader d))"
proof (cases "\<exists>d ct. mb = replayableRequestBody d ct")
  case True
  then show ?thesis using assms(2) by (auto simp: replayableRequestBody_def)
next
  case False
  obtain r where r: "encodeRawBody (bp_value p) = Inr r" "readerDeliveryBody r (Header_Get headers ''Content-Type'') = Inr mb"
  proof (cases "bp_kind p = requestBodyReader")
    case True
    then show ?thesis
      using assms(1,2) that by (auto simp: buildDeliveryBody_def ebind_Inr_iff Let_def split: if_splits)
  next
    case False
    then show ?thesis
      using assms(1,2) \<open>\<nexists>d ct. mb = replayableRequestBody d ct\<close>
      by (auto simp: buildDeliveryBody_def ebind_Inr_iff zeroRequestBody_def Let_def
          dest!: encodeDeliveryBody_replayable
          split: requestBodyKind.splits if_splits goany.splits option.splits sum.splits)
  qed
  have "reader_ok r"
    using r(1) assms(3) by (auto simp: encodeRawBody_def body_reader_ok_def split: goany.splits)
  then show ?thesis using readerDelivery_same_bytes[OF r(2) _ assms(2)] by blast
qed

definition ex_codecs :: codecs where
  "ex_codecs = \<lparr>cd_json = (\<lambda>_. Inr (MemReader ''null'')), cd_xml = (\<lambda>_. Inr (MemReader ''<a/>'')),
     cd_yaml = (\<lambda>_. Inr (MemReader ''a: 1'')),
     cd_mime = \<lparr>mi_escapeQuotes = (\<lambda>s. s), mi_formatDisposition = (\<lambda>f n. f @ n), mi_validMediaType = (\<lambda>_. True),
       mi_randomBoundary = ''b0''\<rparr>\<rparr>"

definition ex_sized :: goReader where
  "ex_sized = SizedAt (Inr 2) 5 (\<lambda>n off. (take (nat n) (drop (nat off) ''hello''), None)) ''llo''"

theorem replays_same_bytes_witness:
  "\<exists>mb g. buildDeliveryBody ex_codecs (zeroBodyPlan\<lparr>bp_kind := requestBodyReader, bp_value := GoReader ex_sized\<rparr>) [] = Inr mb \<and>
     mb_getBody mb = Some g \<and> (\<exists>r d. mb_body mb = Src r \<and> ReadAll r = Inr d \<and> mb_contentLength mb = int (length d) \<and>
       (\<forall>n. g n = Inr (MemReader d)))"
proof -
  let ?p = "zeroBodyPlan\<lparr>bp_kind := requestBodyReader, bp_value := GoReader ex_sized\<rparr>"
  have "body_reader_ok ?p" by (simp add: body_reader_ok_def ex_sized_def)
  moreover obtain mb g where "buildDeliveryBody ex_codecs ?p [] = Inr mb" "mb_getBody mb = Some g"
    by (simp add: buildDeliveryBody_def zeroBodyPlan_def encodeRawBody_def readerDeliveryBody_def ex_sized_def
        readSizedReaderAt_def)
  ultimately show ?thesis using replays_same_bytes[of ex_codecs ?p "[]" mb g] by blast
qed

end
