(* ===== verification/Auth.thy ===== *)
theory Auth
  imports Go_Http
begin

text \<open>
  Model of \<open>auth.go\<close> and of \<open>validateAuthOption\<close>/\<open>isNilInterface\<close> of \<open>client_option.go\<close> as far as
  authentication goes. An \<open>AuthMethod\<close> is one of the three built-in structs by value, a pointer to
  one (None for a typed nil), or a caller's implementation: whether it is a typed nil, what its
  \<open>Valid\<close> says and what its \<open>Apply\<close> does to a request. The nil interface is None of an option.
\<close>

section \<open>Methods\<close>

datatype builtinAuth =
    BasicAuth string string
  | BearerAuth string
  | CustomAuth string

datatype 'o AuthMethod =
    AuthValue builtinAuth
  | AuthPointer "builtinAuth option"
  | AuthOther bool bool "'o httpRequest \<Rightarrow> 'o httpRequest"

fun builtin_Valid :: "builtinAuth \<Rightarrow> bool" where
  "builtin_Valid (BasicAuth u p) \<longleftrightarrow> u \<noteq> [] \<and> p \<noteq> []"
| "builtin_Valid (BearerAuth t) \<longleftrightarrow> t \<noteq> []"
| "builtin_Valid (CustomAuth h) \<longleftrightarrow> h \<noteq> []"

fun builtin_Apply :: "builtinAuth \<Rightarrow> 'o httpRequest \<Rightarrow> 'o httpRequest" where
  "builtin_Apply (BasicAuth u p) r = SetBasicAuth u p r"
| "builtin_Apply (BearerAuth t) r =
     (if builtin_Valid (BearerAuth t)
      then r\<lparr>rq_header := Header_Set (rq_header r) ''Authorization'' (''Bearer '' @ t)\<rparr> else r)"
| "builtin_Apply (CustomAuth h) r =
     (if builtin_Valid (CustomAuth h)
      then r\<lparr>rq_header := Header_Set (rq_header r) ''Authorization'' h\<rparr> else r)"

text \<open>Calling \<open>Valid\<close> or \<open>Apply\<close> through a nil pointer would panic; every caller checks first.\<close>

fun auth_Valid :: "'o AuthMethod \<Rightarrow> bool" where
  "auth_Valid (AuthValue a) = builtin_Valid a"
| "auth_Valid (AuthPointer (Some a)) = builtin_Valid a"
| "auth_Valid (AuthPointer None) = False"
| "auth_Valid (AuthOther isnil valid ap) = valid"

fun auth_Apply :: "'o AuthMethod \<Rightarrow> 'o httpRequest \<Rightarrow> 'o httpRequest" where
  "auth_Apply (AuthValue a) r = builtin_Apply a r"
| "auth_Apply (AuthPointer (Some a)) r = builtin_Apply a r"
| "auth_Apply (AuthPointer None) r = r"
| "auth_Apply (AuthOther isnil valid ap) r = ap r"

fun isNilAuth :: "'o AuthMethod option \<Rightarrow> bool" where
  "isNilAuth None = True"
| "isNilAuth (Some (AuthValue a)) = False"
| "isNilAuth (Some (AuthPointer p)) = (p = None)"
| "isNilAuth (Some (AuthOther isnil valid ap)) = isnil"

definition validateAuthOption :: "'o AuthMethod option \<Rightarrow> goerr option" where
  "validateAuthOption auth =
     (if isNilAuth auth \<or> (case auth of None \<Rightarrow> True | Some a \<Rightarrow> \<not> auth_Valid a)
      then Some (invalidOptionValue ''Auth'') else None)"

section \<open>Shapes\<close>

datatype authShapeKind = builtInAuthUnknown | builtInAuthBasic | builtInAuthBearer | builtInAuthCustom

fun shape_of :: "builtinAuth \<Rightarrow> authShapeKind" where
  "shape_of (BasicAuth u p) = builtInAuthBasic"
| "shape_of (BearerAuth t) = builtInAuthBearer"
| "shape_of (CustomAuth h) = builtInAuthCustom"

text \<open>The results \<open>(shape, recognized, err)\<close> of \<open>builtInAuthShape\<close>.\<close>

definition builtInAuthShape :: "'o AuthMethod option \<Rightarrow> authShapeKind \<times> bool \<times> goerr option" where
  "builtInAuthShape auth =
     (let known = (\<lambda>a. if builtin_Valid a then (shape_of a, True, None)
                       else (builtInAuthUnknown, True, Some (wrapped ErrInvalidConfigValue ''auth'')))
      in case auth of
           None \<Rightarrow> (builtInAuthUnknown, False, None)
         | Some a \<Rightarrow>
             if isNilAuth auth then (builtInAuthUnknown, True, Some (wrapped ErrInvalidConfigValue ''auth''))
             else (case a of
                     AuthValue v \<Rightarrow> known v
                   | AuthPointer (Some v) \<Rightarrow> known v
                   | _ \<Rightarrow> (builtInAuthUnknown, False, None)))"

lemma builtInAuthShape_validated:
  assumes "validateAuthOption auth = None"
  shows "snd (snd (builtInAuthShape auth)) = None"
  using assms
  by (cases auth rule: isNilAuth.cases)
    (auto simp: validateAuthOption_def builtInAuthShape_def Let_def split: if_splits)

section \<open>Base64 and the credentials on the wire\<close>

text \<open>The value of a symbol of the alphabet, and the decoding of a padded text.\<close>

definition b64_value :: "char \<Rightarrow> nat option" where
  "b64_value c = find (\<lambda>n. b64 n = c) [0..<64]"

fun base64_decode :: "string \<Rightarrow> bytes option" where
  "base64_decode [] = Some []"
| "base64_decode (w # x # y # z # s) =
     (case (b64_value w, b64_value x) of
        (Some a, Some b) \<Rightarrow>
          if z = CHR ''='' \<and> s = [] then
            (if y = CHR ''='' then Some [char_of (a * 4 + b div 16)]
             else (case b64_value y of
                     Some c \<Rightarrow> Some [char_of (a * 4 + b div 16), char_of (b mod 16 * 16 + c div 4)]
                   | None \<Rightarrow> None))
          else (case (b64_value y, b64_value z) of
                  (Some c, Some d) \<Rightarrow>
                    map_option (\<lambda>r. [char_of (a * 4 + b div 16), char_of (b mod 16 * 16 + c div 4),
                                      char_of (c mod 4 * 64 + d)] @ r) (base64_decode s)
                | _ \<Rightarrow> None)
      | _ \<Rightarrow> None)"
| "base64_decode _ = None"

lemma distinct_alphabet: "distinct base64_alphabet" "length base64_alphabet = 64"
  by (simp_all add: base64_alphabet_def)

lemma b64_inj: "n < 64 \<Longrightarrow> m < 64 \<Longrightarrow> b64 n = b64 m \<Longrightarrow> n = m"
  using distinct_alphabet by (simp add: b64_def nth_eq_iff_index_eq)

lemma find_unique: "x \<in> set xs \<Longrightarrow> P x \<Longrightarrow> (\<And>y. y \<in> set xs \<Longrightarrow> P y \<Longrightarrow> y = x) \<Longrightarrow> find P xs = Some x"
proof (induction xs)
  case (Cons y ys)
  show ?case
  proof (cases "P y")
    case True
    then show ?thesis using Cons.prems(3)[of y] by simp
  next
    case False
    then have "x \<in> set ys" using Cons.prems(1,2) by auto
    then have "find P ys = Some x"
      by (rule Cons.IH[OF _ Cons.prems(2)]) (rule Cons.prems(3), simp_all)
    then show ?thesis using False by simp
  qed
qed simp

lemma b64_value_b64 [simp]: "b64_value (b64 n) = Some (n mod 64)"
  unfolding b64_value_def
proof (rule find_unique)
  show "n mod 64 \<in> set [0..<64]" by (simp del: upt_rec_numeral)
  show "b64 (n mod 64) = b64 n" by (simp add: b64_def)
  show "y = n mod 64" if "y \<in> set [0..<64]" and "b64 y = b64 n" for y
    using that b64_inj[of y "n mod 64"] by (simp add: b64_def del: upt_rec_numeral)
qed

lemma b64_not_pad: "b64 n \<noteq> CHR ''=''"
proof -
  have "CHR ''='' \<notin> set base64_alphabet" by (simp add: base64_alphabet_def)
  moreover have "b64 n \<in> set base64_alphabet" unfolding b64_def by (rule nth_mem) (simp add: distinct_alphabet(2))
  ultimately show ?thesis by auto
qed

lemma byte_bound: "(of_char c :: nat) < 256"
  by (rule of_char_less_256)

lemma digit64: "w < 64 \<Longrightarrow> (q * 64 + w) mod 64 = w \<and> (q * 64 + w) div 64 = q" for q w :: nat
  by simp

lemma digits64:
  fixes w x y z :: nat
  assumes "x < 64" and "y < 64" and "z < 64" and "w < 64" and "n = ((x * 64 + y) * 64 + z) * 64 + w"
  shows "n mod 64 = w" and "n div 64 mod 64 = z" and "n div 4096 mod 64 = y" and "n div 262144 mod 64 = x"
proof -
  have 1: "n mod 64 = w" "n div 64 = (x * 64 + y) * 64 + z" using digit64[OF assms(4)] unfolding assms(5) by blast+
  then have 2: "n div 64 mod 64 = z" "n div 64 div 64 = x * 64 + y" using digit64[OF assms(3)] by (metis, metis)
  then have 3: "n div 64 div 64 mod 64 = y" "n div 64 div 64 div 64 = x" using digit64[OF assms(2)] by (metis, metis)
  have "n div 4096 = n div 64 div 64" "n div 262144 = n div 64 div 64 div 64" by (simp_all flip: div_mult2_eq)
  then show "n mod 64 = w" and "n div 64 mod 64 = z" and "n div 4096 mod 64 = y" and "n div 262144 mod 64 = x"
    using 1 2 3 assms(1) by simp_all
qed

lemma sextets:
  fixes a b c :: nat
  assumes "a < 256" and "b < 256" and "c < 256" and "n = a * 65536 + b * 256 + c"
  shows "n div 262144 mod 64 * 4 + n div 4096 mod 64 div 16 = a"
    and "n div 4096 mod 64 mod 16 * 16 + n div 64 mod 64 div 4 = b"
    and "n div 64 mod 64 mod 4 * 64 + n mod 64 = c"
proof -
  define x y z w where "x = a div 4" and "y = a mod 4 * 16 + b div 16"
    and "z = b mod 16 * 4 + c div 64" and "w = c mod 64"
  have eq: "a' = 4 * x' + a0 \<Longrightarrow> b' = 16 * b1 + b0 \<Longrightarrow> c' = 64 * c1 + w' \<Longrightarrow>
      a' * 65536 + b' * 256 + c' = ((x' * 64 + (a0 * 16 + b1)) * 64 + (b0 * 4 + c1)) * 64 + w'"
    for a' a0 b' b1 b0 c' c1 w' x' :: nat by (simp add: algebra_simps)
  have n: "n = ((x * 64 + y) * 64 + z) * 64 + w"
    unfolding assms(4) y_def z_def x_def w_def by (rule eq) simp_all
  have "x < 64" "w < 64" using assms(1) by (auto simp: x_def w_def)
  moreover have "y < 64" "z < 64" using assms(2,3) mod_less_divisor[of 4 a] mod_less_divisor[of 16 b]
    unfolding y_def z_def by linarith+
  ultimately have d: "n mod 64 = w" "n div 64 mod 64 = z" "n div 4096 mod 64 = y" "n div 262144 mod 64 = x"
    using digits64[OF _ _ _ _ n] by simp_all
  have e: "y div 16 = a mod 4" "y mod 16 = b div 16" "z div 4 = b mod 16" "z mod 4 = c div 64"
    using assms(2,3) by (simp_all add: y_def z_def)
  show "n div 262144 mod 64 * 4 + n div 4096 mod 64 div 16 = a"
    unfolding d e by (simp add: x_def)
  show "n div 4096 mod 64 mod 16 * 16 + n div 64 mod 64 div 4 = b"
    unfolding d e by simp
  show "n div 64 mod 64 mod 4 * 64 + n mod 64 = c"
    unfolding d e by (simp add: w_def)
qed

lemma base64_decode_encode: "base64_decode (base64_encode s) = Some s"
proof (induction s rule: base64_encode.induct)
  case (2 a)
  define n :: nat where "n = of_char a * 65536"
  have "n div 262144 mod 64 * 4 + n div 4096 mod 64 div 16 = of_char a"
    by (rule sextets(1)[of _ 0 0]) (simp_all add: n_def byte_bound)
  then show ?case unfolding base64_encode.simps n_def[symmetric] Let_def by simp
next
  case (3 a b)
  define n :: nat where "n = of_char a * 65536 + of_char b * 256"
  have "n div 262144 mod 64 * 4 + n div 4096 mod 64 div 16 = of_char a"
    "n div 4096 mod 64 mod 16 * 16 + n div 64 mod 64 div 4 = of_char b"
    by (rule sextets(1,2)[of "of_char a" "of_char b" 0]; simp add: n_def byte_bound)+
  then show ?case unfolding base64_encode.simps n_def[symmetric] Let_def by (simp add: b64_not_pad)
next
  case (4 a b c xs)
  define n :: nat where "n = of_char a * 65536 + of_char b * 256 + of_char c"
  have "n div 262144 mod 64 * 4 + n div 4096 mod 64 div 16 = of_char a"
    "n div 4096 mod 64 mod 16 * 16 + n div 64 mod 64 div 4 = of_char b"
    "n div 64 mod 64 mod 4 * 64 + n mod 64 = of_char c"
    by (rule sextets[of "of_char a" "of_char b" "of_char c"]; simp add: n_def byte_bound)+
  then show ?case unfolding base64_encode.simps n_def[symmetric] Let_def using 4 by (simp add: b64_not_pad)
qed simp

section \<open>Properties\<close>

text \<open>
  Claim C14: applying a valid built-in method replaces the Authorization header by exactly one value,
  touches no other header, and the value carries the credentials: basic credentials decode to the
  user name and password, a bearer token follows its scheme, a custom value is sent as it is.
\<close>

theorem auth_apply_exact:
  assumes "builtin_Valid a"
  shows "\<exists>v. (\<forall>k. Header_Values (rq_header (builtin_Apply a r)) k =
      (if header_eqv ''Authorization'' k then [v] else Header_Values (rq_header r) k)) \<and>
    builtin_Apply a r = r\<lparr>rq_header := rq_header (builtin_Apply a r)\<rparr> \<and>
    (case a of
       BasicAuth u p \<Rightarrow> \<exists>t. v = ''Basic '' @ t \<and> base64_decode t = Some (u @ '':'' @ p)
     | BearerAuth t \<Rightarrow> v = ''Bearer '' @ t
     | CustomAuth h \<Rightarrow> v = h)"
proof -
  obtain v where "builtin_Apply a r = r\<lparr>rq_header := Header_Set (rq_header r) ''Authorization'' v\<rparr>"
    and "case a of BasicAuth u p \<Rightarrow> \<exists>t. v = ''Basic '' @ t \<and> base64_decode t = Some (u @ '':'' @ p)
      | BearerAuth t \<Rightarrow> v = ''Bearer '' @ t | CustomAuth h \<Rightarrow> v = h"
    using assms by (cases a) (auto simp: SetBasicAuth_def base64_decode_encode)
  then show ?thesis by (intro exI[of _ v] conjI allI) (simp_all add: hdr.vals_set)
qed

theorem auth_apply_exact_witness:
  "\<exists>v. (\<forall>k. Header_Values (rq_header (builtin_Apply (BearerAuth ''t'') (\<lparr>rq_method = ''GET'',
        rq_url = \<lparr>url_scheme = [], url_opaque = [], url_user = None, url_host = [], url_path = [], url_rawPath = [],
                  url_omitHost = False, url_forceQuery = False, url_rawQuery = [], url_fragment = [], url_rawFragment = []\<rparr>,
        rq_host = [], rq_header = [], rq_body = BodyNil, rq_getBody = None, rq_contentLength = 0,
        rq_ordered = None\<rparr> :: unit httpRequest))) k =
      (if header_eqv ''Authorization'' k then [v] else Header_Values [] k)) \<and> v = ''Bearer t''"
  using auth_apply_exact[of "BearerAuth ''t''" "\<lparr>rq_method = ''GET'',
        rq_url = \<lparr>url_scheme = [], url_opaque = [], url_user = None, url_host = [], url_path = [], url_rawPath = [],
                  url_omitHost = False, url_forceQuery = False, url_rawQuery = [], url_fragment = [], url_rawFragment = []\<rparr>,
        rq_host = [], rq_header = [], rq_body = BodyNil, rq_getBody = None, rq_contentLength = 0,
        rq_ordered = None\<rparr> :: unit httpRequest"]
  by auto

end
