(* ===== verification/Ordered_Object.thy ===== *)
theory Ordered_Object
  imports Multimap "HOL-Library.DAList"
begin

text \<open>
  \<open>github.com/agentable/go-orderedobject\<close> is a third-party package: its objects are values of an
  arbitrary type \<open>'o\<close> and its operations a parameter, the record \<open>oo_ops\<close>, of every definition that
  calls them. What the client relies on is the locale \<open>ordered_object\<close>: an object is a list of
  entries with distinct keys, a new key is appended, a known key is overwritten in its place, a
  deleted key leaves the rest in order. The instance on HOL's association lists with distinct keys
  shows that the contract can be met.
\<close>

record 'o oo_ops =
  oo_new :: 'o
  oo_set :: "'o \<Rightarrow> string \<Rightarrow> string list \<Rightarrow> 'o"
  oo_get :: "'o \<Rightarrow> string \<Rightarrow> string list option"
  oo_has :: "'o \<Rightarrow> string \<Rightarrow> bool"
  oo_delete :: "'o \<Rightarrow> string \<Rightarrow> 'o"
  oo_entries :: "'o \<Rightarrow> (string \<times> string list) list"
  oo_len :: "'o \<Rightarrow> nat"

locale ordered_object =
  fixes ob :: "'o oo_ops"
  assumes entries_new: "oo_entries ob (oo_new ob) = []"
    and entries_distinct: "distinct (map fst (oo_entries ob x))"
    and entries_set: "oo_entries ob (oo_set ob x k v) = AList.update k v (oo_entries ob x)"
    and entries_delete: "oo_entries ob (oo_delete ob x k) = AList.delete k (oo_entries ob x)"
    and get_entries: "oo_get ob x k = map_of (oo_entries ob x) k"
    and has_entries: "oo_has ob x k \<longleftrightarrow> k \<in> fst ` set (oo_entries ob x)"
    and len_entries: "oo_len ob x = length (oo_entries ob x)"
begin

lemmas entries_simps [simp] =
  entries_new entries_set entries_delete get_entries has_entries len_entries

lemma map_of_entries_mem: "(k, vs) \<in> set (oo_entries ob x) \<Longrightarrow> map_of (oo_entries ob x) k = Some vs"
  by (rule map_of_is_SomeI[OF entries_distinct])

lemma entries_fold_set_fresh:
  assumes "distinct (map fst al)" and "fst ` set al \<inter> fst ` set (oo_entries ob x) = {}"
  shows "oo_entries ob (foldl (\<lambda>x p. oo_set ob x (fst p) (snd p)) x al) = oo_entries ob x @ al"
  using assms
proof (induction al arbitrary: x)
  case (Cons p al)
  then show ?case by (cases p) (auto simp: update_notin)
qed simp

end

definition dalist_ops :: "(string, string list) alist oo_ops" where
  "dalist_ops =
     \<lparr>oo_new = DAList.empty,
      oo_set = (\<lambda>x k v. DAList.update k v x),
      oo_get = (\<lambda>x k. map_of (DAList.impl_of x) k),
      oo_has = (\<lambda>x k. k \<in> fst ` set (DAList.impl_of x)),
      oo_delete = (\<lambda>x k. DAList.delete k x),
      oo_entries = DAList.impl_of,
      oo_len = (\<lambda>x. length (DAList.impl_of x))\<rparr>"

interpretation dal: ordered_object dalist_ops
  by unfold_locales
    (simp_all add: dalist_ops_def DAList.empty.rep_eq DAList.update.rep_eq DAList.delete.rep_eq)

end
