(* ===== verification/Ordered_Headers.thy ===== *)
theory Ordered_Headers
  imports Ordered_Object Request_Metadata
begin

text \<open>
  Model of \<open>ordered_headers.go\<close>: ordered header intent beside the semantic headers. An
  \<open>*orderedobject.Object\<close> is an \<open>'o option\<close> (\<open>None\<close> is nil); functions that take a pointer to it
  return its new value. Names are looked up exactly first and then up to case.
\<close>

section \<open>Operations\<close>

definition isPseudoHeader :: "string \<Rightarrow> bool" where
  "isPseudoHeader name = HasPrefix name '':''"

definition orderedHeaderKey :: "'o oo_ops \<Rightarrow> 'o option \<Rightarrow> string \<Rightarrow> string option" where
  "orderedHeaderKey ob headers key =
     (case headers of
        None \<Rightarrow> None
      | Some x \<Rightarrow> if oo_has ob x key then Some key
                 else map_option fst (find (\<lambda>e. EqualFold (fst e) key) (oo_entries ob x)))"

definition get_or_nil :: "'o oo_ops \<Rightarrow> 'o \<Rightarrow> string \<Rightarrow> string list" where
  "get_or_nil ob x k = (case oo_get ob x k of None \<Rightarrow> [] | Some vs \<Rightarrow> vs)"

definition clone_entry :: "'o oo_ops \<Rightarrow> 'o \<Rightarrow> string \<times> string list \<Rightarrow> 'o" where
  "clone_entry ob c e =
     (case orderedHeaderKey ob (Some c) (fst e) of
        Some existing \<Rightarrow> oo_set ob c existing (get_or_nil ob c existing @ snd e)
      | None \<Rightarrow> oo_set ob c (fst e) (snd e))"

definition cloneOrderedHeaders :: "'o oo_ops \<Rightarrow> 'o option \<Rightarrow> 'o option" where
  "cloneOrderedHeaders ob headers =
     map_option (\<lambda>x. foldl (clone_entry ob) (oo_new ob) (oo_entries ob x)) headers"

definition addOrderedHeaders :: "'o oo_ops \<Rightarrow> httpHeader \<Rightarrow> 'o option \<Rightarrow> httpHeader" where
  "addOrderedHeaders ob dst headers =
     (case headers of
        None \<Rightarrow> dst
      | Some x \<Rightarrow> foldl (\<lambda>h (k, vs). if isPseudoHeader k then h else foldl (\<lambda>h v. Header_Add h k v) h vs)
                   dst (oo_entries ob x))"

definition addHeaderValues :: "'o oo_ops \<Rightarrow> httpHeader \<Rightarrow> httpHeader \<Rightarrow> 'o option \<Rightarrow> httpHeader" where
  "addHeaderValues ob dst src ordered =
     foldl (\<lambda>h (k, vs). if orderedHeaderKey ob ordered k \<noteq> None then h
                         else foldl (\<lambda>h v. Header_Add h k v) h vs)
       (if ordered \<noteq> None then addOrderedHeaders ob dst ordered else dst) src"

definition deleteHeaderValues :: "httpHeader \<Rightarrow> string \<Rightarrow> httpHeader" where
  "deleteHeaderValues headers key = filter (\<lambda>p. \<not> EqualFold (fst p) key) (Header_Del headers key)"

definition overlayHeaderValues :: "'o oo_ops \<Rightarrow> httpHeader \<Rightarrow> httpHeader \<Rightarrow> 'o option \<Rightarrow> httpHeader" where
  "overlayHeaderValues ob dst src ordered =
     (let dst1 = foldl deleteHeaderValues dst (map fst src);
          dst2 = (case ordered of None \<Rightarrow> dst1
                  | Some x \<Rightarrow> foldl deleteHeaderValues dst1 (map fst (oo_entries ob x)))
      in addHeaderValues ob dst2 src ordered)"

definition setOrderedHeaderValues :: "'o oo_ops \<Rightarrow> 'o option \<Rightarrow> string \<Rightarrow> string list \<Rightarrow> 'o option" where
  "setOrderedHeaderValues ob headers key vs =
     (let x = (case headers of None \<Rightarrow> oo_new ob | Some x \<Rightarrow> x);
          key' = (case orderedHeaderKey ob (Some x) key of Some existing \<Rightarrow> existing | None \<Rightarrow> key)
      in Some (oo_set ob x key' vs))"

definition addOrderedHeaderValue :: "'o oo_ops \<Rightarrow> 'o option \<Rightarrow> string \<Rightarrow> string \<Rightarrow> 'o option" where
  "addOrderedHeaderValue ob headers key v =
     (let x = (case headers of None \<Rightarrow> oo_new ob | Some x \<Rightarrow> x);
          key' = (case orderedHeaderKey ob (Some x) key of Some existing \<Rightarrow> existing | None \<Rightarrow> key)
      in case oo_get ob x key' of
           Some vs \<Rightarrow> Some (oo_set ob x key' (vs @ [v]))
         | None \<Rightarrow> Some (oo_set ob x key' [v]))"

definition deleteOrderedHeader :: "'o oo_ops \<Rightarrow> 'o option \<Rightarrow> string \<Rightarrow> 'o option" where
  "deleteOrderedHeader ob headers key =
     (case headers of
        None \<Rightarrow> None
      | Some x \<Rightarrow> (case orderedHeaderKey ob (Some x) key of
                     Some existing \<Rightarrow> Some (oo_delete ob x existing)
                   | None \<Rightarrow> Some x))"

definition merge_entry :: "'o oo_ops \<Rightarrow> 'o option \<Rightarrow> string \<times> string list \<Rightarrow> 'o option" where
  "merge_entry ob merged e =
     map_option (\<lambda>x. oo_set ob x (fst e) (snd e)) (deleteOrderedHeader ob merged (fst e))"

definition mergeOrderedHeaders :: "'o oo_ops \<Rightarrow> 'o option \<Rightarrow> 'o option \<Rightarrow> 'o option" where
  "mergeOrderedHeaders ob base override =
     (let merged = cloneOrderedHeaders ob base in
      case override of
        None \<Rightarrow> merged
      | Some y \<Rightarrow> if merged = None then cloneOrderedHeaders ob override
                 else foldl (merge_entry ob) merged (oo_entries ob y))"

definition sync_entry :: "'o oo_ops \<Rightarrow> httpHeader \<Rightarrow> 'o \<Rightarrow> string \<times> string list \<Rightarrow> 'o" where
  "sync_entry ob semantic x e =
     (if isPseudoHeader (fst e) then x
      else let vs = Header_Values semantic (fst e)
           in if vs = [] then oo_delete ob x (fst e) else oo_set ob x (fst e) vs)"

definition syncOrderedHeaderValues :: "'o oo_ops \<Rightarrow> 'o option \<Rightarrow> httpHeader \<Rightarrow> 'o option" where
  "syncOrderedHeaderValues ob headers semantic =
     map_option (\<lambda>x. foldl (sync_entry ob semantic) x (oo_entries ob x)) headers"

section \<open>Views up to case\<close>

definition synced :: "httpHeader \<Rightarrow> string \<times> string list \<Rightarrow> (string \<times> string list) option" where
  "synced semantic e =
     (if isPseudoHeader (fst e) then Some e
      else case Header_Values semantic (fst e) of [] \<Rightarrow> None | v # vs \<Rightarrow> Some (fst e, v # vs))"

definition lower_al :: "(string \<times> 'v) list \<Rightarrow> (string \<times> 'v) list" where
  "lower_al al = map (\<lambda>e. (ToLower (fst e), snd e)) al"

definition fold_distinct :: "'o oo_ops \<Rightarrow> 'o option \<Rightarrow> bool" where
  "fold_distinct ob headers =
     (case headers of None \<Rightarrow> True | Some x \<Rightarrow> distinct (map fst (lower_al (oo_entries ob x))))"

definition ordered_vals :: "'o oo_ops \<Rightarrow> 'o option \<Rightarrow> string \<Rightarrow> string list" where
  "ordered_vals ob headers k =
     (case headers of None \<Rightarrow> []
      | Some x \<Rightarrow> (case orderedHeaderKey ob headers k of None \<Rightarrow> [] | Some e \<Rightarrow> get_or_nil ob x e))"

lemma lower_al_update:
  "\<forall>x\<in>fst ` set al. EqualFold x k \<longrightarrow> x = k \<Longrightarrow>
     lower_al (AList.update k v al) = AList.update (ToLower k) v (lower_al al)"
  by (induction al) (auto simp: lower_al_def EqualFold_def)

lemma lower_al_delete:
  "\<forall>x\<in>fst ` set al. EqualFold x k \<longrightarrow> x = k \<Longrightarrow>
     lower_al (AList.delete k al) = AList.delete (ToLower k) (lower_al al)"
  by (induction al) (auto simp: lower_al_def EqualFold_def)

lemma lower_al_keys: "fst ` set (lower_al al) = ToLower ` fst ` set al"
  by (force simp: lower_al_def)

lemma fold_distinct_inj:
  "distinct (map fst (lower_al al)) \<Longrightarrow> x \<in> fst ` set al \<Longrightarrow> y \<in> fst ` set al \<Longrightarrow> EqualFold x y \<Longrightarrow> x = y"
  by (induction al) (force simp: lower_al_def EqualFold_def)+

lemma map_of_lower_al:
  assumes "distinct (map fst (lower_al al))" "e \<in> fst ` set al" "EqualFold e k"
  shows "map_of (lower_al al) (ToLower k) = map_of al e"
  using assms
proof (induction al)
  case (Cons p al)
  then show ?case
    by (cases p) (force simp: lower_al_def EqualFold_def image_iff)
qed simp

section \<open>Laws for every ordered object\<close>

context ordered_object
begin

definition key_for :: "'o \<Rightarrow> string \<Rightarrow> string" where
  "key_for x k = (case orderedHeaderKey ob (Some x) k of Some e \<Rightarrow> e | None \<Rightarrow> k)"

lemma orderedHeaderKey_Some:
  "orderedHeaderKey ob (Some x) k = Some e \<Longrightarrow> e \<in> fst ` set (oo_entries ob x) \<and> EqualFold e k"
  by (force simp: orderedHeaderKey_def split: if_splits dest!: find_SomeD)

lemma orderedHeaderKey_None:
  "orderedHeaderKey ob (Some x) k = None \<longleftrightarrow> ToLower k \<notin> fst ` set (lower_al (oo_entries ob x))"
  by (auto simp: orderedHeaderKey_def find_None_iff lower_al_def EqualFold_def image_iff)

lemma key_for_fold: "EqualFold (key_for x k) k"
  using orderedHeaderKey_Some by (auto simp: key_for_def split: option.splits)

lemma key_for_unique:
  assumes "fold_distinct ob (Some x)"
  shows "\<forall>y\<in>fst ` set (oo_entries ob x). EqualFold y (key_for x k) \<longrightarrow> y = key_for x k"
proof (intro ballI impI)
  fix y assume y: "y \<in> fst ` set (oo_entries ob x)" "EqualFold y (key_for x k)"
  show "y = key_for x k"
  proof (cases "orderedHeaderKey ob (Some x) k")
    case None
    then have "ToLower k \<notin> fst ` set (lower_al (oo_entries ob x))" by (simp add: orderedHeaderKey_None)
    moreover have "ToLower y \<in> fst ` set (lower_al (oo_entries ob x))"
      using y(1) by (simp add: lower_al_keys)
    ultimately show ?thesis using y None by (auto simp: key_for_def EqualFold_def)
  next
    case (Some e)
    then have "e \<in> fst ` set (oo_entries ob x)" "key_for x k = e"
      using orderedHeaderKey_Some by (auto simp: key_for_def)
    then show ?thesis using fold_distinct_inj[of "oo_entries ob x" y e] y assms
      by (simp add: fold_distinct_def)
  qed
qed

lemma ToLower_key_for [simp]: "ToLower (key_for x k) = ToLower k"
  using key_for_fold by (simp add: EqualFold_def)

lemma lower_set:
  "fold_distinct ob (Some x) \<Longrightarrow>
     lower_al (oo_entries ob (oo_set ob x (key_for x k) vs)) =
     AList.update (ToLower k) vs (lower_al (oo_entries ob x))"
  using lower_al_update[OF key_for_unique[of x k], of vs] by simp

lemma lower_delete:
  "fold_distinct ob (Some x) \<Longrightarrow>
     lower_al (oo_entries ob (oo_delete ob x (key_for x k))) =
     AList.delete (ToLower k) (lower_al (oo_entries ob x))"
  using lower_al_delete[OF key_for_unique[of x k]] by simp

lemma ordered_vals_lower:
  assumes "fold_distinct ob (Some x)"
  shows "ordered_vals ob (Some x) k =
    (case map_of (lower_al (oo_entries ob x)) (ToLower k) of None \<Rightarrow> [] | Some vs \<Rightarrow> vs)"
proof (cases "orderedHeaderKey ob (Some x) k")
  case None
  then have "map_of (lower_al (oo_entries ob x)) (ToLower k) = None"
    by (simp add: orderedHeaderKey_None map_of_eq_None_iff)
  then show ?thesis using None by (simp add: ordered_vals_def)
next
  case (Some e)
  then show ?thesis
    using orderedHeaderKey_Some[OF Some] assms map_of_lower_al[of "oo_entries ob x" e k]
    by (simp add: ordered_vals_def get_or_nil_def fold_distinct_def)
qed

lemma ordered_vals_None [simp]: "ordered_vals ob None k = []"
  by (simp add: ordered_vals_def)

lemma fold_distinct_new: "fold_distinct ob (Some (oo_new ob))"
  by (simp add: fold_distinct_def lower_al_def)

lemma setOrdered_eq:
  "setOrderedHeaderValues ob h k vs =
     (let x = (case h of None \<Rightarrow> oo_new ob | Some x \<Rightarrow> x) in Some (oo_set ob x (key_for x k) vs))"
  by (simp add: setOrderedHeaderValues_def key_for_def)

lemma addOrdered_eq:
  "addOrderedHeaderValue ob h k v =
     (let x = (case h of None \<Rightarrow> oo_new ob | Some x \<Rightarrow> x)
      in Some (oo_set ob x (key_for x k) (ordered_vals ob (Some x) k @ [v])))"
proof -
  have g: "get_or_nil ob x (key_for x k) = ordered_vals ob (Some x) k" for x
  proof (cases "orderedHeaderKey ob (Some x) k")
    case None
    have "k \<notin> fst ` set (oo_entries ob x)"
      using None by (auto simp: orderedHeaderKey_def split: if_splits)
    then show ?thesis using None
      by (auto simp: ordered_vals_def get_or_nil_def key_for_def split: option.splits)
        (metis image_eqI map_of_SomeD fst_conv)
  qed (simp add: ordered_vals_def key_for_def)
  show ?thesis
    unfolding addOrderedHeaderValue_def Let_def key_for_def[symmetric] g[symmetric]
    by (auto simp: get_or_nil_def split: option.splits)
qed

lemma ordered_vals_cong:
  "fold_distinct ob h \<Longrightarrow> EqualFold k k' \<Longrightarrow> ordered_vals ob h k = ordered_vals ob h k'"
  by (cases h) (simp_all add: ordered_vals_lower EqualFold_def)

lemma deleteOrdered_eq:
  "deleteOrderedHeader ob (Some x) k = Some (if orderedHeaderKey ob (Some x) k = None then x
     else oo_delete ob x (key_for x k))"
  by (auto simp: deleteOrderedHeader_def key_for_def split: option.splits)

lemma lower_deleteOrdered:
  assumes "fold_distinct ob (Some x)" "deleteOrderedHeader ob (Some x) k = Some y"
  shows "lower_al (oo_entries ob y) = AList.delete (ToLower k) (lower_al (oo_entries ob x))"
proof (cases "orderedHeaderKey ob (Some x) k = None")
  case True
  then show ?thesis using assms(2)
    by (auto simp: deleteOrdered_eq orderedHeaderKey_None)
next
  case False
  then show ?thesis using assms lower_delete by (auto simp: deleteOrdered_eq)
qed

lemma fold_distinct_case: "fold_distinct ob (Some (case h of None \<Rightarrow> oo_new ob | Some x \<Rightarrow> x)) = fold_distinct ob h"
  by (cases h) (simp_all add: fold_distinct_new, simp add: fold_distinct_def)

lemma ordered_vals_case:
  "ordered_vals ob (Some (case h of None \<Rightarrow> oo_new ob | Some x \<Rightarrow> x)) k = ordered_vals ob h k"
  by (cases h) (simp_all add: ordered_vals_def orderedHeaderKey_def)

lemma set_vals:
  assumes "fold_distinct ob h"
  shows "ordered_vals ob (setOrderedHeaderValues ob h k vs) k' =
      (if EqualFold k k' then vs else ordered_vals ob h k')"
    and "fold_distinct ob (setOrderedHeaderValues ob h k vs)"
proof -
  let ?x = "case h of None \<Rightarrow> oo_new ob | Some x \<Rightarrow> x"
  have x: "fold_distinct ob (Some ?x)" using assms by (simp add: fold_distinct_case)
  note l = lower_set[OF x, of k vs]
  show fd: "fold_distinct ob (setOrderedHeaderValues ob h k vs)"
    using x l by (simp add: setOrdered_eq Let_def fold_distinct_def distinct_update)
  have "ordered_vals ob (setOrderedHeaderValues ob h k vs) k' =
      (if EqualFold k k' then vs else ordered_vals ob (Some ?x) k')"
    using fd l ordered_vals_lower[OF x]
    by (auto simp: setOrdered_eq Let_def ordered_vals_lower map_of_alist_update EqualFold_def)
  then show "ordered_vals ob (setOrderedHeaderValues ob h k vs) k' =
      (if EqualFold k k' then vs else ordered_vals ob h k')"
    by (simp add: ordered_vals_case)
qed

lemma addOrdered_is_set:
  "addOrderedHeaderValue ob h k v = setOrderedHeaderValues ob h k (ordered_vals ob h k @ [v])"
  by (simp add: addOrdered_eq setOrdered_eq Let_def ordered_vals_case)

lemma delete_vals:
  assumes "fold_distinct ob h"
  shows "ordered_vals ob (deleteOrderedHeader ob h k) k' =
      (if EqualFold k k' then [] else ordered_vals ob h k')"
    and "fold_distinct ob (deleteOrderedHeader ob h k)"
proof -
  have "fold_distinct ob (deleteOrderedHeader ob h k) \<and>
    ordered_vals ob (deleteOrderedHeader ob h k) k' = (if EqualFold k k' then [] else ordered_vals ob h k')"
  proof (cases h)
    case (Some x)
    then obtain y where y: "deleteOrderedHeader ob (Some x) k = Some y" by (simp add: deleteOrdered_eq)
    have x: "fold_distinct ob (Some x)" using assms Some by simp
    note l = lower_deleteOrdered[OF x y]
    have fd: "fold_distinct ob (Some y)" using x l by (simp add: fold_distinct_def distinct_delete)
    then show ?thesis using Some y l
      by (auto simp: ordered_vals_lower[OF x] ordered_vals_lower[OF fd] map_of_alist_delete EqualFold_def)
  qed (simp add: deleteOrderedHeader_def fold_distinct_def)
  then show "ordered_vals ob (deleteOrderedHeader ob h k) k' =
      (if EqualFold k k' then [] else ordered_vals ob h k')"
    and "fold_distinct ob (deleteOrderedHeader ob h k)" by auto
qed

end

text \<open>Ordered headers are a multimap up to case, as long as no name occurs in two spellings.\<close>

sublocale ordered_object \<subseteq> oh: name_multimap EqualFold "ordered_vals ob" "addOrderedHeaderValue ob"
    "\<lambda>h k v. setOrderedHeaderValues ob h k [v]" "deleteOrderedHeader ob" "fold_distinct ob"
  by unfold_locales
    (auto simp: set_vals delete_vals addOrdered_is_set intro: EqualFold_sym EqualFold_trans dest: ordered_vals_cong)

section \<open>Cloning, merging, synchronising\<close>

context ordered_object
begin

lemma clone_entry_is_set:
  "Some (clone_entry ob c e) = setOrderedHeaderValues ob (Some c) (fst e) (ordered_vals ob (Some c) (fst e) @ snd e)"
  by (cases "orderedHeaderKey ob (Some c) (fst e)")
    (simp_all add: clone_entry_def setOrderedHeaderValues_def ordered_vals_def)

lemma clone_fold:
  assumes "fold_distinct ob (Some c)"
  shows "fold_distinct ob (Some (foldl (clone_entry ob) c es)) \<and>
    ordered_vals ob (Some (foldl (clone_entry ob) c es)) k =
      ordered_vals ob (Some c) k @ concat (map snd (filter (\<lambda>e. EqualFold (fst e) k) es))"
  using assms
proof (induction es arbitrary: c)
  case (Cons e es)
  let ?c = "clone_entry ob c e"
  have "fold_distinct ob (Some ?c)" using set_vals(2)[OF Cons.prems] by (simp add: clone_entry_is_set)
  moreover have "ordered_vals ob (Some ?c) k =
      (if EqualFold (fst e) k then ordered_vals ob (Some c) k @ snd e else ordered_vals ob (Some c) k)"
    using ordered_vals_cong[OF Cons.prems] set_vals(1)[OF Cons.prems] by (simp add: clone_entry_is_set)
  ultimately show ?case using Cons.IH[of ?c] by simp
qed simp

lemma clone_vals:
  "fold_distinct ob (cloneOrderedHeaders ob h)"
  "ordered_vals ob (cloneOrderedHeaders ob (Some x)) k =
     concat (map snd (filter (\<lambda>e. EqualFold (fst e) k) (oo_entries ob x)))"
proof -
  show "fold_distinct ob (cloneOrderedHeaders ob h)"
    using clone_fold[OF fold_distinct_new] by (cases h) (simp_all add: cloneOrderedHeaders_def fold_distinct_def[of ob None])
  have "ordered_vals ob (Some (oo_new ob)) k = []" by (simp add: ordered_vals_def orderedHeaderKey_def)
  then show "ordered_vals ob (cloneOrderedHeaders ob (Some x)) k =
     concat (map snd (filter (\<lambda>e. EqualFold (fst e) k) (oo_entries ob x)))"
    using clone_fold[OF fold_distinct_new, of "oo_entries ob x" k] by (simp add: cloneOrderedHeaders_def)
qed

text \<open>A clone of headers that name nothing twice has the same entries.\<close>

lemma clone_entries_fresh:
  assumes "distinct (map fst (lower_al (oo_entries ob c @ es)))"
  shows "oo_entries ob (foldl (clone_entry ob) c es) = oo_entries ob c @ es"
  using assms
proof (induction es arbitrary: c)
  case (Cons e es)
  have "ToLower (fst e) \<notin> fst ` set (lower_al (oo_entries ob c))"
    using Cons.prems by (simp add: lower_al_def image_image)
  then have new: "orderedHeaderKey ob (Some c) (fst e) = None" by (simp add: orderedHeaderKey_None)
  then have "fst e \<notin> fst ` set (oo_entries ob c)" by (auto simp: orderedHeaderKey_def split: if_splits)
  then have c: "oo_entries ob (clone_entry ob c e) = oo_entries ob c @ [e]"
    using new by (simp add: clone_entry_def update_notin)
  show ?case using Cons.IH[of "clone_entry ob c e"] Cons.prems by (simp add: c)
qed simp

lemma clone_entries:
  "fold_distinct ob (Some x) \<Longrightarrow>
     map_option (oo_entries ob) (cloneOrderedHeaders ob (Some x)) = Some (oo_entries ob x)"
  using clone_entries_fresh[of "oo_new ob" "oo_entries ob x"]
  by (simp add: cloneOrderedHeaders_def fold_distinct_def)

lemma clone_vals_id: "fold_distinct ob h \<Longrightarrow> ordered_vals ob (cloneOrderedHeaders ob h) k = ordered_vals ob h k"
proof (cases h)
  case (Some x)
  assume "fold_distinct ob h"
  then have fd: "fold_distinct ob (Some x)" by (simp add: Some)
  obtain y where y: "cloneOrderedHeaders ob (Some x) = Some y" by (simp add: cloneOrderedHeaders_def)
  then have "fold_distinct ob (Some y)" "oo_entries ob y = oo_entries ob x"
    using clone_vals(1)[of "Some x"] clone_entries[OF fd] by simp_all
  then show ?thesis using y fd by (simp add: Some ordered_vals_lower)
qed (simp add: cloneOrderedHeaders_def)

lemma merge_entry_is_set:
  assumes "fold_distinct ob (Some x)"
  shows "ordered_vals ob (merge_entry ob (Some x) e) k = (if EqualFold (fst e) k then snd e else ordered_vals ob (Some x) k)"
    and "fold_distinct ob (merge_entry ob (Some x) e)" and "merge_entry ob (Some x) e \<noteq> None"
proof -
  obtain y where y: "deleteOrderedHeader ob (Some x) (fst e) = Some y" by (simp add: deleteOrdered_eq)
  have fy: "fold_distinct ob (Some y)" using delete_vals(2)[OF assms, of "fst e"] y by simp
  have "orderedHeaderKey ob (Some y) (fst e) = None"
    using lower_deleteOrdered[OF assms y] by (auto simp: orderedHeaderKey_None filter_fst_delete)
  then have m: "merge_entry ob (Some x) e = setOrderedHeaderValues ob (Some y) (fst e) (snd e)"
    by (simp add: merge_entry_def y setOrderedHeaderValues_def)
  show "ordered_vals ob (merge_entry ob (Some x) e) k = (if EqualFold (fst e) k then snd e else ordered_vals ob (Some x) k)"
    using delete_vals(1)[OF assms, of "fst e" k] by (simp add: m set_vals(1)[OF fy] y)
  show "fold_distinct ob (merge_entry ob (Some x) e)" by (simp add: m set_vals(2)[OF fy])
  show "merge_entry ob (Some x) e \<noteq> None" by (simp add: merge_entry_def y)
qed

lemma merge_fold:
  assumes "fold_distinct ob (Some x)"
  shows "fold_distinct ob (foldl (merge_entry ob) (Some x) es) \<and> foldl (merge_entry ob) (Some x) es \<noteq> None \<and>
    ordered_vals ob (foldl (merge_entry ob) (Some x) es) k =
      (case find (\<lambda>e. EqualFold (fst e) k) (rev es) of None \<Rightarrow> ordered_vals ob (Some x) k | Some e \<Rightarrow> snd e)"
  using assms
proof (induction es arbitrary: x)
  case (Cons e es)
  obtain y where y: "merge_entry ob (Some x) e = Some y" using merge_entry_is_set(3)[OF Cons.prems, of e] by auto
  have "find P (xs @ [e]) = (case find P xs of None \<Rightarrow> if P e then Some e else None | Some a \<Rightarrow> Some a)"
    for P and xs :: "(string \<times> string list) list" by (induction xs) auto
  then show ?case
    using Cons.IH[of y] merge_entry_is_set(1,2)[OF Cons.prems, of e] by (auto simp: y split: option.splits)
qed simp

lemma find_rev_fold:
  assumes "distinct (map fst (lower_al es))"
  shows "find (\<lambda>e. EqualFold (fst e) k) (rev es) = find (\<lambda>e. EqualFold (fst e) k) es"
  using assms
proof (induction es)
  case (Cons e es)
  have "find P (xs @ [e]) = (case find P xs of None \<Rightarrow> if P e then Some e else None | Some a \<Rightarrow> Some a)"
    for P xs by (induction xs) auto
  moreover have "find (\<lambda>e. EqualFold (fst e) k) es = None" if "EqualFold (fst e) k"
    using that Cons.prems by (force simp: find_None_iff lower_al_def EqualFold_def image_iff)
  ultimately show ?case using Cons by (auto simp: lower_al_def split: option.splits)
qed simp

lemma find_ordered_vals:
  assumes "fold_distinct ob (Some y)"
  shows "(case find (\<lambda>e. EqualFold (fst e) k) (oo_entries ob y) of None \<Rightarrow> d | Some e \<Rightarrow> snd e) =
    (if orderedHeaderKey ob (Some y) k = None then d else ordered_vals ob (Some y) k)"
proof -
  have *: "find (\<lambda>e. EqualFold (fst e) k) al = None \<longleftrightarrow> map_of (lower_al al) (ToLower k) = None"
    "find (\<lambda>e. EqualFold (fst e) k) al = Some e \<Longrightarrow> map_of (lower_al al) (ToLower k) = Some (snd e)" for al e
    by (induction al) (auto simp: lower_al_def EqualFold_def split: if_splits)
  show ?thesis
    using *[of "oo_entries ob y"] assms
    by (auto simp: ordered_vals_lower orderedHeaderKey_None map_of_eq_None_iff split: option.splits)
qed

text \<open>The override wins name by name; names it does not mention keep the base's values.\<close>

lemma merge_vals:
  assumes "fold_distinct ob override"
  shows "fold_distinct ob (mergeOrderedHeaders ob base override)"
    and "ordered_vals ob (mergeOrderedHeaders ob base override) k =
      (if orderedHeaderKey ob override k = None then ordered_vals ob (cloneOrderedHeaders ob base) k
       else ordered_vals ob override k)"
proof -
  have "fold_distinct ob (mergeOrderedHeaders ob base override) \<and>
    ordered_vals ob (mergeOrderedHeaders ob base override) k =
      (if orderedHeaderKey ob override k = None then ordered_vals ob (cloneOrderedHeaders ob base) k
       else ordered_vals ob override k)"
  proof (cases override)
    case None
    then show ?thesis by (simp add: mergeOrderedHeaders_def clone_vals orderedHeaderKey_def)
  next
    case (Some y)
    show ?thesis
    proof (cases base)
      case None
      have "ordered_vals ob override k = []" if "orderedHeaderKey ob override k = None"
        using that Some by (simp add: ordered_vals_def)
      then show ?thesis using None Some assms clone_vals_id[OF assms]
        by (simp add: mergeOrderedHeaders_def clone_vals(1) cloneOrderedHeaders_def[of ob None])
    next
      case (Some x)
      note y = \<open>override = Some y\<close>
      obtain m where m: "cloneOrderedHeaders ob base = Some m" by (simp add: Some cloneOrderedHeaders_def)
      then have fm: "fold_distinct ob (Some m)" using clone_vals(1)[of base] by simp
      have fy: "fold_distinct ob (Some y)" using assms y by simp
      show ?thesis
        using merge_fold[OF fm, of "oo_entries ob y" k] find_ordered_vals[OF fy, of "ordered_vals ob (Some m) k" k]
          find_rev_fold[of "oo_entries ob y"] fy
        by (simp add: mergeOrderedHeaders_def Let_def m y fold_distinct_def)
    qed
  qed
  then show "fold_distinct ob (mergeOrderedHeaders ob base override)"
    and "ordered_vals ob (mergeOrderedHeaders ob base override) k =
      (if orderedHeaderKey ob override k = None then ordered_vals ob (cloneOrderedHeaders ob base) k
       else ordered_vals ob override k)" by auto
qed

text \<open>
  Synchronising rewrites each non-pseudo entry to the semantic values of its name, in its place,
  drops the entries whose name has no value and keeps the pseudo entries.
\<close>

lemma sync_fold:
  assumes "distinct (map fst (as @ es))" and "oo_entries ob x = as @ es"
  shows "oo_entries ob (foldl (sync_entry ob semantic) x es) = as @ List.map_filter (synced semantic) es"
  using assms
proof (induction es arbitrary: as x)
  case (Cons e es)
  note IH = Cons.IH and prems = Cons.prems
  obtain k vs where e: "e = (k, vs)" by (cases e)
  have upd: "AList.update k v (as @ (k, vs) # es) = as @ (k, v) # es" for v
    using Cons.prems(1) by (induction as) (auto simp: e)
  have del: "AList.delete k (as @ (k, vs) # es) = as @ es"
    using Cons.prems(1) by (simp add: e filter_fst_delete) (metis (mono_tags, lifting) filter_True image_eqI)
  show ?case
  proof (cases "isPseudoHeader k")
    case True
    then show ?thesis using Cons.IH[of "as @ [e]" x] Cons.prems
      by (simp add: e sync_entry_def synced_def List.map_filter_simps)
  next
    case False
    show ?thesis
    proof (cases "Header_Values semantic k")
      case Nil
      then show ?thesis using IH[of as "oo_delete ob x k"] prems False
        by (simp add: e sync_entry_def synced_def List.map_filter_simps del)
    next
      case (Cons w ws)
      then show ?thesis using IH[of "as @ [(k, w # ws)]" "oo_set ob x k (w # ws)"] prems False
        by (simp add: e sync_entry_def synced_def List.map_filter_simps upd)
    qed
  qed
qed (simp add: List.map_filter_simps)

lemma sync_entries:
  "map_option (oo_entries ob) (syncOrderedHeaderValues ob (Some x) semantic) =
     Some (List.map_filter (synced semantic) (oo_entries ob x))"
  using sync_fold[of "[]" "oo_entries ob x" x semantic] entries_distinct[of x]
  by (simp add: syncOrderedHeaderValues_def)

end

end
