(* ===== verification/Request_Builder.thy ===== *)
theory Request_Builder
  imports Request_Body Delivery_Loop Auth Ordered_Headers
begin

text \<open>
  Model of the fluent builder: the methods of \<open>RequestBuilder\<close> in \<open>request.go\<close>, \<open>body.go\<close> and
  \<open>delivery.go\<close>. A builder is a record, a method a function from builder to builder; \<open>ob\<close> is the
  ordered-object package, \<open>qv\<close> is \<open>query.Values\<close>. The back pointer to the client, which the methods
  use for log output only, is not a field.
\<close>

section \<open>State\<close>

record 'o RequestBuilder =
  b_method :: string
  b_target :: requestTarget
  b_metadata :: requestMetadata
  b_orderedHeaders :: "'o option"
  b_body :: requestBodyPlan
  b_timeout :: int
  b_maxResponseBodyBytes :: int
  b_middlewares :: "'o Middleware list"
  b_retryPolicy :: "'o RetryPolicy"
  b_hasRetryPolicy :: bool
  b_auth :: "'o AuthMethod option"
  b_preparationErr :: "goerr option"
  b_preparationErrClass :: preparationErrorClass

definition Client_Request :: "string \<Rightarrow> string \<Rightarrow> 'o RequestBuilder" where
  "Client_Request meth path =
     \<lparr>b_method = meth, b_target = newRequestTarget path, b_metadata = empty_metadata, b_orderedHeaders = None,
      b_body = zeroBodyPlan, b_timeout = 0, b_maxResponseBodyBytes = 0, b_middlewares = [],
      b_retryPolicy = zeroRetryPolicy, b_hasRetryPolicy = False, b_auth = None, b_preparationErr = None,
      b_preparationErrClass = preparationErrorClassUnknown\<rparr>"

definition setPreparationError :: "goerr option \<Rightarrow> preparationErrorClass \<Rightarrow> 'o RequestBuilder \<Rightarrow> 'o RequestBuilder" where
  "setPreparationError err cls b =
     (if err \<noteq> None \<and> b_preparationErr b = None
      then b\<lparr>b_preparationErr := err, b_preparationErrClass := cls\<rparr> else b)"

section \<open>Validation\<close>

definition validateDurationOption :: "string \<Rightarrow> int \<Rightarrow> goerr option" where
  "validateDurationOption name v = (if v < 0 then Some (invalidOptionValue name) else None)"

definition validateIntOption :: "string \<Rightarrow> int \<Rightarrow> goerr option" where
  "validateIntOption name v = (if v < 0 then Some (invalidOptionValue name) else None)"

text \<open>The first nil middleware, by its index.\<close>

definition validateMiddlewares :: "'o Middleware option list \<Rightarrow> goerr option" where
  "validateMiddlewares mws =
     (case filter (\<lambda>i. mws ! i = None) [0..<length mws] of
        [] \<Rightarrow> None
      | i # _ \<Rightarrow> Some (invalidOptionValue (''Middleware['' @ nat_digits i @ '']'')))"

section \<open>Method, path, middleware, delivery settings\<close>

definition AddMiddleware :: "'o Middleware option list \<Rightarrow> 'o RequestBuilder \<Rightarrow> 'o RequestBuilder" where
  "AddMiddleware mws b =
     (case validateMiddlewares mws of
        Some e \<Rightarrow> setPreparationError (Some e) preparationErrorClassInvalidConfigValue b
      | None \<Rightarrow> b\<lparr>b_middlewares := b_middlewares b @ map the mws\<rparr>)"

definition Builder_Method :: "string \<Rightarrow> 'o RequestBuilder \<Rightarrow> 'o RequestBuilder" where
  "Builder_Method meth b = b\<lparr>b_method := meth\<rparr>"

definition PathValue :: "Value \<Rightarrow> 'o RequestBuilder \<Rightarrow> 'o RequestBuilder" where
  "PathValue path b = b\<lparr>b_target := setPath path (b_target b)\<rparr>"

definition Builder_Path :: "string \<Rightarrow> 'o RequestBuilder \<Rightarrow> 'o RequestBuilder" where
  "Builder_Path path b = b\<lparr>b_target := setPath (privateRequestValue path) (b_target b)\<rparr>"

definition PathParams :: "(string, string) gomap \<Rightarrow> 'o RequestBuilder \<Rightarrow> 'o RequestBuilder" where
  "PathParams params b = b\<lparr>b_target := setPathParams params (b_target b)\<rparr>"

definition PathParam :: "string \<Rightarrow> string \<Rightarrow> 'o RequestBuilder \<Rightarrow> 'o RequestBuilder" where
  "PathParam key v b = b\<lparr>b_target := setPathParam key v (b_target b)\<rparr>"

definition PathParamValue :: "string \<Rightarrow> Value \<Rightarrow> 'o RequestBuilder \<Rightarrow> 'o RequestBuilder" where
  "PathParamValue key v b = b\<lparr>b_target := setPathParamValue key v (b_target b)\<rparr>"

definition DelPathParam :: "string list \<Rightarrow> 'o RequestBuilder \<Rightarrow> 'o RequestBuilder" where
  "DelPathParam keys b = b\<lparr>b_target := deletePathParams keys (b_target b)\<rparr>"

definition Builder_Timeout :: "int \<Rightarrow> 'o RequestBuilder \<Rightarrow> 'o RequestBuilder" where
  "Builder_Timeout timeout b =
     (case validateDurationOption ''Timeout'' timeout of
        Some e \<Rightarrow> setPreparationError (Some e) preparationErrorClassInvalidConfigValue b
      | None \<Rightarrow> b\<lparr>b_timeout := timeout\<rparr>)"

definition MaxResponseBodyBytes :: "int \<Rightarrow> 'o RequestBuilder \<Rightarrow> 'o RequestBuilder" where
  "MaxResponseBodyBytes maxBytes b =
     (if maxBytes < 0
      then setPreparationError (Some (invalidOptionValue ''MaxResponseBodyBytes'')) preparationErrorClassInvalidConfigValue b
      else b\<lparr>b_maxResponseBodyBytes := maxBytes\<rparr>)"

definition Builder_Retry :: "'o RetryPolicy \<Rightarrow> 'o RequestBuilder \<Rightarrow> 'o RequestBuilder" where
  "Builder_Retry policy b =
     (case validateIntOption ''Retry.Max'' (rp_Max policy) of
        Some e \<Rightarrow> setPreparationError (Some e) preparationErrorClassInvalidConfigValue b
      | None \<Rightarrow> b\<lparr>b_retryPolicy := policy, b_hasRetryPolicy := True\<rparr>)"

definition NoRetry :: "'o RequestBuilder \<Rightarrow> 'o RequestBuilder" where
  "NoRetry b = Builder_Retry zeroRetryPolicy b"

definition Builder_Auth :: "'o AuthMethod option \<Rightarrow> 'o RequestBuilder \<Rightarrow> 'o RequestBuilder" where
  "Builder_Auth auth b =
     (case validateAuthOption auth of
        Some e \<Rightarrow> setPreparationError (Some e) preparationErrorClassInvalidConfigValue b
      | None \<Rightarrow> b\<lparr>b_auth := auth\<rparr>)"

section \<open>Queries and cookies\<close>

definition QueryValue :: "string \<Rightarrow> Value \<Rightarrow> 'o RequestBuilder \<Rightarrow> 'o RequestBuilder" where
  "QueryValue key v b = b\<lparr>b_metadata := addQuery (b_metadata b) key v\<rparr>"

definition Builder_Query :: "string \<Rightarrow> string \<Rightarrow> 'o RequestBuilder \<Rightarrow> 'o RequestBuilder" where
  "Builder_Query key v b = QueryValue key (privateRequestValue v) b"

definition Queries :: "urlValues \<Rightarrow> 'o RequestBuilder \<Rightarrow> 'o RequestBuilder" where
  "Queries params b = foldl (\<lambda>b (k, vs). foldl (\<lambda>b v. Builder_Query k v b) b vs) b params"

definition DelQuery :: "string list \<Rightarrow> 'o RequestBuilder \<Rightarrow> 'o RequestBuilder" where
  "DelQuery keys b = b\<lparr>b_metadata := deleteQueries (b_metadata b) keys\<rparr>"

definition QueriesStruct :: "(goany \<Rightarrow> goerr + urlValues) \<Rightarrow> goany \<Rightarrow> 'o RequestBuilder \<Rightarrow> 'o RequestBuilder" where
  "QueriesStruct qv queryStruct b =
     (case qv queryStruct of
        Inl e \<Rightarrow> setPreparationError (Some e) preparationErrorClassUnknown b
      | Inr vs \<Rightarrow> Queries vs b)"

definition CookieValue :: "string \<Rightarrow> Value \<Rightarrow> 'o RequestBuilder \<Rightarrow> 'o RequestBuilder" where
  "CookieValue key v b = b\<lparr>b_metadata := addCookie (b_metadata b) key v\<rparr>"

definition Builder_Cookie :: "string \<Rightarrow> string \<Rightarrow> 'o RequestBuilder \<Rightarrow> 'o RequestBuilder" where
  "Builder_Cookie key v b = CookieValue key (privateRequestValue v) b"

definition Builder_Cookies :: "(string, string) gomap \<Rightarrow> 'o RequestBuilder \<Rightarrow> 'o RequestBuilder" where
  "Builder_Cookies cookies b = foldl (\<lambda>b (k, v). Builder_Cookie k v b) b cookies"

definition DelCookie :: "string list \<Rightarrow> 'o RequestBuilder \<Rightarrow> 'o RequestBuilder" where
  "DelCookie keys b = (if keys = [] then b else b\<lparr>b_metadata := deleteCookies (b_metadata b) keys\<rparr>)"

section \<open>Headers\<close>

definition manualContentType :: "string \<Rightarrow> 'o RequestBuilder \<Rightarrow> 'o RequestBuilder" where
  "manualContentType key b =
     (if EqualFold key ''Content-Type'' then b\<lparr>b_body := (b_body b)\<lparr>bp_generatedContentType := False\<rparr>\<rparr> else b)"

definition setHeaderValue :: "'o oo_ops \<Rightarrow> string \<Rightarrow> Value \<Rightarrow> 'o RequestBuilder \<Rightarrow> 'o RequestBuilder" where
  "setHeaderValue ob key v b =
     b\<lparr>b_metadata := setHeader (b_metadata b) key v,
       b_orderedHeaders := (if b_orderedHeaders b \<noteq> None
                            then setOrderedHeaderValues ob (b_orderedHeaders b) key [rawValue v] else None)\<rparr>"

definition builder_setHeader :: "'o oo_ops \<Rightarrow> string \<Rightarrow> string \<Rightarrow> 'o RequestBuilder \<Rightarrow> 'o RequestBuilder" where
  "builder_setHeader ob key v = setHeaderValue ob key (privateRequestValue v)"

definition addHeaderValue :: "'o oo_ops \<Rightarrow> string \<Rightarrow> Value \<Rightarrow> 'o RequestBuilder \<Rightarrow> 'o RequestBuilder" where
  "addHeaderValue ob key v b =
     b\<lparr>b_metadata := addHeader (b_metadata b) key v,
       b_orderedHeaders := (if b_orderedHeaders b \<noteq> None
                            then addOrderedHeaderValue ob (b_orderedHeaders b) key (rawValue v) else None)\<rparr>"

definition delHeader :: "'o oo_ops \<Rightarrow> string list \<Rightarrow> 'o RequestBuilder \<Rightarrow> 'o RequestBuilder" where
  "delHeader ob keys b =
     b\<lparr>b_metadata := deleteHeaders (b_metadata b) keys,
       b_orderedHeaders := foldl (\<lambda>h k. if h \<noteq> None then deleteOrderedHeader ob h k else h) (b_orderedHeaders b) keys\<rparr>"

definition HeaderValue :: "'o oo_ops \<Rightarrow> string \<Rightarrow> Value \<Rightarrow> 'o RequestBuilder \<Rightarrow> 'o RequestBuilder" where
  "HeaderValue ob key v b = manualContentType key (setHeaderValue ob key v b)"

definition Builder_Header :: "'o oo_ops \<Rightarrow> string \<Rightarrow> string \<Rightarrow> 'o RequestBuilder \<Rightarrow> 'o RequestBuilder" where
  "Builder_Header ob key v b = manualContentType key (builder_setHeader ob key v b)"

definition AddHeaderValue :: "'o oo_ops \<Rightarrow> string \<Rightarrow> Value \<Rightarrow> 'o RequestBuilder \<Rightarrow> 'o RequestBuilder" where
  "AddHeaderValue ob key v b = manualContentType key (addHeaderValue ob key v b)"

definition Builder_AddHeader :: "'o oo_ops \<Rightarrow> string \<Rightarrow> string \<Rightarrow> 'o RequestBuilder \<Rightarrow> 'o RequestBuilder" where
  "Builder_AddHeader ob key v b = manualContentType key (addHeaderValue ob key (privateRequestValue v) b)"

definition DelHeader :: "'o oo_ops \<Rightarrow> string list \<Rightarrow> 'o RequestBuilder \<Rightarrow> 'o RequestBuilder" where
  "DelHeader ob keys b = foldl (\<lambda>b k. manualContentType k b) (delHeader ob keys b) keys"

definition headers_entry :: "'o oo_ops \<Rightarrow> 'o RequestBuilder \<Rightarrow> string \<times> string list \<Rightarrow> 'o RequestBuilder" where
  "headers_entry ob b e =
     manualContentType (fst e)
       (b\<lparr>b_metadata := foldl (\<lambda>m v. addHeader m (fst e) (privateRequestValue v)) (deleteHeaders (b_metadata b) [fst e]) (snd e),
          b_orderedHeaders := (if b_orderedHeaders b \<noteq> None
                               then setOrderedHeaderValues ob (b_orderedHeaders b) (fst e) (snd e) else None)\<rparr>)"

definition Builder_Headers :: "'o oo_ops \<Rightarrow> httpHeader \<Rightarrow> 'o RequestBuilder \<Rightarrow> 'o RequestBuilder" where
  "Builder_Headers ob headers b = foldl (headers_entry ob) b headers"

definition ordered_to_metadata :: "'o oo_ops \<Rightarrow> 'o option \<Rightarrow> requestMetadata \<Rightarrow> requestMetadata" where
  "ordered_to_metadata ob h m =
     (case h of
        None \<Rightarrow> m\<lparr>md_headers := []\<rparr>
      | Some x \<Rightarrow>
          foldl (\<lambda>m e. if isPseudoHeader (fst e) then m
                       else foldl (\<lambda>m v. addHeader m (fst e) (privateRequestValue v)) m (snd e))
            (m\<lparr>md_headers := []\<rparr>) (oo_entries ob x))"

definition Builder_OrderedHeaders :: "'o oo_ops \<Rightarrow> 'o option \<Rightarrow> 'o RequestBuilder \<Rightarrow> 'o RequestBuilder" where
  "Builder_OrderedHeaders ob headers b =
     (let h = cloneOrderedHeaders ob headers
      in b\<lparr>b_body := (b_body b)\<lparr>bp_generatedContentType := False\<rparr>, b_orderedHeaders := h,
           b_metadata := ordered_to_metadata ob h (b_metadata b)\<rparr>)"

definition ContentType :: "'o oo_ops \<Rightarrow> string \<Rightarrow> 'o RequestBuilder \<Rightarrow> 'o RequestBuilder" where
  "ContentType ob v = Builder_Header ob ''Content-Type'' v"

definition Accept :: "'o oo_ops \<Rightarrow> string \<Rightarrow> 'o RequestBuilder \<Rightarrow> 'o RequestBuilder" where
  "Accept ob v = Builder_Header ob ''Accept'' v"

definition UserAgent :: "'o oo_ops \<Rightarrow> string \<Rightarrow> 'o RequestBuilder \<Rightarrow> 'o RequestBuilder" where
  "UserAgent ob v = Builder_Header ob ''User-Agent'' v"

definition Referer :: "'o oo_ops \<Rightarrow> string \<Rightarrow> 'o RequestBuilder \<Rightarrow> 'o RequestBuilder" where
  "Referer ob v = Builder_Header ob ''Referer'' v"

section \<open>Bodies\<close>

definition selectBody :: "'o oo_ops \<Rightarrow> requestBodyPlan \<Rightarrow> 'o RequestBuilder \<Rightarrow> 'o RequestBuilder" where
  "selectBody ob body b =
     (let b1 = (if bp_generatedContentType (b_body b) then delHeader ob [''Content-Type''] b else b);
          b2 = b1\<lparr>b_body := body\<rparr>
      in if bp_contentType body \<noteq> [] then builder_setHeader ob ''Content-Type'' (bp_contentType body) b2 else b2)"

definition formPlan :: "requestBodyFormOccurrence list \<Rightarrow> requestBodyPlan" where
  "formPlan occs =
     zeroBodyPlan\<lparr>bp_kind := requestBodyForm, bp_formOccurrences := occs,
       bp_contentType := ''application/x-www-form-urlencoded'', bp_generatedContentType := True\<rparr>"

definition form_occurrence :: "string \<Rightarrow> Value \<Rightarrow> requestBodyFormOccurrence" where
  "form_occurrence key v = \<lparr>fo_name = key, fo_value = v\<rparr>"

definition activateForm :: "'o oo_ops \<Rightarrow> 'o RequestBuilder \<Rightarrow> 'o RequestBuilder" where
  "activateForm ob b = (if bp_kind (b_body b) \<noteq> requestBodyForm then selectBody ob (formPlan []) b else b)"

definition addFormField :: "string \<Rightarrow> Value \<Rightarrow> 'o RequestBuilder \<Rightarrow> 'o RequestBuilder" where
  "addFormField key v b =
     b\<lparr>b_body := (b_body b)\<lparr>bp_formOccurrences := bp_formOccurrences (b_body b) @ [form_occurrence key v]\<rparr>\<rparr>"

definition Builder_Form :: "'o oo_ops \<Rightarrow> (goany \<Rightarrow> goerr + urlValues) \<Rightarrow> goany \<Rightarrow> 'o RequestBuilder \<Rightarrow> 'o RequestBuilder" where
  "Builder_Form ob qv v b =
     (case parseFormFields qv v of
        Inl e \<Rightarrow> setPreparationError (Some e) preparationErrorClassUnsupportedFormFieldsType b
      | Inr fvs \<Rightarrow>
          selectBody ob (formPlan (map (\<lambda>(k, w). form_occurrence k (privateRequestValue w)) (field_pairs fvs))) b)"

definition FormFields :: "'o oo_ops \<Rightarrow> (goany \<Rightarrow> goerr + urlValues) \<Rightarrow> goany \<Rightarrow> 'o RequestBuilder \<Rightarrow> 'o RequestBuilder" where
  "FormFields ob qv v b =
     (case parseFormFields qv v of
        Inl e \<Rightarrow> setPreparationError (Some e) preparationErrorClassUnsupportedFormFieldsType b
      | Inr fvs \<Rightarrow> foldl (\<lambda>b (k, w). addFormField k (privateRequestValue w) b) (activateForm ob b) (field_pairs fvs))"

definition FormFieldValue :: "'o oo_ops \<Rightarrow> string \<Rightarrow> Value \<Rightarrow> 'o RequestBuilder \<Rightarrow> 'o RequestBuilder" where
  "FormFieldValue ob key v b = addFormField key v (activateForm ob b)"

definition FormField :: "'o oo_ops \<Rightarrow> string \<Rightarrow> string \<Rightarrow> 'o RequestBuilder \<Rightarrow> 'o RequestBuilder" where
  "FormField ob key v b = addFormField key (privateRequestValue v) (activateForm ob b)"

definition DelFormField :: "string list \<Rightarrow> 'o RequestBuilder \<Rightarrow> 'o RequestBuilder" where
  "DelFormField keys b =
     (if bp_kind (b_body b) = requestBodyForm
      then b\<lparr>b_body := (b_body b)\<lparr>bp_formOccurrences :=
              filter (\<lambda>occ. fo_name occ \<notin> set keys) (bp_formOccurrences (b_body b))\<rparr>\<rparr>
      else b)"

definition Builder_Multipart :: "'o oo_ops \<Rightarrow> Multipart option \<Rightarrow> 'o RequestBuilder \<Rightarrow> 'o RequestBuilder" where
  "Builder_Multipart ob m b =
     (if m = None
      then setPreparationError (Some (wrapped ErrInvalidConfigValue ''multipart body'')) preparationErrorClassInvalidConfigValue b
      else selectBody ob (zeroBodyPlan\<lparr>bp_kind := requestBodyMultipart, bp_multipart := m, bp_generatedContentType := True\<rparr>) b)"

definition typed_body :: "requestBodyKind \<Rightarrow> goany \<Rightarrow> bool \<Rightarrow> string \<Rightarrow> requestBodyPlan" where
  "typed_body kind v public ct =
     zeroBodyPlan\<lparr>bp_kind := kind, bp_value := v, bp_valuePublic := public, bp_contentType := ct,
       bp_generatedContentType := True\<rparr>"

definition Builder_JSON :: "'o oo_ops \<Rightarrow> goany \<Rightarrow> 'o RequestBuilder \<Rightarrow> 'o RequestBuilder" where
  "Builder_JSON ob v = selectBody ob (typed_body requestBodyJSON v False ''application/json'')"

definition Builder_XML :: "'o oo_ops \<Rightarrow> goany \<Rightarrow> 'o RequestBuilder \<Rightarrow> 'o RequestBuilder" where
  "Builder_XML ob v = selectBody ob (typed_body requestBodyXML v False ''application/xml'')"

definition Builder_YAML :: "'o oo_ops \<Rightarrow> goany \<Rightarrow> 'o RequestBuilder \<Rightarrow> 'o RequestBuilder" where
  "Builder_YAML ob v = selectBody ob (typed_body requestBodyYAML v False ''application/yaml'')"

definition Builder_Text :: "'o oo_ops \<Rightarrow> string \<Rightarrow> 'o RequestBuilder \<Rightarrow> 'o RequestBuilder" where
  "Builder_Text ob v = selectBody ob (typed_body requestBodyText (GoString v) False ''text/plain'')"

definition TextValue :: "'o oo_ops \<Rightarrow> Value \<Rightarrow> 'o RequestBuilder \<Rightarrow> 'o RequestBuilder" where
  "TextValue ob v = selectBody ob (typed_body requestBodyText (GoString (rawValue v)) (isPublic v) ''text/plain'')"

definition Builder_Bytes :: "'o oo_ops \<Rightarrow> bytes \<Rightarrow> 'o RequestBuilder \<Rightarrow> 'o RequestBuilder" where
  "Builder_Bytes ob v = selectBody ob (zeroBodyPlan\<lparr>bp_kind := requestBodyBytes, bp_value := GoBytes v\<rparr>)"

definition BytesPayload :: "'o oo_ops \<Rightarrow> Payload \<Rightarrow> 'o RequestBuilder \<Rightarrow> 'o RequestBuilder" where
  "BytesPayload ob payload =
     selectBody ob (zeroBodyPlan\<lparr>bp_kind := requestBodyBytes, bp_value := GoBytes (cloneBytes payload),
       bp_valuePublic := payload_isPublic payload\<rparr>)"

definition Builder_Reader :: "'o oo_ops \<Rightarrow> goReader option \<Rightarrow> string \<Rightarrow> 'o RequestBuilder \<Rightarrow> 'o RequestBuilder" where
  "Builder_Reader ob r ct =
     selectBody ob (zeroBodyPlan\<lparr>bp_kind := requestBodyReader,
       bp_value := (case r of None \<Rightarrow> GoNil | Some x \<Rightarrow> GoReader x), bp_contentType := ct,
       bp_generatedContentType := (ct \<noteq> [])\<rparr>)"

definition Builder_SizedReader :: "'o oo_ops \<Rightarrow> goReader option \<Rightarrow> string \<Rightarrow> int \<Rightarrow> 'o RequestBuilder \<Rightarrow> 'o RequestBuilder" where
  "Builder_SizedReader ob r ct contentLength b =
     (if contentLength < 0
      then setPreparationError (Some (invalidOptionValue ''SizedReader.ContentLength'')) preparationErrorClassInvalidConfigValue b
      else (let b1 = Builder_Reader ob r ct b
            in b1\<lparr>b_body := (b_body b1)\<lparr>bp_readerLength := contentLength, bp_hasReaderLength := True\<rparr>\<rparr>))"

end
