(* ===== verification/Builder_Properties.thy ===== *)
theory Builder_Properties
  imports Request_Builder
begin

text \<open>
  Properties of the fluent builder over every sequence of method calls: \<open>builder_step\<close> has one rule
  per method, \<open>builder_reachable\<close> are the builders a caller can obtain from \<open>Client.Request\<close>.
\<close>

section \<open>Sequences of calls\<close>

inductive builder_step :: "'o oo_ops \<Rightarrow> (goany \<Rightarrow> goerr + urlValues) \<Rightarrow> 'o RequestBuilder \<Rightarrow> 'o RequestBuilder \<Rightarrow> bool"
  for ob qv where
  "builder_step ob qv b (AddMiddleware mws b)"
| "builder_step ob qv b (Builder_Method meth b)"
| "builder_step ob qv b (PathValue pv b)"
| "builder_step ob qv b (Builder_Path path b)"
| "builder_step ob qv b (PathParams params b)"
| "builder_step ob qv b (PathParam key v b)"
| "builder_step ob qv b (PathParamValue key val b)"
| "builder_step ob qv b (DelPathParam keys b)"
| "builder_step ob qv b (Builder_Timeout timeout b)"
| "builder_step ob qv b (MaxResponseBodyBytes maxBytes b)"
| "builder_step ob qv b (Builder_Retry policy b)"
| "builder_step ob qv b (NoRetry b)"
| "builder_step ob qv b (Builder_Auth auth b)"
| "builder_step ob qv b (QueryValue key val b)"
| "builder_step ob qv b (Builder_Query key v b)"
| "builder_step ob qv b (Queries vals b)"
| "builder_step ob qv b (DelQuery keys b)"
| "builder_step ob qv b (QueriesStruct qv a b)"
| "builder_step ob qv b (CookieValue key val b)"
| "builder_step ob qv b (Builder_Cookie key v b)"
| "builder_step ob qv b (Builder_Cookies params b)"
| "builder_step ob qv b (DelCookie keys b)"
| "builder_step ob qv b (HeaderValue ob key val b)"
| "builder_step ob qv b (Builder_Header ob key v b)"
| "builder_step ob qv b (AddHeaderValue ob key val b)"
| "builder_step ob qv b (Builder_AddHeader ob key v b)"
| "builder_step ob qv b (DelHeader ob keys b)"
| "builder_step ob qv b (Builder_Headers ob hs b)"
| "builder_step ob qv b (Builder_OrderedHeaders ob oh b)"
| "builder_step ob qv b (ContentType ob v b)"
| "builder_step ob qv b (Accept ob v b)"
| "builder_step ob qv b (UserAgent ob v b)"
| "builder_step ob qv b (Referer ob v b)"
| "builder_step ob qv b (Builder_Form ob qv a b)"
| "builder_step ob qv b (FormFields ob qv a b)"
| "builder_step ob qv b (FormFieldValue ob key val b)"
| "builder_step ob qv b (FormField ob key v b)"
| "builder_step ob qv b (DelFormField keys b)"
| "builder_step ob qv b (Builder_Multipart ob m b)"
| "builder_step ob qv b (Builder_JSON ob a b)"
| "builder_step ob qv b (Builder_XML ob a b)"
| "builder_step ob qv b (Builder_YAML ob a b)"
| "builder_step ob qv b (Builder_Text ob v b)"
| "builder_step ob qv b (TextValue ob val b)"
| "builder_step ob qv b (Builder_Bytes ob v b)"
| "builder_step ob qv b (BytesPayload ob payload b)"
| "builder_step ob qv b (Builder_Reader ob rd v b)"
| "builder_step ob qv b (Builder_SizedReader ob rd v len b)"

inductive builder_reachable :: "'o oo_ops \<Rightarrow> (goany \<Rightarrow> goerr + urlValues) \<Rightarrow> 'o RequestBuilder \<Rightarrow> bool"
  for ob qv where
  reach_new: "builder_reachable ob qv (Client_Request meth path)"
| reach_step: "builder_reachable ob qv b \<Longrightarrow> builder_step ob qv b b' \<Longrightarrow> builder_reachable ob qv b'"

section \<open>The primitive changes behind the methods\<close>

text \<open>
  Every method is composed of seven kinds of change. An invariant that survives each of them
  survives every method.
\<close>

text \<open>A class that is recorded with an error names a sentinel the error wraps.\<close>

definition class_sound :: "preparationErrorClass \<Rightarrow> goerr \<Rightarrow> bool" where
  "class_sound cls e \<longleftrightarrow>
     (cls = preparationErrorClassInvalidConfigValue \<longrightarrow> errors_is e ErrInvalidConfigValue) \<and>
     (cls = preparationErrorClassUnsupportedFormFieldsType \<longrightarrow> errors_is e ErrUnsupportedFormFieldsType)"

definition class_ok :: "'o RequestBuilder \<Rightarrow> bool" where
  "class_ok b \<longleftrightarrow> (case b_preparationErr b of None \<Rightarrow> True | Some e \<Rightarrow> class_sound (b_preparationErrClass b) e)"

lemma class_sound_simps [simp]:
  "class_sound preparationErrorClassUnknown e"
  "class_sound preparationErrorClassInvalidConfigValue (invalidOptionValue n)"
  "class_sound preparationErrorClassInvalidConfigValue (wrapped ErrInvalidConfigValue n)"
  "class_sound preparationErrorClassUnsupportedFormFieldsType (wrap2 ErrUnsupportedFormFieldsType e)"
  by (simp_all add: class_sound_def invalidOptionValue_def wrapped_def wrap2_def)

lemma validators_sound:
  "validateMiddlewares mws = Some e \<Longrightarrow> class_sound preparationErrorClassInvalidConfigValue e"
  "validateDurationOption n d = Some e \<Longrightarrow> class_sound preparationErrorClassInvalidConfigValue e"
  "validateIntOption n i = Some e \<Longrightarrow> class_sound preparationErrorClassInvalidConfigValue e"
  "validateAuthOption auth = Some e \<Longrightarrow> class_sound preparationErrorClassInvalidConfigValue e"
  "parseFormFields qv v = Inl e \<Longrightarrow> class_sound preparationErrorClassUnsupportedFormFieldsType e"
  by (auto simp: validateMiddlewares_def validateDurationOption_def validateIntOption_def validateAuthOption_def parseFormFields_def
      split: list.splits if_splits goany.splits sum.splits)

definition keeps_core :: "'o RequestBuilder \<Rightarrow> 'o RequestBuilder \<Rightarrow> bool" where
  "keeps_core b b' \<longleftrightarrow>
     md_headers (b_metadata b') = md_headers (b_metadata b) \<and> b_orderedHeaders b' = b_orderedHeaders b \<and>
     bp_generatedContentType (b_body b') = bp_generatedContentType (b_body b) \<and>
     bp_contentType (b_body b') = bp_contentType (b_body b) \<and>
     (b_preparationErr b \<noteq> None \<longrightarrow>
        b_preparationErr b' = b_preparationErr b \<and> b_preparationErrClass b' = b_preparationErrClass b) \<and>
     (class_ok b \<longrightarrow> class_ok b')"

lemma keeps_core_refl [simp]: "keeps_core b b"
  by (simp add: keeps_core_def)

lemma keeps_core_trans: "keeps_core b c \<Longrightarrow> keeps_core c d \<Longrightarrow> keeps_core b d"
  by (auto simp: keeps_core_def)

lemma keeps_core_error: "class_sound cls e \<Longrightarrow> keeps_core b (setPreparationError (Some e) cls b)"
  by (simp add: keeps_core_def setPreparationError_def class_ok_def)

lemma keeps_core_frame:
  "md_headers (b_metadata b') = md_headers (b_metadata b) \<Longrightarrow> b_orderedHeaders b' = b_orderedHeaders b \<Longrightarrow>
   bp_generatedContentType (b_body b') = bp_generatedContentType (b_body b) \<Longrightarrow> bp_contentType (b_body b') = bp_contentType (b_body b) \<Longrightarrow>
   b_preparationErr b' = b_preparationErr b \<Longrightarrow> b_preparationErrClass b' = b_preparationErrClass b \<Longrightarrow> keeps_core b b'"
  by (simp add: keeps_core_def class_ok_def split: option.split)

lemma keeps_core_plain:
  "keeps_core b (AddMiddleware mws b)" "keeps_core b (Builder_Method meth b)" "keeps_core b (PathValue pv b)"
  "keeps_core b (Builder_Path path b)" "keeps_core b (PathParams params b)" "keeps_core b (PathParam key v b)"
  "keeps_core b (PathParamValue key pv b)" "keeps_core b (DelPathParam keys b)"
  "keeps_core b (Builder_Timeout timeout b)" "keeps_core b (MaxResponseBodyBytes maxBytes b)"
  "keeps_core b (Builder_Retry policy b)" "keeps_core b (NoRetry b)" "keeps_core b (Builder_Auth auth b)"
  "keeps_core b (QueryValue key pv b)" "keeps_core b (Builder_Query key v b)" "keeps_core b (DelQuery keys b)"
  "keeps_core b (CookieValue key pv b)" "keeps_core b (Builder_Cookie key v b)" "keeps_core b (DelCookie keys b)"
  "keeps_core b (DelFormField keys b)" "keeps_core b (addFormField key pv b)"
  by (auto simp: AddMiddleware_def Builder_Method_def PathValue_def Builder_Path_def PathParams_def
      PathParam_def PathParamValue_def DelPathParam_def Builder_Timeout_def MaxResponseBodyBytes_def Builder_Retry_def
      NoRetry_def Builder_Auth_def QueryValue_def Builder_Query_def DelQuery_def CookieValue_def Builder_Cookie_def
      DelCookie_def DelFormField_def addFormField_def addQuery_def deleteQueries_def
      addCookie_def deleteCookies_def split: option.splits intro!: keeps_core_error keeps_core_frame dest: validators_sound)

lemma keeps_core_foldl:
  assumes "\<And>b x. keeps_core b (f b x)"
  shows "keeps_core b (foldl f b xs)"
  by (induction xs arbitrary: b) (auto intro: keeps_core_trans assms)

lemma keeps_core_loops:
  "keeps_core b (Queries vals b)" "keeps_core b (Builder_Cookies params b)"
  "keeps_core b (QueriesStruct qv a b)"
proof -
  show q: "keeps_core b (Queries vals b)" for vals
    unfolding Queries_def by (rule keeps_core_foldl) (auto intro: keeps_core_foldl keeps_core_plain)
  show "keeps_core b (Builder_Cookies params b)"
    unfolding Builder_Cookies_def by (rule keeps_core_foldl) (auto intro: keeps_core_plain)
  show "keeps_core b (QueriesStruct qv a b)"
    by (auto simp: QueriesStruct_def keeps_core_error q split: sum.splits)
qed

lemmas keeps_core_all = keeps_core_plain keeps_core_loops keeps_core_error

section \<open>Invariants\<close>

locale builder_invariant =
  fixes ob :: "'o oo_ops" and P :: "'o RequestBuilder \<Rightarrow> bool"
  assumes inv_core: "P b \<Longrightarrow> keeps_core b b' \<Longrightarrow> P b'"
    and inv_set: "P b \<Longrightarrow> P (manualContentType k (setHeaderValue ob k v b))"
    and inv_add: "P b \<Longrightarrow> P (manualContentType k (addHeaderValue ob k v b))"
    and inv_del: "P b \<Longrightarrow> P (DelHeader ob ks b)"
    and inv_entry: "P b \<Longrightarrow> P (headers_entry ob b e)"
    and inv_ordered: "P b \<Longrightarrow> P (Builder_OrderedHeaders ob h b)"
    and inv_select: "P b \<Longrightarrow> P (selectBody ob body b)"
begin

lemma inv_activate: "P b \<Longrightarrow> P (activateForm ob b)"
  by (simp add: activateForm_def inv_select)

lemma inv_form: "P b \<Longrightarrow> P (Builder_Form ob qv a b)"
  by (auto simp: Builder_Form_def intro: inv_select inv_core keeps_core_error dest: validators_sound split: sum.splits)

lemma inv_form_fields: "P b \<Longrightarrow> P (FormFields ob qv a b)"
proof -
  assume b: "P b"
  have "keeps_core c (foldl (\<lambda>b (k, w). addFormField k (privateRequestValue w) b) c xs)" for c :: "'o RequestBuilder" and xs
    by (rule keeps_core_foldl) (auto intro: keeps_core_plain)
  then show ?thesis
    using b inv_core[OF b keeps_core_error[OF validators_sound(5)]] inv_core[OF inv_activate[OF b]] by (auto simp: FormFields_def split: sum.splits)
qed

lemma inv_form_field: "P b \<Longrightarrow> P (FormFieldValue ob key pv b)" "P b \<Longrightarrow> P (FormField ob key v b)"
  unfolding FormFieldValue_def FormField_def by (rule inv_core[OF inv_activate], assumption, rule keeps_core_plain)+

lemma inv_headers: "P b \<Longrightarrow> P (Builder_Headers ob hs b)"
  unfolding Builder_Headers_def by (induction hs arbitrary: b) (simp_all add: inv_entry)

lemma inv_sized: "P b \<Longrightarrow> P (Builder_SizedReader ob rd ct len b)"
proof -
  assume b: "P b"
  have k: "keeps_core c (c\<lparr>b_body := (b_body c)\<lparr>bp_readerLength := len, bp_hasReaderLength := True\<rparr>\<rparr>)" for c :: "'o RequestBuilder"
    by (rule keeps_core_frame) simp_all
  have "P (Builder_Reader ob rd ct b)" unfolding Builder_Reader_def by (rule inv_select[OF b])
  from inv_core[OF this k] show ?thesis
    using inv_core[OF b keeps_core_error[OF class_sound_simps(2)]] by (simp add: Builder_SizedReader_def Let_def)
qed

lemma inv_step: "builder_step ob qv b b' \<Longrightarrow> P b \<Longrightarrow> P b'"
  by (erule builder_step.cases)
    (auto simp: HeaderValue_def Builder_Header_def builder_setHeader_def AddHeaderValue_def Builder_AddHeader_def
      ContentType_def Accept_def UserAgent_def Referer_def Builder_Multipart_def Builder_JSON_def Builder_XML_def
      Builder_YAML_def Builder_Text_def TextValue_def Builder_Bytes_def BytesPayload_def Builder_Reader_def
      intro: inv_set inv_add inv_del inv_ordered inv_select inv_form inv_form_fields inv_form_field inv_headers inv_sized
        inv_core[OF _ keeps_core_plain(1)] inv_core[OF _ keeps_core_plain(2)] inv_core[OF _ keeps_core_plain(3)]
        inv_core[OF _ keeps_core_plain(4)] inv_core[OF _ keeps_core_plain(5)] inv_core[OF _ keeps_core_plain(6)]
        inv_core[OF _ keeps_core_plain(7)] inv_core[OF _ keeps_core_plain(8)] inv_core[OF _ keeps_core_plain(9)]
        inv_core[OF _ keeps_core_plain(10)] inv_core[OF _ keeps_core_plain(11)] inv_core[OF _ keeps_core_plain(12)]
        inv_core[OF _ keeps_core_plain(13)] inv_core[OF _ keeps_core_plain(14)] inv_core[OF _ keeps_core_plain(15)]
        inv_core[OF _ keeps_core_plain(16)] inv_core[OF _ keeps_core_plain(17)] inv_core[OF _ keeps_core_plain(18)]
        inv_core[OF _ keeps_core_plain(19)] inv_core[OF _ keeps_core_plain(20)]
        inv_core[OF _ keeps_core_loops(1)] inv_core[OF _ keeps_core_loops(2)] inv_core[OF _ keeps_core_loops(3)]
        inv_core[OF _ keeps_core_error[OF class_sound_simps(3)]])

lemma inv_steps: "(builder_step ob qv)\<^sup>*\<^sup>* b b' \<Longrightarrow> P b \<Longrightarrow> P b'"
  by (induction rule: rtranclp_induct) (auto intro: inv_step)

lemma inv_reachable:
  assumes "builder_reachable ob qv b" and "\<And>meth path. P (Client_Request meth path)"
  shows "P b"
  using assms(1) by induction (auto intro: inv_step assms(2))

end

section \<open>The first preparation error wins\<close>

lemma manualContentType_frame [simp]:
  "b_metadata (manualContentType k b) = b_metadata b" "b_orderedHeaders (manualContentType k b) = b_orderedHeaders b"
  "b_preparationErr (manualContentType k b) = b_preparationErr b"
  "b_preparationErrClass (manualContentType k b) = b_preparationErrClass b"
  "bp_contentType (b_body (manualContentType k b)) = bp_contentType (b_body b)"
  "bp_generatedContentType (b_body (manualContentType k b)) \<longleftrightarrow>
     bp_generatedContentType (b_body b) \<and> \<not> EqualFold k ''Content-Type''"
  by (simp_all add: manualContentType_def)

lemma DelHeader_frame [simp]:
  "b_metadata (DelHeader ob ks b) = deleteHeaders (b_metadata b) ks"
  "b_orderedHeaders (DelHeader ob ks b) = b_orderedHeaders (delHeader ob ks b)"
  "b_preparationErr (DelHeader ob ks b) = b_preparationErr b"
  "b_preparationErrClass (DelHeader ob ks b) = b_preparationErrClass b"
  "bp_contentType (b_body (DelHeader ob ks b)) = bp_contentType (b_body b)"
  "bp_generatedContentType (b_body (DelHeader ob ks b)) \<longleftrightarrow>
     bp_generatedContentType (b_body b) \<and> \<not> (\<exists>k\<in>set ks. EqualFold k ''Content-Type'')"
proof -
  have f: "b_metadata (foldl (\<lambda>b k. manualContentType k b) c ks) = b_metadata c \<and>
    b_orderedHeaders (foldl (\<lambda>b k. manualContentType k b) c ks) = b_orderedHeaders c \<and>
    b_preparationErr (foldl (\<lambda>b k. manualContentType k b) c ks) = b_preparationErr c \<and>
    b_preparationErrClass (foldl (\<lambda>b k. manualContentType k b) c ks) = b_preparationErrClass c \<and>
    bp_contentType (b_body (foldl (\<lambda>b k. manualContentType k b) c ks)) = bp_contentType (b_body c) \<and>
    (bp_generatedContentType (b_body (foldl (\<lambda>b k. manualContentType k b) c ks)) \<longleftrightarrow>
       bp_generatedContentType (b_body c) \<and> \<not> (\<exists>k\<in>set ks. EqualFold k ''Content-Type''))" for c :: "'b RequestBuilder" and ks
    by (induction ks arbitrary: c) auto
  show "b_metadata (DelHeader ob ks b) = deleteHeaders (b_metadata b) ks"
    "b_orderedHeaders (DelHeader ob ks b) = b_orderedHeaders (delHeader ob ks b)"
    "b_preparationErr (DelHeader ob ks b) = b_preparationErr b"
    "b_preparationErrClass (DelHeader ob ks b) = b_preparationErrClass b"
    "bp_contentType (b_body (DelHeader ob ks b)) = bp_contentType (b_body b)"
    "bp_generatedContentType (b_body (DelHeader ob ks b)) \<longleftrightarrow>
     bp_generatedContentType (b_body b) \<and> \<not> (\<exists>k\<in>set ks. EqualFold k ''Content-Type'')"
    using f[of "delHeader ob ks b" ks] by (simp_all add: DelHeader_def delHeader_def)
qed

lemmas header_op_defs = setHeaderValue_def addHeaderValue_def headers_entry_def Builder_OrderedHeaders_def
  selectBody_def delHeader_def builder_setHeader_def

interpretation first_error: builder_invariant ob "\<lambda>b. b_preparationErr b = Some e \<and> b_preparationErrClass b = cls"
  for ob e cls
  by unfold_locales (auto simp: keeps_core_def header_op_defs Let_def)

text \<open>
  The first error a fluent call records is final: no later call of any method changes the
  error or its class, so delivery reports the first thing that went wrong.
\<close>

lemma first_preparation_error_wins:
  assumes "(builder_step ob qv)\<^sup>*\<^sup>* b b'" and "b_preparationErr b = Some e"
  shows "b_preparationErr b' = Some e \<and> b_preparationErrClass b' = b_preparationErrClass b"
  using first_error.inv_steps[OF assms(1), of e "b_preparationErrClass b"] assms(2) by simp

lemma first_preparation_error_example:
  "let b = Builder_Timeout (-1) (Client_Request ''GET'' ''/'') :: (string, string list) alist RequestBuilder
   in b_preparationErr (NoRetry (MaxResponseBodyBytes (-5) b)) = Some (invalidOptionValue ''Timeout'')"
proof -
  let ?b = "Builder_Timeout (-1) (Client_Request ''GET'' ''/'') :: (string, string list) alist RequestBuilder"
  have "b_preparationErr ?b = Some (invalidOptionValue ''Timeout'')"
    by (simp add: Builder_Timeout_def validateDurationOption_def setPreparationError_def Client_Request_def)
  moreover have "(builder_step dalist_ops (\<lambda>_. Inr []))\<^sup>*\<^sup>* ?b (NoRetry (MaxResponseBodyBytes (-5) ?b))"
    by (meson builder_step.intros(10,12) rtranclp.rtrancl_into_rtrancl rtranclp.rtrancl_refl)
  ultimately have "b_preparationErr (NoRetry (MaxResponseBodyBytes (-5) ?b)) = Some (invalidOptionValue ''Timeout'')"
    using first_preparation_error_wins by blast
  then show ?thesis by (simp only: Let_def)
qed

text \<open>The recorded class is sound for every builder the methods can make.\<close>

interpretation class_inv: builder_invariant ob class_ok for ob
  by unfold_locales
    (auto simp: keeps_core_def class_ok_def header_op_defs Let_def split: option.splits)

section \<open>Generated content types\<close>

definition content_type_ok :: "'o RequestBuilder \<Rightarrow> bool" where
  "content_type_ok b \<longleftrightarrow>
     (bp_generatedContentType (b_body b) \<and> bp_contentType (b_body b) \<noteq> [] \<longrightarrow>
        md_vals (b_metadata b) ''Content-Type'' = [privateRequestValue (bp_contentType (b_body b))])"

lemma md_vals_headers: "md_headers m = md_headers m' \<Longrightarrow> md_vals m k = md_vals m' k"
  by (simp add: md_vals_def)

lemma md_vals_delete_list:
  "md_vals (deleteHeaders m ks) k = (if \<exists>k'\<in>set ks. EqualFold k' k then [] else md_vals m k)"
proof -
  have eq: "(\<lambda>occ. \<not> list_ex (EqualFold (occ_name occ)) ks \<and> EqualFold (occ_name occ) k) =
      (\<lambda>occ. EqualFold (occ_name occ) k \<and> \<not> (\<exists>k'\<in>set ks. EqualFold k' k))"
    by (auto simp: fun_eq_iff list_ex_iff) (meson EqualFold_sym EqualFold_trans)+
  show ?thesis by (simp only: md_vals_def md_headers_delete filter_filter eq) simp
qed

lemma md_vals_add_list:
  "md_vals (foldl (\<lambda>m v. addHeader m key (privateRequestValue v)) m vs) k =
     (if EqualFold key k then md_vals m k @ map privateRequestValue vs else md_vals m k)"
  by (induction vs arbitrary: m) (simp_all add: mdh.vals_add)

lemma setHeaderValue_fields [simp]:
  "b_body (setHeaderValue ob k v b) = b_body b" "b_metadata (setHeaderValue ob k v b) = setHeader (b_metadata b) k v"
  by (simp_all add: setHeaderValue_def)

lemma selectBody_fields:
  "b_body (selectBody ob body b) = body"
  "bp_contentType body \<noteq> [] \<Longrightarrow>
     \<exists>m. b_metadata (selectBody ob body b) = setHeader m ''Content-Type'' (privateRequestValue (bp_contentType body))"
  unfolding selectBody_def Let_def builder_setHeader_def
  by (cases "bp_contentType body = []"; auto)+

interpretation gen_ct: builder_invariant ob content_type_ok for ob
proof unfold_locales
  fix b b' :: "'a RequestBuilder"
  assume "content_type_ok b" "keeps_core b b'"
  then show "content_type_ok b'" by (simp add: content_type_ok_def keeps_core_def md_vals_def)
next
  fix b :: "'a RequestBuilder" and body
  assume "content_type_ok b"
  show "content_type_ok (selectBody ob body b)"
    unfolding content_type_ok_def selectBody_fields(1)
    using selectBody_fields(2)[of body ob b] mdh.vals_set by auto
qed (auto simp: content_type_ok_def setHeaderValue_def addHeaderValue_def headers_entry_def Builder_OrderedHeaders_def
    mdh.vals_set mdh.vals_add mdh.vals_del md_vals_delete_list md_vals_add_list Let_def)

text \<open>
  Whenever the selected body's content type is generated, the builder's headers have
  exactly that one value for Content-Type: switching between bodies never leaves the type of an
  earlier body behind.
\<close>

lemma generated_content_type:
  assumes "builder_reachable ob qv b" and "bp_generatedContentType (b_body b)" and "bp_contentType (b_body b) \<noteq> []"
  shows "md_vals (b_metadata b) ''Content-Type'' = [privateRequestValue (bp_contentType (b_body b))]"
proof -
  have "content_type_ok b"
    using gen_ct.inv_reachable[OF assms(1)] by (simp add: content_type_ok_def Client_Request_def zeroBodyPlan_def)
  then show ?thesis using assms(2,3) by (simp add: content_type_ok_def)
qed

lemma generated_content_type_example:
  "md_vals (b_metadata (FormField dalist_ops ''a'' ''1'' (Builder_JSON dalist_ops GoNil (Client_Request ''POST'' ''/''))))
     ''Content-Type'' = [privateRequestValue ''application/x-www-form-urlencoded'']"
proof -
  let ?b = "FormField dalist_ops ''a'' ''1'' (Builder_JSON dalist_ops GoNil (Client_Request ''POST'' ''/''))"
  have "builder_reachable dalist_ops (\<lambda>_. Inr []) ?b"
    by (meson builder_reachable.intros builder_step.intros(37,40))
  moreover have "bp_generatedContentType (b_body ?b) \<and> bp_contentType (b_body ?b) = ''application/x-www-form-urlencoded''"
    by (simp add: FormField_def addFormField_def activateForm_def Builder_JSON_def selectBody_def typed_body_def formPlan_def
        zeroBodyPlan_def builder_setHeader_def setHeaderValue_def Let_def)
  ultimately show ?thesis using generated_content_type[of dalist_ops "\<lambda>_. Inr []" ?b] by simp
qed

section \<open>Ordered and semantic headers in step\<close>

definition headers_in_sync :: "'o oo_ops \<Rightarrow> 'o RequestBuilder \<Rightarrow> bool" where
  "headers_in_sync ob b \<longleftrightarrow>
     (b_orderedHeaders b \<noteq> None \<longrightarrow> fold_distinct ob (b_orderedHeaders b) \<and>
        (\<forall>k. \<not> isPseudoHeader k \<longrightarrow>
           ordered_vals ob (b_orderedHeaders b) k = map rawValue (md_vals (b_metadata b) k)))"

sublocale ordered_object \<subseteq> sy: synced_multimaps EqualFold md_vals addHeader setHeader "\<lambda>m k. deleteHeaders m [k]" "\<lambda>_. True"
    "ordered_vals ob" "addOrderedHeaderValue ob" "\<lambda>h k v. setOrderedHeaderValues ob h k [v]" "deleteOrderedHeader ob"
    "fold_distinct ob" rawValue "\<lambda>k. \<not> isPseudoHeader k"
  by unfold_locales

lemma isPseudoHeader_fold: "EqualFold k k' \<Longrightarrow> isPseudoHeader k = isPseudoHeader k'"
proof -
  have "lower_char c = CHR '':'' \<longleftrightarrow> c = CHR '':''" for c
    by (auto simp: lower_char_def is_upper_def dest!: arg_cong[of _ _ "of_char :: char \<Rightarrow> nat"])
  then have "isPseudoHeader k \<longleftrightarrow> isPseudoHeader (ToLower k)" for k
    by (cases k) (auto simp: isPseudoHeader_def HasPrefix_def ToLower_def)
  then show "EqualFold k k' \<Longrightarrow> isPseudoHeader k = isPseudoHeader k'" unfolding EqualFold_def by metis
qed

lemma md_vals_entries:
  assumes "\<not> isPseudoHeader k"
  shows "md_vals (foldl (\<lambda>m e. if isPseudoHeader (fst e) then m
        else foldl (\<lambda>m v. addHeader m (fst e) (privateRequestValue v)) m (snd e)) m es) k =
    md_vals m k @ map privateRequestValue (concat (map snd (filter (\<lambda>e. EqualFold (fst e) k) es)))"
proof (induction es arbitrary: m)
  case (Cons e es)
  then show ?case using assms isPseudoHeader_fold[of "fst e" k] by (auto simp: md_vals_add_list)
qed simp

context ordered_object
begin

lemma headers_in_sync_iff:
  "headers_in_sync ob b \<longleftrightarrow> (b_orderedHeaders b \<noteq> None \<longrightarrow> sy.in_sync (b_metadata b) (b_orderedHeaders b))"
  by (auto simp: headers_in_sync_def sy.in_sync_def)

lemma in_sync_cong:
  "(\<And>k. md_vals m k = md_vals m' k) \<Longrightarrow> sy.in_sync m h = sy.in_sync m' h"
  by (simp add: sy.in_sync_def)

lemma delete_fold:
  "foldl (\<lambda>h k. if h \<noteq> None then deleteOrderedHeader ob h k else h) h ks = foldl (deleteOrderedHeader ob) h ks"
  by (induction ks arbitrary: h) (auto simp: deleteOrderedHeader_def split: option.splits)

lemma delHeader_fields:
  "b_orderedHeaders (delHeader ob ks b) = foldl (deleteOrderedHeader ob) (b_orderedHeaders b) ks"
  "b_metadata (delHeader ob ks b) = deleteHeaders (b_metadata b) ks"
  by (simp_all only: delHeader_def delete_fold) simp_all

lemma delete_fold_None: "foldl (deleteOrderedHeader ob) None ks = None"
  by (induction ks) (auto simp: deleteOrderedHeader_def)

lemma sync_delHeader:
  assumes "headers_in_sync ob b"
  shows "headers_in_sync ob (delHeader ob ks b)"
proof (cases "b_orderedHeaders b")
  case None
  then show ?thesis by (simp add: headers_in_sync_def delHeader_fields delete_fold_None)
next
  case (Some x)
  then have "sy.in_sync (b_metadata b) (b_orderedHeaders b)" using assms by (simp add: headers_in_sync_iff)
  from sy.sync_del_names[OF this, of ks]
  have "sy.in_sync (deleteHeaders (b_metadata b) ks) (foldl (deleteOrderedHeader ob) (b_orderedHeaders b) ks)"
    by (rule iffD1[OF in_sync_cong, rotated]) (simp add: mdh.vals_del_names md_vals_delete_list)
  then show ?thesis by (simp add: headers_in_sync_iff delHeader_fields)
qed

lemma sync_entry_headers:
  assumes "headers_in_sync ob b"
  shows "headers_in_sync ob (headers_entry ob b e)"
proof (cases "b_orderedHeaders b")
  case None
  then show ?thesis by (simp add: headers_in_sync_def headers_entry_def)
next
  case (Some x)
  then have "fold_distinct ob (b_orderedHeaders b)"
    and "\<forall>k. \<not> isPseudoHeader k \<longrightarrow> ordered_vals ob (b_orderedHeaders b) k = map rawValue (md_vals (b_metadata b) k)"
    using assms by (auto simp: headers_in_sync_def)
  then show ?thesis
    using Some set_vals
    by (simp add: headers_in_sync_def headers_entry_def md_vals_add_list md_vals_delete_list comp_def)
qed

lemma sync_ordered: "headers_in_sync ob (Builder_OrderedHeaders ob h b)"
proof (cases "cloneOrderedHeaders ob h")
  case None
  then show ?thesis by (simp add: headers_in_sync_def Builder_OrderedHeaders_def Let_def)
next
  case (Some x)
  then have fd: "fold_distinct ob (Some x)" using clone_vals(1)[of h] by simp
  have "ordered_vals ob (Some x) k = concat (map snd (filter (\<lambda>e. EqualFold (fst e) k) (oo_entries ob x)))" for k
    using clone_vals_id[OF fd, of k] clone_vals(2)[of x k] by simp
  then show ?thesis
    using fd Some
    by (auto simp: headers_in_sync_def Builder_OrderedHeaders_def Let_def ordered_to_metadata_def md_vals_entries
        md_vals_def[of "m\<lparr>md_headers := []\<rparr>" for m] comp_def)
qed

lemma sync_set_header: "headers_in_sync ob b \<Longrightarrow> headers_in_sync ob (setHeaderValue ob k v b)"
  using sy.sync_set[of "b_metadata b" "b_orderedHeaders b" k v]
  by (auto simp: headers_in_sync_iff setHeaderValue_def)

lemma sync_add_header: "headers_in_sync ob b \<Longrightarrow> headers_in_sync ob (addHeaderValue ob k v b)"
  using sy.sync_add[of "b_metadata b" "b_orderedHeaders b" k v]
  by (auto simp: headers_in_sync_iff addHeaderValue_def)

lemma sync_frame:
  "headers_in_sync ob b \<Longrightarrow> md_headers (b_metadata b') = md_headers (b_metadata b) \<Longrightarrow>
     b_orderedHeaders b' = b_orderedHeaders b \<Longrightarrow> headers_in_sync ob b'"
  by (simp add: headers_in_sync_def md_vals_def)

lemma sync_select: "headers_in_sync ob b \<Longrightarrow> headers_in_sync ob (selectBody ob body b)"
proof -
  assume b: "headers_in_sync ob b"
  define b1 where "b1 = (if bp_generatedContentType (b_body b) then delHeader ob [''Content-Type''] b else b)"
  have "headers_in_sync ob b1" using b sync_delHeader by (simp add: b1_def)
  then have "headers_in_sync ob (b1\<lparr>b_body := body\<rparr>)" by (rule sync_frame) simp_all
  then show ?thesis
    unfolding selectBody_def Let_def b1_def[symmetric] builder_setHeader_def using sync_set_header by simp
qed

end

sublocale ordered_object \<subseteq> hs: builder_invariant ob "headers_in_sync ob"
proof unfold_locales
  fix b ks
  assume "headers_in_sync ob b"
  then have "headers_in_sync ob (delHeader ob ks b)" by (rule sync_delHeader)
  then show "headers_in_sync ob (DelHeader ob ks b)" by (rule sync_frame) (simp_all add: delHeader_def)
next
  show "headers_in_sync ob (manualContentType k (setHeaderValue ob k v b))" if "headers_in_sync ob b" for b k v
    using sync_set_header[OF that] by (rule sync_frame) simp_all
  show "headers_in_sync ob (manualContentType k (addHeaderValue ob k v b))" if "headers_in_sync ob b" for b k v
    using sync_add_header[OF that] by (rule sync_frame) simp_all
  show "headers_in_sync ob b'" if "headers_in_sync ob b" and "keeps_core b b'" for b b'
    using that by (auto simp: keeps_core_def intro: sync_frame)
qed (auto intro: sync_entry_headers sync_ordered sync_select)

context ordered_object
begin

lemma reachable_in_sync: "builder_reachable ob qv b \<Longrightarrow> headers_in_sync ob b"
  by (erule hs.inv_reachable) (simp add: headers_in_sync_def Client_Request_def)

end

text \<open>
  Claim C18: whatever methods are called, if a builder has ordered headers then they carry, for every
  name that is not a pseudo header, exactly the raw values of the builder's semantic headers, and no
  two of their keys are equal up to case.
\<close>

theorem builder_headers_synced:
  assumes "ordered_object ob" and "builder_reachable ob qv b"
  shows "headers_in_sync ob b"
  by (rule ordered_object.reachable_in_sync[OF assms])

theorem builder_headers_synced_witness:
  "headers_in_sync dalist_ops (Builder_AddHeader dalist_ops ''x-a'' ''2''
     (Builder_OrderedHeaders dalist_ops (Some (oo_set dalist_ops (oo_new dalist_ops) ''X-A'' [''1'']))
        (Client_Request ''GET'' ''/'')))"
  by (rule builder_headers_synced[OF dal.ordered_object_axioms, of "\<lambda>_. Inr []"])
    (meson builder_reachable.intros builder_step.intros(26,29))

end
