(* ===== verification/Go_Net.thy ===== *)
theory Go_Net
  imports Go_URL
begin

text \<open>
  What the package uses of \<open>net\<close> and of \<open>net/url\<close> for hosts and ports: \<open>net.SplitHostPort\<close>,
  \<open>URL.Hostname\<close> and \<open>URL.Port\<close>.
\<close>

definition SplitHostPort :: "string \<Rightarrow> (string \<times> string) option" where
  "SplitHostPort hostport =
     (case LastIndexByte hostport CHR '':'' of
        None \<Rightarrow> None
      | Some i \<Rightarrow>
          if hd hostport = CHR ''['' then
            (case IndexByte hostport CHR '']'' of
               None \<Rightarrow> None
             | Some e \<Rightarrow>
                 if e + 1 \<noteq> i then None
                 else if CHR ''['' \<in> set (drop 1 hostport) \<or> CHR '']'' \<in> set (drop (e + 1) hostport) then None
                 else Some (drop 1 (take e hostport), drop (i + 1) hostport))
          else if CHR '':'' \<in> set (take i hostport) then None
          else if CHR ''['' \<in> set hostport \<or> CHR '']'' \<in> set hostport then None
          else Some (take i hostport, drop (i + 1) hostport))"

definition validOptionalPort :: "string \<Rightarrow> bool" where
  "validOptionalPort port \<longleftrightarrow> port = [] \<or> (hd port = CHR '':'' \<and> list_all is_digit (tl port))"

definition splitHostPort :: "string \<Rightarrow> string \<times> string" where
  "splitHostPort hostPort =
     (let (host, port) =
        (case LastIndexByte hostPort CHR '':'' of
           Some c \<Rightarrow> if validOptionalPort (drop c hostPort) then (take c hostPort, drop (c + 1) hostPort) else (hostPort, [])
         | None \<Rightarrow> (hostPort, []))
      in (if HasPrefix host ''['' \<and> HasSuffix host '']'' then butlast (tl host) else host, port))"

definition URL_Hostname :: "URL \<Rightarrow> string" where
  "URL_Hostname u = fst (splitHostPort (url_host u))"

definition URL_Port :: "URL \<Rightarrow> string" where
  "URL_Port u = snd (splitHostPort (url_host u))"

end
