(* ===== verification/Proxy.thy ===== *)
theory Proxy
  imports Go_Net Errors "HOL-Library.Word" "HOL-Library.Multiset"
begin

text \<open>
  Model of \<open>proxy.go\<close>: bypass lists, validation of proxy URLs and the rotation functions. \<open>net.ParseIP\<close>,
  \<open>net.ParseCIDR\<close>, \<open>IP.Equal\<close> and \<open>IPNet.Contains\<close> are arguments (the record \<open>ipLib\<close>). The atomic counter
  of the round-robin selector is a 64-bit word, and one call of the selector is one atomic step.
\<close>

section \<open>Bypass lists\<close>

record ('ip, 'net) ipLib =
  il_parseIP :: "string \<Rightarrow> 'ip option"
  il_parseCIDR :: "string \<Rightarrow> 'net option"
  il_equal :: "'ip \<Rightarrow> 'ip \<Rightarrow> bool"
  il_contains :: "'net \<Rightarrow> 'ip \<Rightarrow> bool"

record ('ip, 'net) noProxy =
  np_domains :: "string list"
  np_ips :: "'ip list"
  np_cidrs :: "'net list"
  np_wildcard :: bool

definition TrimSpace :: "string \<Rightarrow> string" where
  "TrimSpace s = TrimRight (TrimLeft s [CHR 0x09, CHR 0x0A, CHR 0x0B, CHR 0x0C, CHR 0x0D, CHR '' ''])
     [CHR 0x09, CHR 0x0A, CHR 0x0B, CHR 0x0C, CHR 0x0D, CHR '' '']"

fun parse_entries :: "('ip, 'net) ipLib \<Rightarrow> string list \<Rightarrow> ('ip, 'net) noProxy \<Rightarrow> ('ip, 'net) noProxy" where
  "parse_entries lib [] np = np"
| "parse_entries lib (raw # rest) np =
     (let entry = TrimSpace raw
      in if entry = [] then parse_entries lib rest np
         else if entry = ''*'' then np\<lparr>np_wildcard := True\<rparr>
         else case il_parseCIDR lib entry of
                Some cidr \<Rightarrow> parse_entries lib rest (np\<lparr>np_cidrs := np_cidrs np @ [cidr]\<rparr>)
              | None \<Rightarrow>
                  (case il_parseIP lib entry of
                     Some ip \<Rightarrow> parse_entries lib rest (np\<lparr>np_ips := np_ips np @ [ip]\<rparr>)
                   | None \<Rightarrow> parse_entries lib rest (np\<lparr>np_domains := np_domains np @ [ToLower entry]\<rparr>)))"

definition parseNoProxy :: "('ip, 'net) ipLib \<Rightarrow> string \<Rightarrow> ('ip, 'net) noProxy" where
  "parseNoProxy lib bypass =
     parse_entries lib (SplitByte CHR '','' bypass) \<lparr>np_domains = [], np_ips = [], np_cidrs = [], np_wildcard = False\<rparr>"

definition domain_matches :: "string \<Rightarrow> string \<Rightarrow> bool" where
  "domain_matches domain h \<longleftrightarrow>
     (if HasPrefix domain ''.'' then HasSuffix h (''.'' @ drop 1 domain)
      else h = domain \<or> HasSuffix h (''.'' @ domain))"

definition bypass_hostname :: "string \<Rightarrow> string" where
  "bypass_hostname host = ToLower (case SplitHostPort host of Some (h, _) \<Rightarrow> h | None \<Rightarrow> host)"

definition noProxy_matches :: "('ip, 'net) ipLib \<Rightarrow> ('ip, 'net) noProxy \<Rightarrow> string \<Rightarrow> bool" where
  "noProxy_matches lib np host =
     (if np_wildcard np then True
      else let h = bypass_hostname host
           in case il_parseIP lib h of
                Some ip \<Rightarrow> list_ex (\<lambda>i. il_equal lib i ip) (np_ips np) \<or> list_ex (\<lambda>c. il_contains lib c ip) (np_cidrs np)
              | None \<Rightarrow> list_ex (\<lambda>d. domain_matches d h) (np_domains np))"

section \<open>Validation\<close>

definition verifyProxy :: "(string \<Rightarrow> string option) \<Rightarrow> string \<Rightarrow> goerr + URL" where
  "verifyProxy ph proxyURL =
     (case URL_Parse ph proxyURL of
        None \<Rightarrow> Inl (Multi [Sentinel ErrInvalidConfigValue,
                   snd (sanitizeTree ph (UrlError ''parse'' proxyURL (Sentinel (OtherError ''invalid URL''))))])
      | Some u \<Rightarrow>
          if url_scheme u \<in> {''http'', ''https'', ''socks5''} then
            (if URL_Hostname u = [] then Inl (wrapped ErrInvalidConfigValue ''proxy URL host'') else Inr u)
          else Inl (wrapped ErrUnsupportedScheme (url_scheme u)))"

fun verify_all :: "(string \<Rightarrow> string option) \<Rightarrow> string list \<Rightarrow> goerr + URL list" where
  "verify_all ph [] = Inr []"
| "verify_all ph (raw # raws) =
     ebind (verifyProxy ph raw) (\<lambda>u. ebind (verify_all ph raws) (\<lambda>us. Inr (u # us)))"

definition verifyProxies :: "(string \<Rightarrow> string option) \<Rightarrow> string list \<Rightarrow> goerr + URL list" where
  "verifyProxies ph proxyURLs =
     (if length proxyURLs = 0 then Inl (Sentinel ErrNoProxies) else verify_all ph proxyURLs)"

section \<open>Rotation\<close>

text \<open>\<open>idx := counter.Add(1) - 1; proxies[idx%n]\<close>\<close>

definition round_robin :: "URL list \<Rightarrow> 64 word \<Rightarrow> 64 word \<times> URL" where
  "round_robin proxies counter =
     (let counter1 = counter + 1; idx = counter1 - 1
      in (counter1, proxies ! unat (idx mod of_nat (length proxies))))"

fun round_robin_calls :: "URL list \<Rightarrow> nat \<Rightarrow> 64 word \<Rightarrow> URL list" where
  "round_robin_calls proxies 0 counter = []"
| "round_robin_calls proxies (Suc n) counter =
     (case round_robin proxies counter of (counter1, u) \<Rightarrow> u # round_robin_calls proxies n counter1)"

definition RoundRobinProxies :: "(string \<Rightarrow> string option) \<Rightarrow> string list \<Rightarrow> goerr + (64 word \<Rightarrow> 64 word \<times> URL)" where
  "RoundRobinProxies ph proxyURLs = ebind (verifyProxies ph proxyURLs) (\<lambda>ps. Inr (round_robin ps))"

text \<open>\<open>RandomProxies\<close>: \<open>draw\<close> is \<open>rand.IntN(n)\<close>.\<close>

definition RandomProxies :: "(string \<Rightarrow> string option) \<Rightarrow> string list \<Rightarrow> goerr + ((nat \<Rightarrow> nat) \<Rightarrow> URL)" where
  "RandomProxies ph proxyURLs = ebind (verifyProxies ph proxyURLs) (\<lambda>ps. Inr (\<lambda>draw. ps ! draw (length ps)))"

section \<open>Bypass lists mean what their entries say\<close>

definition entries :: "string \<Rightarrow> string list" where
  "entries bypass = filter (\<lambda>e. e \<noteq> []) (map TrimSpace (SplitByte CHR '','' bypass))"

definition entry_matches :: "('ip, 'net) ipLib \<Rightarrow> string \<Rightarrow> string \<Rightarrow> bool" where
  "entry_matches lib h e \<longleftrightarrow>
     (case (il_parseCIDR lib e, il_parseIP lib e, il_parseIP lib h) of
        (Some cidr, _, Some ip) \<Rightarrow> il_contains lib cidr ip
      | (None, Some i, Some ip) \<Rightarrow> il_equal lib i ip
      | (None, None, None) \<Rightarrow> domain_matches (ToLower e) h
      | _ \<Rightarrow> False)"

definition np_or :: "('ip, 'net) ipLib \<Rightarrow> ('ip, 'net) noProxy \<Rightarrow> string \<Rightarrow> bool" where
  "np_or lib np h \<longleftrightarrow> np_wildcard np \<or>
     (case il_parseIP lib h of
        Some ip \<Rightarrow> list_ex (\<lambda>i. il_equal lib i ip) (np_ips np) \<or> list_ex (\<lambda>c. il_contains lib c ip) (np_cidrs np)
      | None \<Rightarrow> list_ex (\<lambda>d. domain_matches d h) (np_domains np))"

lemma np_or_add:
  "np_or lib (np\<lparr>np_cidrs := np_cidrs np @ [c]\<rparr>) h \<longleftrightarrow>
     np_or lib np h \<or> (case il_parseIP lib h of Some ip \<Rightarrow> il_contains lib c ip | None \<Rightarrow> False)"
  "np_or lib (np\<lparr>np_ips := np_ips np @ [i]\<rparr>) h \<longleftrightarrow>
     np_or lib np h \<or> (case il_parseIP lib h of Some ip \<Rightarrow> il_equal lib i ip | None \<Rightarrow> False)"
  "np_or lib (np\<lparr>np_domains := np_domains np @ [d]\<rparr>) h \<longleftrightarrow>
     np_or lib np h \<or> (case il_parseIP lib h of Some ip \<Rightarrow> False | None \<Rightarrow> domain_matches d h)"
  by (cases "il_parseIP lib h"; auto simp: np_or_def)+

lemma parse_entries_matches:
  "np_or lib (parse_entries lib raws np) h \<longleftrightarrow>
     np_or lib np h \<or> ''*'' \<in> set (filter (\<lambda>e. e \<noteq> []) (map TrimSpace raws)) \<or>
     list_ex (entry_matches lib h) (filter (\<lambda>e. e \<noteq> []) (map TrimSpace raws))"
proof (induction raws arbitrary: np)
  case (Cons raw raws)
  show ?case
  proof (cases "TrimSpace raw = [] \<or> TrimSpace raw = ''*''")
    case True
    have "np_or lib (np\<lparr>np_wildcard := True\<rparr>) h" by (simp add: np_or_def)
    then show ?thesis using True by (auto simp: Let_def Cons.IH)
  next
    case False
    then show ?thesis
      using entry_matches_def[of lib h "TrimSpace raw"]
      by (cases "il_parseCIDR lib (TrimSpace raw)"; cases "il_parseIP lib (TrimSpace raw)"; cases "il_parseIP lib h")
        (auto simp: Let_def Cons.IH np_or_add)
  qed
qed simp

text \<open>
  Parsing a bypass list into domains, addresses and networks and matching a host against
  the three tables is the same as asking each entry: a star matches everything, an address or
  network entry matches addresses, a domain entry matches host names, ports and case aside.
\<close>

lemma bypass_list_meaning:
  "noProxy_matches lib (parseNoProxy lib bypass) host \<longleftrightarrow>
     ''*'' \<in> set (entries bypass) \<or> list_ex (entry_matches lib (bypass_hostname host)) (entries bypass)"
proof -
  have "noProxy_matches lib np host \<longleftrightarrow> np_or lib np (bypass_hostname host)" for np
    by (simp add: noProxy_matches_def np_or_def Let_def)
  then show ?thesis
    by (simp only: parseNoProxy_def parse_entries_matches entries_def)
      (auto simp: np_or_def split: option.splits)
qed

section \<open>Rotation is fair\<close>

lemma round_robin_index:
  assumes "proxies \<noteq> []" and "length proxies < 2 ^ 64"
  shows "snd (round_robin proxies c) = proxies ! (unat c mod length proxies)"
  using assms by (simp add: round_robin_def Let_def unat_mod unat_of_nat take_bit_nat_eq_self)

lemma round_robin_calls_eq:
  assumes "proxies \<noteq> []" and "length proxies < 2 ^ 64" and "unat c + n < 2 ^ 64"
  shows "round_robin_calls proxies n c = map (\<lambda>i. proxies ! ((unat c + i) mod length proxies)) [0..<n]"
  using assms(3)
proof (induction n arbitrary: c)
  case (Suc n)
  have "unat (c + 1) = unat c + 1" using Suc.prems by (simp add: unat_plus_simple[THEN iffD1] unat_add_lem[THEN iffD1])
  then have "round_robin_calls proxies n (c + 1) = map (\<lambda>i. proxies ! ((unat c + 1 + i) mod length proxies)) [0..<n]"
    using Suc by simp
  moreover have "[0..<Suc n] = 0 # map Suc [0..<n]" by (simp add: map_Suc_upt upt_conv_Cons)
  ultimately show ?case
    using round_robin_index[OF assms(1,2), of c] by (simp add: round_robin_def Let_def split_beta comp_def)
qed simp

lemma mset_rotate: "mset (rotate n xs) = mset xs"
proof (induction n)
  case (Suc n)
  have "mset (rotate1 ys) = mset ys" for ys :: "'a list" by (cases ys) simp_all
  then show ?case using Suc by simp
qed simp

text \<open>
  Claim C22: the round-robin selector cycles through the proxies in their order, and any block of as
  many calls as there are proxies uses every proxy exactly once, as long as the 64-bit counter does
  not wrap around within the block.
\<close>

theorem round_robin_fair:
  assumes "proxies \<noteq> []" and "unat c + length proxies < 2 ^ 64"
  shows "round_robin_calls proxies (length proxies) c = rotate (unat c mod length proxies) proxies \<and>
    mset (round_robin_calls proxies (length proxies) c) = mset proxies"
proof -
  have "length proxies < 2 ^ 64" using assms(2) by linarith
  then have "round_robin_calls proxies (length proxies) c =
      map (\<lambda>i. proxies ! ((unat c + i) mod length proxies)) [0..<length proxies]"
    using round_robin_calls_eq[OF assms(1) _ assms(2)] by blast
  also have "\<dots> = rotate (unat c mod length proxies) proxies"
    by (rule nth_equalityI) (simp_all add: nth_rotate rotate_conv_mod[symmetric])
  finally show ?thesis by (simp add: mset_rotate)
qed

definition ex_proxies :: "URL list" where
  "ex_proxies = [empty_URL, empty_URL\<lparr>url_host := ''p''\<rparr>]"

theorem round_robin_fair_witness:
  "mset (round_robin_calls ex_proxies (length ex_proxies) 5) = mset ex_proxies"
proof -
  have "ex_proxies \<noteq> []" by (simp add: ex_proxies_def)
  moreover have "unat (5 :: 64 word) + length ex_proxies < 2 ^ 64" by (simp add: ex_proxies_def)
  ultimately show ?thesis using round_robin_fair by blast
qed

text \<open>At the end of the counter's range the cycle jumps unless the number of proxies is a power of two.\<close>

lemma round_robin_wraps:
  fixes a b c :: URL
  shows "round_robin_calls [a, b, c] 2 (- 1) = [a, a]"
proof -
  have u: "unat (- 1 :: 64 word) = 18446744073709551615" by (simp add: unsigned_minus_1_eq_mask mask_eq_exp_minus_1)
  have "snd (round_robin [a, b, c] (- 1)) = a" and "snd (round_robin [a, b, c] 0) = a"
    by (simp_all add: round_robin_index u)
  moreover have "fst (round_robin [a, b, c] (- 1)) = 0" by (simp add: round_robin_def Let_def)
  ultimately show ?thesis by (simp add: numeral_2_eq_2 split_beta)
qed

lemma verify_all_Inr: "verify_all ph raws = Inr us \<longleftrightarrow> list_all2 (\<lambda>raw u. verifyProxy ph raw = Inr u) raws us"
proof (induction raws arbitrary: us)
  case (Cons raw raws)
  then show ?case by (cases us) (auto simp: ebind_Inr_iff)
qed auto

end
