(* ===== verification/Redirect.thy ===== *)
theory Redirect
  imports Go_Net Go_Http
begin

text \<open>
  Model of \<open>redirect.go\<close> and of \<open>setRedirectPolicy\<close> of \<open>client.go\<close>. \<open>netip.ParseAddr\<close> followed by
  \<open>String\<close> is the argument \<open>ipText\<close> of the record \<open>hostLib\<close>, \<open>idna.Lookup.ToASCII\<close> (a third-party
  package) the argument \<open>toASCII\<close>. A policy may change the request it is applied to.
\<close>

section \<open>Origins\<close>

record hostLib =
  hl_ipText :: "string \<Rightarrow> string option"
  hl_toASCII :: "string \<Rightarrow> string option"

definition sensitiveHeaders :: "string list" where
  "sensitiveHeaders = [''Authorization'', ''Cookie'', ''Cookie2'', ''Proxy-Authorization'', ''Www-Authenticate'']"

definition canonicalHostname :: "hostLib \<Rightarrow> URL \<Rightarrow> string option" where
  "canonicalHostname lib u =
     (let h = URL_Hostname u
      in if h = [] then None
         else case hl_ipText lib h of
                Some addr \<Rightarrow> Some addr
              | None \<Rightarrow> map_option ToLower (hl_toASCII lib h))"

definition effectivePort :: "URL \<Rightarrow> string" where
  "effectivePort u =
     (if URL_Port u \<noteq> [] then URL_Port u
      else if ToLower (url_scheme u) = ''http'' then ''80''
      else if ToLower (url_scheme u) = ''https'' then ''443''
      else [])"

definition sameOrigin :: "hostLib \<Rightarrow> URL \<Rightarrow> URL \<Rightarrow> bool" where
  "sameOrigin lib l r \<longleftrightarrow>
     EqualFold (url_scheme l) (url_scheme r) \<and>
     canonicalHostname lib l \<noteq> None \<and> canonicalHostname lib r \<noteq> None \<and>
     canonicalHostname lib l = canonicalHostname lib r \<and> effectivePort l = effectivePort r"

definition stripSensitiveHeaders :: "httpHeader \<Rightarrow> httpHeader" where
  "stripSensitiveHeaders h = foldl Header_Del h sensitiveHeaders"

definition stripSensitiveHeadersOnRedirect :: "hostLib \<Rightarrow> 'o httpRequest \<Rightarrow> 'o httpRequest \<Rightarrow> 'o httpRequest" where
  "stripSensitiveHeadersOnRedirect lib cur pre =
     (if sameOrigin lib (rq_url cur) (rq_url pre) then cur
      else cur\<lparr>rq_header := stripSensitiveHeaders (rq_header cur)\<rparr>)"

section \<open>Policies\<close>

definition hostname :: "string \<Rightarrow> string" where
  "hostname host = ToLower (case SplitHostPort host of Some (h, _) \<Rightarrow> h | None \<Rightarrow> host)"

datatype 'o RedirectPolicy =
    ProhibitRedirectPolicy
  | AllowRedirectPolicy int
  | HostRedirectPolicy "string list"
  | OtherRedirectPolicy "'o httpRequest \<Rightarrow> 'o httpRequest list \<Rightarrow> goerr + 'o httpRequest"

definition NewHostRedirectPolicy :: "string list \<Rightarrow> 'o RedirectPolicy" where
  "NewHostRedirectPolicy hosts = HostRedirectPolicy (map ToLower hosts)"

text \<open>\<open>via\<close> is never empty when \<open>net/http\<close> asks; an empty one would panic.\<close>

fun policy_Apply :: "hostLib \<Rightarrow> 'o RedirectPolicy \<Rightarrow> 'o httpRequest \<Rightarrow> 'o httpRequest list \<Rightarrow> goerr + 'o httpRequest" where
  "policy_Apply lib ProhibitRedirectPolicy req via = Inl (Sentinel ErrAutoRedirectDisabled)"
| "policy_Apply lib (AllowRedirectPolicy maxRedirects) req via =
     (if int (length via) \<ge> maxRedirects then Inl (wrapped ErrTooManyRedirects ''stopped after max redirects'')
      else case via of
             [] \<Rightarrow> Inl (Sentinel (OtherError ''panic: index out of range''))
           | first # _ \<Rightarrow> Inr (stripSensitiveHeadersOnRedirect lib req first))"
| "policy_Apply lib (HostRedirectPolicy allowed) req via =
     (if hostname (url_host (rq_url req)) \<notin> set allowed then Inl (Sentinel ErrRedirectNotAllowed) else Inr req)"
| "policy_Apply lib (OtherRedirectPolicy f) req via = f req via"

definition checkRedirect :: "hostLib \<Rightarrow> 'o RedirectPolicy list \<Rightarrow> 'o httpRequest \<Rightarrow> 'o httpRequest list \<Rightarrow> goerr + 'o httpRequest" where
  "checkRedirect lib policies req via =
     ebind (fold_res (\<lambda>p req. policy_Apply lib p req via) policies req) (\<lambda>req1.
       case via of
         [] \<Rightarrow> Inl (Sentinel (OtherError ''panic: index out of range''))
       | first # _ \<Rightarrow> Inr (stripSensitiveHeadersOnRedirect lib req1 first))"

section \<open>Properties\<close>

definition builtin_policy :: "'o RedirectPolicy \<Rightarrow> bool" where
  "builtin_policy p \<longleftrightarrow> (\<forall>f. p \<noteq> OtherRedirectPolicy f)"

lemma sensitive_vals:
  "Header_Values (stripSensitiveHeaders h) k =
     (if \<exists>s\<in>set sensitiveHeaders. header_eqv s k then [] else Header_Values h k)"
  by (simp add: stripSensitiveHeaders_def hdr.vals_del_names)

text \<open>The second request is the first with sensitive headers removed, and nothing else changed.\<close>

definition only_strips :: "'o httpRequest \<Rightarrow> 'o httpRequest \<Rightarrow> bool" where
  "only_strips req req1 \<longleftrightarrow>
     (\<exists>h. req1 = req\<lparr>rq_header := h\<rparr> \<and>
        (\<forall>k. Header_Values h k = Header_Values (rq_header req) k \<or>
             Header_Values h k = [] \<and> (\<exists>s\<in>set sensitiveHeaders. header_eqv s k)))"

lemma only_strips_refl: "only_strips req req"
  unfolding only_strips_def by (rule exI[of _ "rq_header req"]) simp

lemma only_strips_trans: "only_strips a b \<Longrightarrow> only_strips b c \<Longrightarrow> only_strips a c"
  unfolding only_strips_def by (elim exE conjE) (rule exI, rule conjI, simp, simp, metis)

lemma only_strips_strip: "only_strips cur (stripSensitiveHeadersOnRedirect lib cur pre)"
proof (cases "sameOrigin lib (rq_url cur) (rq_url pre)")
  case False
  then show ?thesis unfolding only_strips_def
    by (intro exI[of _ "stripSensitiveHeaders (rq_header cur)"])
      (simp add: stripSensitiveHeadersOnRedirect_def sensitive_vals)
qed (simp add: stripSensitiveHeadersOnRedirect_def only_strips_refl)

lemma only_strips_url: "only_strips req req1 \<Longrightarrow> rq_url req1 = rq_url req"
  by (auto simp: only_strips_def)

text \<open>What a built-in policy guarantees when it lets a redirect through.\<close>

fun admits :: "'o RedirectPolicy \<Rightarrow> string \<Rightarrow> nat \<Rightarrow> bool" where
  "admits ProhibitRedirectPolicy host n = False"
| "admits (AllowRedirectPolicy mx) host n = (int n < mx)"
| "admits (HostRedirectPolicy allowed) host n = (hostname host \<in> set allowed)"
| "admits (OtherRedirectPolicy f) host n = True"

lemma policy_step:
  assumes "policy_Apply lib p req via = Inr req1" and "builtin_policy p"
  shows "only_strips req req1 \<and> admits p (url_host (rq_url req)) (length via)"
proof (cases p)
  case (AllowRedirectPolicy n)
  then show ?thesis using assms only_strips_strip by (auto split: if_splits list.splits)
next
  case (HostRedirectPolicy hs)
  then show ?thesis using assms only_strips_refl by (auto split: if_splits)
qed (use assms in \<open>auto simp: builtin_policy_def\<close>)

lemma policies_step:
  assumes "fold_res (\<lambda>p req. policy_Apply lib p req via) policies req = Inr req1" and "list_all builtin_policy policies"
  shows "only_strips req req1 \<and> list_all (\<lambda>p. admits p (url_host (rq_url req)) (length via)) policies"
  using assms
proof (induction policies arbitrary: req)
  case (Cons p ps)
  obtain req0 where s: "policy_Apply lib p req via = Inr req0" "fold_res (\<lambda>p req. policy_Apply lib p req via) ps req0 = Inr req1"
    using Cons.prems(1) by (auto simp: ebind_Inr_iff)
  have "only_strips req req0" "admits p (url_host (rq_url req)) (length via)"
    using policy_step[OF s(1)] Cons.prems(2) by auto
  moreover have "only_strips req0 req1 \<and> list_all (\<lambda>p. admits p (url_host (rq_url req0)) (length via)) ps"
    using Cons.IH[OF s(2)] Cons.prems(2) by simp
  ultimately show ?case using only_strips_trans only_strips_url[of req req0] by auto
qed (simp add: only_strips_refl)


text \<open>
  Being on the same origin is symmetric and transitive, and reflexive on URLs whose host
  has a canonical form, so that a chain of same-origin redirects never leaves the origin.
\<close>

lemma sameOrigin_equivalence:
  "(sameOrigin lib u v \<longrightarrow> sameOrigin lib v u) \<and>
   (sameOrigin lib u v \<and> sameOrigin lib v w \<longrightarrow> sameOrigin lib u w) \<and>
   (canonicalHostname lib u \<noteq> None \<longrightarrow> sameOrigin lib u u)"
  by (auto simp: sameOrigin_def intro: EqualFold_sym EqualFold_trans)

definition ex_hosts :: hostLib where
  "ex_hosts = \<lparr>hl_ipText = (\<lambda>_. None), hl_toASCII = Some\<rparr>"

definition ex_get :: "string \<Rightarrow> string \<Rightarrow> unit httpRequest" where
  "ex_get scheme host =
     \<lparr>rq_method = ''GET'', rq_url = empty_URL\<lparr>url_scheme := scheme, url_host := host\<rparr>, rq_host = host,
      rq_header = [(''Authorization'', [''secret'']), (''Accept'', [''a''])], rq_body = BodyNil, rq_getBody = None,
      rq_contentLength = 0, rq_ordered = None\<rparr>"


lemma sameOrigin_equivalence_example:
  "sameOrigin ex_hosts (empty_URL\<lparr>url_scheme := ''HTTPS'', url_host := ''a.test:443''\<rparr>) (empty_URL\<lparr>url_scheme := ''https'', url_host := ''a.test''\<rparr>) \<and>
   sameOrigin ex_hosts (empty_URL\<lparr>url_scheme := ''https'', url_host := ''a.test''\<rparr>) (empty_URL\<lparr>url_scheme := ''HTTPS'', url_host := ''a.test:443''\<rparr>)"
proof -
  have "sameOrigin ex_hosts (empty_URL\<lparr>url_scheme := ''HTTPS'', url_host := ''a.test:443''\<rparr>) (empty_URL\<lparr>url_scheme := ''https'', url_host := ''a.test''\<rparr>)"
    by code_simp
  then show ?thesis using sameOrigin_equivalence by blast
qed

end
