(* ===== verification/Transport.thy ===== *)
theory Transport
  imports Proxy Redirect
begin

text \<open>
  Model of \<open>transport.go\<close> and \<open>tls.go\<close> on the parts of \<open>http.Transport\<close>, \<open>tls.Config\<close> and
  \<open>http.Client\<close> they and the \<open>fingerprint\<close> module touch. Functions and objects that callers supply and the code only passes on
  (dial functions, resolvers, cookie jars, session caches, custom transports) are known by an
  identity, a natural number. \<open>http.DefaultTransport\<close> is an argument.
\<close>

section \<open>Data\<close>

record tlsCertificate =
  crt_Certificate :: "bytes list"
  crt_SupportedSignatureAlgorithms :: "16 word list"
  crt_OCSPStaple :: bytes
  crt_SignedCertificateTimestamps :: "bytes list"
  crt_PrivateKey :: nat
  crt_Leaf :: "nat option"

record tlsConfig =
  tc_NextProtos :: "string list"
  tc_ServerName :: string
  tc_InsecureSkipVerify :: bool
  tc_MinVersion :: int
  tc_Certificates :: "tlsCertificate list"
  tc_RootCAs :: "bytes list option"
  tc_ClientSessionCache :: "nat option"
  tc_Time :: "nat option"
  tc_VerifyPeerCertificate :: "nat option"
  tc_VerifyConnection :: "nat option"
  tc_GetClientCertificate :: "nat option"
  tc_CipherSuites :: "16 word list"
  tc_SessionTicketsDisabled :: bool
  tc_MaxVersion :: int
  tc_CurvePreferences :: "16 word list"
  tc_DynamicRecordSizingDisabled :: bool
  tc_Renegotiation :: int
  tc_KeyLogWriter :: "nat option"

definition zeroTLSConfig :: tlsConfig where
  "zeroTLSConfig =
     \<lparr>tc_NextProtos = [], tc_ServerName = [], tc_InsecureSkipVerify = False, tc_MinVersion = 0, tc_Certificates = [],
      tc_RootCAs = None, tc_ClientSessionCache = None, tc_Time = None, tc_VerifyPeerCertificate = None, tc_VerifyConnection = None,
      tc_GetClientCertificate = None, tc_CipherSuites = [], tc_SessionTicketsDisabled = False, tc_MaxVersion = 0,
      tc_CurvePreferences = [], tc_DynamicRecordSizingDisabled = False, tc_Renegotiation = 0, tc_KeyLogWriter = None\<rparr>"

datatype dialFunc = CallerDial nat | NetDialer int "nat option" "nat option"

datatype proxyFunc =
    ProxyURL URL
  | ProxyBypass string URL
  | ProxyFromEnvironment
  | ProxyRoundRobin "URL list"
  | ProxySelector nat

text \<open>\<open>ManagedTLS h\<close> is the dial hook \<open>bindTLSHandshake\<close> installs for the handshake callback \<open>h\<close>.\<close>

datatype tlsDialFunc = CallerDialTLS nat | ManagedTLS nat

record httpTransport =
  ht_Protocols :: "(bool \<times> bool) option"
  ht_TLSNextProto :: "string list option"
  ht_TLSClientConfig :: "tlsConfig option"
  ht_ForceAttemptHTTP2 :: bool
  ht_Proxy :: "proxyFunc option"
  ht_DialContext :: "dialFunc option"
  ht_Dial :: "nat option"
  ht_DialTLS :: "nat option"
  ht_DialTLSContext :: "tlsDialFunc option"
  ht_TLSHandshakeTimeout :: int
  ht_ResponseHeaderTimeout :: int
  ht_MaxIdleConns :: int
  ht_MaxIdleConnsPerHost :: int
  ht_MaxConnsPerHost :: int
  ht_IdleConnTimeout :: int

datatype roundTripper = StdTransport httpTransport | CustomTransport nat

datatype 'o checkRedirectFunc = CallerCheck nat | PolicyChain "'o RedirectPolicy list"

record 'o httpClient =
  hc_Transport :: "roundTripper option"
  hc_Timeout :: int
  hc_Jar :: "nat option"
  hc_CheckRedirect :: "'o checkRedirectFunc option"

definition zeroHTTPClient :: "'o httpClient" where
  "zeroHTTPClient = \<lparr>hc_Transport = None, hc_Timeout = 0, hc_Jar = None, hc_CheckRedirect = None\<rparr>"

section \<open>HTTP/2\<close>

definition NextProtoTLS :: string where "NextProtoTLS = ''h2''"

definition isHTTP2Configured :: "httpTransport \<Rightarrow> bool" where
  "isHTTP2Configured t \<longleftrightarrow>
     (case ht_Protocols t of Some (h1, h2) \<Rightarrow> h2 | None \<Rightarrow> False) \<or>
     (case ht_TLSNextProto t of None \<Rightarrow> False | Some ks \<Rightarrow> NextProtoTLS \<in> set ks)"

definition ensureHTTP2NextProtos :: "httpTransport \<Rightarrow> httpTransport" where
  "ensureHTTP2NextProtos t =
     (let cfg = (case ht_TLSClientConfig t of None \<Rightarrow> zeroTLSConfig | Some c \<Rightarrow> c);
          ps1 = (if NextProtoTLS \<notin> set (tc_NextProtos cfg) then NextProtoTLS # tc_NextProtos cfg else tc_NextProtos cfg);
          ps2 = (if ''http/1.1'' \<notin> set ps1 then ps1 @ [''http/1.1''] else ps1)
      in t\<lparr>ht_TLSClientConfig := Some (cfg\<lparr>tc_NextProtos := ps2\<rparr>)\<rparr>)"

definition configureHTTP2Transport :: "httpTransport \<Rightarrow> httpTransport" where
  "configureHTTP2Transport t =
     (if isHTTP2Configured t then (ensureHTTP2NextProtos t)\<lparr>ht_ForceAttemptHTTP2 := True\<rparr>
      else let protos = (case ht_Protocols t of None \<Rightarrow> (True, False) | Some p \<Rightarrow> p);
               t1 = t\<lparr>ht_Protocols := Some (fst protos, True)\<rparr>
           in (ensureHTTP2NextProtos t1)\<lparr>ht_ForceAttemptHTTP2 := True\<rparr>)"

section \<open>TLS settings\<close>

definition cloneTLSConfig :: "tlsConfig option \<Rightarrow> tlsConfig option" where
  "cloneTLSConfig cfg = (case cfg of None \<Rightarrow> None | Some c \<Rightarrow> Some c)"

definition cloneByteSlices :: "bytes list \<Rightarrow> bytes list" where
  "cloneByteSlices vs = map (\<lambda>v. v) vs"

definition cloneCertificates :: "tlsCertificate list \<Rightarrow> tlsCertificate list" where
  "cloneCertificates certs =
     map (\<lambda>c. c\<lparr>crt_Certificate := cloneByteSlices (crt_Certificate c),
                crt_SignedCertificateTimestamps := cloneByteSlices (crt_SignedCertificateTimestamps c)\<rparr>) certs"

definition setTransportTLSConfig :: "tlsConfig option \<Rightarrow> httpTransport \<Rightarrow> httpTransport" where
  "setTransportTLSConfig cfg t =
     (let t1 = t\<lparr>ht_TLSClientConfig := cfg\<rparr>
      in if isHTTP2Configured t1 then (ensureHTTP2NextProtos t1)\<lparr>ht_ForceAttemptHTTP2 := True\<rparr> else t1)"

definition VersionTLS12 :: int where "VersionTLS12 = 0x0303"

definition updateTLSConfig :: "(tlsConfig \<Rightarrow> goerr + tlsConfig) \<Rightarrow> httpTransport \<Rightarrow> goerr + httpTransport" where
  "updateTLSConfig upd t =
     (let cfg = (case cloneTLSConfig (ht_TLSClientConfig t) of
                   None \<Rightarrow> zeroTLSConfig\<lparr>tc_MinVersion := VersionTLS12\<rparr> | Some c \<Rightarrow> c)
      in ebind (upd cfg) (\<lambda>c. Inr (setTransportTLSConfig (Some c) t)))"

section \<open>Managed handshakes\<close>

definition bindTLSHandshake :: "nat option \<Rightarrow> httpTransport \<Rightarrow> httpTransport" where
  "bindTLSHandshake handshake t =
     (let t1 = t\<lparr>ht_DialTLS := None, ht_DialTLSContext := None\<rparr>
      in case handshake of None \<Rightarrow> t1 | Some h \<Rightarrow> t1\<lparr>ht_DialTLSContext := Some (ManagedTLS h)\<rparr>)"

text \<open>
  One call of the installed hook. \<open>dial\<close> is the dialer the transport selects (its own, the legacy one,
  or a fresh \<open>net.Dialer\<close>); a connection is an identity and None the nil interface; \<open>ctxErr\<close> is
  \<open>ctx.Err()\<close> after the handshake. The result says whether the raw connection was closed.
\<close>

datatype dialChoice = UseDialContext dialFunc | UseLegacyDial nat | UseNewDialer

definition chooseDial :: "httpTransport \<Rightarrow> dialChoice" where
  "chooseDial t =
     (case ht_DialContext t of
        Some d \<Rightarrow> UseDialContext d
      | None \<Rightarrow> (case ht_Dial t of Some l \<Rightarrow> UseLegacyDial l | None \<Rightarrow> UseNewDialer))"

record handshakeEnv =
  he_dial :: "dialChoice \<Rightarrow> string \<Rightarrow> goerr + nat option"
  he_handshake :: "nat \<Rightarrow> tlsConfig \<Rightarrow> nat option \<times> goerr option"
  he_ctxErr :: "goerr option"

definition managedDialTLS :: "handshakeEnv \<Rightarrow> httpTransport \<Rightarrow> string \<Rightarrow> (goerr + nat) \<times> nat list" where
  "managedDialTLS env t addr =
     (case he_dial env (chooseDial t) addr of
        Inl e \<Rightarrow> (Inl e, [])
      | Inr None \<Rightarrow> (Inl (invalidOptionValue ''TLSHandshake dial connection''), [])
      | Inr (Some raw) \<Rightarrow>
          (let cfg = (case cloneTLSConfig (ht_TLSClientConfig t) of None \<Rightarrow> zeroTLSConfig | Some c \<Rightarrow> c);
               cfg1 = (if tc_ServerName cfg = []
                       then cfg\<lparr>tc_ServerName := (case SplitHostPort addr of Some (h, _) \<Rightarrow> h | None \<Rightarrow> [])\<rparr> else cfg);
               (conn, err0) = he_handshake env raw cfg1;
               err1 = (if err0 = None then he_ctxErr env else err0);
               err2 = (if err1 = None \<and> conn = None then Some (invalidOptionValue ''TLSHandshake connection'') else err1)
           in case err2 of
                Some e \<Rightarrow> (Inl e, [raw])
              | None \<Rightarrow> (Inr (the conn), [])))"

section \<open>Copies of the HTTP client\<close>

definition cloneHTTPClient :: "'o httpClient \<Rightarrow> nat option \<Rightarrow> 'o httpClient" where
  "cloneHTTPClient client handshake =
     (case hc_Transport client of
        Some (StdTransport t) \<Rightarrow>
          client\<lparr>hc_Transport := Some (StdTransport (if handshake \<noteq> None then bindTLSHandshake handshake t else t))\<rparr>
      | _ \<Rightarrow> client)"

section \<open>Properties\<close>

definition http2_ready :: "httpTransport \<Rightarrow> bool" where
  "http2_ready t \<longleftrightarrow>
     (isHTTP2Configured t \<longrightarrow> ht_ForceAttemptHTTP2 t \<and>
        (case ht_TLSClientConfig t of
           None \<Rightarrow> False
         | Some c \<Rightarrow> NextProtoTLS \<in> set (tc_NextProtos c) \<and> ''http/1.1'' \<in> set (tc_NextProtos c)))"

lemma isHTTP2Configured_frame [simp]:
  "isHTTP2Configured (t\<lparr>ht_TLSClientConfig := c\<rparr>) = isHTTP2Configured t"
  "isHTTP2Configured (t\<lparr>ht_ForceAttemptHTTP2 := b\<rparr>) = isHTTP2Configured t"
  "isHTTP2Configured (ensureHTTP2NextProtos t) = isHTTP2Configured t"
  by (simp_all add: isHTTP2Configured_def ensureHTTP2NextProtos_def Let_def)

lemma ensure_protos:
  "case ht_TLSClientConfig (ensureHTTP2NextProtos t) of None \<Rightarrow> False
     | Some c \<Rightarrow> NextProtoTLS \<in> set (tc_NextProtos c) \<and> ''http/1.1'' \<in> set (tc_NextProtos c)"
  by (simp add: ensureHTTP2NextProtos_def Let_def)

lemma ensure_ready: "http2_ready ((ensureHTTP2NextProtos t)\<lparr>ht_ForceAttemptHTTP2 := True\<rparr>)"
  using ensure_protos[of t] by (simp add: http2_ready_def split: option.splits)

lemma ensure_idem: "ensureHTTP2NextProtos (ensureHTTP2NextProtos t) = ensureHTTP2NextProtos t"
  by (simp add: ensureHTTP2NextProtos_def Let_def)

lemma setTLS_ready: "http2_ready (setTransportTLSConfig cfg t)"
  using ensure_ready by (simp add: setTransportTLSConfig_def Let_def http2_ready_def)

text \<open>
  HTTP/2 and TLS options commute on what matters: once a transport is configured for
  HTTP/2, replacing or updating its TLS configuration before or after leaves it ready for HTTP/2,
  with both protocols offered; enabling HTTP/2 is idempotent.
\<close>

lemma http2_survives_tls_options:
  "http2_ready (configureHTTP2Transport t) \<and> isHTTP2Configured (configureHTTP2Transport t) \<and>
   http2_ready (setTransportTLSConfig cfg (configureHTTP2Transport t)) \<and>
   isHTTP2Configured (setTransportTLSConfig cfg (configureHTTP2Transport t)) \<and>
   (case updateTLSConfig upd (configureHTTP2Transport t) of Inl e \<Rightarrow> True | Inr t1 \<Rightarrow> http2_ready t1 \<and> isHTTP2Configured t1) \<and>
   configureHTTP2Transport (configureHTTP2Transport t) = configureHTTP2Transport t"
proof -
  have c: "isHTTP2Configured (configureHTTP2Transport t)"
    by (simp add: configureHTTP2Transport_def Let_def) (simp add: isHTTP2Configured_def)
  have r: "http2_ready (configureHTTP2Transport t)"
    by (simp add: configureHTTP2Transport_def Let_def ensure_ready)
  have k: "isHTTP2Configured (setTransportTLSConfig cfg u) = isHTTP2Configured u" for cfg u
    by (simp add: setTransportTLSConfig_def Let_def)
  have "case updateTLSConfig upd (configureHTTP2Transport t) of Inl e \<Rightarrow> True | Inr t1 \<Rightarrow> http2_ready t1 \<and> isHTTP2Configured t1"
    by (simp add: updateTLSConfig_def Let_def ebind_def k c setTLS_ready split: sum.splits)
  moreover have "configureHTTP2Transport (configureHTTP2Transport t) = configureHTTP2Transport t"
  proof -
    have "(ensureHTTP2NextProtos (configureHTTP2Transport t))\<lparr>ht_ForceAttemptHTTP2 := True\<rparr> = configureHTTP2Transport t"
    proof -
      obtain u where u: "configureHTTP2Transport t = (ensureHTTP2NextProtos u)\<lparr>ht_ForceAttemptHTTP2 := True\<rparr>"
        by (cases "isHTTP2Configured t") (auto simp: configureHTTP2Transport_def Let_def)
      have "ensureHTTP2NextProtos (v\<lparr>ht_ForceAttemptHTTP2 := True\<rparr>) = (ensureHTTP2NextProtos v)\<lparr>ht_ForceAttemptHTTP2 := True\<rparr>" for v
        by (simp add: ensureHTTP2NextProtos_def Let_def)
      then show ?thesis by (simp add: u ensure_idem)
    qed
    then show ?thesis using c by (simp add: configureHTTP2Transport_def[of "configureHTTP2Transport t"])
  qed
  ultimately show ?thesis using c r k setTLS_ready by simp
qed

text \<open>
  The managed TLS dial hook never leaks a connection: when it fails after dialing, the
  dialed connection is closed exactly once; when it succeeds, the connection returned is the one of
  the callback, nothing is closed, and the context was still alive.
\<close>

lemma managed_handshake_releases:
  assumes "managedDialTLS env t addr = (res, closed)"
  shows "case res of
      Inr conn \<Rightarrow> closed = [] \<and> he_ctxErr env = None \<and>
        (\<exists>raw cfg. he_dial env (chooseDial t) addr = Inr (Some raw) \<and> he_handshake env raw cfg = (Some conn, None))
    | Inl e \<Rightarrow> (case he_dial env (chooseDial t) addr of Inr (Some raw) \<Rightarrow> closed = [raw] | _ \<Rightarrow> closed = [])"
  using assms
  by (auto simp: managedDialTLS_def Let_def split: sum.splits option.splits prod.splits if_splits)

lemma managed_handshake_releases_example:
  "\<exists>t. managedDialTLS \<lparr>he_dial = (\<lambda>_ _. Inr (Some 7)), he_handshake = (\<lambda>raw cfg. (None, Some (Sentinel IoEOF))), he_ctxErr = None\<rparr> t ''a.test:443''
     = (Inl (Sentinel IoEOF), [7])"
proof -
  let ?env = "\<lparr>he_dial = (\<lambda>_ _. Inr (Some 7)), he_handshake = (\<lambda>raw cfg. (None, Some (Sentinel IoEOF))), he_ctxErr = None\<rparr>"
  fix t
  have f: "fst (managedDialTLS ?env t ''a.test:443'') = Inl (Sentinel IoEOF)"
    by (simp add: managedDialTLS_def Let_def split_beta)
  then show ?thesis
    using managed_handshake_releases[of ?env t "''a.test:443''" "fst (managedDialTLS ?env t ''a.test:443'')" "snd (managedDialTLS ?env t ''a.test:443'')"]
    by (intro exI[of _ t]) (simp add: prod_eq_iff)
qed

end
