(* ===== verification/Url_Resolution.thy ===== *)
theory Url_Resolution
  imports Errors Request_Metadata
begin

text \<open>
  Model of \<open>resolveRequestURL\<close>, \<open>joinEscapedURLPath\<close> and \<open>addQueryValues\<close> of \<open>request.go\<close>: how a base
  URL, a request path and query values become the URL that is sent.
\<close>

section \<open>Resolution\<close>

definition parse_error :: "string \<Rightarrow> goerr" where
  "parse_error raw = UrlError ''parse'' raw (Sentinel (OtherError ''invalid URL''))"

definition query_error :: goerr where
  "query_error = Sentinel (OtherError ''invalid query'')"

definition escape_error :: goerr where
  "escape_error = Sentinel (OtherError ''invalid URL escape'')"

definition add_url_values :: "urlValues \<Rightarrow> urlValues \<Rightarrow> urlValues" where
  "add_url_values q qv = foldl (\<lambda>q (k, vs). foldl (\<lambda>q v. Values_Add q k v) q vs) q qv"

definition addQueryValues :: "URL \<Rightarrow> urlValues \<Rightarrow> URL" where
  "addQueryValues u qv =
     (if length qv = 0 then u else u\<lparr>url_rawQuery := Values_Encode (add_url_values (URL_Query u) qv)\<rparr>)"

definition join_escaped :: "string \<Rightarrow> string \<Rightarrow> string" where
  "join_escaped basePath requestPath =
     (if requestPath \<noteq> [] then
        (if basePath = [] \<or> basePath = ''/'' then ''/'' @ TrimLeft requestPath ''/''
         else TrimRight basePath ''/'' @ ''/'' @ TrimLeft requestPath ''/'')
      else basePath)"

definition joinEscapedURLPath :: "string \<Rightarrow> string \<Rightarrow> goerr + (string \<times> string)" where
  "joinEscapedURLPath basePath requestPath =
     (let escaped = join_escaped basePath requestPath
      in case PathUnescape escaped of
           None \<Rightarrow> Inl escape_error
         | Some path \<Rightarrow> if path = escaped then Inr (path, []) else Inr (path, escaped))"

definition resolveRequestURL :: "(string \<Rightarrow> string option) \<Rightarrow> string \<Rightarrow> string \<Rightarrow> urlValues \<Rightarrow> goerr + URL" where
  "resolveRequestURL ph baseURL requestPath qv =
     (case URL_Parse ph requestPath of
        None \<Rightarrow> Inl (parse_error requestPath)
      | Some requestURL \<Rightarrow>
          if IsAbs requestURL \<or> baseURL = [] then
            (if length qv \<noteq> 0 \<and> ParseQuery (url_rawQuery requestURL) = None then Inl query_error
             else Inr (addQueryValues requestURL qv))
          else case ParseQuery (url_rawQuery requestURL) of
                 None \<Rightarrow> Inl query_error
               | Some requestQuery \<Rightarrow>
                   (case URL_Parse ph baseURL of
                      None \<Rightarrow> Inl (parse_error baseURL)
                    | Some base \<Rightarrow>
                        (let resolved = addQueryValues
                               (base\<lparr>url_forceQuery := url_forceQuery base \<or> url_forceQuery requestURL,
                                     url_fragment := url_fragment requestURL\<rparr>) requestQuery
                         in ebind (joinEscapedURLPath (EscapedPath base) (EscapedPath requestURL)) (\<lambda>(path, rawPath).
                              Inr (addQueryValues (resolved\<lparr>url_path := path, url_rawPath := rawPath\<rparr>) qv)))))"

section \<open>Query values\<close>

definition values_pairs :: "urlValues \<Rightarrow> (string \<times> string) list" where
  "values_pairs q = concat (map (\<lambda>(k, vs). map (Pair k) vs) q)"

lemma add_url_values_pairs:
  "add_url_values q qv = foldl (\<lambda>q p. Values_Add q (fst p) (snd p)) q (values_pairs qv)"
proof (induction qv arbitrary: q)
  case (Cons kv qv)
  obtain k vs where "kv = (k, vs)" by fastforce
  then show ?case using Cons by (simp add: add_url_values_def values_pairs_def foldl_map)
qed (simp add: add_url_values_def values_pairs_def)

lemma values_pairs_filter:
  "distinct (map fst q) \<Longrightarrow> map snd (filter (\<lambda>p. fst p = k) (values_pairs q)) = Values_All q k"
proof (induction q)
  case (Cons kv q)
  obtain k' vs where kv: "kv = (k', vs)" by fastforce
  have "filter (\<lambda>p. fst p = k) (map (Pair k') vs) = (if k' = k then map (Pair k') vs else [])"
    by (induction vs) auto
  moreover have "k' = k \<Longrightarrow> map_of q k = None" using Cons.prems kv by (auto simp: map_of_eq_None_iff)
  ultimately show ?case using Cons kv by (auto simp: values_pairs_def Values_All_def comp_def)
qed (simp add: values_pairs_def Values_All_def)

lemma distinct_add_url_values [wf_intros]: "distinct (map fst q) \<Longrightarrow> distinct (map fst (add_url_values q qv))"
  by (simp add: add_url_values_pairs wf_intros)

lemma add_url_values_vals:
  "distinct (map fst qv) \<Longrightarrow> Values_All (add_url_values q qv) k = Values_All q k @ Values_All qv k"
  by (simp add: add_url_values_pairs qry.vals_add_pairs values_pairs_filter)

lemma addQueryValues_vals:
  assumes "distinct (map fst qv)"
  shows "Values_All (URL_Query (addQueryValues u qv)) k = Values_All (URL_Query u) k @ Values_All qv k"
proof (cases "qv = []")
  case True
  then show ?thesis by (simp add: addQueryValues_def Values_All_def)
next
  case False
  have "distinct (map fst (add_url_values (URL_Query u) qv))" by (simp add: wf_intros URL_Query_def)
  then show ?thesis
    using False Query_Encode add_url_values_vals[OF assms]
    by (simp add: addQueryValues_def URL_Query_def[of "u\<lparr>url_rawQuery := x\<rparr>" for x])
qed

lemma addQueryValues_frame [simp]:
  "url_scheme (addQueryValues u qv) = url_scheme u" "url_host (addQueryValues u qv) = url_host u"
  "url_user (addQueryValues u qv) = url_user u" "url_path (addQueryValues u qv) = url_path u"
  "url_rawPath (addQueryValues u qv) = url_rawPath u" "url_fragment (addQueryValues u qv) = url_fragment u"
  "url_opaque (addQueryValues u qv) = url_opaque u"
  by (simp_all add: addQueryValues_def)

lemma URL_Query_frame [simp]: "URL_Query (u\<lparr>url_path := p, url_rawPath := rp\<rparr>) = URL_Query u"
  "URL_Query (u\<lparr>url_forceQuery := fq, url_fragment := fr\<rparr>) = URL_Query u"
  by (simp_all add: URL_Query_def)

lemma ParseQuery_lenient: "ParseQuery s = Some q \<Longrightarrow> q = Query_lenient s"
  by (simp add: ParseQuery_def split: if_splits)

section \<open>Properties\<close>

lemma resolve_relative:
  assumes "URL_Parse ph path = Some r" and "\<not> IsAbs r" and "base \<noteq> []" and "URL_Parse ph base = Some b"
    and "resolveRequestURL ph base path qv = Inr u" and "distinct (map fst qv)"
  shows "url_scheme u = url_scheme b \<and> url_host u = url_host b \<and> url_user u = url_user b \<and> url_opaque u = url_opaque b \<and>
    url_fragment u = url_fragment r \<and>
    PathUnescape (join_escaped (EscapedPath b) (EscapedPath r)) = Some (url_path u) \<and>
    (if url_rawPath u = [] then url_path u else url_rawPath u) = join_escaped (EscapedPath b) (EscapedPath r) \<and>
    (\<forall>k. Values_All (URL_Query u) k = Values_All (URL_Query b) k @ Values_All (URL_Query r) k @ Values_All qv k)"
proof -
  obtain rq where rq: "ParseQuery (url_rawQuery r) = Some rq"
    using assms(1-5) by (cases "ParseQuery (url_rawQuery r)") (auto simp: resolveRequestURL_def)
  have rq_eq: "rq = URL_Query r" using ParseQuery_lenient[OF rq] by (simp add: URL_Query_def)
  have drq: "distinct (map fst rq)" by (simp add: rq_eq URL_Query_def wf_intros)
  define v where "v = addQueryValues (b\<lparr>url_forceQuery := url_forceQuery b \<or> url_forceQuery r,
      url_fragment := url_fragment r\<rparr>) rq"
  obtain p rp where j: "joinEscapedURLPath (EscapedPath b) (EscapedPath r) = Inr (p, rp)"
    and u: "u = addQueryValues (v\<lparr>url_path := p, url_rawPath := rp\<rparr>) qv"
    using assms(1-5) rq by (auto simp: resolveRequestURL_def ebind_Inr_iff v_def Let_def)
  have pj: "PathUnescape (join_escaped (EscapedPath b) (EscapedPath r)) = Some p \<and>
      (if rp = [] then p else rp) = join_escaped (EscapedPath b) (EscapedPath r)"
    using j by (auto simp: joinEscapedURLPath_def Let_def PathUnescape_def split: option.splits if_splits)
  have "\<forall>k. Values_All (URL_Query u) k = Values_All (URL_Query b) k @ Values_All rq k @ Values_All qv k"
    using addQueryValues_vals[OF assms(6)] addQueryValues_vals[OF drq] by (simp add: u v_def)
  then show ?thesis using pj rq_eq by (auto simp: u v_def split: if_splits)
qed

lemma resolve_absolute:
  assumes "URL_Parse ph path = Some r" and "IsAbs r \<or> base = []"
    and "resolveRequestURL ph base path qv = Inr u" and "distinct (map fst qv)"
  shows "u = addQueryValues r qv \<and> (\<forall>k. Values_All (URL_Query u) k = Values_All (URL_Query r) k @ Values_All qv k)"
  using assms addQueryValues_vals[OF assms(4)] by (auto simp: resolveRequestURL_def split: if_splits)



end
