(* ===== verification/Client.thy ===== *)
theory Client
  imports Request_Builder Transport Url_Resolution
begin

text \<open>
  Model of \<open>client.go\<close>, \<open>adapter.go\<close> and of the client methods of \<open>transport.go\<close>, \<open>tls.go\<close> and
  \<open>proxy.go\<close>. An \<open>Option\<close> is a function from client to client or error;
  a client whose option failed is never returned, so a failed option has no client. The outside is
  the record \<open>clientEnv\<close>: host parsing, the default transport, what the constructors of cookie jars and
  session caches return, files, and the certificate pool. The mutex makes each method one step.
  Loggers, resolvers and other values the client only passes on are known by an identity.
\<close>

section \<open>State\<close>

record 'o Client =
  c_baseURL :: string
  c_metadata :: requestMetadata
  c_orderedHeaders :: "'o option"
  c_middlewares :: "'o Middleware list"
  c_retry :: "'o RetryPolicy"
  c_httpClient :: "'o httpClient"
  c_tlsHandshake :: "nat option"
  c_jsonEncoder :: Encoder
  c_xmlEncoder :: Encoder
  c_yamlEncoder :: Encoder
  c_jsonDecoder :: Decoder
  c_xmlDecoder :: Decoder
  c_yamlDecoder :: Decoder
  c_logger :: "nat option"
  c_dialTimeout :: int
  c_resolver :: "nat option"
  c_localAddr :: "nat option"
  c_dialContext :: "nat option"
  c_auth :: "'o AuthMethod option"

record 'o clientSnapshot =
  s_baseURL :: string
  s_metadata :: requestMetadata
  s_orderedHeaders :: "'o option"
  s_middlewares :: "'o Middleware list"
  s_retry :: "'o RetryPolicy"
  s_httpClient :: "'o httpClient"
  s_jsonEncoder :: Encoder
  s_xmlEncoder :: Encoder
  s_yamlEncoder :: Encoder
  s_jsonDecoder :: Decoder
  s_xmlDecoder :: Decoder
  s_yamlDecoder :: Decoder
  s_logger :: "nat option"
  s_auth :: "'o AuthMethod option"

record clientEnv =
  ce_parseHost :: "string \<Rightarrow> string option"
  ce_defaultTransport :: roundTripper
  ce_newJar :: "goerr + nat"
  ce_newSessionCache :: nat
  ce_loadKeyPair :: "string \<Rightarrow> string \<Rightarrow> goerr + tlsCertificate"
  ce_readFile :: "string \<Rightarrow> goerr + bytes"
  ce_appendCerts :: "bytes list \<Rightarrow> bytes \<Rightarrow> bytes list option"
  ce_json :: "goany \<Rightarrow> goerr + bytes"
  ce_xml :: "goany \<Rightarrow> goerr + bytes"
  ce_yaml :: "goany \<Rightarrow> goerr + bytes"
  ce_jsonRead :: Decoder
  ce_xmlUnmarshal :: "bytes \<Rightarrow> goany \<Rightarrow> goerr + goany"
  ce_yamlDecode :: Decoder

type_synonym 'o Option = "'o Client \<Rightarrow> goerr + 'o Client"

definition newClient :: "clientEnv \<Rightarrow> 'o Client" where
  "newClient ce =
     \<lparr>c_baseURL = [], c_metadata = empty_metadata, c_orderedHeaders = None, c_middlewares = [],
      c_retry = DefaultRetryPolicy, c_httpClient = zeroHTTPClient, c_tlsHandshake = None,
      c_jsonEncoder = JSONEncoder_Encode (ce_json ce) None, c_xmlEncoder = XMLEncoder_Encode (ce_xml ce) None,
      c_yamlEncoder = YAMLEncoder_Encode (ce_yaml ce) None, c_jsonDecoder = JSONDecoder_Decode (ce_jsonRead ce) None,
      c_xmlDecoder = XMLDecoder_Decode (ce_xmlUnmarshal ce) None, c_yamlDecoder = YAMLDecoder_Decode (ce_yamlDecode ce) None,
      c_logger = None, c_dialTimeout = 0, c_resolver = None, c_localAddr = None, c_dialContext = None, c_auth = None\<rparr>"

definition client_clone :: "'o oo_ops \<Rightarrow> 'o Client \<Rightarrow> 'o Client" where
  "client_clone ob c =
     c\<lparr>c_metadata := metadata_clone (c_metadata c), c_orderedHeaders := cloneOrderedHeaders ob (c_orderedHeaders c),
       c_httpClient := cloneHTTPClient (c_httpClient c) (c_tlsHandshake c)\<rparr>"

definition snapshot :: "'o oo_ops \<Rightarrow> 'o Client \<Rightarrow> 'o clientSnapshot" where
  "snapshot ob c =
     \<lparr>s_baseURL = c_baseURL c, s_metadata = metadata_clone (c_metadata c),
      s_orderedHeaders = cloneOrderedHeaders ob (c_orderedHeaders c), s_middlewares = c_middlewares c,
      s_retry = c_retry c, s_httpClient = c_httpClient c, s_jsonEncoder = c_jsonEncoder c,
      s_xmlEncoder = c_xmlEncoder c, s_yamlEncoder = c_yamlEncoder c,
      s_jsonDecoder = c_jsonDecoder c, s_xmlDecoder = c_xmlDecoder c, s_yamlDecoder = c_yamlDecoder c,
      s_logger = c_logger c, s_auth = c_auth c\<rparr>"

definition UnsafeHTTPClient :: "'o Client \<Rightarrow> 'o httpClient" where
  "UnsafeHTTPClient c = c_httpClient c"

definition GetBaseURL :: "'o Client \<Rightarrow> string" where
  "GetBaseURL c = c_baseURL c"

definition AsHTTPClient :: "'o Client \<Rightarrow> 'o httpClient" where
  "AsHTTPClient c = cloneHTTPClient (c_httpClient c) (c_tlsHandshake c)"

section \<open>Validation and construction\<close>

definition standard_transport :: "'o Client \<Rightarrow> bool" where
  "standard_transport c \<longleftrightarrow>
     (case hc_Transport (c_httpClient c) of None \<Rightarrow> True | Some (StdTransport t) \<Rightarrow> True | Some (CustomTransport n) \<Rightarrow> False)"

definition validate :: "clientEnv \<Rightarrow> 'o Client \<Rightarrow> goerr option" where
  "validate ce c =
     (if c_baseURL c = [] then None
      else case URL_Parse (ce_parseHost ce) (c_baseURL c) of
             None \<Rightarrow> Some (wrap2 ErrInvalidConfigValue (snd (sanitizeTree (ce_parseHost ce) (parse_error (c_baseURL c)))))
           | Some u \<Rightarrow>
               if \<not> IsAbs u \<or> url_opaque u \<noteq> [] \<or> url_host u = []
               then Some (wrapped ErrInvalidConfigValue ''BaseURL must be an absolute hierarchical URL with a host'')
               else if url_fragment u \<noteq> []
               then Some (wrapped ErrInvalidConfigValue ''BaseURL must not contain a fragment'')
               else if ParseQuery (url_rawQuery u) = None
               then Some (wrap2 ErrInvalidConfigValue query_error)
               else if standard_transport c \<and> ToLower (url_scheme u) \<noteq> ''http'' \<and> ToLower (url_scheme u) \<noteq> ''https''
               then Some (wrapped ErrInvalidConfigValue ''BaseURL scheme requires a custom transport'')
               else None)"

fun apply_options :: "'o Option option list \<Rightarrow> 'o Client \<Rightarrow> goerr + 'o Client" where
  "apply_options [] c = Inr c"
| "apply_options (None # opts) c = apply_options opts c"
| "apply_options (Some opt # opts) c = ebind (opt c) (apply_options opts)"

definition check_client :: "clientEnv \<Rightarrow> 'o Client \<Rightarrow> goerr + 'o Client" where
  "check_client ce c = (case validate ce c of Some e \<Rightarrow> Inl e | None \<Rightarrow> Inr c)"

definition Client_New :: "clientEnv \<Rightarrow> 'o Option option list \<Rightarrow> goerr + 'o Client" where
  "Client_New ce opts = ebind (apply_options opts (newClient ce)) (check_client ce)"

definition Client_Clone :: "clientEnv \<Rightarrow> 'o oo_ops \<Rightarrow> 'o Option option list \<Rightarrow> 'o Client \<Rightarrow> goerr + 'o Client" where
  "Client_Clone ce ob opts c = ebind (apply_options opts (client_clone ob c)) (check_client ce)"

section \<open>Setters\<close>

definition setBaseURL :: "string \<Rightarrow> 'o Client \<Rightarrow> 'o Client" where
  "setBaseURL v c = c\<lparr>c_baseURL := v\<rparr>"

definition addMiddleware :: "'o Middleware list \<Rightarrow> 'o Client \<Rightarrow> 'o Client" where
  "addMiddleware mws c = c\<lparr>c_middlewares := c_middlewares c @ mws\<rparr>"

definition setDefaultHeaders :: "httpHeader \<Rightarrow> 'o Client \<Rightarrow> 'o Client" where
  "setDefaultHeaders headers c =
     c\<lparr>c_metadata := setHeaders ((c_metadata c)\<lparr>md_headers := []\<rparr>) headers, c_orderedHeaders := None\<rparr>"

definition setDefaultOrderedHeaders :: "'o oo_ops \<Rightarrow> 'o option \<Rightarrow> 'o Client \<Rightarrow> 'o Client" where
  "setDefaultOrderedHeaders ob headers c =
     (let h = cloneOrderedHeaders ob headers
      in c\<lparr>c_orderedHeaders := h, c_metadata := ordered_to_metadata ob h (c_metadata c)\<rparr>)"

definition setDefaultHeader :: "'o oo_ops \<Rightarrow> string \<Rightarrow> string \<Rightarrow> 'o Client \<Rightarrow> 'o Client" where
  "setDefaultHeader ob key v c =
     c\<lparr>c_metadata := setHeader (c_metadata c) key (privateRequestValue v),
       c_orderedHeaders := (if c_orderedHeaders c \<noteq> None
                            then setOrderedHeaderValues ob (c_orderedHeaders c) key [v] else None)\<rparr>"

definition setDefaultContentType :: "'o oo_ops \<Rightarrow> string \<Rightarrow> 'o Client \<Rightarrow> 'o Client" where
  "setDefaultContentType ob = setDefaultHeader ob ''Content-Type''"

definition setDefaultAccept :: "'o oo_ops \<Rightarrow> string \<Rightarrow> 'o Client \<Rightarrow> 'o Client" where
  "setDefaultAccept ob = setDefaultHeader ob ''Accept''"

definition setDefaultUserAgent :: "'o oo_ops \<Rightarrow> string \<Rightarrow> 'o Client \<Rightarrow> 'o Client" where
  "setDefaultUserAgent ob = setDefaultHeader ob ''User-Agent''"

definition setDefaultReferer :: "'o oo_ops \<Rightarrow> string \<Rightarrow> 'o Client \<Rightarrow> 'o Client" where
  "setDefaultReferer ob = setDefaultHeader ob ''Referer''"

definition setDefaultTimeout :: "int \<Rightarrow> 'o Client \<Rightarrow> 'o Client" where
  "setDefaultTimeout timeout c = c\<lparr>c_httpClient := (c_httpClient c)\<lparr>hc_Timeout := timeout\<rparr>\<rparr>"

definition setDefaultCookieJar :: "nat \<Rightarrow> 'o Client \<Rightarrow> 'o Client" where
  "setDefaultCookieJar jar c = c\<lparr>c_httpClient := (c_httpClient c)\<lparr>hc_Jar := Some jar\<rparr>\<rparr>"

definition setDefaultCookie :: "string \<Rightarrow> string \<Rightarrow> 'o Client \<Rightarrow> 'o Client" where
  "setDefaultCookie name v c =
     c\<lparr>c_metadata := addCookie (deleteCookies (c_metadata c) [name]) name (privateRequestValue v)\<rparr>"

definition setDefaultCookies :: "(string, string) gomap \<Rightarrow> 'o Client \<Rightarrow> 'o Client" where
  "setDefaultCookies cookies c = foldl (\<lambda>c (k, v). setDefaultCookie k v c) c cookies"

definition setRetry :: "'o RetryPolicy \<Rightarrow> 'o Client \<Rightarrow> 'o Client" where
  "setRetry policy c = c\<lparr>c_retry := policy\<rparr>"

definition setAuth :: "'o AuthMethod option \<Rightarrow> 'o Client \<Rightarrow> 'o Client" where
  "setAuth auth c = c\<lparr>c_auth := auth\<rparr>"

definition setRedirectPolicy :: "'o RedirectPolicy list \<Rightarrow> 'o Client \<Rightarrow> 'o Client" where
  "setRedirectPolicy policies c =
     c\<lparr>c_httpClient := (c_httpClient c)\<lparr>hc_CheckRedirect := Some (PolicyChain policies)\<rparr>\<rparr>"

definition setLogger :: "nat option \<Rightarrow> 'o Client \<Rightarrow> 'o Client" where
  "setLogger logger c = c\<lparr>c_logger := logger\<rparr>"

section \<open>Transport settings\<close>

definition ensureTransport :: "clientEnv \<Rightarrow> 'o Client \<Rightarrow> goerr + httpTransport" where
  "ensureTransport ce c =
     (case hc_Transport (c_httpClient c) of
        None \<Rightarrow> (case ce_defaultTransport ce of
                   StdTransport baseline \<Rightarrow> Inr baseline
                 | CustomTransport n \<Rightarrow> Inl (wrapped ErrInvalidTransportType ''expected default *http.Transport''))
      | Some (StdTransport t) \<Rightarrow> Inr t
      | Some (CustomTransport n) \<Rightarrow> Inl (wrapped ErrInvalidTransportType ''expected *http.Transport''))"

definition putTransport :: "httpTransport \<Rightarrow> 'o Client \<Rightarrow> 'o Client" where
  "putTransport t c = c\<lparr>c_httpClient := (c_httpClient c)\<lparr>hc_Transport := Some (StdTransport t)\<rparr>\<rparr>"

definition applyTransport :: "clientEnv \<Rightarrow> (httpTransport \<Rightarrow> httpTransport) \<Rightarrow> 'o Option" where
  "applyTransport ce f c = ebind (ensureTransport ce c) (\<lambda>t. Inr (putTransport (f t) c))"

definition setHTTPClient :: "'o httpClient \<Rightarrow> 'o Client \<Rightarrow> 'o Client" where
  "setHTTPClient hc c = c\<lparr>c_httpClient := cloneHTTPClient hc None, c_tlsHandshake := None\<rparr>"

definition setDefaultTransport :: "roundTripper option \<Rightarrow> 'o Client \<Rightarrow> 'o Client" where
  "setDefaultTransport t c =
     c\<lparr>c_httpClient := (c_httpClient c)\<lparr>hc_Transport := t\<rparr>, c_tlsHandshake := None\<rparr>"

definition configureHTTP2 :: "clientEnv \<Rightarrow> 'o Option" where
  "configureHTTP2 ce = applyTransport ce configureHTTP2Transport"

definition applyDialContextLocked :: "'o Client \<Rightarrow> httpTransport \<Rightarrow> httpTransport" where
  "applyDialContextLocked c t =
     (case c_dialContext c of
        Some d \<Rightarrow> t\<lparr>ht_DialContext := Some (CallerDial d)\<rparr>
      | None \<Rightarrow>
          if c_dialTimeout c = 0 \<and> c_resolver c = None \<and> c_localAddr c = None then t\<lparr>ht_DialContext := None\<rparr>
          else t\<lparr>ht_DialContext := Some (NetDialer (c_dialTimeout c) (c_resolver c) (c_localAddr c))\<rparr>)"

definition applyDial :: "clientEnv \<Rightarrow> 'o Option" where
  "applyDial ce c = applyTransport ce (applyDialContextLocked c) c"

definition applyDialTimeout :: "clientEnv \<Rightarrow> int \<Rightarrow> 'o Option" where
  "applyDialTimeout ce d c = applyDial ce (c\<lparr>c_dialTimeout := d\<rparr>)"

definition applyResolver :: "clientEnv \<Rightarrow> nat option \<Rightarrow> 'o Option" where
  "applyResolver ce r c = applyDial ce (c\<lparr>c_resolver := r\<rparr>)"

definition applyDialContext :: "clientEnv \<Rightarrow> nat option \<Rightarrow> 'o Option" where
  "applyDialContext ce d c = applyDial ce (c\<lparr>c_dialContext := d\<rparr>)"

definition applyLocalAddr :: "clientEnv \<Rightarrow> nat option \<Rightarrow> 'o Option" where
  "applyLocalAddr ce a c = applyDial ce (c\<lparr>c_localAddr := a\<rparr>)"

definition setTLSHandshake :: "clientEnv \<Rightarrow> nat option \<Rightarrow> 'o Option" where
  "setTLSHandshake ce h c = applyTransport ce (bindTLSHandshake h) (c\<lparr>c_tlsHandshake := h\<rparr>)"

definition setTLSConfig :: "clientEnv \<Rightarrow> tlsConfig option \<Rightarrow> 'o Option" where
  "setTLSConfig ce cfg = applyTransport ce (setTransportTLSConfig (cloneTLSConfig cfg))"

definition updateTLSConfigLocked :: "clientEnv \<Rightarrow> (tlsConfig \<Rightarrow> goerr + tlsConfig) \<Rightarrow> 'o Option" where
  "updateTLSConfigLocked ce upd c =
     ebind (ensureTransport ce c) (\<lambda>t. ebind (updateTLSConfig upd t) (\<lambda>t1. Inr (putTransport t1 c)))"

definition insecureSkipVerify :: "clientEnv \<Rightarrow> 'o Option" where
  "insecureSkipVerify ce = updateTLSConfigLocked ce (\<lambda>cfg. Inr (cfg\<lparr>tc_InsecureSkipVerify := True\<rparr>))"

definition setCertificates :: "clientEnv \<Rightarrow> tlsCertificate list \<Rightarrow> 'o Option" where
  "setCertificates ce certs = updateTLSConfigLocked ce (\<lambda>cfg. Inr (cfg\<lparr>tc_Certificates := cloneCertificates certs\<rparr>))"

definition setTLSServerName :: "clientEnv \<Rightarrow> string \<Rightarrow> 'o Option" where
  "setTLSServerName ce name = updateTLSConfigLocked ce (\<lambda>cfg. Inr (cfg\<lparr>tc_ServerName := name\<rparr>))"

definition addRootCAs :: "clientEnv \<Rightarrow> bytes \<Rightarrow> 'o Option" where
  "addRootCAs ce pem =
     updateTLSConfigLocked ce (\<lambda>cfg.
       let roots = (case tc_RootCAs cfg of None \<Rightarrow> [] | Some rs \<Rightarrow> rs)
       in case ce_appendCerts ce roots pem of
            None \<Rightarrow> Inl (invalidOptionValue ''RootCertificate'')
          | Some rs \<Rightarrow> Inr (cfg\<lparr>tc_RootCAs := Some rs\<rparr>))"

definition setRootCertificateFromString :: "clientEnv \<Rightarrow> string \<Rightarrow> 'o Option" where
  "setRootCertificateFromString ce pemCerts = addRootCAs ce pemCerts"

definition GetTLSConfig :: "'o Client \<Rightarrow> tlsConfig option" where
  "GetTLSConfig c =
     (case hc_Transport (c_httpClient c) of Some (StdTransport t) \<Rightarrow> cloneTLSConfig (ht_TLSClientConfig t) | _ \<Rightarrow> None)"

definition enableSession :: "clientEnv \<Rightarrow> 'o Option" where
  "enableSession ce c =
     ebind (case hc_Jar (c_httpClient c) of
              Some j \<Rightarrow> Inr j
            | None \<Rightarrow> (case ce_newJar ce of Inl e \<Rightarrow> Inl (Wrapf ''create session cookie jar'' e) | Inr j \<Rightarrow> Inr j)) (\<lambda>jar.
       ebind (updateTLSConfigLocked ce (\<lambda>cfg.
                Inr (if tc_ClientSessionCache cfg = None then cfg\<lparr>tc_ClientSessionCache := Some (ce_newSessionCache ce)\<rparr> else cfg)) c) (\<lambda>c1.
         Inr (c1\<lparr>c_httpClient := (c_httpClient c1)\<lparr>hc_Jar := Some jar\<rparr>\<rparr>)))"

definition setProxyFunc :: "clientEnv \<Rightarrow> proxyFunc option \<Rightarrow> 'o Option" where
  "setProxyFunc ce p = applyTransport ce (\<lambda>t. t\<lparr>ht_Proxy := p\<rparr>)"

definition setProxy :: "clientEnv \<Rightarrow> string \<Rightarrow> 'o Option" where
  "setProxy ce proxyURL c = ebind (verifyProxy (ce_parseHost ce) proxyURL) (\<lambda>u. setProxyFunc ce (Some (ProxyURL u)) c)"

definition setProxyWithBypass :: "clientEnv \<Rightarrow> string \<Rightarrow> string \<Rightarrow> 'o Option" where
  "setProxyWithBypass ce proxyURL bypass c =
     ebind (verifyProxy (ce_parseHost ce) proxyURL) (\<lambda>u. setProxyFunc ce (Some (ProxyBypass bypass u)) c)"

definition setProxyFromEnv :: "clientEnv \<Rightarrow> 'o Option" where
  "setProxyFromEnv ce = setProxyFunc ce (Some ProxyFromEnvironment)"

definition setProxySelector :: "clientEnv \<Rightarrow> proxyFunc option \<Rightarrow> 'o Option" where
  "setProxySelector ce sel = setProxyFunc ce sel"

definition setProxies :: "clientEnv \<Rightarrow> string list \<Rightarrow> 'o Option" where
  "setProxies ce proxyURLs c =
     ebind (verifyProxies (ce_parseHost ce) proxyURLs) (\<lambda>us. setProxySelector ce (Some (ProxyRoundRobin us)) c)"

definition removeProxy :: "clientEnv \<Rightarrow> 'o Option" where
  "removeProxy ce = setProxyFunc ce None"

section \<open>Starting requests\<close>

definition Client_Get :: "string \<Rightarrow> 'o RequestBuilder" where
  "Client_Get path = Client_Request ''GET'' path"

definition Client_Post :: "string \<Rightarrow> 'o RequestBuilder" where
  "Client_Post path = Client_Request ''POST'' path"

definition Client_Delete :: "string \<Rightarrow> 'o RequestBuilder" where
  "Client_Delete path = Client_Request ''DELETE'' path"

definition Client_Put :: "string \<Rightarrow> 'o RequestBuilder" where
  "Client_Put path = Client_Request ''PUT'' path"

definition Client_Patch :: "string \<Rightarrow> 'o RequestBuilder" where
  "Client_Patch path = Client_Request ''PATCH'' path"

definition Client_Options :: "string \<Rightarrow> 'o RequestBuilder" where
  "Client_Options path = Client_Request ''OPTIONS'' path"

definition Client_Head :: "string \<Rightarrow> 'o RequestBuilder" where
  "Client_Head path = Client_Request ''HEAD'' path"

definition Client_Connect :: "string \<Rightarrow> 'o RequestBuilder" where
  "Client_Connect path = Client_Request ''CONNECT'' path"

definition Client_Trace :: "string \<Rightarrow> 'o RequestBuilder" where
  "Client_Trace path = Client_Request ''TRACE'' path"

end
