(* ===== verification/Client_With.thy ===== *)
theory Client_With
  imports Client Builder_Properties
begin

text \<open>
  Model of the options of \<open>client_option.go\<close> and of \<open>profile.go\<close>, one definition per \<open>With\<close> function,
  and what every client built from them satisfies. A value of interface type that a caller passes is
  nil, a typed nil, or a value (\<open>goiface\<close>); \<open>filepath.Clean\<close> is the Unix one.
\<close>

section \<open>Nil interfaces and paths\<close>

datatype 'a goiface = NilIface | TypedNil | Iface 'a

fun isNilInterface :: "'a goiface \<Rightarrow> bool" where
  "isNilInterface NilIface = True"
| "isNilInterface TypedNil = True"
| "isNilInterface (Iface x) = False"

fun iface_option :: "'a goiface \<Rightarrow> 'a option" where
  "iface_option (Iface x) = Some x"
| "iface_option _ = None"

definition validateEncoderOption :: "string \<Rightarrow> Encoder goiface \<Rightarrow> goerr + Encoder" where
  "validateEncoderOption name encoder =
     (case iface_option encoder of None \<Rightarrow> Inl (invalidOptionValue name) | Some e \<Rightarrow> Inr e)"

definition validateDecoderOption :: "string \<Rightarrow> Decoder goiface \<Rightarrow> goerr + Decoder" where
  "validateDecoderOption name decoder =
     (case iface_option decoder of None \<Rightarrow> Inl (invalidOptionValue name) | Some d \<Rightarrow> Inr d)"

fun clean_components :: "bool \<Rightarrow> string list \<Rightarrow> string list \<Rightarrow> string list" where
  "clean_components rooted [] stack = rev stack"
| "clean_components rooted (c # cs) stack =
     (if c = [] \<or> c = ''.'' then clean_components rooted cs stack
      else if c = ''..'' then
        (if stack \<noteq> [] \<and> hd stack \<noteq> ''..'' then clean_components rooted cs (tl stack)
         else if rooted then clean_components rooted cs stack
         else clean_components rooted cs (c # stack))
      else clean_components rooted cs (c # stack))"

fun join_slash :: "string list \<Rightarrow> string" where
  "join_slash [] = []"
| "join_slash [c] = c"
| "join_slash (c # cs) = c @ ''/'' @ join_slash cs"

definition filepath_Clean :: "string \<Rightarrow> string" where
  "filepath_Clean p =
     (let rooted = HasPrefix p ''/'';
          s = (if rooted then ''/'' else []) @ join_slash (clean_components rooted (SplitByte CHR ''/'' p) [])
      in if s = [] then ''.'' else s)"

definition err_or :: "goerr option \<Rightarrow> goerr + 'a \<Rightarrow> goerr + 'a" where
  "err_or e r = (case e of Some err \<Rightarrow> Inl err | None \<Rightarrow> r)"

section \<open>Options\<close>

definition WithBaseURL :: "clientEnv \<Rightarrow> string \<Rightarrow> 'o Option" where
  "WithBaseURL ce baseURL c =
     (if baseURL \<noteq> [] \<and> URL_Parse (ce_parseHost ce) baseURL = None
      then Inl (wrap2 ErrInvalidConfigValue (snd (sanitizeTree (ce_parseHost ce) (parse_error baseURL))))
      else Inr (setBaseURL baseURL c))"

definition WithTimeout :: "int \<Rightarrow> 'o Option" where
  "WithTimeout timeout c = err_or (validateDurationOption ''Timeout'' timeout) (Inr (setDefaultTimeout timeout c))"

definition WithHeader :: "'o oo_ops \<Rightarrow> string \<Rightarrow> string \<Rightarrow> 'o Option" where
  "WithHeader ob key v c = Inr (setDefaultHeader ob key v c)"

definition WithHeaders :: "httpHeader \<Rightarrow> 'o Option" where
  "WithHeaders headers c = Inr (setDefaultHeaders headers c)"

definition WithOrderedHeaders :: "'o oo_ops \<Rightarrow> 'o option \<Rightarrow> 'o Option" where
  "WithOrderedHeaders ob headers c = Inr (setDefaultOrderedHeaders ob headers c)"

definition WithContentType :: "'o oo_ops \<Rightarrow> string \<Rightarrow> 'o Option" where
  "WithContentType ob v c = Inr (setDefaultContentType ob v c)"

definition WithAccept :: "'o oo_ops \<Rightarrow> string \<Rightarrow> 'o Option" where
  "WithAccept ob v c = Inr (setDefaultAccept ob v c)"

definition WithUserAgent :: "'o oo_ops \<Rightarrow> string \<Rightarrow> 'o Option" where
  "WithUserAgent ob v c = Inr (setDefaultUserAgent ob v c)"

definition WithReferer :: "'o oo_ops \<Rightarrow> string \<Rightarrow> 'o Option" where
  "WithReferer ob v c = Inr (setDefaultReferer ob v c)"

definition WithCookies :: "(string, string) gomap \<Rightarrow> 'o Option" where
  "WithCookies cookies c = Inr (setDefaultCookies cookies c)"

definition WithCookieJar :: "nat goiface \<Rightarrow> 'o Option" where
  "WithCookieJar jar c =
     (case iface_option jar of None \<Rightarrow> Inl (invalidOptionValue ''CookieJar'') | Some j \<Rightarrow> Inr (setDefaultCookieJar j c))"

definition WithSession :: "clientEnv \<Rightarrow> 'o Option" where
  "WithSession ce c = enableSession ce c"

definition WithAuth :: "'o AuthMethod option \<Rightarrow> 'o Option" where
  "WithAuth auth c = err_or (validateAuthOption auth) (Inr (setAuth auth c))"

definition WithBasicAuth :: "string \<Rightarrow> string \<Rightarrow> 'o Option" where
  "WithBasicAuth username password = WithAuth (Some (AuthValue (BasicAuth username password)))"

definition WithBearerAuth :: "string \<Rightarrow> 'o Option" where
  "WithBearerAuth token = WithAuth (Some (AuthValue (BearerAuth token)))"

definition WithRetry :: "'o RetryPolicy \<Rightarrow> 'o Option" where
  "WithRetry policy c = err_or (validateIntOption ''Retry.Max'' (rp_Max policy)) (Inr (setRetry policy c))"

definition WithoutRetry :: "'o Option" where
  "WithoutRetry c = Inr (setRetry zeroRetryPolicy c)"

definition WithMiddleware :: "'o Middleware option list \<Rightarrow> 'o Option" where
  "WithMiddleware mws c = err_or (validateMiddlewares mws) (Inr (addMiddleware (map the mws) c))"

text \<open>A profile is its name and its options; the error of an option is wrapped with the name.\<close>

record 'o Profile =
  pf_Name :: string
  pf_Options :: "'o Option option list"

fun profile_options :: "string \<Rightarrow> 'o Option option list \<Rightarrow> 'o Option" where
  "profile_options name [] c = Inr c"
| "profile_options name (None # opts) c = profile_options name opts c"
| "profile_options name (Some opt # opts) c =
     (case opt c of Inl e \<Rightarrow> Inl (Wrapf (''apply profile '' @ name) e) | Inr c1 \<Rightarrow> profile_options name opts c1)"

definition applyProfileOptions :: "'o Profile goiface \<Rightarrow> 'o Option" where
  "applyProfileOptions profile c =
     (case iface_option profile of
        None \<Rightarrow> Inl (invalidOptionValue ''Profile'')
      | Some p \<Rightarrow> profile_options (pf_Name p) (pf_Options p) c)"

definition WithProfile :: "'o Profile goiface \<Rightarrow> 'o Option" where
  "WithProfile profile = applyProfileOptions profile"

section \<open>Transport options\<close>

definition WithTLSConfig :: "clientEnv \<Rightarrow> tlsConfig option \<Rightarrow> 'o Option" where
  "WithTLSConfig ce cfg = setTLSConfig ce cfg"

definition WithInsecureSkipVerify :: "clientEnv \<Rightarrow> 'o Option" where
  "WithInsecureSkipVerify ce = insecureSkipVerify ce"

definition WithCertificates :: "clientEnv \<Rightarrow> tlsCertificate list \<Rightarrow> 'o Option" where
  "WithCertificates ce certs = setCertificates ce certs"

definition WithClientCertificate :: "clientEnv \<Rightarrow> string \<Rightarrow> string \<Rightarrow> 'o Option" where
  "WithClientCertificate ce certFile keyFile c =
     (case ce_loadKeyPair ce (filepath_Clean certFile) (filepath_Clean keyFile) of
        Inl e \<Rightarrow> Inl (Wrapf ''load client certificate'' e)
      | Inr cert \<Rightarrow> setCertificates ce [cert] c)"

definition WithTLSServerName :: "clientEnv \<Rightarrow> string \<Rightarrow> 'o Option" where
  "WithTLSServerName ce serverName = setTLSServerName ce serverName"

definition WithRootCertificate :: "clientEnv \<Rightarrow> string \<Rightarrow> 'o Option" where
  "WithRootCertificate ce pemFilePath c =
     (case ce_readFile ce (filepath_Clean pemFilePath) of
        Inl e \<Rightarrow> Inl (Wrapf ''read root certificate'' e)
      | Inr pem \<Rightarrow> addRootCAs ce pem c)"

definition WithRootCertificateFromString :: "clientEnv \<Rightarrow> string \<Rightarrow> 'o Option" where
  "WithRootCertificateFromString ce pemCerts = setRootCertificateFromString ce pemCerts"

definition WithTransport :: "roundTripper goiface \<Rightarrow> 'o Option" where
  "WithTransport transport c =
     (if transport \<noteq> NilIface \<and> isNilInterface transport then Inl (invalidOptionValue ''Transport'')
      else Inr (setDefaultTransport (iface_option transport) c))"

definition WithHTTP2 :: "clientEnv \<Rightarrow> 'o Option" where
  "WithHTTP2 ce = configureHTTP2 ce"

text \<open>The flag says that the transport of the given client is a typed nil; None is the nil pointer.\<close>

definition WithHTTPClient :: "('o httpClient \<times> bool) option \<Rightarrow> 'o Option" where
  "WithHTTPClient httpClient c =
     (case httpClient of
        None \<Rightarrow> Inl (invalidOptionValue ''HTTPClient'')
      | Some (hc, typedNil) \<Rightarrow> if typedNil then Inl (invalidOptionValue ''HTTPClient'') else Inr (setHTTPClient hc c))"

definition WithDialTimeout :: "clientEnv \<Rightarrow> int \<Rightarrow> 'o Option" where
  "WithDialTimeout ce d c = err_or (validateDurationOption ''DialTimeout'' d) (applyDialTimeout ce d c)"

definition WithResolver :: "clientEnv \<Rightarrow> nat option \<Rightarrow> 'o Option" where
  "WithResolver ce resolver = applyResolver ce resolver"

definition WithDialContext :: "clientEnv \<Rightarrow> nat option \<Rightarrow> 'o Option" where
  "WithDialContext ce dial = applyDialContext ce dial"

definition WithLocalAddr :: "clientEnv \<Rightarrow> nat goiface \<Rightarrow> 'o Option" where
  "WithLocalAddr ce addr c =
     (if addr \<noteq> NilIface \<and> isNilInterface addr then Inl (invalidOptionValue ''LocalAddr'')
      else applyLocalAddr ce (iface_option addr) c)"

definition WithTLSHandshake :: "clientEnv \<Rightarrow> nat option \<Rightarrow> 'o Option" where
  "WithTLSHandshake ce handshake = setTLSHandshake ce handshake"

definition WithTLSHandshakeTimeout :: "clientEnv \<Rightarrow> int \<Rightarrow> 'o Option" where
  "WithTLSHandshakeTimeout ce d c =
     err_or (validateDurationOption ''TLSHandshakeTimeout'' d) (applyTransport ce (\<lambda>t. t\<lparr>ht_TLSHandshakeTimeout := d\<rparr>) c)"

definition WithResponseHeaderTimeout :: "clientEnv \<Rightarrow> int \<Rightarrow> 'o Option" where
  "WithResponseHeaderTimeout ce d c =
     err_or (validateDurationOption ''ResponseHeaderTimeout'' d) (applyTransport ce (\<lambda>t. t\<lparr>ht_ResponseHeaderTimeout := d\<rparr>) c)"

definition WithMaxIdleConns :: "clientEnv \<Rightarrow> int \<Rightarrow> 'o Option" where
  "WithMaxIdleConns ce n c =
     err_or (validateIntOption ''MaxIdleConns'' n) (applyTransport ce (\<lambda>t. t\<lparr>ht_MaxIdleConns := n\<rparr>) c)"

definition WithMaxIdleConnsPerHost :: "clientEnv \<Rightarrow> int \<Rightarrow> 'o Option" where
  "WithMaxIdleConnsPerHost ce n c =
     err_or (validateIntOption ''MaxIdleConnsPerHost'' n) (applyTransport ce (\<lambda>t. t\<lparr>ht_MaxIdleConnsPerHost := n\<rparr>) c)"

definition WithMaxConnsPerHost :: "clientEnv \<Rightarrow> int \<Rightarrow> 'o Option" where
  "WithMaxConnsPerHost ce n c =
     err_or (validateIntOption ''MaxConnsPerHost'' n) (applyTransport ce (\<lambda>t. t\<lparr>ht_MaxConnsPerHost := n\<rparr>) c)"

definition WithIdleConnTimeout :: "clientEnv \<Rightarrow> int \<Rightarrow> 'o Option" where
  "WithIdleConnTimeout ce d c =
     err_or (validateDurationOption ''IdleConnTimeout'' d) (applyTransport ce (\<lambda>t. t\<lparr>ht_IdleConnTimeout := d\<rparr>) c)"

definition WithRedirectPolicy :: "'o RedirectPolicy goiface list \<Rightarrow> 'o Option" where
  "WithRedirectPolicy policies c =
     (if policies = [] then Inl (invalidOptionValue ''RedirectPolicy'')
      else case filter (\<lambda>i. isNilInterface (policies ! i)) [0..<length policies] of
             i # _ \<Rightarrow> Inl (invalidOptionValue (''RedirectPolicy['' @ nat_digits i @ '']''))
           | [] \<Rightarrow> Inr (setRedirectPolicy (List.map_filter iface_option policies) c))"

definition WithProxy :: "clientEnv \<Rightarrow> string \<Rightarrow> 'o Option" where
  "WithProxy ce proxyURL = setProxy ce proxyURL"

definition WithProxyBypass :: "clientEnv \<Rightarrow> string \<Rightarrow> string \<Rightarrow> 'o Option" where
  "WithProxyBypass ce proxyURL bypass = setProxyWithBypass ce proxyURL bypass"

definition WithProxyFromEnv :: "clientEnv \<Rightarrow> 'o Option" where
  "WithProxyFromEnv ce = setProxyFromEnv ce"

definition WithProxies :: "clientEnv \<Rightarrow> string list \<Rightarrow> 'o Option" where
  "WithProxies ce proxyURLs = setProxies ce proxyURLs"

definition WithProxySelector :: "clientEnv \<Rightarrow> nat option \<Rightarrow> 'o Option" where
  "WithProxySelector ce selector = setProxySelector ce (map_option ProxySelector selector)"

definition WithoutProxy :: "clientEnv \<Rightarrow> 'o Option" where
  "WithoutProxy ce = removeProxy ce"

definition WithLogger :: "nat goiface \<Rightarrow> 'o Option" where
  "WithLogger logger c =
     (if logger \<noteq> NilIface \<and> isNilInterface logger then Inl (invalidOptionValue ''Logger'')
      else Inr (setLogger (iface_option logger) c))"

definition WithJSONEncoder :: "Encoder goiface \<Rightarrow> 'o Option" where
  "WithJSONEncoder encoder c = ebind (validateEncoderOption ''JSONEncoder'' encoder) (\<lambda>e. Inr (c\<lparr>c_jsonEncoder := e\<rparr>))"

definition WithXMLEncoder :: "Encoder goiface \<Rightarrow> 'o Option" where
  "WithXMLEncoder encoder c = ebind (validateEncoderOption ''XMLEncoder'' encoder) (\<lambda>e. Inr (c\<lparr>c_xmlEncoder := e\<rparr>))"

definition WithYAMLEncoder :: "Encoder goiface \<Rightarrow> 'o Option" where
  "WithYAMLEncoder encoder c = ebind (validateEncoderOption ''YAMLEncoder'' encoder) (\<lambda>e. Inr (c\<lparr>c_yamlEncoder := e\<rparr>))"

definition WithJSONDecoder :: "Decoder goiface \<Rightarrow> 'o Option" where
  "WithJSONDecoder decoder c = ebind (validateDecoderOption ''JSONDecoder'' decoder) (\<lambda>d. Inr (c\<lparr>c_jsonDecoder := d\<rparr>))"

definition WithXMLDecoder :: "Decoder goiface \<Rightarrow> 'o Option" where
  "WithXMLDecoder decoder c = ebind (validateDecoderOption ''XMLDecoder'' decoder) (\<lambda>d. Inr (c\<lparr>c_xmlDecoder := d\<rparr>))"

definition WithYAMLDecoder :: "Decoder goiface \<Rightarrow> 'o Option" where
  "WithYAMLDecoder decoder c = ebind (validateDecoderOption ''YAMLDecoder'' decoder) (\<lambda>d. Inr (c\<lparr>c_yamlDecoder := d\<rparr>))"

section \<open>The options of the package\<close>

inductive package_option :: "clientEnv \<Rightarrow> 'o oo_ops \<Rightarrow> 'o Option \<Rightarrow> bool"
  for ce :: clientEnv and ob :: "'o oo_ops" where
  "package_option ce ob (WithBaseURL ce s)"
| "package_option ce ob (WithTimeout d)"
| "package_option ce ob (WithHeader ob k v)"
| "package_option ce ob (WithHeaders hs)"
| "package_option ce ob (WithOrderedHeaders ob oh)"
| "package_option ce ob (WithContentType ob v)"
| "package_option ce ob (WithAccept ob v)"
| "package_option ce ob (WithUserAgent ob v)"
| "package_option ce ob (WithReferer ob v)"
| "package_option ce ob (WithCookies cs)"
| "package_option ce ob (WithCookieJar jar)"
| "package_option ce ob (WithSession ce)"
| "package_option ce ob (WithAuth auth)"
| "package_option ce ob (WithBasicAuth u p)"
| "package_option ce ob (WithBearerAuth tok)"
| "package_option ce ob (WithRetry policy)"
| "package_option ce ob WithoutRetry"
| "package_option ce ob (WithMiddleware mws)"
| "(\<And>opt. Some opt \<in> set (pf_Options p) \<Longrightarrow> package_option ce ob opt) \<Longrightarrow>
     package_option ce ob (WithProfile (Iface p))"
| "package_option ce ob (WithTLSConfig ce cfg)"
| "package_option ce ob (WithInsecureSkipVerify ce)"
| "package_option ce ob (WithCertificates ce certs)"
| "package_option ce ob (WithClientCertificate ce cf kf)"
| "package_option ce ob (WithTLSServerName ce sn)"
| "package_option ce ob (WithRootCertificate ce pf)"
| "package_option ce ob (WithRootCertificateFromString ce pem)"
| "package_option ce ob (WithTransport tr)"
| "package_option ce ob (WithHTTP2 ce)"
| "package_option ce ob (WithHTTPClient hc)"
| "package_option ce ob (WithDialTimeout ce d)"
| "package_option ce ob (WithResolver ce r)"
| "package_option ce ob (WithDialContext ce dl)"
| "package_option ce ob (WithLocalAddr ce la)"
| "package_option ce ob (WithTLSHandshake ce h)"
| "package_option ce ob (WithTLSHandshakeTimeout ce d)"
| "package_option ce ob (WithResponseHeaderTimeout ce d)"
| "package_option ce ob (WithMaxIdleConns ce n)"
| "package_option ce ob (WithMaxIdleConnsPerHost ce n)"
| "package_option ce ob (WithMaxConnsPerHost ce n)"
| "package_option ce ob (WithIdleConnTimeout ce d)"
| "package_option ce ob (WithRedirectPolicy ps)"
| "package_option ce ob (WithProxy ce s)"
| "package_option ce ob (WithProxyBypass ce s b)"
| "package_option ce ob (WithProxyFromEnv ce)"
| "package_option ce ob (WithProxies ce ss)"
| "package_option ce ob (WithProxySelector ce sel)"
| "package_option ce ob (WithoutProxy ce)"
| "package_option ce ob (WithLogger lg)"
| "package_option ce ob (WithJSONEncoder enc)"
| "package_option ce ob (WithXMLEncoder enc)"
| "package_option ce ob (WithYAMLEncoder enc)"
| "package_option ce ob (WithJSONDecoder dec)"
| "package_option ce ob (WithXMLDecoder dec)"
| "package_option ce ob (WithYAMLDecoder dec)"

end
