(* ===== verification/Client_Properties.thy ===== *)
theory Client_Properties
  imports Client_With
begin

text \<open>
  What holds of every client that \<open>New\<close> or \<open>Clone\<close> returns when its options are those of the package:
  ordered and semantic headers in step, a valid authentication method, a retry bound that is not
  negative, and the managed handshake bound to the transport; and that such a client resolves a
  relative request path to a URL it may send to.
\<close>

section \<open>The invariant of a client\<close>

definition client_in_sync :: "'o oo_ops \<Rightarrow> 'o Client \<Rightarrow> bool" where
  "client_in_sync ob c \<longleftrightarrow>
     (c_orderedHeaders c \<noteq> None \<longrightarrow> fold_distinct ob (c_orderedHeaders c) \<and>
        (\<forall>k. \<not> isPseudoHeader k \<longrightarrow>
           ordered_vals ob (c_orderedHeaders c) k = map rawValue (md_vals (c_metadata c) k)))"

fun tls_hooks :: "roundTripper option \<Rightarrow> (nat option \<times> tlsDialFunc option) option" where
  "tls_hooks (Some (StdTransport t)) = Some (ht_DialTLS t, ht_DialTLSContext t)"
| "tls_hooks _ = None"

definition handshake_bound :: "'o Client \<Rightarrow> bool" where
  "handshake_bound c \<longleftrightarrow>
     (case c_tlsHandshake c of
        None \<Rightarrow> True
      | Some h \<Rightarrow> tls_hooks (hc_Transport (c_httpClient c)) = Some (None, Some (ManagedTLS h)))"

definition client_wf :: "'o oo_ops \<Rightarrow> 'o Client \<Rightarrow> bool" where
  "client_wf ob c \<longleftrightarrow>
     client_in_sync ob c \<and> handshake_bound c \<and> 0 \<le> rp_Max (c_retry c) \<and>
     (c_auth c = None \<or> validateAuthOption (c_auth c) = None)"

text \<open>Two clients that agree on all the invariant looks at.\<close>

definition same_core :: "'o Client \<Rightarrow> 'o Client \<Rightarrow> bool" where
  "same_core c c1 \<longleftrightarrow>
     md_headers (c_metadata c1) = md_headers (c_metadata c) \<and> c_orderedHeaders c1 = c_orderedHeaders c \<and>
     c_auth c1 = c_auth c \<and> c_retry c1 = c_retry c \<and> c_tlsHandshake c1 = c_tlsHandshake c \<and>
     (handshake_bound c \<longrightarrow> handshake_bound c1)"

lemma wf_same_core: "client_wf ob c \<Longrightarrow> same_core c c1 \<Longrightarrow> client_wf ob c1"
  by (simp add: client_wf_def same_core_def client_in_sync_def md_vals_def)

lemma same_core_refl [simp]: "same_core c c"
  by (simp add: same_core_def)

lemma same_core_trans: "same_core a b \<Longrightarrow> same_core b c \<Longrightarrow> same_core a c"
  by (simp add: same_core_def)

subsection \<open>Options that keep the core\<close>

definition keeps_hooks :: "(httpTransport \<Rightarrow> httpTransport) \<Rightarrow> bool" where
  "keeps_hooks f \<longleftrightarrow> (\<forall>t. ht_DialTLS (f t) = ht_DialTLS t \<and> ht_DialTLSContext (f t) = ht_DialTLSContext t)"

lemma ensureTransport_hooks:
  assumes "ensureTransport ce c = Inr t" and "handshake_bound c" and "c_tlsHandshake c = Some h"
  shows "ht_DialTLS t = None \<and> ht_DialTLSContext t = Some (ManagedTLS h)"
  using assms
  by (auto simp: ensureTransport_def handshake_bound_def split: option.splits roundTripper.splits)

lemma core_putTransport:
  assumes "ensureTransport ce c = Inr t"
    and "ht_DialTLS t1 = ht_DialTLS t" and "ht_DialTLSContext t1 = ht_DialTLSContext t"
  shows "same_core c (putTransport t1 c)"
  using ensureTransport_hooks[OF assms(1)] assms(2,3)
  by (simp add: same_core_def putTransport_def handshake_bound_def[of "putTransport t1 c" for t1] 
      handshake_bound_def[of "c\<lparr>c_httpClient := x\<rparr>" for x] split: option.split)

lemma core_applyTransport: "applyTransport ce f c = Inr c1 \<Longrightarrow> keeps_hooks f \<Longrightarrow> same_core c c1"
  by (auto simp: applyTransport_def ebind_Inr_iff keeps_hooks_def intro: core_putTransport)

lemma hooks_setTransportTLSConfig:
  "ht_DialTLS (setTransportTLSConfig cfg t) = ht_DialTLS t"
  "ht_DialTLSContext (setTransportTLSConfig cfg t) = ht_DialTLSContext t"
  by (simp_all add: setTransportTLSConfig_def ensureHTTP2NextProtos_def Let_def)

lemma core_updateTLS: "updateTLSConfigLocked ce upd c = Inr c1 \<Longrightarrow> same_core c c1"
  by (auto simp: updateTLSConfigLocked_def updateTLSConfig_def ebind_Inr_iff Let_def
      hooks_setTransportTLSConfig intro: core_putTransport)

lemma keeps_hooks_fields:
  "keeps_hooks configureHTTP2Transport" "keeps_hooks (setTransportTLSConfig cfg)"
  "keeps_hooks (applyDialContextLocked c)"
  by (auto simp: keeps_hooks_def configureHTTP2Transport_def ensureHTTP2NextProtos_def Let_def
      hooks_setTransportTLSConfig applyDialContextLocked_def split: option.splits)

lemma core_http_client:
  "hc_Transport hc = hc_Transport (c_httpClient c) \<Longrightarrow> same_core c (c\<lparr>c_httpClient := hc\<rparr>)"
  by (simp add: same_core_def handshake_bound_def split: option.split)

lemma core_dial: "applyDial ce (upd c) = Inr c1 \<Longrightarrow> same_core c (upd c) \<Longrightarrow> same_core c c1"
  unfolding applyDial_def by (blast intro: same_core_trans core_applyTransport keeps_hooks_fields(3))

lemma core_fields:
  "same_core c (c\<lparr>c_dialTimeout := d\<rparr>)" "same_core c (c\<lparr>c_resolver := r\<rparr>)" "same_core c (c\<lparr>c_dialContext := dc\<rparr>)"
  "same_core c (c\<lparr>c_localAddr := la\<rparr>)" "same_core c (c\<lparr>c_baseURL := s\<rparr>)" "same_core c (c\<lparr>c_middlewares := mws\<rparr>)"
  "same_core c (c\<lparr>c_logger := lg\<rparr>)" "same_core c (c\<lparr>c_jsonEncoder := enc\<rparr>)" "same_core c (c\<lparr>c_xmlEncoder := enc\<rparr>)"
  "same_core c (c\<lparr>c_yamlEncoder := enc\<rparr>)" "same_core c (c\<lparr>c_jsonDecoder := dec\<rparr>)" "same_core c (c\<lparr>c_xmlDecoder := dec\<rparr>)"
  "same_core c (c\<lparr>c_yamlDecoder := dec\<rparr>)"
  by (simp_all add: same_core_def handshake_bound_def split: option.split)

lemma core_cookies: "same_core c (setDefaultCookies cs c)"
proof (induction cs arbitrary: c)
  case (Cons kv cs)
  have "same_core c (setDefaultCookie (fst kv) (snd kv) c)"
    by (simp add: same_core_def handshake_bound_def setDefaultCookie_def addCookie_def deleteCookies_def split: option.split)
  then show ?case using Cons[of "setDefaultCookie (fst kv) (snd kv) c"]
    by (simp add: setDefaultCookies_def case_prod_beta same_core_trans)
qed (simp add: setDefaultCookies_def)

lemma core_dial_options:
  "applyDialTimeout ce d c = Inr c1 \<Longrightarrow> same_core c c1" "applyResolver ce r c = Inr c1 \<Longrightarrow> same_core c c1"
  "applyDialContext ce dc c = Inr c1 \<Longrightarrow> same_core c c1" "applyLocalAddr ce la c = Inr c1 \<Longrightarrow> same_core c c1"
  unfolding applyDialTimeout_def applyResolver_def applyDialContext_def applyLocalAddr_def
  by (erule core_dial, rule core_fields)+

lemma core_session: "enableSession ce c = Inr c1 \<Longrightarrow> same_core c c1"
  unfolding enableSession_def ebind_Inr_iff
  by (auto dest!: core_updateTLS intro!: same_core_trans[OF _ core_http_client])

lemmas core_updates = core_updateTLS core_dial_options core_session core_applyTransport[OF _ keeps_hooks_fields(1)]
  core_applyTransport[OF _ keeps_hooks_fields(2)]

definition keeps_core_option :: "'o Option \<Rightarrow> bool" where
  "keeps_core_option opt \<longleftrightarrow> (\<forall>c c1. opt c = Inr c1 \<longrightarrow> same_core c c1)"

lemma core_err_or: "keeps_core_option (\<lambda>c. err_or e (opt c)) \<longleftrightarrow> e \<noteq> None \<or> keeps_core_option opt"
  by (cases e) (simp_all add: keeps_core_option_def err_or_def)

lemma core_plain_options:
  "keeps_core_option (WithBaseURL ce s)" "keeps_core_option (WithTimeout d)" "keeps_core_option (WithCookies cs)"
  "keeps_core_option (WithCookieJar jar)" "keeps_core_option (WithMiddleware mws)" "keeps_core_option (WithLogger lg)"
  "keeps_core_option (WithRedirectPolicy ps)"
  "keeps_core_option (WithJSONEncoder enc)" "keeps_core_option (WithXMLEncoder enc)" "keeps_core_option (WithYAMLEncoder enc)"
  "keeps_core_option (WithJSONDecoder dec)" "keeps_core_option (WithXMLDecoder dec)" "keeps_core_option (WithYAMLDecoder dec)"
  by (auto simp: keeps_core_option_def WithBaseURL_def WithTimeout_def WithCookies_def WithCookieJar_def WithMiddleware_def
      WithLogger_def WithRedirectPolicy_def WithJSONEncoder_def WithXMLEncoder_def WithYAMLEncoder_def WithJSONDecoder_def
      WithXMLDecoder_def WithYAMLDecoder_def err_or_def ebind_Inr_iff setBaseURL_def setDefaultTimeout_def
      setDefaultCookieJar_def addMiddleware_def setLogger_def setRedirectPolicy_def core_fields core_cookies
      intro: core_http_client split: if_splits option.splits list.splits)

lemma core_tls_options:
  "keeps_core_option (WithSession ce)" "keeps_core_option (WithTLSConfig ce cfg)" "keeps_core_option (WithInsecureSkipVerify ce)"
  "keeps_core_option (WithCertificates ce certs)" "keeps_core_option (WithClientCertificate ce cf kf)"
  "keeps_core_option (WithTLSServerName ce sn)" "keeps_core_option (WithRootCertificate ce pf)"
  "keeps_core_option (WithRootCertificateFromString ce pem)" "keeps_core_option (WithHTTP2 ce)"
  by (auto simp: keeps_core_option_def WithSession_def WithTLSConfig_def setTLSConfig_def WithInsecureSkipVerify_def
      insecureSkipVerify_def WithCertificates_def setCertificates_def WithClientCertificate_def WithTLSServerName_def
      setTLSServerName_def WithRootCertificate_def addRootCAs_def WithRootCertificateFromString_def
      setRootCertificateFromString_def WithHTTP2_def configureHTTP2_def split: sum.splits dest: core_updates)

lemma core_transport_options:
  "keeps_core_option (WithDialTimeout ce d)" "keeps_core_option (WithResolver ce r)" "keeps_core_option (WithDialContext ce dl)"
  "keeps_core_option (WithLocalAddr ce la)" "keeps_core_option (WithTLSHandshakeTimeout ce d)"
  "keeps_core_option (WithResponseHeaderTimeout ce d)" "keeps_core_option (WithMaxIdleConns ce n)"
  "keeps_core_option (WithMaxIdleConnsPerHost ce n)" "keeps_core_option (WithMaxConnsPerHost ce n)"
  "keeps_core_option (WithIdleConnTimeout ce d)"
  by (auto simp: keeps_core_option_def WithDialTimeout_def WithResolver_def WithDialContext_def WithLocalAddr_def
      WithTLSHandshakeTimeout_def WithResponseHeaderTimeout_def WithMaxIdleConns_def WithMaxIdleConnsPerHost_def
      WithMaxConnsPerHost_def WithIdleConnTimeout_def err_or_def keeps_hooks_def
      split: option.splits if_splits dest: core_updates dest!: core_applyTransport)

lemma core_proxy_options:
  "keeps_core_option (WithProxy ce s)" "keeps_core_option (WithProxyBypass ce s b)" "keeps_core_option (WithProxyFromEnv ce)"
  "keeps_core_option (WithProxies ce ss)" "keeps_core_option (WithProxySelector ce sel)" "keeps_core_option (WithoutProxy ce)"
  by (auto simp: keeps_core_option_def WithProxy_def setProxy_def WithProxyBypass_def setProxyWithBypass_def
      WithProxyFromEnv_def setProxyFromEnv_def WithProxies_def setProxies_def WithProxySelector_def setProxySelector_def
      WithoutProxy_def removeProxy_def setProxyFunc_def ebind_Inr_iff keeps_hooks_def dest!: core_applyTransport)

subsection \<open>Options that change it\<close>

definition as_builder :: "'o Client \<Rightarrow> 'o RequestBuilder" where
  "as_builder c = (Client_Request [] [])\<lparr>b_metadata := c_metadata c, b_orderedHeaders := c_orderedHeaders c\<rparr>"

lemma client_sync_builder: "client_in_sync ob c \<longleftrightarrow> headers_in_sync ob (as_builder c)"
  by (simp add: client_in_sync_def headers_in_sync_def as_builder_def)

lemma handshake_bound_cong:
  "c_tlsHandshake c1 = c_tlsHandshake c \<Longrightarrow> c_httpClient c1 = c_httpClient c \<Longrightarrow> handshake_bound c1 = handshake_bound c"
  by (simp add: handshake_bound_def split: option.split)

lemma wf_with_headers:
  assumes "client_wf ob c" and "client_in_sync ob c1"
    and "c_tlsHandshake c1 = c_tlsHandshake c" and "c_httpClient c1 = c_httpClient c"
    and "c_retry c1 = c_retry c" and "c_auth c1 = c_auth c"
  shows "client_wf ob c1"
  using assms handshake_bound_cong[OF assms(3,4)] by (simp add: client_wf_def)

lemma wf_setAuth: "client_wf ob c \<Longrightarrow> validateAuthOption auth = None \<Longrightarrow> client_wf ob (setAuth auth c)"
  using handshake_bound_cong[of "setAuth auth c" c] by (simp add: client_wf_def setAuth_def client_in_sync_def)

lemma wf_setRetry: "client_wf ob c \<Longrightarrow> 0 \<le> rp_Max p \<Longrightarrow> client_wf ob (setRetry p c)"
  using handshake_bound_cong[of "setRetry p c" c] by (simp add: client_wf_def setRetry_def client_in_sync_def)

context ordered_object
begin

lemma wf_setDefaultHeader: "client_wf ob c \<Longrightarrow> client_wf ob (setDefaultHeader ob k v c)"
proof (rule wf_with_headers)
  assume c: "client_wf ob c"
  have "as_builder (setDefaultHeader ob k v c) = setHeaderValue ob k (privateRequestValue v) (as_builder c)"
    by (simp add: as_builder_def setDefaultHeader_def setHeaderValue_def)
  then show "client_in_sync ob (setDefaultHeader ob k v c)"
    using c sync_set_header by (simp add: client_wf_def client_sync_builder)
qed (simp_all add: setDefaultHeader_def)

lemma wf_setDefaultOrderedHeaders: "client_wf ob c \<Longrightarrow> client_wf ob (setDefaultOrderedHeaders ob h c)"
proof (rule wf_with_headers)
  have "headers_in_sync ob (Builder_OrderedHeaders ob h (as_builder c))" by (rule sync_ordered)
  then have "headers_in_sync ob (as_builder (setDefaultOrderedHeaders ob h c))"
    by (rule sync_frame) (simp_all add: as_builder_def setDefaultOrderedHeaders_def Builder_OrderedHeaders_def Let_def)
  then show "client_in_sync ob (setDefaultOrderedHeaders ob h c)" by (simp add: client_sync_builder)
qed (simp_all add: setDefaultOrderedHeaders_def Let_def)

lemma wf_setDefaultHeaders: "client_wf ob c \<Longrightarrow> client_wf ob (setDefaultHeaders hs c)"
  by (erule wf_with_headers) (simp_all add: setDefaultHeaders_def client_in_sync_def)

lemma wf_clone:
  assumes "client_wf ob c"
  shows "client_wf ob (client_clone ob c)"
proof -
  have "client_in_sync ob (client_clone ob c)"
    using assms clone_vals(1) clone_vals_id
    by (cases "c_orderedHeaders c")
      (simp_all add: client_wf_def client_in_sync_def client_clone_def metadata_clone_def md_vals_def cloneOrderedHeaders_def[of ob None])
  moreover have "handshake_bound (client_clone ob c)"
    using assms
    by (cases "hc_Transport (c_httpClient c)" rule: tls_hooks.cases)
      (auto simp: client_wf_def handshake_bound_def client_clone_def cloneHTTPClient_def bindTLSHandshake_def split: option.splits)
  ultimately show ?thesis using assms by (simp add: client_wf_def client_clone_def)
qed

definition keeps_wf :: "'o Option \<Rightarrow> bool" where
  "keeps_wf opt \<longleftrightarrow> (\<forall>c c1. client_wf ob c \<longrightarrow> opt c = Inr c1 \<longrightarrow> client_wf ob c1)"

lemma keeps_wf_core: "keeps_core_option opt \<Longrightarrow> keeps_wf opt"
  by (auto simp: keeps_wf_def keeps_core_option_def intro: wf_same_core)

lemma keeps_wf_headers:
  "keeps_wf (WithHeader ob k v)" "keeps_wf (WithHeaders hs)" "keeps_wf (WithOrderedHeaders ob oh)"
  "keeps_wf (WithContentType ob v)" "keeps_wf (WithAccept ob v)" "keeps_wf (WithUserAgent ob v)" "keeps_wf (WithReferer ob v)"
  by (simp_all add: keeps_wf_def WithHeader_def WithHeaders_def WithOrderedHeaders_def WithContentType_def WithAccept_def
      WithUserAgent_def WithReferer_def setDefaultContentType_def setDefaultAccept_def setDefaultUserAgent_def
      setDefaultReferer_def wf_setDefaultHeader wf_setDefaultHeaders wf_setDefaultOrderedHeaders)

lemma keeps_wf_settings:
  "keeps_wf (WithAuth auth)" "keeps_wf (WithBasicAuth u p)" "keeps_wf (WithBearerAuth tok)"
  "keeps_wf (WithRetry policy)" "keeps_wf WithoutRetry"
proof -
  show auth: "keeps_wf (WithAuth auth)" for auth
    by (auto simp: keeps_wf_def WithAuth_def err_or_def wf_setAuth split: option.splits)
  show "keeps_wf (WithBasicAuth u p)" "keeps_wf (WithBearerAuth tok)"
    unfolding WithBasicAuth_def WithBearerAuth_def by (rule auth)+
  show "keeps_wf (WithRetry policy)" "keeps_wf WithoutRetry"
    by (auto simp: keeps_wf_def WithRetry_def WithoutRetry_def err_or_def zeroRetryPolicy_def validateIntOption_def wf_setRetry
        split: option.splits if_splits)
qed

lemma wf_with_transport:
  assumes "client_wf ob c" and "handshake_bound (c\<lparr>c_httpClient := hc, c_tlsHandshake := h\<rparr>)"
  shows "client_wf ob (c\<lparr>c_httpClient := hc, c_tlsHandshake := h\<rparr>)"
  using assms by (simp add: client_wf_def client_in_sync_def)

lemma bound_none: "handshake_bound (c\<lparr>c_httpClient := hc, c_tlsHandshake := None\<rparr>)"
  by (simp add: handshake_bound_def)

lemma bound_handshake:
  "handshake_bound (c\<lparr>c_httpClient := hc\<lparr>hc_Transport := Some (StdTransport (bindTLSHandshake h t))\<rparr>, c_tlsHandshake := h\<rparr>)"
  by (cases h) (simp_all add: handshake_bound_def bindTLSHandshake_def)

lemma keeps_wf_transport:
  "keeps_wf (WithTransport tr)" "keeps_wf (WithHTTPClient hc)" "keeps_wf (WithTLSHandshake ce h)"
proof -
  show "keeps_wf (WithTransport tr)" "keeps_wf (WithHTTPClient hc)"
    by (auto simp: keeps_wf_def WithTransport_def WithHTTPClient_def setDefaultTransport_def setHTTPClient_def
        intro!: wf_with_transport bound_none split: option.splits if_splits)
  have "c1 = c\<lparr>c_httpClient := (c_httpClient c)\<lparr>hc_Transport := Some (StdTransport (bindTLSHandshake h t))\<rparr>, c_tlsHandshake := h\<rparr>"
    if "ensureTransport ce (c\<lparr>c_tlsHandshake := h\<rparr>) = Inr t" "c1 = putTransport (bindTLSHandshake h t) (c\<lparr>c_tlsHandshake := h\<rparr>)"
    for c c1 :: "'a Client" and t
    using that by (simp add: putTransport_def)
  then show "keeps_wf (WithTLSHandshake ce h)"
    unfolding keeps_wf_def WithTLSHandshake_def setTLSHandshake_def applyTransport_def ebind_Inr_iff
    by (metis bound_handshake wf_with_transport Inr_inject)
qed

lemma profile_wf:
  assumes "\<forall>opt. Some opt \<in> set opts \<longrightarrow> keeps_wf opt" and "client_wf ob c" and "profile_options name opts c = Inr c1"
  shows "client_wf ob c1"
  using assms
proof (induction opts arbitrary: c)
  case (Cons x opts)
  show ?case
  proof (cases x)
    case None
    then show ?thesis using Cons by simp
  next
    case (Some opt)
    then obtain c2 where c2: "opt c = Inr c2" "profile_options name opts c2 = Inr c1"
      using Cons.prems(3) by (cases "opt c") simp_all
    have "client_wf ob c2" using Cons.prems(1,2) Some c2(1) unfolding keeps_wf_def by simp
    then show ?thesis using Cons.IH[of c2] Cons.prems(1) c2(2) by simp
  qed
qed simp

lemma options_profile: "apply_options opts c = Inr c1 \<Longrightarrow> profile_options name opts c = Inr c1"
  by (induction opts c rule: apply_options.induct) (auto simp: ebind_Inr_iff)

lemma options_wf:
  assumes "\<forall>opt. Some opt \<in> set opts \<longrightarrow> keeps_wf opt" and "client_wf ob c" and "apply_options opts c = Inr c1"
  shows "client_wf ob c1"
  using profile_wf[OF assms(1,2) options_profile[OF assms(3), of "[]"]] .

lemma package_keeps_wf: "package_option ce ob opt \<Longrightarrow> keeps_wf opt"
proof (induction rule: package_option.induct)
  case (19 p)
  have "keeps_wf (profile_options (pf_Name p) (pf_Options p))"
    using profile_wf[of "pf_Options p"] 19 by (auto simp: keeps_wf_def)
  then show ?case by (simp add: WithProfile_def applyProfileOptions_def keeps_wf_def)
qed (intro keeps_wf_headers keeps_wf_settings keeps_wf_transport
      keeps_wf_core[OF core_plain_options(1)] keeps_wf_core core_plain_options core_tls_options core_transport_options core_proxy_options)+

lemma wf_new: "client_wf ob (newClient ce)"
  by (simp add: client_wf_def client_in_sync_def handshake_bound_def newClient_def DefaultRetryPolicy_def)

end

section \<open>Constructed clients\<close>

inductive constructed :: "clientEnv \<Rightarrow> 'o oo_ops \<Rightarrow> 'o Client \<Rightarrow> bool" for ce ob where
  new: "(\<And>opt. Some opt \<in> set opts \<Longrightarrow> package_option ce ob opt) \<Longrightarrow> Client_New ce opts = Inr c \<Longrightarrow> constructed ce ob c"
| clone: "constructed ce ob c \<Longrightarrow> (\<And>opt. Some opt \<in> set opts \<Longrightarrow> package_option ce ob opt) \<Longrightarrow>
     Client_Clone ce ob opts c = Inr c1 \<Longrightarrow> constructed ce ob c1"

lemma check_client_Inr: "check_client ce c = Inr c1 \<Longrightarrow> c1 = c \<and> validate ce c = None"
  by (simp add: check_client_def split: option.splits)

context ordered_object
begin

lemma constructed_wf: "constructed ce ob c \<Longrightarrow> client_wf ob c \<and> validate ce c = None"
proof (induction rule: constructed.induct)
  case (new opts c)
  then have k: "\<forall>opt. Some opt \<in> set opts \<longrightarrow> keeps_wf opt" using package_keeps_wf by blast
  obtain c0 where c0: "apply_options opts (newClient ce) = Inr c0" "check_client ce c0 = Inr c"
    using new(2) by (auto simp: Client_New_def ebind_Inr_iff)
  show ?case using options_wf[OF k wf_new c0(1)] check_client_Inr[OF c0(2)] by simp
next
  case (clone c opts c1)
  then have k: "\<forall>opt. Some opt \<in> set opts \<longrightarrow> keeps_wf opt" using package_keeps_wf by blast
  obtain c0 where c0: "apply_options opts (client_clone ob c) = Inr c0" "check_client ce c0 = Inr c1"
    using clone(3) by (auto simp: Client_Clone_def ebind_Inr_iff)
  show ?case using options_wf[OF k wf_clone c0(1)] clone.IH check_client_Inr[OF c0(2)] by simp
qed

end

text \<open>
  Claim C17: every client that \<open>New\<close>, or \<open>Clone\<close> of such a client, returns for options of the package has
  ordered and semantic default headers in step, the managed TLS handshake (if one is selected)
  installed in its transport, a retry bound that is not negative, and a valid authentication method
  or none.
\<close>

theorem constructed_clients_wf:
  assumes "ordered_object ob" and "constructed ce ob c"
  shows "client_wf ob c"
  using ordered_object.constructed_wf[OF assms] by blast

text \<open>
  Claim C16: with a constructed client that has a base URL and the standard transport, a relative
  request path resolves to an absolute URL with the host of the base and scheme http or https, or to
  an error; no path and no query can move the request to another host.
\<close>

theorem relative_target_stays:
  assumes "ordered_object ob" and "constructed ce ob c" and "c_baseURL c \<noteq> []" and "standard_transport c"
    and "URL_Parse (ce_parseHost ce) path = Some r" and "\<not> IsAbs r"
    and "resolveRequestURL (ce_parseHost ce) (c_baseURL c) path qv = Inr u" and "distinct (map fst qv)"
  shows "\<exists>b. URL_Parse (ce_parseHost ce) (c_baseURL c) = Some b \<and> url_host u = url_host b \<and> url_host u \<noteq> [] \<and>
    url_user u = url_user b \<and> IsAbs u \<and> url_opaque u = [] \<and>
    ToLower (url_scheme u) \<in> {''http'', ''https''} \<and> url_fragment u = url_fragment r"
proof -
  have "validate ce c = None" using ordered_object.constructed_wf[OF assms(1,2)] by blast
  then obtain b where b: "URL_Parse (ce_parseHost ce) (c_baseURL c) = Some b" "IsAbs b" "url_opaque b = []"
      "url_host b \<noteq> []" "ToLower (url_scheme b) \<in> {''http'', ''https''}"
    using assms(3,4) by (auto simp: validate_def split: option.splits if_splits)
  show ?thesis
    using resolve_relative[OF assms(5,6,3) b(1) assms(7,8)] b by (simp add: IsAbs_def)
qed

definition ex_env :: clientEnv where
  "ex_env = \<lparr>ce_parseHost = Some, ce_defaultTransport = CustomTransport 0, ce_newJar = Inr 0, ce_newSessionCache = 0,
     ce_loadKeyPair = (\<lambda>_ _. Inl (Sentinel IoEOF)), ce_readFile = (\<lambda>_. Inl (Sentinel IoEOF)), ce_appendCerts = (\<lambda>_ _. None),
     ce_json = (\<lambda>_. Inr []), ce_xml = (\<lambda>_. Inr []), ce_yaml = (\<lambda>_. Inr []),
     ce_jsonRead = (\<lambda>_. Inr), ce_xmlUnmarshal = (\<lambda>_. Inr), ce_yamlDecode = (\<lambda>_. Inr)\<rparr>"

definition ex_client :: "(string, string list) alist Client" where
  "ex_client = setDefaultHeader dalist_ops ''x-a'' ''2'' (setDefaultOrderedHeaders dalist_ops
     (Some (oo_set dalist_ops (oo_new dalist_ops) ''X-A'' [''1''])) (setBaseURL ''http://h/api'' (newClient ex_env)))"

lemma ex_base: "URL_Parse Some ''http://h/api'' \<noteq> None"
  by code_simp

lemma ex_validate: "validate ex_env ex_client = None"
proof -
  have "case URL_Parse Some ''http://h/api'' of None \<Rightarrow> False | Some u \<Rightarrow> IsAbs u \<and> url_opaque u = [] \<and> url_host u \<noteq> [] \<and>
      url_fragment u = [] \<and> ParseQuery (url_rawQuery u) \<noteq> None \<and> ToLower (url_scheme u) = ''http''"
    by code_simp
  then show ?thesis
    by (auto simp: validate_def ex_env_def ex_client_def setDefaultHeader_def setDefaultOrderedHeaders_def setBaseURL_def Let_def
        split: option.splits)
qed

lemma ex_constructed: "constructed ex_env dalist_ops ex_client"
proof (rule constructed.new)
  let ?opts = "[Some (WithBaseURL ex_env ''http://h/api''), None,
      Some (WithOrderedHeaders dalist_ops (Some (oo_set dalist_ops (oo_new dalist_ops) ''X-A'' [''1'']))),
      Some (WithHeader dalist_ops ''x-a'' ''2'')]"
  show "package_option ex_env dalist_ops opt" if "Some opt \<in> set ?opts" for opt
    using that by (auto intro: package_option.intros)
  show "Client_New ex_env ?opts = Inr ex_client"
    using ex_base ex_validate
    by (simp add: Client_New_def WithBaseURL_def WithOrderedHeaders_def WithHeader_def check_client_def ex_client_def
        ex_env_def[THEN arg_cong[of _ _ ce_parseHost]])
qed

theorem constructed_clients_wf_witness: "client_wf dalist_ops ex_client"
  by (rule constructed_clients_wf[OF dal.ordered_object_axioms ex_constructed])

theorem relative_target_stays_witness:
  "\<exists>u. resolveRequestURL Some ''http://h/api'' ''//evil/x?q=1'' [] = Inr u \<and> url_host u = ''h''"
proof -
  have "case URL_Parse Some ''//evil/x?q=1'' of None \<Rightarrow> False | Some r \<Rightarrow> \<not> IsAbs r" by code_simp
  then obtain r where r: "URL_Parse Some ''//evil/x?q=1'' = Some r" "\<not> IsAbs r" by (auto split: option.splits)
  have "case resolveRequestURL Some ''http://h/api'' ''//evil/x?q=1'' [] of Inl _ \<Rightarrow> False | Inr u \<Rightarrow> True" by code_simp
  then obtain u where u: "resolveRequestURL Some ''http://h/api'' ''//evil/x?q=1'' [] = Inr u" by (auto split: sum.splits)
  have base: "c_baseURL ex_client = ''http://h/api''" "standard_transport ex_client" "ce_parseHost ex_env = Some"
    by (simp_all add: ex_client_def setDefaultHeader_def setDefaultOrderedHeaders_def setBaseURL_def Let_def standard_transport_def
        newClient_def zeroHTTPClient_def ex_env_def)
  have "case URL_Parse Some ''http://h/api'' of None \<Rightarrow> False | Some b \<Rightarrow> url_host b = ''h''" by code_simp
  then have "url_host u = ''h''"
    using relative_target_stays[OF dal.ordered_object_axioms ex_constructed, of "''//evil/x?q=1''" r "[]" u] r u base by auto
  then show ?thesis using u by blast
qed

end
