(* ===== verification/Request_Plan.thy ===== *)
theory Request_Plan
  imports Client
begin

text \<open>
  Model of \<open>request_plan.go\<close>, of \<open>applyPlanAuthAndHeaders\<close> of \<open>request.go\<close> and of the context part of
  \<open>ordered_headers.go\<close>: how a client snapshot and a builder become one request plan, and how the plan
  becomes the headers of a request. \<open>Request.Cookies\<close> of \<open>net/http\<close> is modelled without the cap on
  the number of cookies that recent releases have.
\<close>

section \<open>Plans\<close>

record requestPathParamTrace =
  pt_name :: string
  pt_value :: Value
  pt_scheme :: nat
  pt_authority :: nat
  pt_userinfo :: nat
  pt_path :: nat
  pt_queryName :: nat
  pt_fragment :: nat

record requestPathTrace =
  tr_path :: Value
  tr_requestAbsolute :: bool
  tr_basePathActive :: bool
  tr_basePathPrivate :: bool
  tr_params :: "requestPathParamTrace list"

record 'o requestPlan =
  pl_method :: string
  pl_targetURL :: URL
  pl_target :: requestTarget
  pl_pathTrace :: requestPathTrace
  pl_query :: "requestOccurrence list"
  pl_headers :: "requestOccurrence list"
  pl_orderedHeaders :: "'o option"
  pl_clientMetadata :: requestMetadata
  pl_requestMetadata :: requestMetadata
  pl_clientOrderedHeaders :: "'o option"
  pl_requestOrderedHeaders :: "'o option"
  pl_cookies :: "requestCookieOccurrence list"
  pl_clientAuth :: "'o AuthMethod option"
  pl_requestAuth :: "'o AuthMethod option"
  pl_auth :: "'o AuthMethod option"
  pl_body :: requestBodyPlan

section \<open>Path trace\<close>

record pathParts =
  pp_scheme :: string
  pp_authority :: string
  pp_userinfo :: string
  pp_path :: string
  pp_query :: string
  pp_fragment :: string

definition split_scheme :: "string \<Rightarrow> string \<times> string" where
  "split_scheme raw =
     (case IndexByte raw CHR '':'' of
        Some colon \<Rightarrow> if colon > 0 \<and> \<not> ContainsAny (take colon raw) ''/?#''
                      then (take colon raw, drop (colon + 1) raw) else ([], raw)
      | None \<Rightarrow> ([], raw))"

definition split_authority :: "string \<Rightarrow> string \<times> string \<times> string" where
  "split_authority rest =
     (if HasPrefix rest ''//'' then
        (let r = drop 2 rest;
             e = (case IndexAny r ''/?#'' of Some i \<Rightarrow> i | None \<Rightarrow> length r);
             part = take e r
         in case LastIndexByte part CHR ''@'' of
              Some i \<Rightarrow> (take i part, drop (i + 1) part, drop e r)
            | None \<Rightarrow> ([], part, drop e r))
      else ([], [], rest))"

definition splitPathTraceSource :: "string \<Rightarrow> pathParts" where
  "splitPathTraceSource raw =
     (let (scheme, rest1) = split_scheme raw;
          (userinfo, authority, rest2) = split_authority rest1;
          pathEnd = (case IndexAny rest2 ''?#'' of Some i \<Rightarrow> i | None \<Rightarrow> length rest2);
          rest3 = drop pathEnd rest2;
          queryEnd = (case IndexByte (drop 1 rest3) CHR ''#'' of Some i \<Rightarrow> i | None \<Rightarrow> length (drop 1 rest3));
          query = (if HasPrefix rest3 ''?'' then take queryEnd (drop 1 rest3) else []);
          rest4 = (if HasPrefix rest3 ''?'' then drop queryEnd (drop 1 rest3) else rest3)
      in \<lparr>pp_scheme = scheme, pp_authority = authority, pp_userinfo = userinfo, pp_path = take pathEnd rest2,
          pp_query = query, pp_fragment = (if HasPrefix rest4 ''#'' then drop 1 rest4 else [])\<rparr>)"

definition countQueryNameToken :: "string \<Rightarrow> string \<Rightarrow> nat" where
  "countQueryNameToken rawQuery token =
     (if rawQuery = [] then 0
      else sum_list (map (\<lambda>occ. Count (case IndexByte occ CHR ''='' of Some i \<Rightarrow> take i occ | None \<Rightarrow> occ) token)
             (SplitByte CHR ''&'' rawQuery)))"

definition traceRequestTarget :: "(string \<Rightarrow> string option) \<Rightarrow> string \<Rightarrow> string \<Rightarrow> requestTarget \<Rightarrow> requestPathTrace" where
  "traceRequestTarget ph baseURL requestPath target =
     (let absolute = (case URL_Parse ph requestPath of Some u \<Rightarrow> IsAbs u | None \<Rightarrow> False);
          active = (if \<not> absolute \<and> baseURL \<noteq> []
                    then (case URL_Parse ph baseURL of
                            Some base \<Rightarrow> EscapedPath base \<noteq> [] \<and> EscapedPath base \<noteq> ''/''
                          | None \<Rightarrow> False)
                    else False);
          parts = splitPathTraceSource (rawValue (tg_path target));
          trace = (\<lambda>name. let token = ''{'' @ name @ ''}''
             in \<lparr>pt_name = name, pt_value = the (map_of (tg_pathParams target) name),
                 pt_scheme = Count (pp_scheme parts) token, pt_authority = Count (pp_authority parts) token,
                 pt_userinfo = Count (pp_userinfo parts) token, pt_path = Count (pp_path parts) token,
                 pt_queryName = countQueryNameToken (pp_query parts) token, pt_fragment = Count (pp_fragment parts) token\<rparr>)
      in \<lparr>tr_path = tg_path target, tr_requestAbsolute = absolute, tr_basePathActive = active, tr_basePathPrivate = active,
          tr_params = map trace (sort (map fst (tg_pathParams target)))\<rparr>)"

section \<open>Query\<close>

definition appendPrivateQueryValues :: "requestOccurrence list \<Rightarrow> urlValues \<Rightarrow> requestOccurrence list" where
  "appendPrivateQueryValues dst vs =
     dst @ concat (map (\<lambda>name. map (\<lambda>v. \<lparr>occ_name = name, occ_value = privateRequestValue v\<rparr>) (Values_All vs name))
       (sort (map fst vs)))"

definition compileQueryOccurrences ::
    "(string \<Rightarrow> string option) \<Rightarrow> string \<Rightarrow> string \<Rightarrow> requestOccurrence list \<Rightarrow> goerr + requestOccurrence list" where
  "compileQueryOccurrences ph baseURL requestPath builder =
     (case URL_Parse ph requestPath of
        None \<Rightarrow> Inl (parse_error requestPath)
      | Some requestURL \<Rightarrow>
          ebind (case ParseQuery (url_rawQuery requestURL) of
                   Some q \<Rightarrow> Inr q
                 | None \<Rightarrow> if \<not> IsAbs requestURL \<or> length builder \<noteq> 0 then Inl query_error else Inr []) (\<lambda>requestQuery.
            ebind (if \<not> IsAbs requestURL \<and> baseURL \<noteq> []
                   then (case URL_Parse ph baseURL of None \<Rightarrow> Inl (parse_error baseURL) | Some base \<Rightarrow> Inr (URL_Query base))
                   else Inr []) (\<lambda>baseQuery.
              let occs = (if IsAbs requestURL \<or> baseURL = [] then appendPrivateQueryValues [] requestQuery
                          else appendPrivateQueryValues (appendPrivateQueryValues [] baseQuery) requestQuery)
              in Inr (sort_key occ_name (occs @ builder)))))"

section \<open>Headers\<close>

definition mergePlanHeaderOccurrences :: "requestOccurrence list \<Rightarrow> requestOccurrence list \<Rightarrow> requestOccurrence list" where
  "mergePlanHeaderOccurrences client request =
     filter (\<lambda>occ. ToLower (occ_name occ) \<notin> set (map (\<lambda>r. ToLower (occ_name r)) request)) client @ request"

definition requestOccurrencesHeaderValues :: "requestOccurrence list \<Rightarrow> httpHeader" where
  "requestOccurrencesHeaderValues occs =
     foldl (\<lambda>h occ. Header_Add h (occ_name occ) (rawValue (occ_value occ))) [] occs"

definition credential_private :: "requestOccurrence \<Rightarrow> requestOccurrence" where
  "credential_private occ =
     (if isCredentialRequestHeader (occ_name occ)
      then occ\<lparr>occ_value := privateRequestValue (rawValue (occ_value occ))\<rparr> else occ)"

definition distinctOccurrenceNames :: "requestOccurrence list \<Rightarrow> string list" where
  "distinctOccurrenceNames occs = remdups (map occ_name occs)"

definition compileOrderedHeaders ::
    "'o oo_ops \<Rightarrow> 'o option \<Rightarrow> 'o option \<Rightarrow> requestOccurrence list \<Rightarrow> 'o option" where
  "compileOrderedHeaders ob client request requestHeaders =
     (let ordered = mergeOrderedHeaders ob client request
      in if ordered = None \<or> length requestHeaders = 0 then ordered
         else let ordered1 = foldl (\<lambda>h name. if orderedHeaderKey ob request name = None then deleteOrderedHeader ob h name else h)
                      ordered (distinctOccurrenceNames requestHeaders)
              in (case ordered1 of None \<Rightarrow> None | Some x \<Rightarrow> if oo_len ob x = 0 then None else ordered1))"

section \<open>Cookies\<close>

definition TrimString :: "string \<Rightarrow> string" where
  "TrimString s = TrimRight (TrimLeft s [CHR '' '', CHR 0x09, CHR 0x0A, CHR 0x0D]) [CHR '' '', CHR 0x09, CHR 0x0A, CHR 0x0D]"

definition parseCookieValue :: "string \<Rightarrow> (string \<times> bool) option" where
  "parseCookieValue raw =
     (let quoted = (length raw > 1 \<and> hd raw = CHR 0x22 \<and> last raw = CHR 0x22);
          v = (if quoted then butlast (tl raw) else raw)
      in if list_all validCookieValueByte v then Some (v, quoted) else None)"

definition cookie_part :: "string \<Rightarrow> httpCookie option" where
  "cookie_part part0 =
     (let part = TrimString part0; (name0, val) = Cut part CHR ''=''; name = TrimString name0
      in if part = [] \<or> name = [] \<or> \<not> list_all valid_header_byte name then None
         else map_option (\<lambda>(v, q). \<lparr>ck_name = name, ck_value = v, ck_quoted = q, ck_unparsed = []\<rparr>) (parseCookieValue val))"

definition headerCookies :: "httpHeader \<Rightarrow> httpCookie list" where
  "headerCookies headers =
     concat (map (\<lambda>line. List.map_filter cookie_part (SplitByte CHR '';'' (TrimString line))) (Header_Values headers ''Cookie''))"

definition cloneCookie :: "httpCookie option \<Rightarrow> httpCookie option" where
  "cloneCookie cookie = cookie"

definition cookie_layer :: "httpCookie list \<Rightarrow> requestCookieOccurrence list" where
  "cookie_layer cookies =
     map (\<lambda>c. \<lparr>co_name = ck_name c, co_value = privateRequestValue (ck_value c), co_cookie = cloneCookie (Some c)\<rparr>) cookies"

definition tagged_cookie_layer :: "requestCookieOccurrence list \<Rightarrow> requestCookieOccurrence list" where
  "tagged_cookie_layer occs =
     map (\<lambda>occ. let cookie = (case cloneCookie (co_cookie occ) of None \<Rightarrow> empty_cookie | Some c \<Rightarrow> c)
                in \<lparr>co_name = co_name occ, co_value = co_value occ,
                    co_cookie = Some (cookie\<lparr>ck_name := co_name occ, ck_value := rawValue (co_value occ)\<rparr>)\<rparr>) occs"

text \<open>\<open>lastLayer\<close> is the map from a name to the index of the last layer that has it.\<close>

definition lastLayer :: "requestCookieOccurrence list list \<Rightarrow> (string, nat) gomap" where
  "lastLayer layers =
     foldl (\<lambda>m (i, layer). foldl (\<lambda>m occ. AList.update (co_name occ) i m) m layer) [] (List.enumerate 0 layers)"

definition mergeCookieOccurrences :: "requestCookieOccurrence list list \<Rightarrow> requestCookieOccurrence list" where
  "mergeCookieOccurrences layers =
     concat (map (\<lambda>(i, layer). filter (\<lambda>occ. map_of (lastLayer layers) (co_name occ) = Some i) layer)
       (List.enumerate 0 layers))"

definition compileCookieOccurrences :: "requestMetadata \<Rightarrow> requestMetadata \<Rightarrow> requestCookieOccurrence list" where
  "compileCookieOccurrences client request =
     mergeCookieOccurrences
       [cookie_layer (headerCookies (requestOccurrencesHeaderValues (md_headers client))),
        tagged_cookie_layer (md_cookies client),
        cookie_layer (headerCookies (requestOccurrencesHeaderValues (md_headers request))),
        tagged_cookie_layer (md_cookies request)]"

section \<open>Bodies\<close>

definition previewInvalidBodyError :: goerr where
  "previewInvalidBodyError = wrapped ErrInvalidConfigValue ''preview body''"

definition validateDeliveryStaticFacts :: "requestBodyPlan \<Rightarrow> httpHeader \<Rightarrow> goerr option" where
  "validateDeliveryStaticFacts body headers =
     (case bp_kind body of
        requestBodyNone \<Rightarrow> None
      | requestBodyJSON \<Rightarrow> if Header_Get headers ''Content-Type'' = [] then Some (Sentinel ErrUnsupportedContentType) else None
      | requestBodyXML \<Rightarrow> if Header_Get headers ''Content-Type'' = [] then Some (Sentinel ErrUnsupportedContentType) else None
      | requestBodyYAML \<Rightarrow> if Header_Get headers ''Content-Type'' = [] then Some (Sentinel ErrUnsupportedContentType) else None
      | requestBodyText \<Rightarrow> (case bp_value body of GoString _ \<Rightarrow> None | _ \<Rightarrow> Some previewInvalidBodyError)
      | requestBodyBytes \<Rightarrow> (case bp_value body of GoBytes _ \<Rightarrow> None | _ \<Rightarrow> Some previewInvalidBodyError)
      | requestBodyReader \<Rightarrow> (case bp_value body of GoNil \<Rightarrow> Some previewInvalidBodyError | _ \<Rightarrow> None)
      | requestBodyForm \<Rightarrow> None
      | requestBodyMultipart \<Rightarrow> Some previewInvalidBodyError)"

definition cloneRequestBodyPlan :: "requestBodyPlan \<Rightarrow> requestBodyPlan" where
  "cloneRequestBodyPlan body = body\<lparr>bp_formOccurrences := bp_formOccurrences body\<rparr>"

section \<open>Compiling a plan\<close>

definition effectiveAuth :: "'o AuthMethod option \<Rightarrow> 'o AuthMethod option \<Rightarrow> 'o AuthMethod option" where
  "effectiveAuth client request = (if request \<noteq> None then request else client)"

definition snapshotRequestTarget :: "'o RequestBuilder \<Rightarrow> requestTarget" where
  "snapshotRequestTarget b = b_target b"

definition snapshotBuilderMetadata :: "'o RequestBuilder \<Rightarrow> requestMetadata" where
  "snapshotBuilderMetadata b = metadata_clone (b_metadata b)"

definition newRequestPlanCreationError :: "goerr + 'a \<Rightarrow> goerr + 'a" where
  "newRequestPlanCreationError r = (case r of Inl e \<Rightarrow> Inl (RequestPlanCreationError e) | Inr x \<Rightarrow> Inr x)"

definition compileRequestPlanSnapshot ::
    "(string \<Rightarrow> string option) \<Rightarrow> 'o oo_ops \<Rightarrow> 'o clientSnapshot \<Rightarrow> 'o RequestBuilder \<Rightarrow> goerr + 'o requestPlan" where
  "compileRequestPlanSnapshot ph ob snap b =
     (let builderMetadata = snapshotBuilderMetadata b;
          target = snapshotRequestTarget b;
          requestPath = resolvedPath target
      in ebind (newRequestPlanCreationError (resolveRequestURL ph (s_baseURL snap) requestPath (queryValues builderMetadata))) (\<lambda>parsedURL.
         ebind (newRequestPlanCreationError (NewRequest ph (b_method b) (URL_String parsedURL) SrcNil :: goerr + 'o httpRequest)) (\<lambda>request.
         ebind (newRequestPlanCreationError (compileQueryOccurrences ph (s_baseURL snap) requestPath (md_queries builderMetadata))) (\<lambda>query.
         let clientMetadata = metadata_clone (s_metadata snap);
             headers = map credential_private (mergePlanHeaderOccurrences (md_headers clientMetadata) (md_headers builderMetadata));
             orderedHeaders = syncOrderedHeaderValues ob
               (compileOrderedHeaders ob (s_orderedHeaders snap) (b_orderedHeaders b) (md_headers builderMetadata))
               (requestOccurrencesHeaderValues headers)
         in Inr \<lparr>pl_method = rq_method request, pl_targetURL = parsedURL, pl_target = target,
                 pl_pathTrace = traceRequestTarget ph (s_baseURL snap) requestPath target,
                 pl_query = query, pl_headers = headers, pl_orderedHeaders = orderedHeaders,
                 pl_clientMetadata = clientMetadata, pl_requestMetadata = builderMetadata,
                 pl_clientOrderedHeaders = cloneOrderedHeaders ob (s_orderedHeaders snap),
                 pl_requestOrderedHeaders = cloneOrderedHeaders ob (b_orderedHeaders b),
                 pl_cookies = compileCookieOccurrences clientMetadata builderMetadata,
                 pl_clientAuth = s_auth snap, pl_requestAuth = b_auth b,
                 pl_auth = effectiveAuth (s_auth snap) (b_auth b),
                 pl_body = cloneRequestBodyPlan (b_body b)\<rparr>))))"

definition compileRequestPlan ::
    "(string \<Rightarrow> string option) \<Rightarrow> 'o oo_ops \<Rightarrow> 'o Client \<Rightarrow> 'o RequestBuilder \<Rightarrow> goerr + 'o requestPlan" where
  "compileRequestPlan ph ob c b = compileRequestPlanSnapshot ph ob (snapshot ob c) b"

definition bodyPreflightHeaders :: "'o requestPlan \<Rightarrow> httpHeader" where
  "bodyPreflightHeaders p = requestOccurrencesHeaderValues (md_headers (pl_requestMetadata p))"

section \<open>Headers of the delivered request\<close>

definition withOrderedHeaders :: "'o oo_ops \<Rightarrow> 'o httpRequest \<Rightarrow> 'o option \<Rightarrow> 'o httpRequest" where
  "withOrderedHeaders ob req headers =
     (if headers = None then req else req\<lparr>rq_ordered := cloneOrderedHeaders ob headers\<rparr>)"

definition Request_OrderedHeaders :: "'o oo_ops \<Rightarrow> 'o httpRequest \<Rightarrow> 'o option" where
  "Request_OrderedHeaders ob req = (case rq_ordered req of None \<Rightarrow> None | Some x \<Rightarrow> cloneOrderedHeaders ob (Some x))"

definition apply_auth :: "'o AuthMethod option \<Rightarrow> 'o httpRequest \<Rightarrow> 'o httpRequest" where
  "apply_auth auth req = (case auth of None \<Rightarrow> req | Some a \<Rightarrow> auth_Apply a req)"

definition add_plan_cookies :: "requestCookieOccurrence list \<Rightarrow> 'o httpRequest \<Rightarrow> 'o httpRequest" where
  "add_plan_cookies cookies req =
     foldl (\<lambda>r occ. case cloneCookie (co_cookie occ) of None \<Rightarrow> r | Some c \<Rightarrow> Request_AddCookie c r) req cookies"

definition content_type_generated :: "'o requestPlan \<Rightarrow> string \<Rightarrow> bool" where
  "content_type_generated plan generatedContentType \<longleftrightarrow>
     bp_generatedContentType (pl_body plan) \<and> generatedContentType \<noteq> []"

text \<open>
  \<open>applyPlanAuthAndHeaders\<close> works on two things that meet only at its end, the request and the
  detached ordered headers.
\<close>

definition plan_request :: "'o oo_ops \<Rightarrow> 'o httpRequest \<Rightarrow> 'o requestPlan \<Rightarrow> string \<Rightarrow> 'o httpRequest" where
  "plan_request ob req plan generatedContentType =
     (let clientHeaders = requestOccurrencesHeaderValues (md_headers (pl_clientMetadata plan));
          req1 = apply_auth (pl_clientAuth plan)
                   (req\<lparr>rq_header := addHeaderValues ob (rq_header req) clientHeaders (pl_clientOrderedHeaders plan)\<rparr>);
          requestHeaders = requestOccurrencesHeaderValues (md_headers (pl_requestMetadata plan));
          req2 = req1\<lparr>rq_header := overlayHeaderValues ob (rq_header req1) requestHeaders (pl_requestOrderedHeaders plan)\<rparr>;
          req3 = (if content_type_generated plan generatedContentType
                  then req2\<lparr>rq_header := Header_Set (deleteHeaderValues (rq_header req2) ''Content-Type'') ''Content-Type'' generatedContentType\<rparr>
                  else req2);
          req4 = req3\<lparr>rq_header := deleteHeaderValues (rq_header req3) ''Cookie''\<rparr>
      in apply_auth (pl_requestAuth plan) (add_plan_cookies (pl_cookies plan) req4))"

definition plan_ordered :: "'o oo_ops \<Rightarrow> 'o requestPlan \<Rightarrow> string \<Rightarrow> 'o option" where
  "plan_ordered ob plan generatedContentType =
     (let ordered0 = cloneOrderedHeaders ob (pl_orderedHeaders plan);
          ordered1 = (if content_type_generated plan generatedContentType
                      then (if pl_requestOrderedHeaders plan \<noteq> None
                            then setOrderedHeaderValues ob ordered0 ''Content-Type'' [generatedContentType]
                            else deleteOrderedHeader ob ordered0 ''Content-Type'')
                      else ordered0)
      in case ordered1 of Some x \<Rightarrow> if oo_len ob x = 0 then None else ordered1 | None \<Rightarrow> None)"

definition applyPlanAuthAndHeaders :: "'o oo_ops \<Rightarrow> 'o httpRequest \<Rightarrow> 'o requestPlan \<Rightarrow> string \<Rightarrow> 'o httpRequest" where
  "applyPlanAuthAndHeaders ob req plan generatedContentType =
     (let req1 = plan_request ob req plan generatedContentType
      in withOrderedHeaders ob req1 (syncOrderedHeaderValues ob (plan_ordered ob plan generatedContentType) (rq_header req1)))"

end
