(* ===== verification/Plan_Cookies.thy ===== *)
theory Plan_Cookies
  imports Plan_Properties
begin

text \<open>
  The merge of cookie layers: the last layer that has a name provides all its occurrences.
\<close>

section \<open>Cookie precedence\<close>

text \<open>The occurrences of a name in the last layer that has it, and the index of that layer.\<close>

fun winning_layer :: "string \<Rightarrow> requestCookieOccurrence list list \<Rightarrow> requestCookieOccurrence list" where
  "winning_layer k [] = []"
| "winning_layer k (l # ls) =
     (if winning_layer k ls \<noteq> [] then winning_layer k ls else filter (\<lambda>occ. co_name occ = k) l)"

fun winning_index :: "string \<Rightarrow> nat \<Rightarrow> requestCookieOccurrence list list \<Rightarrow> nat option" where
  "winning_index k n [] = None"
| "winning_index k n (l # ls) =
     (case winning_index k (Suc n) ls of Some i \<Rightarrow> Some i | None \<Rightarrow> if k \<in> co_name ` set l then Some n else None)"

lemma winning_index_ge: "winning_index k n ls = Some i \<Longrightarrow> n \<le> i"
  by (induction k n ls rule: winning_index.induct) (auto split: option.splits if_splits)

lemma winning_index_None: "winning_index k n ls = None \<longleftrightarrow> winning_layer k ls = []"
  by (induction k n ls rule: winning_index.induct) (auto simp: filter_False_iff split: option.splits)

lemma layer_fold:
  "map_of (foldl (\<lambda>m occ. AList.update (co_name occ) i m) m layer) k =
     (if k \<in> co_name ` set layer then Some i else map_of m k)"
  by (induction layer arbitrary: m) (auto simp: map_of_alist_update)

lemma lastLayer_fold:
  "map_of (foldl (\<lambda>m (i, layer). foldl (\<lambda>m occ. AList.update (co_name occ) i m) m layer) m (List.enumerate n layers)) k =
     (case winning_index k n layers of None \<Rightarrow> map_of m k | Some i \<Rightarrow> Some i)"
  by (induction layers arbitrary: m n) (simp_all add: layer_fold split: option.split)

lemma lastLayer_index: "map_of (lastLayer layers) k = winning_index k 0 layers"
  by (simp add: lastLayer_def lastLayer_fold split: option.split)

lemma merge_name:
  "filter (\<lambda>occ. co_name occ = k)
     (concat (map (\<lambda>(i, layer). filter (\<lambda>occ. L (co_name occ) = Some i) layer) (List.enumerate n layers))) =
   concat (map (\<lambda>(i, layer). if L k = Some i then filter (\<lambda>occ. co_name occ = k) layer else []) (List.enumerate n layers))"
proof (induction layers arbitrary: n)
  case (Cons l ls)
  have "filter (\<lambda>occ. co_name occ = k) (filter (\<lambda>occ. L (co_name occ) = Some n) l) =
      (if L k = Some n then filter (\<lambda>occ. co_name occ = k) l else [])"
    by (induction l) auto
  then show ?case by (simp add: Cons)
qed simp

lemma no_index_below:
  assumes "i < n"
  shows "concat (map (\<lambda>(j, layer). if Some i = Some j then f layer else []) (List.enumerate n ls)) = []"
  using assms by (auto simp: in_set_enumerate_eq)

lemma index_layer:
  "concat (map (\<lambda>(i, layer). if winning_index k n ls = Some i then filter (\<lambda>occ. co_name occ = k) layer else [])
     (List.enumerate n ls)) = winning_layer k ls"
proof (induction ls arbitrary: n)
  case (Cons l ls)
  show ?case
  proof (cases "winning_index k (Suc n) ls")
    case None
    moreover have "filter (\<lambda>occ. co_name occ = k) l = []" if "k \<notin> co_name ` set l"
      using that by (auto simp: filter_False_iff)
    moreover have "concat (map (\<lambda>(i, layer). []) (List.enumerate (Suc n) ls)) = []" by auto
    ultimately show ?thesis
      using winning_index_None[of k "Suc n" ls] no_index_below[of n "Suc n" "filter (\<lambda>occ. co_name occ = k)" ls]
      by (cases "k \<in> co_name ` set l") simp_all
  next
    case (Some i)
    then have "n \<noteq> i" using winning_index_ge by fastforce
    then show ?thesis using Some Cons[of "Suc n"] winning_index_None[of k "Suc n" ls] by simp
  qed
qed simp

lemma merge_winning: "filter (\<lambda>occ. co_name occ = k) (mergeCookieOccurrences layers) = winning_layer k layers"
  using index_layer[of k 0 layers] merge_name[of k "map_of (lastLayer layers)" 0 layers]
  by (simp add: mergeCookieOccurrences_def lastLayer_index)

end
