(* ===== verification/Plan_Headers.thy ===== *)
theory Plan_Headers
  imports Plan_Cookies Client_Properties
begin

text \<open>
  The headers of the delivered request: an abstract layering of client headers, client
  authentication, request headers, generated content type and request authentication, and the proof
  that \<open>applyPlanAuthAndHeaders\<close> implements it; cookies are written and read back; ordered headers
  agree with the semantic ones.
\<close>

section \<open>Semantic layers\<close>

definition token :: "string \<Rightarrow> bool" where
  "token k \<longleftrightarrow> k \<noteq> [] \<and> list_all valid_header_byte k"

lemma token_not_pseudo: "token k \<Longrightarrow> \<not> isPseudoHeader k"
  by (cases k) (auto simp: token_def isPseudoHeader_def HasPrefix_def valid_header_byte_def is_digit_def is_lower_def is_upper_def)

lemma token_eqv: "token k \<Longrightarrow> header_eqv k' k \<longleftrightarrow> EqualFold k' k"
  using header_eqv_token[of k k'] by (auto simp: token_def header_eqv_def EqualFold_commute)

definition canonical_header :: "httpHeader \<Rightarrow> bool" where
  "canonical_header h \<longleftrightarrow> distinct (map fst h) \<and> (\<forall>p\<in>set h. CanonicalHeaderKey (fst p) = fst p)"

lemma canonical_add: "canonical_header h \<Longrightarrow> canonical_header (Header_Add h k v)"
proof -
  assume h: "canonical_header h"
  have "fst ` set (Header_Add h k v) = insert (CanonicalHeaderKey k) (fst ` set h)"
    using set_map_fst_update[of "CanonicalHeaderKey k" "Header_Values h k @ [v]" h] by (simp add: Header_Add_def)
  then have "CanonicalHeaderKey a = a" if "a \<in> fst ` set (Header_Add h k v)" for a
    using h that by (auto simp: canonical_header_def)
  then show ?thesis using h by (simp add: canonical_header_def wf_intros)
qed

lemma canonical_occurrences: "canonical_header (requestOccurrencesHeaderValues occs)"
proof -
  have "canonical_header h \<Longrightarrow> canonical_header (foldl (\<lambda>h occ. Header_Add h (occ_name occ) (rawValue (occ_value occ))) h occs)" for h
    by (induction occs arbitrary: h) (simp_all add: canonical_add)
  then show ?thesis by (simp add: requestOccurrencesHeaderValues_def canonical_header_def[of "[]"])
qed

lemma request_header_values:
  "requestOccurrencesHeaderValues = occurrencesHeaderValues"
  by (simp add: fun_eq_iff requestOccurrencesHeaderValues_def occurrencesHeaderValues_def)

lemma occurrence_values:
  assumes "token k"
  shows "Header_Values (requestOccurrencesHeaderValues (md_headers m)) k = map rawValue (md_vals m k)"
  using token_eqv[OF assms] by (simp add: request_header_values occurrencesHeaderValues_vals md_vals_def)

lemma occurrence_keys:
  "(\<exists>key\<in>fst ` set (requestOccurrencesHeaderValues (md_headers m)). EqualFold key k) \<longleftrightarrow> md_vals m k \<noteq> []"
proof -
  have "fst ` set (foldl (\<lambda>h occ. Header_Add h (occ_name occ) (rawValue (occ_value occ))) h occs) =
      fst ` set h \<union> (\<lambda>occ. CanonicalHeaderKey (occ_name occ)) ` set occs" for h and occs :: "requestOccurrence list"
  proof (induction occs arbitrary: h)
    case (Cons occ occs)
    then show ?case
      using set_map_fst_update[of "CanonicalHeaderKey (occ_name occ)" "Header_Values h (occ_name occ) @ [rawValue (occ_value occ)]" h]
      by (simp add: Header_Add_def)
  qed simp
  then have "fst ` set (requestOccurrencesHeaderValues (md_headers m)) =
      (\<lambda>occ. CanonicalHeaderKey (occ_name occ)) ` set (md_headers m)"
    by (simp add: requestOccurrencesHeaderValues_def)
  then show ?thesis by (simp add: md_vals_def fold_simps filter_False_iff)
qed

lemma fold_entry_values:
  "Header_Values (foldl (\<lambda>h (k, vs). if P k then h else foldl (\<lambda>h v. Header_Add h k v) h vs) h es) k =
     Header_Values h k @ concat (map snd (filter (\<lambda>e. \<not> P (fst e) \<and> header_eqv (fst e) k) es))"
proof (induction es arbitrary: h)
  case (Cons e es)
  have "Header_Values (foldl (\<lambda>h v. Header_Add h a v) h vs) k = Header_Values h k @ (if header_eqv a k then vs else [])" for a vs h
    by (induction vs arbitrary: h) (auto simp: hdr.vals_add)
  then show ?case using Cons by (cases e) auto
qed simp

lemma canonical_concat:
  assumes "canonical_header h"
  shows "concat (map snd (filter (\<lambda>e. header_eqv (fst e) k) h)) = Header_Values h k"
proof -
  have "filter (\<lambda>e. header_eqv (fst e) k) h = filter (\<lambda>e. fst e = CanonicalHeaderKey k) h"
    using assms by (intro filter_cong) (auto simp: canonical_header_def header_eqv_def)
  moreover have "distinct (map fst h) \<Longrightarrow>
      concat (map snd (filter (\<lambda>e. fst e = key) h)) = (case map_of h key of None \<Rightarrow> [] | Some vs \<Rightarrow> vs)" for key
  proof (induction h)
    case (Cons p h)
    have "filter (\<lambda>e. fst e = key) h = []" if "fst p = key"
      unfolding filter_False_iff using Cons.prems that by (metis distinct.simps(2) list.simps(9) image_eqI set_map)
    then show ?case using Cons by auto
  qed simp
  ultimately show ?thesis using assms by (simp add: canonical_header_def Header_Values_def)
qed

lemma deleteHeaderValues_vals:
  "Header_Values (deleteHeaderValues h key) k = (if EqualFold key k then [] else Header_Values h k)"
proof -
  have "CanonicalHeaderKey k \<noteq> CanonicalHeaderKey key" if "\<not> EqualFold key k"
    using that by (metis EqualFold_canonical EqualFold_refl)
  moreover have "EqualFold (CanonicalHeaderKey k) key \<longleftrightarrow> EqualFold key k"
    by (simp add: fold_simps EqualFold_commute)
  ultimately show ?thesis
    by (simp add: deleteHeaderValues_def Header_Values_def Header_Del_def
        map_of_filter_fst[of "\<lambda>a. \<not> EqualFold a key"] map_of_alist_delete)
qed

lemma delete_keys_vals:
  "Header_Values (foldl deleteHeaderValues h keys) k = (if \<exists>key\<in>set keys. EqualFold key k then [] else Header_Values h k)"
  by (induction keys arbitrary: h) (auto simp: deleteHeaderValues_vals)

section \<open>Layers with ordered headers\<close>

definition layer_in_sync :: "'o oo_ops \<Rightarrow> requestMetadata \<Rightarrow> 'o option \<Rightarrow> bool" where
  "layer_in_sync ob m h \<longleftrightarrow>
     (h \<noteq> None \<longrightarrow> fold_distinct ob h \<and>
        (\<forall>k. \<not> isPseudoHeader k \<longrightarrow> ordered_vals ob h k = map rawValue (md_vals m k)))"

context ordered_object
begin

lemma layer_clone: "layer_in_sync ob m h \<Longrightarrow> layer_in_sync ob m (cloneOrderedHeaders ob h)"
  using clone_vals(1) clone_vals_id
  by (cases h) (simp_all add: layer_in_sync_def cloneOrderedHeaders_def[of ob None])

lemma ordered_concat:
  assumes "fold_distinct ob (Some x)"
  shows "concat (map snd (filter (\<lambda>e. EqualFold (fst e) k) (oo_entries ob x))) = ordered_vals ob (Some x) k"
  using clone_vals(2)[of x k] clone_vals_id[OF assms, of k] by simp

lemma orderedKey_fold: "EqualFold a b \<Longrightarrow> orderedHeaderKey ob h a = None \<longleftrightarrow> orderedHeaderKey ob h b = None"
  by (cases h) (simp_all add: orderedHeaderKey_None EqualFold_def orderedHeaderKey_def[of ob None])

lemma addOrdered_values:
  assumes "token k" and "fold_distinct ob (Some x)"
  shows "Header_Values (addOrderedHeaders ob dst (Some x)) k = Header_Values dst k @ ordered_vals ob (Some x) k"
proof -
  have "filter (\<lambda>e. \<not> isPseudoHeader (fst e) \<and> header_eqv (fst e) k) (oo_entries ob x) =
      filter (\<lambda>e. EqualFold (fst e) k) (oo_entries ob x)"
    by (rule filter_cong) (use token_eqv[OF assms(1)] token_not_pseudo[OF assms(1)] isPseudoHeader_fold in blast)+
  then show ?thesis using ordered_concat[OF assms(2), of k] by (simp add: addOrderedHeaders_def fold_entry_values)
qed

lemma addHeaderValues_layer:
  assumes "token k" and "layer_in_sync ob m h"
  shows "Header_Values (addHeaderValues ob dst (requestOccurrencesHeaderValues (md_headers m)) h) k =
    Header_Values dst k @ map rawValue (md_vals m k)"
proof -
  let ?src = "requestOccurrencesHeaderValues (md_headers m)"
  have src: "concat (map snd (filter (\<lambda>e. \<not> orderedHeaderKey ob h (fst e) \<noteq> None \<and> header_eqv (fst e) k) ?src)) =
      (if orderedHeaderKey ob h k = None then map rawValue (md_vals m k) else [])"
  proof (cases "orderedHeaderKey ob h k = None")
    case True
    then have "filter (\<lambda>e. \<not> orderedHeaderKey ob h (fst e) \<noteq> None \<and> header_eqv (fst e) k) ?src = filter (\<lambda>e. header_eqv (fst e) k) ?src"
      by (intro filter_cong refl) (metis orderedKey_fold header_eqv_fold)
    then show ?thesis using True canonical_concat[OF canonical_occurrences] occurrence_values[OF assms(1)] by simp
  next
    case False
    then have "filter (\<lambda>e. \<not> orderedHeaderKey ob h (fst e) \<noteq> None \<and> header_eqv (fst e) k) ?src = []"
      unfolding filter_False_iff by (metis orderedKey_fold header_eqv_fold)
    then show ?thesis using False by auto
  qed
  show ?thesis
  proof (cases h)
    case None
    then show ?thesis using src unfolding addHeaderValues_def fold_entry_values by (simp add: orderedHeaderKey_def)
  next
    case (Some x)
    have v: "ordered_vals ob h k = map rawValue (md_vals m k)" "fold_distinct ob (Some x)"
      using assms(2) token_not_pseudo[OF assms(1)] Some by (auto simp: layer_in_sync_def)
    have "ordered_vals ob h k = []" if "orderedHeaderKey ob h k = None" using that Some by (simp add: ordered_vals_def)
    then show ?thesis
      using src v addOrdered_values[OF assms(1) v(2), of dst] Some unfolding addHeaderValues_def fold_entry_values
      by (cases "orderedHeaderKey ob h k = None") simp_all
  qed
qed

lemma overlayHeaderValues_layer:
  assumes "token k" and "layer_in_sync ob m h"
  shows "Header_Values (overlayHeaderValues ob dst (requestOccurrencesHeaderValues (md_headers m)) h) k =
    (if md_vals m k \<noteq> [] \<or> orderedHeaderKey ob h k \<noteq> None then map rawValue (md_vals m k) else Header_Values dst k)"
proof -
  have "(\<exists>key\<in>S. EqualFold key k) \<longleftrightarrow> ToLower k \<in> ToLower ` S" for S
    unfolding EqualFold_def by (auto intro: sym)
  then have keys: "(\<exists>key\<in>set (map fst (oo_entries ob x)). EqualFold key k) \<longleftrightarrow> orderedHeaderKey ob (Some x) k \<noteq> None" for x
    using orderedHeaderKey_None[of x k] by (simp only: lower_al_keys set_map simp_thms)
  let ?src = "requestOccurrencesHeaderValues (md_headers m)"
  have src: "(\<exists>key\<in>set (map fst ?src). EqualFold key k) \<longleftrightarrow> md_vals m k \<noteq> []" using occurrence_keys[of m k] by simp
  have "Header_Values (case h of None \<Rightarrow> foldl deleteHeaderValues dst (map fst ?src)
        | Some x \<Rightarrow> foldl deleteHeaderValues (foldl deleteHeaderValues dst (map fst ?src)) (map fst (oo_entries ob x))) k =
      (if md_vals m k \<noteq> [] \<or> orderedHeaderKey ob h k \<noteq> None then [] else Header_Values dst k)"
    by (cases h) (simp_all only: option.case delete_keys_vals keys src orderedHeaderKey_def[of ob None] simp_thms split: if_split, blast)
  then show ?thesis unfolding overlayHeaderValues_def Let_def addHeaderValues_layer[OF assms] by auto
qed

end

section \<open>The delivered headers\<close>

fun builtin_value :: "builtinAuth \<Rightarrow> string" where
  "builtin_value (BasicAuth u p) = ''Basic '' @ base64_encode (u @ '':'' @ p)"
| "builtin_value (BearerAuth t) = ''Bearer '' @ t"
| "builtin_value (CustomAuth h) = h"

fun auth_value :: "'o AuthMethod \<Rightarrow> string" where
  "auth_value (AuthValue a) = builtin_value a"
| "auth_value (AuthPointer (Some a)) = builtin_value a"
| "auth_value _ = []"

fun builtin_auth :: "'o AuthMethod option \<Rightarrow> bool" where
  "builtin_auth None = True"
| "builtin_auth (Some (AuthValue a)) = builtin_Valid a"
| "builtin_auth (Some (AuthPointer (Some a))) = builtin_Valid a"
| "builtin_auth _ = False"

lemma apply_auth_header:
  assumes "builtin_auth auth"
  shows "apply_auth auth r = r\<lparr>rq_header := (case auth of None \<Rightarrow> rq_header r
    | Some a \<Rightarrow> Header_Set (rq_header r) ''Authorization'' (auth_value a))\<rparr>"
proof -
  have "builtin_Valid a \<Longrightarrow> builtin_Apply a r = r\<lparr>rq_header := Header_Set (rq_header r) ''Authorization'' (auth_value (AuthValue a))\<rparr>" for a
    by (cases a) (simp_all add: SetBasicAuth_def)
  then show ?thesis using assms by (cases auth rule: builtin_auth.cases) (simp_all add: apply_auth_def)
qed

text \<open>The documented layering, for one name: what a client and a request contribute to its values.\<close>

definition layered_values ::
    "requestMetadata \<Rightarrow> 'o AuthMethod option \<Rightarrow> requestMetadata \<Rightarrow> bool \<Rightarrow> string option \<Rightarrow> 'o AuthMethod option \<Rightarrow> string \<Rightarrow> string list" where
  "layered_values cm cauth rm ordered generated rauth k =
     (let v1 = map rawValue (md_vals cm k);
          v2 = (case cauth of Some a \<Rightarrow> if EqualFold ''Authorization'' k then [auth_value a] else v1 | None \<Rightarrow> v1);
          v3 = (if md_vals rm k \<noteq> [] \<or> ordered then map rawValue (md_vals rm k) else v2);
          v4 = (case generated of Some ct \<Rightarrow> if EqualFold ''Content-Type'' k then [ct] else v3 | None \<Rightarrow> v3)
      in case rauth of Some a \<Rightarrow> if EqualFold ''Authorization'' k then [auth_value a] else v4 | None \<Rightarrow> v4)"

lemma set_token_vals:
  assumes "token k"
  shows "Header_Values (Header_Set h n v) k = (if EqualFold n k then [v] else Header_Values h k)"
  using token_eqv[OF assms] by (simp add: hdr.vals_set)

lemma addCookie_other:
  assumes "token k" and "\<not> EqualFold ''Cookie'' k"
  shows "Header_Values (rq_header (add_plan_cookies cs r)) k = Header_Values (rq_header r) k"
proof (induction cs arbitrary: r)
  case (Cons occ cs)
  have "Header_Values (header_AddCookie h c) k = Header_Values h k" for h c
    using assms by (simp add: header_AddCookie_def set_token_vals)
  then show ?case using Cons by (simp add: add_plan_cookies_def Request_AddCookie_def split: option.split)
qed (simp add: add_plan_cookies_def)

context ordered_object
begin

lemma withOrdered_header [simp]: "rq_header (withOrderedHeaders ob r h) = rq_header r"
  by (simp add: withOrderedHeaders_def)

lemma delivered_values:
  assumes "token k" and "\<not> EqualFold ''Cookie'' k"
    and "layer_in_sync ob (pl_clientMetadata plan) (pl_clientOrderedHeaders plan)"
    and "layer_in_sync ob (pl_requestMetadata plan) (pl_requestOrderedHeaders plan)"
    and "builtin_auth (pl_clientAuth plan)" and "builtin_auth (pl_requestAuth plan)" and "rq_header req = []"
  shows "Header_Values (rq_header (applyPlanAuthAndHeaders ob req plan gct)) k =
    layered_values (pl_clientMetadata plan) (pl_clientAuth plan) (pl_requestMetadata plan)
      (orderedHeaderKey ob (pl_requestOrderedHeaders plan) k \<noteq> None)
      (if bp_generatedContentType (pl_body plan) \<and> gct \<noteq> [] then Some gct else None) (pl_requestAuth plan) k"
proof -
  have e: "Header_Values [] k = []" by (simp add: Header_Values_def)
  show ?thesis
    using assms(2,7)
    by (cases "bp_generatedContentType (pl_body plan)"; cases "gct = []")
      (simp_all add: applyPlanAuthAndHeaders_def plan_request_def content_type_generated_def Let_def apply_auth_header[OF assms(5)] apply_auth_header[OF assms(6)]
        overlayHeaderValues_layer[OF assms(1,4)] addHeaderValues_layer[OF assms(1,3)] set_token_vals[OF assms(1)]
        deleteHeaderValues_vals addCookie_other[OF assms(1,2)] layered_values_def e split: option.split)
qed

end

end
