(* ===== verification/Plan_Delivered.thy ===== *)
theory Plan_Delivered
  imports Plan_Headers "HOL-Library.Sublist"
begin

text \<open>
  What the delivered request carries: the header layers, the cookies in their order of precedence,
  read back by the parser of \<open>net/http\<close>, and ordered headers that agree with the semantic ones.
\<close>

section \<open>Cookies written and read back\<close>

definition valid_cookie :: "httpCookie \<Rightarrow> bool" where
  "valid_cookie c \<longleftrightarrow> token (ck_name c) \<and> list_all validCookieValueByte (ck_value c)"

definition spaces :: "char list" where
  "spaces = [CHR '' '', CHR 0x09, CHR 0x0A, CHR 0x0D]"

lemma TrimString_id:
  assumes "s = [] \<or> hd s \<notin> set spaces \<and> last s \<notin> set spaces"
  shows "TrimString s = s"
proof -
  have "dropWhile (\<lambda>c. c \<in> set spaces) s = s" "dropWhile (\<lambda>c. c \<in> set spaces) (rev s) = rev s"
    using assms by (cases s, simp_all) (cases "rev s", auto simp: hd_rev[symmetric])
  then show ?thesis by (simp add: TrimString_def TrimLeft_def TrimRight_def spaces_def)
qed

lemma TrimString_space: "TrimString (CHR '' '' # s) = TrimString s"
  by (simp add: TrimString_def TrimLeft_def)

lemma token_chars: "token k \<Longrightarrow> c \<in> set k \<Longrightarrow> c \<notin> set ''=;'' \<union> set spaces"
  by (auto simp: token_def list_all_iff valid_header_byte_def is_digit_def is_lower_def is_upper_def spaces_def)

lemma value_chars: "list_all validCookieValueByte v \<Longrightarrow> c \<in> set v \<Longrightarrow> c \<notin> {CHR '';'', CHR 0x22, CHR 0x09, CHR 0x0A, CHR 0x0D}"
proof -
  assume "list_all validCookieValueByte v" and "c \<in> set v"
  then have "validCookieValueByte c" by (simp add: list_all_iff)
  moreover have "\<not> validCookieValueByte CHR '';''" "\<not> validCookieValueByte CHR 0x22" "\<not> validCookieValueByte CHR 0x09"
      "\<not> validCookieValueByte CHR 0x0A" "\<not> validCookieValueByte CHR 0x0D"
    by (simp_all add: validCookieValueByte_def)
  ultimately show ?thesis by blast
qed

definition written_value :: "httpCookie \<Rightarrow> string" where
  "written_value c = sanitizeCookieValue (ck_value c) (ck_quoted c)"

lemma cookie_text_valid: "valid_cookie c \<Longrightarrow> cookie_text c = ck_name c @ ''='' @ written_value c"
proof -
  assume "valid_cookie c"
  then have "sanitizeCookieName (ck_name c) = ck_name c"
    unfolding sanitizeCookieName_def valid_cookie_def
    by (intro map_idI) (auto dest: token_chars simp: spaces_def)
  then show ?thesis by (simp add: cookie_text_def written_value_def)
qed

lemma written_value_parses:
  assumes "valid_cookie c"
  shows "map_option fst (parseCookieValue (written_value c)) = Some (ck_value c)"
proof -
  have v: "filter validCookieValueByte (ck_value c) = ck_value c"
    using assms by (simp add: valid_cookie_def list_all_iff)
  have q: "CHR 0x22 \<notin> set (ck_value c)" using assms value_chars by (auto simp: valid_cookie_def)
  then have "ck_value c \<noteq> [] \<Longrightarrow> hd (ck_value c) \<noteq> CHR 0x22" by (metis hd_in_set)
  then show ?thesis
    using assms v by (auto simp: written_value_def sanitizeCookieValue_def parseCookieValue_def Let_def valid_cookie_def)
qed

lemma written_value_chars:
  assumes "valid_cookie c"
  shows "CHR '';'' \<notin> set (written_value c)" and "written_value c \<noteq> [] \<Longrightarrow> last (written_value c) \<notin> set spaces"
proof -
  have v: "filter validCookieValueByte (ck_value c) = ck_value c"
    using assms by (simp add: valid_cookie_def list_all_iff)
  have n: "x \<notin> {CHR '';'', CHR 0x22, CHR 0x09, CHR 0x0A, CHR 0x0D}" if "x \<in> set (ck_value c)" for x
    using that assms value_chars by (auto simp: valid_cookie_def)
  then show "CHR '';'' \<notin> set (written_value c)"
    using v by (auto simp: written_value_def sanitizeCookieValue_def Let_def)
  have sp: "last (ck_value c) \<noteq> CHR '' ''" if "ck_value c \<noteq> []" "CHR '' '' \<notin> set (ck_value c)"
    using that last_in_set by metis
  assume "written_value c \<noteq> []"
  then show "last (written_value c) \<notin> set spaces"
    using v n[OF last_in_set] sp
    by (auto simp: written_value_def sanitizeCookieValue_def Let_def spaces_def split: if_splits)
qed

lemma cookie_text_shape:
  assumes "valid_cookie c"
  shows "cookie_text c \<noteq> []" and "CHR '';'' \<notin> set (cookie_text c)"
    and "hd (cookie_text c) \<notin> set spaces" and "last (cookie_text c) \<notin> set spaces"
proof -
  have t: "token (ck_name c)" using assms by (simp add: valid_cookie_def)
  then obtain x xs where x: "ck_name c = x # xs" by (cases "ck_name c") (auto simp: token_def)
  note shape = cookie_text_valid[OF assms]
  show "cookie_text c \<noteq> []" by (simp add: shape)
  show "CHR '';'' \<notin> set (cookie_text c)" using token_chars[OF t] written_value_chars(1)[OF assms] by (auto simp: shape)
  show "hd (cookie_text c) \<notin> set spaces" using token_chars[OF t, of x] by (simp add: shape x)
  show "last (cookie_text c) \<notin> set spaces"
    using written_value_chars(2)[OF assms] by (cases "written_value c = []") (auto simp: shape spaces_def)
qed

lemma cookie_part_text:
  assumes "valid_cookie c"
  shows "map_option (\<lambda>d. (ck_name d, ck_value d)) (cookie_part (cookie_text c)) = Some (ck_name c, ck_value c)"
    and "cookie_part (CHR '' '' # cookie_text c) = cookie_part (cookie_text c)"
proof -
  have t: "token (ck_name c)" using assms by (simp add: valid_cookie_def)
  have trim: "TrimString (cookie_text c) = cookie_text c" using cookie_text_shape[OF assms] by (simp add: TrimString_id)
  have "hd (ck_name c) \<notin> set spaces" "last (ck_name c) \<notin> set spaces"
    using token_chars[OF t] t hd_in_set[of "ck_name c"] last_in_set[of "ck_name c"] by (auto simp: token_def)
  then have trim_name: "TrimString (ck_name c) = ck_name c" by (simp add: TrimString_id)
  have "CHR ''='' \<notin> set (ck_name c)" using token_chars[OF t] by auto
  then have "Cut (cookie_text c) CHR ''='' = (ck_name c, written_value c)"
    using Cut_append[of "CHR ''=''" "ck_name c"] by (simp add: cookie_text_valid[OF assms])
  then show "map_option (\<lambda>d. (ck_name d, ck_value d)) (cookie_part (cookie_text c)) = Some (ck_name c, ck_value c)"
    using trim trim_name cookie_text_shape(1)[OF assms] t written_value_parses[OF assms]
    by (auto simp: cookie_part_def token_def)
  show "cookie_part (CHR '' '' # cookie_text c) = cookie_part (cookie_text c)"
    by (simp add: cookie_part_def TrimString_space)
qed

text \<open>The \<open>Cookie\<close> header that adding the cookies one by one builds.\<close>

fun cookie_line :: "httpCookie list \<Rightarrow> string" where
  "cookie_line [] = []"
| "cookie_line [c] = cookie_text c"
| "cookie_line (c # d # cs) = cookie_text c @ ''; '' @ cookie_line (d # cs)"

lemma cookie_line_snoc: "cs \<noteq> [] \<Longrightarrow> cookie_line (cs @ [c]) = cookie_line cs @ ''; '' @ cookie_text c"
  by (induction cs rule: cookie_line.induct) auto

lemma cookie_text_neq_Nil: "cookie_text c \<noteq> []"
  by (simp add: cookie_text_def)

lemma cookie_line_Nil_iff: "cookie_line cs = [] \<longleftrightarrow> cs = []"
  by (cases cs rule: cookie_line.cases) (auto simp: cookie_text_neq_Nil)

lemma add_cookies_line:
  assumes "Header_Values h ''Cookie'' = (if pre = [] then [] else [cookie_line pre])"
  shows "Header_Values (foldl header_AddCookie h cs) ''Cookie'' = (if pre @ cs = [] then [] else [cookie_line (pre @ cs)])"
  using assms
proof (induction cs arbitrary: h pre)
  case (Cons c cs)
  have "Header_Values (header_AddCookie h c) ''Cookie'' = [cookie_line (pre @ [c])]"
    using Cons.prems
    by (cases "pre = []") (simp_all add: header_AddCookie_def Header_Get_def hdr.vals_set header_eqv_def cookie_line_snoc cookie_line_Nil_iff)
  then show ?case using Cons.IH[of "header_AddCookie h c" "pre @ [c]"] by simp
qed simp

lemma SplitByte_neq_Nil: "SplitByte b s \<noteq> []"
  by (induction b s rule: SplitByte.induct) (auto split: list.splits)

lemma split_cookie_line:
  assumes "cs \<noteq> []" and "list_all valid_cookie cs"
  shows "SplitByte CHR '';'' (cookie_line cs) = cookie_text (hd cs) # map (\<lambda>c. CHR '' '' # cookie_text c) (tl cs)"
  using assms
proof (induction cs rule: cookie_line.induct)
  case (3 c d cs)
  have "CHR '';'' \<notin> set (cookie_text c)" using 3 cookie_text_shape(2) by simp
  moreover have "SplitByte CHR '';'' (CHR '' '' # s) = (CHR '' '' # hd (SplitByte CHR '';'' s)) # tl (SplitByte CHR '';'' s)" for s
    using SplitByte_neq_Nil[of "CHR '';''" s] by (cases "SplitByte CHR '';'' s") simp_all
  ultimately show ?case using 3 by (simp add: SplitByte_append)
qed (simp_all add: SplitByte_notin cookie_text_shape)

lemma cookie_line_trim:
  assumes "list_all valid_cookie cs"
  shows "TrimString (cookie_line cs) = cookie_line cs"
proof (rule TrimString_id)
  have "cs \<noteq> [] \<Longrightarrow> hd (cookie_line cs) \<notin> set spaces \<and> last (cookie_line cs) \<notin> set spaces"
    using assms
    by (induction cs rule: cookie_line.induct) (auto simp: cookie_text_shape cookie_text_neq_Nil cookie_line_Nil_iff)
  then show "cookie_line cs = [] \<or> hd (cookie_line cs) \<notin> set spaces \<and> last (cookie_line cs) \<notin> set spaces"
    using cookie_line_Nil_iff by blast
qed

lemma read_cookie_line:
  assumes "list_all valid_cookie cs" and "cs \<noteq> []"
  shows "map (\<lambda>d. (ck_name d, ck_value d)) (List.map_filter cookie_part (SplitByte CHR '';'' (cookie_line cs))) =
    map (\<lambda>c. (ck_name c, ck_value c)) cs"
proof -
  have one: "\<exists>d. cookie_part (cookie_text c) = Some d \<and> ck_name d = ck_name c \<and> ck_value d = ck_value c" if "valid_cookie c" for c
    using cookie_part_text(1)[OF that] by auto
  have rest: "map (\<lambda>d. (ck_name d, ck_value d)) (List.map_filter cookie_part (map (\<lambda>c. CHR '' '' # cookie_text c) ds)) =
      map (\<lambda>c. (ck_name c, ck_value c)) ds" if "list_all valid_cookie ds" for ds
    using that one cookie_part_text(2) by (induction ds) (force simp: List.map_filter_simps)+
  obtain c ds where "cs = c # ds" using assms(2) by (cases cs) auto
  then show ?thesis
    using assms(1) one[of c] rest[of ds] split_cookie_line[OF assms(2,1)] by (auto simp: List.map_filter_simps)
qed

section \<open>Properties\<close>

context ordered_object
begin

lemma clone_key:
  assumes "fold_distinct ob h"
  shows "orderedHeaderKey ob (cloneOrderedHeaders ob h) k = None \<longleftrightarrow> orderedHeaderKey ob h k = None"
proof (cases h)
  case (Some x)
  then obtain y where y: "cloneOrderedHeaders ob h = Some y" "oo_entries ob y = oo_entries ob x"
    using clone_entries[of x] assms by auto
  then show ?thesis by (simp add: Some orderedHeaderKey_None)
qed (simp add: cloneOrderedHeaders_def)

lemma delivered_layers:
  assumes "client_wf ob c" and "builder_reachable ob qv b" and "compileRequestPlan ph ob c b = Inr plan"
    and "builtin_auth (c_auth c)" and "builtin_auth (b_auth b)" and "rq_header req = []"
    and "token k" and "\<not> EqualFold ''Cookie'' k"
  shows "Header_Values (rq_header (applyPlanAuthAndHeaders ob req plan gct)) k =
    layered_values (c_metadata c) (c_auth c) (b_metadata b) (orderedHeaderKey ob (b_orderedHeaders b) k \<noteq> None)
      (if bp_generatedContentType (b_body b) \<and> gct \<noteq> [] then Some gct else None) (b_auth b) k"
proof -
  note f = plan_fields[OF assms(3)[unfolded compileRequestPlan_def]]
  have bs: "layer_in_sync ob (b_metadata b) (b_orderedHeaders b)"
    using reachable_in_sync[OF assms(2)] by (simp add: layer_in_sync_def headers_in_sync_def)
  have cs: "layer_in_sync ob (c_metadata c) (c_orderedHeaders c)"
    using assms(1) by (simp add: client_wf_def layer_in_sync_def client_in_sync_def)
  have p: "pl_clientMetadata plan = c_metadata c" "pl_clientAuth plan = c_auth c"
      "pl_clientOrderedHeaders plan = cloneOrderedHeaders ob (cloneOrderedHeaders ob (c_orderedHeaders c))"
    using f(3,5,8) by (simp_all add: snapshot_def)
  have "fold_distinct ob (b_orderedHeaders b)"
    using bs by (cases "b_orderedHeaders b") (simp_all add: layer_in_sync_def fold_distinct_def)
  then have key: "(orderedHeaderKey ob (pl_requestOrderedHeaders plan) k \<noteq> None) = (orderedHeaderKey ob (b_orderedHeaders b) k \<noteq> None)"
    using clone_key by (simp add: f(6))
  have "Header_Values (rq_header (applyPlanAuthAndHeaders ob req plan gct)) k =
      layered_values (pl_clientMetadata plan) (pl_clientAuth plan) (pl_requestMetadata plan)
        (orderedHeaderKey ob (pl_requestOrderedHeaders plan) k \<noteq> None)
        (if bp_generatedContentType (pl_body plan) \<and> gct \<noteq> [] then Some gct else None) (pl_requestAuth plan) k"
    by (rule delivered_values[OF assms(7,8)])
      (use layer_clone[OF layer_clone[OF cs]] layer_clone[OF bs] assms(4-6) in \<open>simp_all add: p f(4,6,9)\<close>)
  then show ?thesis unfolding key p f(4,9,10) .
qed

end


subsection \<open>Cookies\<close>

lemma merge_subseq: "subseq (mergeCookieOccurrences layers) (concat layers)"
proof -
  have "subseq (concat (map (\<lambda>(i, layer). filter (P i) layer) (List.enumerate n layers))) (concat layers)"
    for P :: "nat \<Rightarrow> requestCookieOccurrence \<Rightarrow> bool" and n
    by (induction layers arbitrary: n) (auto intro: list_emb_append_mono)
  then show ?thesis by (simp add: mergeCookieOccurrences_def)
qed

text \<open>
  Claim C25: cookies of the plan come from four sources of increasing precedence, the client's Cookie
  headers, its default cookies, the request's Cookie headers and the request's cookies; for each name
  exactly the occurrences of the last source that has it survive, with their values and disclosure
  states, and the survivors stand in the order of the sources.
\<close>

theorem cookie_precedence:
  "(\<forall>k. filter (\<lambda>occ. co_name occ = k) (compileCookieOccurrences cm rm) =
      winning_layer k [cookie_layer (headerCookies (headerValues cm)), tagged_cookie_layer (md_cookies cm),
        cookie_layer (headerCookies (headerValues rm)), tagged_cookie_layer (md_cookies rm)]) \<and>
   subseq (compileCookieOccurrences cm rm)
     (cookie_layer (headerCookies (headerValues cm)) @ tagged_cookie_layer (md_cookies cm) @
      cookie_layer (headerCookies (headerValues rm)) @ tagged_cookie_layer (md_cookies rm))"
  unfolding compileCookieOccurrences_def request_header_values headerValues_def
  using merge_winning merge_subseq[of "[a, b, c, d]" for a b c d] by simp

lemma plan_cookie_shape:
  assumes "occ \<in> set (compileCookieOccurrences cm rm)"
  shows "\<exists>c. co_cookie occ = Some c \<and> ck_name c = co_name occ \<and> ck_value c = rawValue (co_value occ)"
proof -
  have "\<exists>layer\<in>set layers. occ \<in> set layer" if "occ \<in> set (mergeCookieOccurrences layers)" for layers
    using that by (auto simp: mergeCookieOccurrences_def in_set_enumerate_eq)
  then obtain layer where "occ \<in> set layer" and "layer \<in> {cookie_layer (headerCookies (requestOccurrencesHeaderValues (md_headers cm))),
      tagged_cookie_layer (md_cookies cm), cookie_layer (headerCookies (requestOccurrencesHeaderValues (md_headers rm))),
      tagged_cookie_layer (md_cookies rm)}"
    using assms unfolding compileCookieOccurrences_def by fastforce
  then show ?thesis by (auto simp: cookie_layer_def tagged_cookie_layer_def cloneCookie_def Let_def)
qed

lemma plan_cookies_line:
  assumes "Header_Values (rq_header r) ''Cookie'' = []" and "\<forall>occ\<in>set occs. co_cookie occ \<noteq> None"
  shows "Header_Values (rq_header (add_plan_cookies occs r)) ''Cookie'' =
    (if occs = [] then [] else [cookie_line (map (the \<circ> co_cookie) occs)])"
proof -
  have "rq_header (add_plan_cookies occs r) = foldl header_AddCookie (rq_header r) (map (the \<circ> co_cookie) occs)"
    using assms(2)
    by (induction occs arbitrary: r) (auto simp: add_plan_cookies_def cloneCookie_def Request_AddCookie_def)
  then show ?thesis using add_cookies_line[of "rq_header r" "[]" "map (the \<circ> co_cookie) occs"] assms(1) by simp
qed

context ordered_object
begin

lemma delivered_cookie_header:
  assumes "\<forall>occ\<in>set (pl_cookies plan). co_cookie occ \<noteq> None" and "builtin_auth (pl_requestAuth plan)"
  shows "Header_Values (rq_header (applyPlanAuthAndHeaders ob req plan gct)) ''Cookie'' =
    (if pl_cookies plan = [] then [] else [cookie_line (map (the \<circ> co_cookie) (pl_cookies plan))])"
proof -
  have "\<not> header_eqv ''Authorization'' ''Cookie''" by code_simp
  then have "Header_Values (rq_header (apply_auth (pl_requestAuth plan) r)) ''Cookie'' = Header_Values (rq_header r) ''Cookie''" for r
    using apply_auth_header[OF assms(2), of r] by (simp add: hdr.vals_set split: option.split)
  moreover have "Header_Values (deleteHeaderValues h ''Cookie'') ''Cookie'' = []" for h by (simp add: deleteHeaderValues_vals)
  ultimately show ?thesis
    by (simp add: applyPlanAuthAndHeaders_def plan_request_def Let_def plan_cookies_line[OF _ assms(1)])
qed

end

text \<open>
  Claim C26: reading the cookies of a delivered request back with the parser of \<open>net/http\<close> gives the
  plan's cookies, names and values, in the plan's order, as long as their names are tokens and their
  values have only the bytes a cookie value may have.
\<close>

theorem delivered_cookies_roundtrip:
  assumes "ordered_object ob" and "compileRequestPlan ph ob c b = Inr plan" and "builtin_auth (b_auth b)"
    and "\<forall>occ\<in>set (pl_cookies plan). token (co_name occ) \<and> list_all validCookieValueByte (rawValue (co_value occ))"
  shows "map (\<lambda>ck. (ck_name ck, ck_value ck)) (headerCookies (rq_header (applyPlanAuthAndHeaders ob req plan gct))) =
    map (\<lambda>occ. (co_name occ, rawValue (co_value occ))) (pl_cookies plan)"
proof -
  note f = plan_fields[OF assms(2)[unfolded compileRequestPlan_def]]
  let ?cs = "map (the \<circ> co_cookie) (pl_cookies plan)"
  have shape: "\<exists>ck. co_cookie occ = Some ck \<and> ck_name ck = co_name occ \<and> ck_value ck = rawValue (co_value occ)"
    if "occ \<in> set (pl_cookies plan)" for occ
    using that plan_cookie_shape by (simp add: f(7))
  have line: "Header_Values (rq_header (applyPlanAuthAndHeaders ob req plan gct)) ''Cookie'' =
      (if pl_cookies plan = [] then [] else [cookie_line ?cs])"
    by (rule ordered_object.delivered_cookie_header[OF assms(1)]) (use shape assms(3) f(9) in auto)
  have "valid_cookie (the (co_cookie occ))" if "occ \<in> set (pl_cookies plan)" for occ
    using shape[OF that] assms(4) that by (auto simp: valid_cookie_def)
  then have valid: "list_all valid_cookie ?cs" by (simp add: list_all_iff)
  have pairs: "map (\<lambda>ck. (ck_name ck, ck_value ck)) ?cs = map (\<lambda>occ. (co_name occ, rawValue (co_value occ))) (pl_cookies plan)"
    using shape by fastforce
  show ?thesis
    using read_cookie_line[OF valid] line cookie_line_trim[OF valid] unfolding pairs[symmetric]
    by (auto simp: headerCookies_def)
qed

subsection \<open>Ordered headers\<close>

lemma synced_fst: "synced semantic e = Some e' \<Longrightarrow> fst e' = fst e"
  by (auto simp: synced_def split: if_splits list.splits)

lemma in_map_filter: "y \<in> set (List.map_filter f xs) \<longleftrightarrow> (\<exists>x\<in>set xs. f x = Some y)"
  by (induction xs) (auto simp: List.map_filter_simps split: option.splits)

lemma add_cookies_ordered [simp]: "rq_ordered (add_plan_cookies cs r) = rq_ordered r"
  by (induction cs arbitrary: r) (auto simp: add_plan_cookies_def Request_AddCookie_def split: option.split)

context ordered_object
begin

lemma sync_distinct:
  assumes "fold_distinct ob h"
  shows "fold_distinct ob (syncOrderedHeaderValues ob h semantic)"
proof (cases h)
  case (Some x)
  have "distinct (map (ToLower \<circ> fst) (List.map_filter (synced semantic) es))" if "distinct (map (ToLower \<circ> fst) es)" for es
    using that
  proof (induction es)
    case (Cons e es)
    have "ToLower (fst e') \<in> (ToLower \<circ> fst) ` set es" if "e' \<in> set (List.map_filter (synced semantic) es)" for e'
      using that unfolding in_map_filter by (metis synced_fst comp_apply image_eqI)
    then show ?case using Cons by (auto simp: List.map_filter_simps dest!: synced_fst split: option.split)
  qed (simp add: List.map_filter_simps)
  then show ?thesis
    using assms sync_entries[of x semantic]
    by (auto simp: Some fold_distinct_def lower_al_def comp_def syncOrderedHeaderValues_def)
qed (simp add: syncOrderedHeaderValues_def fold_distinct_def)

lemma delivered_ordered_entries:
  assumes "rq_ordered (withOrderedHeaders ob r (syncOrderedHeaderValues ob h (rq_header r))) = Some x"
    and "fold_distinct ob h" and "rq_ordered r = None" and "(k, vs) \<in> set (oo_entries ob x)" and "\<not> isPseudoHeader k"
  shows "vs = Header_Values (rq_header r) k \<and> vs \<noteq> []"
proof -
  obtain y where y: "syncOrderedHeaderValues ob h (rq_header r) = Some y" "cloneOrderedHeaders ob (Some y) = Some x"
    using assms(1,3) by (auto simp: withOrderedHeaders_def split: if_splits)
  obtain z where z: "h = Some z" using y(1) by (auto simp: syncOrderedHeaderValues_def)
  have "oo_entries ob x = oo_entries ob y"
    using clone_entries[of y] sync_distinct[OF assms(2), of "rq_header r"] y by simp
  also have "\<dots> = List.map_filter (synced (rq_header r)) (oo_entries ob z)"
    using sync_entries[of z "rq_header r"] y(1) z by simp
  finally show ?thesis
    using assms(4,5) by (auto simp: List.map_filter_def synced_def split: if_splits list.splits)
qed

lemma apply_plan_ordered:
  assumes "\<forall>auth\<in>{pl_clientAuth plan, pl_requestAuth plan}. \<forall>r. rq_ordered (apply_auth auth r) = rq_ordered r"
    and "rq_ordered req = None"
  shows "fold_distinct ob (plan_ordered ob plan gct)" and "rq_ordered (plan_request ob req plan gct) = None"
proof -
  let ?o0 = "cloneOrderedHeaders ob (pl_orderedHeaders plan)"
  have "fold_distinct ob ?o0" by (rule clone_vals(1))
  then have o1: "fold_distinct ob (if g then if q then setOrderedHeaderValues ob ?o0 k vs else deleteOrderedHeader ob ?o0 k else ?o0)" for g q k vs
    using set_vals(2) delete_vals(2) by simp
  have o2: "fold_distinct ob (case h of Some x \<Rightarrow> if oo_len ob x = 0 then None else h | None \<Rightarrow> None)" if "fold_distinct ob h" for h
    using that by (cases h) (simp_all add: fold_distinct_def)
  show "fold_distinct ob (plan_ordered ob plan gct)" unfolding plan_ordered_def Let_def by (intro o2 o1)
  have "rq_ordered (apply_auth (pl_clientAuth plan) r) = rq_ordered r" "rq_ordered (apply_auth (pl_requestAuth plan) r) = rq_ordered r" for r
    using assms(1) by simp_all
  then show "rq_ordered (plan_request ob req plan gct) = None" using assms(2) by (simp add: plan_request_def Let_def)
qed

end

text \<open>
  Claim C27: the ordered headers attached to a delivered request never disagree with what is sent:
  every entry that is not a pseudo header carries exactly the values of the request's header of that
  name, and there is at least one. This holds for every plan, also with caller-defined
  authentication that changes headers.
\<close>

theorem delivered_ordered_exact:
  assumes "ordered_object ob" and "rq_ordered (applyPlanAuthAndHeaders ob req plan gct) = Some x"
    and "\<forall>auth\<in>{pl_clientAuth plan, pl_requestAuth plan}. \<forall>r. rq_ordered (apply_auth auth r) = rq_ordered r"
    and "rq_ordered req = None" and "(k, vs) \<in> set (oo_entries ob x)" and "\<not> isPseudoHeader k"
  shows "vs = Header_Values (rq_header (applyPlanAuthAndHeaders ob req plan gct)) k \<and> vs \<noteq> []"
proof -
  note p = ordered_object.apply_plan_ordered[OF assms(1,3,4)]
  have "vs = Header_Values (rq_header (plan_request ob req plan gct)) k \<and> vs \<noteq> []"
    by (rule ordered_object.delivered_ordered_entries[OF assms(1) _ p(1) p(2) assms(5,6)])
      (use assms(2) in \<open>simp add: applyPlanAuthAndHeaders_def Let_def\<close>)
  then show ?thesis by (auto simp: applyPlanAuthAndHeaders_def Let_def ordered_object.withOrdered_header[OF assms(1)])
qed


subsection \<open>Witnesses\<close>

definition ex_builder :: "(string, string list) alist RequestBuilder" where
  "ex_builder = Builder_Cookie ''a'' ''1 2'' (Builder_Query ''q'' ''v'' (Builder_Header dalist_ops ''x-a'' ''3''
     (Client_Request ''GET'' ''/v1?q=u'')))"

definition ex_blank :: "(string, string list) alist httpRequest" where
  "ex_blank = \<lparr>rq_method = ''GET'', rq_url = empty_URL, rq_host = [], rq_header = [], rq_body = BodyNil, rq_getBody = None,
     rq_contentLength = 0, rq_ordered = None\<rparr>"

lemma ex_plan: "\<exists>plan. compileRequestPlan Some dalist_ops ex_client ex_builder = Inr plan"
proof -
  have "case compileRequestPlan Some dalist_ops ex_client ex_builder of Inl _ \<Rightarrow> False | Inr plan \<Rightarrow> True" by code_simp
  then show ?thesis by (auto split: sum.splits)
qed

lemma ex_builder_reachable: "builder_reachable dalist_ops (\<lambda>_. Inr []) ex_builder"
  unfolding ex_builder_def by (meson builder_reachable.intros builder_step.intros)

theorem plan_query_is_sent_query_witness:
  "\<exists>plan. compileRequestPlan Some dalist_ops ex_client ex_builder = Inr plan \<and>
     map (\<lambda>occ. (occ_name occ, rawValue (occ_value occ))) (pl_query plan) = sorted_pairs (URL_Query (pl_targetURL plan))"
proof -
  obtain plan where plan: "compileRequestPlan Some dalist_ops ex_client ex_builder = Inr plan" using ex_plan by blast
  have "case URL_Parse Some (resolvedPath (b_target ex_builder)) of None \<Rightarrow> False | Some r \<Rightarrow> ParseQuery (url_rawQuery r) \<noteq> None"
    by code_simp
  then obtain r where r: "URL_Parse Some (resolvedPath (b_target ex_builder)) = Some r" "ParseQuery (url_rawQuery r) \<noteq> None"
    by (auto split: option.splits)
  show ?thesis using plan_query_is_sent_query[OF plan[unfolded compileRequestPlan_def] r] plan by blast
qed


theorem delivered_cookies_roundtrip_witness:
  "\<exists>plan. compileRequestPlan Some dalist_ops ex_client ex_builder = Inr plan \<and>
     map (\<lambda>ck. (ck_name ck, ck_value ck)) (headerCookies (rq_header (applyPlanAuthAndHeaders dalist_ops ex_blank plan []))) =
       [(''a'', ''1 2'')]"
proof -
  obtain plan where plan: "compileRequestPlan Some dalist_ops ex_client ex_builder = Inr plan" using ex_plan by blast
  have c: "pl_cookies plan = compileCookieOccurrences (c_metadata ex_client) (b_metadata ex_builder)"
    using plan_fields(7)[OF plan[unfolded compileRequestPlan_def]] by (simp add: snapshot_def)
  have "list_all (\<lambda>occ. token (co_name occ) \<and> list_all validCookieValueByte (rawValue (co_value occ)))
      (compileCookieOccurrences (c_metadata ex_client) (b_metadata ex_builder))" by code_simp
  moreover have "map (\<lambda>occ. (co_name occ, rawValue (co_value occ)))
      (compileCookieOccurrences (c_metadata ex_client) (b_metadata ex_builder)) = [(''a'', ''1 2'')]" by code_simp
  moreover have "builtin_auth (b_auth ex_builder)" by code_simp
  ultimately show ?thesis
    using delivered_cookies_roundtrip[OF dal.ordered_object_axioms plan, of ex_blank "[]"] plan by (simp add: c list_all_iff)
qed

theorem delivered_ordered_exact_witness:
  "\<exists>plan x. compileRequestPlan Some dalist_ops ex_client (Client_Request ''GET'' ''/v1'') = Inr plan \<and>
     rq_ordered (applyPlanAuthAndHeaders dalist_ops ex_blank plan []) = Some x \<and>
     (''X-A'', [''2'']) \<in> set (oo_entries dalist_ops x) \<and>
     Header_Values (rq_header (applyPlanAuthAndHeaders dalist_ops ex_blank plan [])) ''X-A'' = [''2'']"
proof -
  have "case compileRequestPlan Some dalist_ops ex_client (Client_Request ''GET'' ''/v1'') of
      Inl _ \<Rightarrow> False
    | Inr plan \<Rightarrow> (case rq_ordered (applyPlanAuthAndHeaders dalist_ops ex_blank plan []) of None \<Rightarrow> False
        | Some x \<Rightarrow> (''X-A'', [''2'']) \<in> set (oo_entries dalist_ops x))"
    by code_simp
  then obtain plan x where p: "compileRequestPlan Some dalist_ops ex_client (Client_Request ''GET'' ''/v1'') = Inr plan"
      "rq_ordered (applyPlanAuthAndHeaders dalist_ops ex_blank plan []) = Some x" "(''X-A'', [''2'']) \<in> set (oo_entries dalist_ops x)"
    by (auto split: sum.splits option.splits)
  have "pl_clientAuth plan = None" "pl_requestAuth plan = None"
    using plan_fields(8,9)[OF p(1)[unfolded compileRequestPlan_def]]
    by (simp_all add: snapshot_def ex_client_def setDefaultHeader_def setDefaultOrderedHeaders_def setBaseURL_def newClient_def
        Client_Request_def Let_def)
  then have "\<forall>auth\<in>{pl_clientAuth plan, pl_requestAuth plan}. \<forall>r. rq_ordered (apply_auth auth r) = rq_ordered r"
    by (simp add: apply_auth_def)
  moreover have "rq_ordered ex_blank = None" "\<not> isPseudoHeader ''X-A''" by code_simp+
  ultimately show ?thesis
    using delivered_ordered_exact[OF dal.ordered_object_axioms p(2) _ _ p(3)] p by auto
qed

end
