(* ===== verification/Response.thy ===== *)
theory Response
  imports Client_With Multipart_Body
begin

text \<open>
  Model of \<open>response.go\<close>, \<open>stream_response.go\<close>, \<open>stream.go\<close> and \<open>pool.go\<close>: buffering a response body
  under a limit, media types and decoding, lines, saving, and the streaming response with its
  once-only close. The pooled buffer of the third-party package \<open>bytebufferpool\<close> is the argument
  \<open>readFrom\<close>, the contents and error of a fresh buffer after reading; \<open>mime.ParseMediaType\<close> is the
  argument \<open>parseMedia\<close>, the file system the record \<open>fsOps\<close>. An iterator is the list of what it yields
  to a consumer that never stops; stopping early takes a prefix. Elapsed time is not modelled.
\<close>

section \<open>Buffering\<close>

record Response =
  re_attempts :: nat
  re_jsonDecoder :: Decoder
  re_xmlDecoder :: Decoder
  re_yamlDecoder :: Decoder
  re_logger :: "nat option"
  re_rawResponse :: httpResponse
  re_body :: bytes

type_synonym readFrom = "bytes \<Rightarrow> goerr option \<Rightarrow> bytes \<times> goerr option"

text \<open>
  A reader limited to \<open>n\<close> bytes yields the first \<open>n\<close> bytes, and its error only if it comes before them.
\<close>

definition limit_read :: "int \<Rightarrow> respBody \<Rightarrow> bytes \<times> goerr option" where
  "limit_read n b =
     (if int (length (rb_data b)) < n then (rb_data b, rb_err b) else (take (nat n) (rb_data b), None))"

text \<open>\<open>io.CopyN(io.Discard, body, 1)\<close> after \<open>n\<close> bytes have been read; the end of the body is \<open>io.EOF\<close>.\<close>

definition probe :: "nat \<Rightarrow> respBody \<Rightarrow> nat \<times> goerr option" where
  "probe n b =
     (if length (rb_data b) > n then (1, None)
      else (0, Some (case rb_err b of None \<Rightarrow> Sentinel IoEOF | Some e \<Rightarrow> e)))"

definition buffered_response :: "httpResponse \<Rightarrow> bytes \<Rightarrow> httpResponse" where
  "buffered_response resp data = resp\<lparr>rs_body := \<lparr>rb_data = data, rb_err = None, rb_closeErr = None\<rparr>\<rparr>"

definition buffer_result :: "readFrom \<Rightarrow> int \<Rightarrow> Response \<Rightarrow> goerr + Response" where
  "buffer_result readFrom maxBodyBytes r =
     (let raw = re_rawResponse r; b = rs_body raw
      in if maxBodyBytes > 0 \<and> rs_contentLength raw > maxBodyBytes
         then Inl (ResponseBodyLimitError maxBodyBytes (rs_contentLength raw))
         else case (if maxBodyBytes > 0 then case_prod readFrom (limit_read maxBodyBytes b) else readFrom (rb_data b) (rb_err b)) of
                (buf, Some e) \<Rightarrow> Inl (wrap2 ErrResponseReadFailed e)
              | (buf, None) \<Rightarrow>
                  (let ok = Inr (r\<lparr>re_body := buf, re_rawResponse := buffered_response raw buf\<rparr>)
                   in if maxBodyBytes > 0 \<and> int (length buf) = maxBodyBytes
                      then (case probe (length buf) b of
                              (n, probeErr) \<Rightarrow>
                                if n > 0 then Inl (ResponseBodyLimitError maxBodyBytes (int (length buf) + int n))
                                else (case probeErr of
                                        Some e \<Rightarrow> if errors_is e IoEOF then ok else Inl (wrap2 ErrResponseReadFailed e)
                                      | None \<Rightarrow> ok))
                      else ok))"

text \<open>
  The deferred \<open>Body.Close\<close> runs on every path, on the body the raw response has when it is deferred;
  the second component lists the closed bodies.
\<close>

definition bufferBody :: "readFrom \<Rightarrow> int \<Rightarrow> Response \<Rightarrow> (goerr + Response) \<times> respBody list" where
  "bufferBody readFrom maxBodyBytes r =
     (let deferred = [rs_body (re_rawResponse r)] in (buffer_result readFrom maxBodyBytes r, deferred))"

definition newResponse ::
    "readFrom \<Rightarrow> httpResponse \<Rightarrow> 'o clientSnapshot \<Rightarrow> int \<Rightarrow> (goerr + Response) \<times> respBody list" where
  "newResponse readFrom resp snap maxBodyBytes =
     bufferBody readFrom maxBodyBytes
       \<lparr>re_attempts = 0, re_jsonDecoder = s_jsonDecoder snap, re_xmlDecoder = s_xmlDecoder snap,
        re_yamlDecoder = s_yamlDecoder snap, re_logger = s_logger snap, re_rawResponse = resp, re_body = []\<rparr>"

section \<open>Accessors\<close>

definition StatusCode :: "Response \<Rightarrow> int" where "StatusCode r = rs_status (re_rawResponse r)"
definition Response_Raw :: "Response \<Rightarrow> httpResponse" where "Response_Raw r = re_rawResponse r"
definition Response_Header :: "Response \<Rightarrow> httpHeader" where "Response_Header r = rs_header (re_rawResponse r)"
definition Attempts :: "Response \<Rightarrow> nat" where "Attempts r = re_attempts r"
definition Response_ContentType :: "Response \<Rightarrow> string" where
  "Response_ContentType r = Header_Get (Response_Header r) ''Content-Type''"
definition Response_ContentLength :: "Response \<Rightarrow> nat" where "Response_ContentLength r = length (re_body r)"
definition IsEmpty :: "Response \<Rightarrow> bool" where "IsEmpty r \<longleftrightarrow> Response_ContentLength r = 0"
definition IsSuccess :: "Response \<Rightarrow> bool" where "IsSuccess r \<longleftrightarrow> StatusCode r \<ge> 200 \<and> StatusCode r \<le> 299"
definition IsError :: "Response \<Rightarrow> bool" where "IsError r \<longleftrightarrow> StatusCode r \<ge> 400"
definition IsClientError :: "Response \<Rightarrow> bool" where "IsClientError r \<longleftrightarrow> StatusCode r \<ge> 400 \<and> StatusCode r < 500"
definition IsServerError :: "Response \<Rightarrow> bool" where "IsServerError r \<longleftrightarrow> StatusCode r \<ge> 500"
definition IsRedirect :: "Response \<Rightarrow> bool" where "IsRedirect r \<longleftrightarrow> StatusCode r \<ge> 300 \<and> StatusCode r < 400"
definition Response_Bytes :: "Response \<Rightarrow> bytes" where "Response_Bytes r = re_body r"
definition Response_String :: "Response \<Rightarrow> string" where "Response_String r = re_body r"

section \<open>Media types and decoding\<close>

datatype mediaKind = mediaUnsupported | mediaJSON | mediaXML | mediaYAML

type_synonym parseMedia = "string \<Rightarrow> string option"

definition canonicalMediaType :: "parseMedia \<Rightarrow> string \<Rightarrow> string option" where
  "canonicalMediaType parseMedia v = map_option ToLower (parseMedia v)"

definition classifyMediaType :: "parseMedia \<Rightarrow> string \<Rightarrow> mediaKind" where
  "classifyMediaType parseMedia v =
     (case canonicalMediaType parseMedia v of
        None \<Rightarrow> mediaUnsupported
      | Some m \<Rightarrow>
          if m = ''application/json'' then mediaJSON
          else if m = ''application/xml'' \<or> m = ''text/xml'' then mediaXML
          else if m = ''application/yaml'' then mediaYAML
          else if HasSuffix m ''+json'' then mediaJSON
          else if HasSuffix m ''+xml'' then mediaXML
          else if HasSuffix m ''+yaml'' then mediaYAML
          else mediaUnsupported)"

definition IsContentType :: "parseMedia \<Rightarrow> string \<Rightarrow> Response \<Rightarrow> bool" where
  "IsContentType parseMedia contentType r =
     (case (canonicalMediaType parseMedia (Response_ContentType r), canonicalMediaType parseMedia contentType) of
        (Some actual, Some want) \<Rightarrow> actual = want | _ \<Rightarrow> False)"

definition IsJSON :: "parseMedia \<Rightarrow> Response \<Rightarrow> bool" where
  "IsJSON parseMedia r \<longleftrightarrow> classifyMediaType parseMedia (Response_ContentType r) = mediaJSON"
definition IsXML :: "parseMedia \<Rightarrow> Response \<Rightarrow> bool" where
  "IsXML parseMedia r \<longleftrightarrow> classifyMediaType parseMedia (Response_ContentType r) = mediaXML"
definition IsYAML :: "parseMedia \<Rightarrow> Response \<Rightarrow> bool" where
  "IsYAML parseMedia r \<longleftrightarrow> classifyMediaType parseMedia (Response_ContentType r) = mediaYAML"

text \<open>A response that \<open>newResponse\<close> returns has a body that is not nil, so the nil case is not reached.\<close>

definition decodeWith :: "Decoder \<Rightarrow> goany \<Rightarrow> Response \<Rightarrow> goerr + goany" where
  "decodeWith decoder v r = decoder (MemReader (re_body r)) v"

definition DecodeJSON :: "goany \<Rightarrow> Response \<Rightarrow> goerr + goany" where
  "DecodeJSON v r = decodeWith (re_jsonDecoder r) v r"
definition DecodeXML :: "goany \<Rightarrow> Response \<Rightarrow> goerr + goany" where
  "DecodeXML v r = decodeWith (re_xmlDecoder r) v r"
definition DecodeYAML :: "goany \<Rightarrow> Response \<Rightarrow> goerr + goany" where
  "DecodeYAML v r = decodeWith (re_yamlDecoder r) v r"

definition Decode :: "parseMedia \<Rightarrow> goany \<Rightarrow> Response \<Rightarrow> goerr + goany" where
  "Decode parseMedia v r =
     (case classifyMediaType parseMedia (Response_ContentType r) of
        mediaJSON \<Rightarrow> DecodeJSON v r
      | mediaXML \<Rightarrow> DecodeXML v r
      | mediaYAML \<Rightarrow> DecodeYAML v r
      | mediaUnsupported \<Rightarrow> Inl (wrapped ErrUnsupportedContentType (Response_ContentType r)))"

section \<open>Saving\<close>

record fsOps =
  fs_stat :: "string \<Rightarrow> goerr option"
  fs_mkdirAll :: "string \<Rightarrow> goerr option"
  fs_create :: "string \<Rightarrow> goerr option"
  fs_write :: "string \<Rightarrow> bytes \<Rightarrow> goerr option"

definition ErrNotExist :: sentinel where "ErrNotExist = OtherError ''file does not exist''"

definition filepath_Dir :: "string \<Rightarrow> string" where
  "filepath_Dir p = filepath_Clean (case LastIndexByte p CHR ''/'' of None \<Rightarrow> [] | Some i \<Rightarrow> take (Suc i) p)"

definition save_err :: "string \<Rightarrow> goerr option \<Rightarrow> goerr option" where
  "save_err m e = map_option (Wrapf m) e"

definition saveToFile :: "fsOps \<Rightarrow> string \<Rightarrow> Response \<Rightarrow> goerr option" where
  "saveToFile fs path r =
     (let file = filepath_Clean path; dir = filepath_Dir file;
          prepared = (case fs_stat fs dir of
                        None \<Rightarrow> None
                      | Some e \<Rightarrow> if \<not> errors_is e ErrNotExist then Some (Wrapf ''failed to check directory'' e)
                                 else save_err ''failed to create directory'' (fs_mkdirAll fs dir))
      in case prepared of
           Some e \<Rightarrow> Some e
         | None \<Rightarrow> (case fs_create fs file of
                      Some e \<Rightarrow> Some (Wrapf ''failed to create file'' e)
                    | None \<Rightarrow> save_err ''failed to write response body to file'' (fs_write fs file (re_body r))))"

definition saveToWriter :: "(bytes \<Rightarrow> goerr option) \<Rightarrow> Response \<Rightarrow> goerr option" where
  "saveToWriter w r = save_err ''failed to write response body to io.Writer'' (w (re_body r))"

datatype saveTarget = SavePath string | SaveWriter "bytes \<Rightarrow> goerr option" | SaveOther

fun Save :: "fsOps \<Rightarrow> saveTarget \<Rightarrow> Response \<Rightarrow> goerr option" where
  "Save fs (SavePath p) r = saveToFile fs p r"
| "Save fs (SaveWriter w) r = saveToWriter w r"
| "Save fs SaveOther r = Some (Sentinel ErrUnsupportedSaveType)"

section \<open>Lines\<close>

definition LF :: char where "LF = CHR 0x0A"
definition CR :: char where "CR = CHR 0x0D"

definition dropCR :: "bytes \<Rightarrow> bytes" where
  "dropCR line = (if line \<noteq> [] \<and> last line = CR then butlast line else line)"

function lines_from :: "bytes \<Rightarrow> bytes list" where
  "lines_from remaining =
     (if remaining = [] then []
      else case IndexByte remaining LF of
             Some i \<Rightarrow> dropCR (take i remaining) # lines_from (drop (i + 1) remaining)
           | None \<Rightarrow> [dropCR remaining])"
  by pat_completeness auto
termination by (relation "measure length") auto

declare lines_from.simps [simp del]

definition Response_Lines :: "Response \<Rightarrow> bytes list" where
  "Response_Lines r = lines_from (re_body r)"

definition maxStreamBufferSize :: nat where "maxStreamBufferSize = 512 * 1024"

definition ErrTooLong :: goerr where
  "ErrTooLong = Sentinel (OtherError ''bufio.Scanner: token too long'')"

text \<open>
  \<open>bufio.Scanner\<close> with \<open>ScanLines\<close> and a buffer of \<open>cap\<close> bytes: a line, with its newline, has to fit the
  buffer; a full buffer without a newline ends the scan, even if the body ends there. When the body
  ends, or its reads fail, what is left is the last line; then the error is yielded, if there is one.
\<close>

function scan_lines :: "nat \<Rightarrow> bytes \<Rightarrow> goerr option \<Rightarrow> (bytes option \<times> goerr option) list" where
  "scan_lines cap s err =
     (case IndexByte (take cap s) LF of
        Some i \<Rightarrow> (Some (dropCR (take i s)), None) # scan_lines cap (drop (i + 1) s) err
      | None \<Rightarrow>
          if length s \<ge> cap then [(None, Some ErrTooLong)]
          else (if s = [] then [] else [(Some (dropCR s), None)]) @ (case err of None \<Rightarrow> [] | Some e \<Rightarrow> [(None, Some e)]))"
  by pat_completeness auto
termination
proof (relation "measure (\<lambda>(cap, s, err). length s)")
  fix cap s and err :: "goerr option" and i
  assume "IndexByte (take cap s) LF = Some i"
  then have "s \<noteq> []" by auto
  then show "((cap, drop (i + 1) s, err), cap, s, err) \<in> measure (\<lambda>(cap, s, err). length s)" by simp
qed simp

declare scan_lines.simps [simp del]

definition StreamResponse_Lines :: "httpResponse \<Rightarrow> (bytes option \<times> goerr option) list" where
  "StreamResponse_Lines resp = scan_lines maxStreamBufferSize (rb_data (rs_body resp)) (rb_err (rs_body resp))"

section \<open>Streaming responses\<close>

text \<open>
  The state of a streaming response: whether \<open>cancel\<close> is set, whether the once has run, the stored
  close error, and what running it did, the number of calls of \<open>cancel\<close> and of \<open>Body.Close\<close>.
\<close>

record StreamResponse =
  st_attempts :: nat
  st_hasCancel :: bool
  st_closed :: bool
  st_closeErr :: "goerr option"
  st_rawResponse :: httpResponse
  st_cancels :: nat
  st_bodyCloses :: nat

definition newStreamResponse :: "httpResponse \<Rightarrow> bool \<Rightarrow> StreamResponse" where
  "newStreamResponse resp hasCancel =
     \<lparr>st_attempts = 0, st_hasCancel = hasCancel, st_closed = False, st_closeErr = None, st_rawResponse = resp,
      st_cancels = 0, st_bodyCloses = 0\<rparr>"

definition Stream_Close :: "StreamResponse \<Rightarrow> goerr option \<times> StreamResponse" where
  "Stream_Close r =
     (let r1 = (if st_closed r then r
                else r\<lparr>st_closed := True, st_cancels := st_cancels r + (if st_hasCancel r then 1 else 0),
                       st_bodyCloses := st_bodyCloses r + 1, st_closeErr := rb_closeErr (rs_body (st_rawResponse r))\<rparr>)
      in (st_closeErr r1, r1))"

definition Stream_Body :: "StreamResponse \<Rightarrow> respBody" where "Stream_Body r = rs_body (st_rawResponse r)"
definition Stream_StatusCode :: "StreamResponse \<Rightarrow> int" where "Stream_StatusCode r = rs_status (st_rawResponse r)"
definition Stream_Header :: "StreamResponse \<Rightarrow> httpHeader" where "Stream_Header r = rs_header (st_rawResponse r)"
definition Stream_Attempts :: "StreamResponse \<Rightarrow> nat" where "Stream_Attempts r = st_attempts r"

end
