(* ===== verification/Response_Properties.thy ===== *)
theory Response_Properties
  imports Response
begin

text \<open>
  Properties of responses: buffering returns the whole body or an error, exactly according to the
  limit; the lines of a buffered and of a streamed response are the same lines.
\<close>

section \<open>The body limit\<close>

definition buffer_contract :: "readFrom \<Rightarrow> bool" where
  "buffer_contract rf \<longleftrightarrow> (\<forall>d e. rf d e = (d, e))"

definition fits_limit :: "int \<Rightarrow> httpResponse \<Rightarrow> bool" where
  "fits_limit mx resp \<longleftrightarrow> mx \<le> 0 \<or> rs_contentLength resp \<le> mx \<and> int (length (rb_data (rs_body resp))) \<le> mx"

text \<open>
  An error at the end of the body is not seen if it comes right at the limit and counts as its end.
\<close>

definition clean_end :: "int \<Rightarrow> respBody \<Rightarrow> bool" where
  "clean_end mx b \<longleftrightarrow>
     (case rb_err b of None \<Rightarrow> True | Some e \<Rightarrow> mx > 0 \<and> int (length (rb_data b)) = mx \<and> errors_is e IoEOF)"

lemma eof_is [simp]: "errors_is (Sentinel IoEOF) IoEOF"
  by simp

lemma buffer_result_decoder: "buffer_result rf mx r = Inr r' \<Longrightarrow> re_jsonDecoder r' = re_jsonDecoder r"
  by (auto simp: buffer_result_def Let_def split: if_splits option.splits prod.splits)

lemma buffer_result_exact:
  assumes "buffer_contract rf"
  shows "((\<exists>r'. buffer_result rf mx r = Inr r') \<longleftrightarrow>
      fits_limit mx (re_rawResponse r) \<and> clean_end mx (rs_body (re_rawResponse r))) \<and>
    (\<forall>r'. buffer_result rf mx r = Inr r' \<longrightarrow> re_body r' = rb_data (rs_body (re_rawResponse r)) \<and>
      rs_body (re_rawResponse r') = \<lparr>rb_data = re_body r', rb_err = None, rb_closeErr = None\<rparr> \<and>
      rs_status (re_rawResponse r') = rs_status (re_rawResponse r)) \<and>
    ((\<exists>n. buffer_result rf mx r = Inl (ResponseBodyLimitError mx n)) \<longleftrightarrow> \<not> fits_limit mx (re_rawResponse r))"
proof -
  let ?b = "rs_body (re_rawResponse r)"
  have rf: "rf d e = (d, e)" for d e using assms by (simp add: buffer_contract_def)
  show ?thesis
  proof (cases "mx > 0")
    case False
    then show ?thesis
      by (cases "rb_err ?b") (auto simp: buffer_result_def Let_def rf fits_limit_def clean_end_def buffered_response_def wrap2_def)
  next
    case True
    consider (less) "int (length (rb_data ?b)) < mx" | (eq) "int (length (rb_data ?b)) = mx" | (more) "int (length (rb_data ?b)) > mx"
      by linarith
    then show ?thesis
    proof cases
      case less
      then show ?thesis
        using True by (cases "rb_err ?b")
          (auto simp: buffer_result_def Let_def rf limit_read_def fits_limit_def clean_end_def buffered_response_def wrap2_def)
    next
      case eq
      then have "take (nat mx) (rb_data ?b) = rb_data ?b" by auto
      then show ?thesis
        using True eq by (cases "rb_err ?b")
          (auto simp: buffer_result_def Let_def rf limit_read_def probe_def fits_limit_def clean_end_def buffered_response_def wrap2_def)
    next
      case more
      then have "length (take (nat mx) (rb_data ?b)) = nat mx" "nat mx < length (rb_data ?b)" using True by auto
      then show ?thesis
        using True more by (cases "rb_err ?b")
          (auto simp: buffer_result_def Let_def rf limit_read_def probe_def fits_limit_def clean_end_def)
    qed
  qed
qed

text \<open>
  Claim C28: buffering a response succeeds exactly when the body fits the limit, by its declared and by
  its actual length, and ends without an error; the buffered body is then the whole body, which can
  be read again from the raw response. The transport body is closed once on every path. It fails with a limit error exactly when the limit is
  positive and exceeded. (The pooled buffer must hold what was read into it.)
\<close>

theorem buffer_body_exact:
  assumes "buffer_contract rf"
  shows "((\<exists>r'. fst (bufferBody rf mx r) = Inr r') \<longleftrightarrow>
      fits_limit mx (re_rawResponse r) \<and> clean_end mx (rs_body (re_rawResponse r))) \<and>
    (\<forall>r'. fst (bufferBody rf mx r) = Inr r' \<longrightarrow> re_body r' = rb_data (rs_body (re_rawResponse r)) \<and>
      rs_body (re_rawResponse r') = \<lparr>rb_data = re_body r', rb_err = None, rb_closeErr = None\<rparr> \<and>
      rs_status (re_rawResponse r') = rs_status (re_rawResponse r)) \<and>
    ((\<exists>n. fst (bufferBody rf mx r) = Inl (ResponseBodyLimitError mx n)) \<longleftrightarrow> \<not> fits_limit mx (re_rawResponse r)) \<and>
    snd (bufferBody rf mx r) = [rs_body (re_rawResponse r)]"
  using buffer_result_exact[OF assms, of mx r] by (simp add: bufferBody_def Let_def)

theorem buffer_body_exact_witness:
  "\<exists>r'. fst (bufferBody Pair 2 (\<lparr>re_attempts = 1, re_jsonDecoder = (\<lambda>_. Inr), re_xmlDecoder = (\<lambda>_. Inr), re_yamlDecoder = (\<lambda>_. Inr),
     re_logger = None, re_rawResponse = \<lparr>rs_status = 200, rs_header = [], rs_contentLength = -1,
       rs_body = \<lparr>rb_data = ''ab'', rb_err = None, rb_closeErr = None\<rparr>\<rparr>, re_body = []\<rparr>)) = Inr r'"
  by (rule buffer_body_exact[THEN conjunct1, THEN iffD2])
    (simp_all add: buffer_contract_def fits_limit_def clean_end_def)

section \<open>Lines\<close>

text \<open>The lines of a body by splitting it at newlines; a final newline starts no line.\<close>

definition body_lines :: "bytes \<Rightarrow> bytes list" where
  "body_lines s = map dropCR (let ls = SplitByte LF s in if last ls = [] then butlast ls else ls)"

lemma SplitByte_IndexByte:
  "IndexByte s b = Some i \<Longrightarrow> SplitByte b s = take i s # SplitByte b (drop (Suc i) s)"
  by (induction s arbitrary: i) (auto split: if_splits list.splits)

lemma SplitByte_nonempty [simp]: "SplitByte b s \<noteq> []"
  by (induction s) (auto split: list.splits)

lemma lines_from_body_lines: "lines_from s = body_lines s"
proof (induction s rule: lines_from.induct)
  case (1 s)
  show ?case
  proof (cases "IndexByte s LF")
    case None
    then have "SplitByte LF s = [s]" by (simp add: SplitByte_notin IndexByte_None)
    then show ?thesis using None by (simp add: lines_from.simps[of s] body_lines_def)
  next
    case (Some i)
    then have "s \<noteq> []" by auto
    then show ?thesis
      using Some 1[OF \<open>s \<noteq> []\<close> Some] SplitByte_IndexByte[OF Some]
      by (simp add: lines_from.simps[of s] body_lines_def Let_def)
  qed
qed

definition err_items :: "goerr option \<Rightarrow> (bytes option \<times> goerr option) list" where
  "err_items err = (case err of None \<Rightarrow> [] | Some e \<Rightarrow> [(None, Some e)])"

lemma IndexByte_take:
  "IndexByte (take n s) b = (case IndexByte s b of Some i \<Rightarrow> if i < n then Some i else None | None \<Rightarrow> None)"
proof (induction s arbitrary: n)
  case (Cons c s)
  then show ?case by (cases n) (auto split: option.splits)
qed simp

lemma scan_lines_fit:
  assumes "list_all (\<lambda>l. length l < cap) (SplitByte LF s)"
  shows "scan_lines cap s err = map (\<lambda>l. (Some l, None)) (lines_from s) @ err_items err"
  using assms
proof (induction cap s err rule: scan_lines.induct)
  case (1 cap s err)
  show ?case
  proof (cases "IndexByte s LF")
    case None
    then have "SplitByte LF s = [s]" by (simp add: SplitByte_notin IndexByte_None)
    then show ?thesis
      using None 1(2) by (simp add: scan_lines.simps[of cap s] lines_from.simps[of s] IndexByte_take err_items_def)
  next
    case (Some i)
    have sp: "SplitByte LF s = take i s # SplitByte LF (drop (Suc i) s)" by (rule SplitByte_IndexByte[OF Some])
    have "i < length s" using Some by (auto dest: IndexByte_Some)
    then have i: "i < cap" using 1(2) sp by simp
    then have "IndexByte (take cap s) LF = Some i" by (simp add: IndexByte_take Some)
    moreover have "s \<noteq> []" using Some by auto
    ultimately show ?thesis
      using 1(1)[of i] 1(2) sp Some by (simp add: scan_lines.simps[of cap s] lines_from.simps[of s])
  qed
qed

text \<open>
  Claim C29: the lines of a buffered response are the pieces of its body between newlines, without
  trailing carriage returns and without an empty last piece; a streamed response yields the same
  lines of the same bytes, then the error of the body if there is one, as long as every line is
  shorter than the stream buffer.
\<close>

theorem stream_lines_agree:
  assumes "list_all (\<lambda>l. length l < maxStreamBufferSize) (SplitByte LF (rb_data (rs_body resp)))"
    and "re_body r = rb_data (rs_body resp)"
  shows "Response_Lines r = body_lines (rb_data (rs_body resp)) \<and>
    StreamResponse_Lines resp = map (\<lambda>l. (Some l, None)) (Response_Lines r) @
      (case rb_err (rs_body resp) of None \<Rightarrow> [] | Some e \<Rightarrow> [(None, Some e)])"
  using assms scan_lines_fit[OF assms(1)]
  by (simp add: Response_Lines_def StreamResponse_Lines_def lines_from_body_lines err_items_def)

theorem stream_lines_agree_witness:
  "StreamResponse_Lines \<lparr>rs_status = 200, rs_header = [], rs_contentLength = -1,
     rs_body = \<lparr>rb_data = ''a'' @ [CR, LF, LF] @ ''b'', rb_err = Some (Sentinel ContextCanceled), rb_closeErr = None\<rparr>\<rparr> =
   [(Some ''a'', None), (Some [], None), (Some ''b'', None), (None, Some (Sentinel ContextCanceled))]"
proof -
  let ?resp = "\<lparr>rs_status = 200, rs_header = [], rs_contentLength = -1,
     rs_body = \<lparr>rb_data = ''a'' @ [CR, LF, LF] @ ''b'', rb_err = Some (Sentinel ContextCanceled), rb_closeErr = None\<rparr>\<rparr>"
  let ?r = "\<lparr>re_attempts = 1, re_jsonDecoder = (\<lambda>_. Inr), re_xmlDecoder = (\<lambda>_. Inr), re_yamlDecoder = (\<lambda>_. Inr),
     re_logger = None, re_rawResponse = ?resp, re_body = ''a'' @ [CR, LF, LF] @ ''b''\<rparr>"
  have "list_all (\<lambda>l. length l < maxStreamBufferSize) (SplitByte LF (rb_data (rs_body ?resp)))"
    by (simp add: maxStreamBufferSize_def LF_def CR_def)
  then show ?thesis
    using stream_lines_agree[of ?resp ?r] by (simp add: body_lines_def Let_def LF_def CR_def dropCR_def)
qed

text \<open>A line that fills the stream buffer ends the stream with an error, and a buffered response returns it.\<close>

lemma long_line_ends_stream:
  assumes "length s \<ge> cap" and "LF \<notin> set s"
  shows "scan_lines cap s err = [(None, Some ErrTooLong)]"
  using assms by (simp add: scan_lines.simps[of cap s] IndexByte_take IndexByte_None[THEN iffD2])

end
