(* ===== verification/Delivery.thy ===== *)
theory Delivery
  imports Request_Plan Response
begin

text \<open>
  Model of the exits \<open>Send\<close> and \<open>SendStream\<close> of \<open>delivery.go\<close>: the delivery snapshot, opening a
  delivery, and what is done with the result of \<open>do\<close>. The environment is indexed by the timeout of
  the request, since \<open>prepareDeliveryContext\<close> derives the context from it; \<open>en_do\<close> stands for the
  \<open>http.Client\<close> of the snapshot. What the exits release is recorded: the response bodies they close
  the contexts derived with a cancel function and the calls of \<open>cancel\<close>. Log output is not modelled.
\<close>

section \<open>Snapshots\<close>

record 'o deliverySnapshot =
  dl_plan :: "'o requestPlan"
  dl_client :: "'o clientSnapshot"
  dl_middlewares :: "'o Middleware list"
  dl_retryPolicy :: "'o RetryPolicy"
  dl_timeout :: int
  dl_maxResponseBodyBytes :: int

record 'o openedDelivery =
  od_request :: "'o httpRequest"
  od_client :: "'o clientSnapshot"
  od_middlewares :: "'o Middleware list"
  od_retryPolicy :: "'o RetryPolicy"
  od_maxResponseBodyBytes :: int
  od_hasCancel :: bool
  od_env :: "'o denv"

text \<open>What the package is linked with: the ordered object package, host parsing, mime and the pooled buffer.\<close>

record 'o linked =
  lk_ob :: "'o oo_ops"
  lk_parseHost :: "string \<Rightarrow> string option"
  lk_mime :: mimeLib
  lk_readFrom :: readFrom

definition sanitized :: "(string \<Rightarrow> string option) \<Rightarrow> goerr \<Rightarrow> goerr" where
  "sanitized ph e = the (sanitizeURLDiagnosticError ph (Some e))"

definition validateDeliveryPreflightFacts :: "requestBodyPlan \<Rightarrow> httpHeader \<Rightarrow> goerr option" where
  "validateDeliveryPreflightFacts body headers =
     (if bp_kind body \<noteq> requestBodyMultipart then validateDeliveryStaticFacts body headers
      else case bp_multipart body of
             None \<Rightarrow> Some previewInvalidBodyError
           | Some m \<Rightarrow>
               if mp_canReplay m \<and> mp_replayMaxBytes m < 0 then Some previewInvalidBodyError
               else if mp_boundary m \<noteq> [] \<and> \<not> validMultipartBoundary (mp_boundary m) then Some previewInvalidBodyError
               else None)"

definition compileDeliverySnapshot :: "'o linked \<Rightarrow> 'o Client \<Rightarrow> 'o RequestBuilder \<Rightarrow> goerr + 'o deliverySnapshot" where
  "compileDeliverySnapshot lk c b =
     (case b_preparationErr b of
        Some e \<Rightarrow> Inl e
      | None \<Rightarrow>
          (let snap = snapshot (lk_ob lk) c
           in case compileRequestPlanSnapshot (lk_parseHost lk) (lk_ob lk) snap b of
                Inl (RequestPlanCreationError cause) \<Rightarrow> Inl (wrap2 ErrRequestCreationFailed (sanitized (lk_parseHost lk) cause))
              | Inl err \<Rightarrow> Inl err
              | Inr plan \<Rightarrow>
                  (case validateDeliveryPreflightFacts (pl_body plan) (bodyPreflightHeaders plan) of
                     Some err \<Rightarrow> Inl err
                   | None \<Rightarrow>
                       Inr \<lparr>dl_plan = plan, dl_client = snap, dl_middlewares = b_middlewares b,
                            dl_retryPolicy = RetryPolicy_normalize (if b_hasRetryPolicy b then b_retryPolicy b else s_retry snap),
                            dl_timeout = b_timeout b, dl_maxResponseBodyBytes = b_maxResponseBodyBytes b\<rparr>)))"

section \<open>Opening\<close>

definition prepareDeliveryContext :: "(int \<Rightarrow> 'o denv) \<Rightarrow> int \<Rightarrow> 'o denv \<times> bool" where
  "prepareDeliveryContext env timeout = (if timeout > 0 then (env timeout, True) else (env 0, False))"

definition snapshot_codecs :: "mimeLib \<Rightarrow> 'o clientSnapshot \<Rightarrow> codecs" where
  "snapshot_codecs mime snap =
     \<lparr>cd_json = s_jsonEncoder snap, cd_xml = s_xmlEncoder snap, cd_yaml = s_yamlEncoder snap, cd_mime = mime\<rparr>"

text \<open>The result, the number of derived contexts and the number of calls of \<open>cancel\<close> by \<open>cancelOnError\<close>.\<close>

definition openDelivery ::
    "'o linked \<Rightarrow> (int \<Rightarrow> 'o denv) \<Rightarrow> 'o deliverySnapshot \<Rightarrow> (goerr + 'o openedDelivery) \<times> nat \<times> nat" where
  "openDelivery lk env s =
     (let plan = dl_plan s; ph = lk_parseHost lk; url = URL_String (pl_targetURL plan)
      in case (NewRequest ph (pl_method plan) url SrcNil :: goerr + 'o httpRequest) of
           Inl e \<Rightarrow> (Inl (wrap2 ErrRequestCreationFailed (sanitized ph e)), 0, 0)
         | Inr _ \<Rightarrow>
             (let (denv, hasCancel) = prepareDeliveryContext env (dl_timeout s);
                  derived = (if hasCancel then 1 else 0);
                  cancelOnError = (if hasCancel then 1 else 0)
              in case buildDeliveryBody (snapshot_codecs (lk_mime lk) (dl_client s)) (pl_body plan) (bodyPreflightHeaders plan) of
                   Inl e \<Rightarrow> (Inl e, derived, cancelOnError)
                 | Inr preparedBody \<Rightarrow>
                     (case NewRequest ph (pl_method plan) url (mb_body preparedBody) of
                        Inl e \<Rightarrow> (Inl (wrap2 ErrRequestCreationFailed (sanitized ph e)), derived, cancelOnError)
                      | Inr req \<Rightarrow>
                          (Inr \<lparr>od_request = applyPlanAuthAndHeaders (lk_ob lk)
                                  (req\<lparr>rq_getBody := mb_getBody preparedBody, rq_contentLength := mb_contentLength preparedBody\<rparr>)
                                  plan (mb_contentType preparedBody),
                                od_client = dl_client s, od_middlewares = dl_middlewares s,
                                od_retryPolicy = dl_retryPolicy s, od_maxResponseBodyBytes = dl_maxResponseBodyBytes s,
                                od_hasCancel = hasCancel, od_env = denv\<rparr>, derived, 0))))"

definition opened_do :: "'o openedDelivery \<Rightarrow> (httpResponse option \<times> nat \<times> goerr option) \<times> 'o dstate" where
  "opened_do d = do_delivery (od_env d) (od_retryPolicy d) (od_middlewares d) (s_middlewares (od_client d)) (od_request d)"

section \<open>The exits\<close>

record 'o released =
  rl_derived :: nat
  rl_cancels :: nat
  rl_closed :: "respBody list"
  rl_trace :: "'o event list"

definition nothing_released :: "'o released" where
  "nothing_released = \<lparr>rl_derived = 0, rl_cancels = 0, rl_closed = [], rl_trace = []\<rparr>"

definition Send :: "'o linked \<Rightarrow> (int \<Rightarrow> 'o denv) option \<Rightarrow> 'o Client \<Rightarrow> 'o RequestBuilder \<Rightarrow> (goerr + Response) \<times> 'o released" where
  "Send lk ctx c b =
     (case ctx of
        None \<Rightarrow> (Inl (Sentinel ErrRequestCreationFailed), nothing_released)
      | Some env \<Rightarrow>
          (case compileDeliverySnapshot lk c b of
             Inl e \<Rightarrow> (Inl e, nothing_released)
           | Inr snap \<Rightarrow>
               (case openDelivery lk env snap of
                  (Inl e, derived, cancels) \<Rightarrow> (Inl e, nothing_released\<lparr>rl_derived := derived, rl_cancels := cancels\<rparr>)
                | (Inr opened, derived, _) \<Rightarrow>
                    (let deferred = (if od_hasCancel opened then 1 else 0);
                         ((resp, attempts, err), ds) = opened_do opened;
                         rel = \<lparr>rl_derived = derived, rl_cancels = deferred, rl_closed = [], rl_trace = ds_trace ds\<rparr>
                     in case err of
                          Some e \<Rightarrow> (Inl e, rel\<lparr>rl_closed := (case resp of None \<Rightarrow> [] | Some r \<Rightarrow> [rs_body r])\<rparr>)
                        | None \<Rightarrow>
                            (case resp of
                               None \<Rightarrow> (Inl (Sentinel ErrResponseNil), rel)
                             | Some r \<Rightarrow>
                                 (case newResponse (lk_readFrom lk) r (od_client opened) (od_maxResponseBodyBytes opened) of
                                    (response, closes) \<Rightarrow>
                                      (map_sum id (\<lambda>x. x\<lparr>re_attempts := attempts\<rparr>) response, rel\<lparr>rl_closed := closes\<rparr>)))))))"

text \<open>
  \<open>SendStream\<close> returns a response beside an error when delivery did: it is closed already and its body
  is \<open>http.NoBody\<close>.
\<close>

definition SendStream ::
    "'o linked \<Rightarrow> (int \<Rightarrow> 'o denv) option \<Rightarrow> 'o Client \<Rightarrow> 'o RequestBuilder \<Rightarrow>
     (StreamResponse option \<times> goerr option) \<times> 'o released" where
  "SendStream lk ctx c b =
     (case ctx of
        None \<Rightarrow> ((None, Some (Sentinel ErrRequestCreationFailed)), nothing_released)
      | Some env \<Rightarrow>
          (case compileDeliverySnapshot lk c b of
             Inl e \<Rightarrow> ((None, Some e), nothing_released)
           | Inr snap \<Rightarrow>
               (case openDelivery lk env snap of
                  (Inl e, derived, cancels) \<Rightarrow> ((None, Some e), nothing_released\<lparr>rl_derived := derived, rl_cancels := cancels\<rparr>)
                | (Inr opened, derived, _) \<Rightarrow>
                    (let ((resp, attempts, err), ds) = opened_do opened;
                         rel = \<lparr>rl_derived = derived, rl_cancels = 0, rl_closed = [], rl_trace = ds_trace ds\<rparr>
                     in case resp of
                          None \<Rightarrow> ((None, Some (case err of Some e \<Rightarrow> e | None \<Rightarrow> Sentinel ErrResponseNil)),
                                   rel\<lparr>rl_cancels := if od_hasCancel opened then 1 else 0\<rparr>)
                        | Some r \<Rightarrow>
                            (let response = (newStreamResponse r (od_hasCancel opened))\<lparr>st_attempts := attempts\<rparr>
                             in case err of
                                  None \<Rightarrow> ((Some response, None), rel)
                                | Some e \<Rightarrow>
                                    (let closedResp = snd (Stream_Close response)
                                     in ((Some (closedResp\<lparr>st_rawResponse := r\<lparr>rs_body := NoBody\<rparr>\<rparr>), Some e),
                                         rel\<lparr>rl_cancels := st_cancels closedResp,
                                             rl_closed := replicate (st_bodyCloses closedResp) (rs_body r)\<rparr>)))))))"

end
