(* ===== verification/Delivery_Exits.thy ===== *)
theory Delivery_Exits
  imports Delivery Response_Properties Delivery_Properties Plan_Delivered
begin

text \<open>
  Properties of \<open>Send\<close> and \<open>SendStream\<close>: what they release on every path, what the caller of
  \<open>SendStream\<close> owns, and what a successful \<open>Send\<close> returns.
\<close>

section \<open>Middlewares that keep track of bodies\<close>

text \<open>A handler that starts with nothing open leaves open at most the body of the response it returns.\<close>

definition releasing :: "'o handler \<Rightarrow> bool" where
  "releasing h \<longleftrightarrow>
     (\<forall>req ds res req1 ds1. unreleased (ds_trace ds) = [] \<longrightarrow> h req ds = (res, req1, ds1) \<longrightarrow>
        unreleased (ds_trace ds1) = [] \<or> (\<exists>r. fst res = Some r \<and> unreleased (ds_trace ds1) = [rs_body r]))"

lemma releasingD:
  assumes "releasing h" and "unreleased (ds_trace ds) = []" and "h req ds = (res, req1, ds1)"
  shows "unreleased (ds_trace ds1) = [] \<or> (\<exists>r. fst res = Some r \<and> unreleased (ds_trace ds1) = [rs_body r])"
  using assms unfolding releasing_def by blast

locale releasing_middleware =
  fixes mw :: "'o Middleware"
  assumes keeps_releasing: "releasing h \<Longrightarrow> releasing (mw h)"

lemma wrap_releasing:
  assumes "\<forall>mw \<in> set mws. releasing_middleware mw" and "releasing h"
  shows "releasing (wrap_handlers mws h)"
  unfolding wrap_handlers_foldr using assms
  by (induction mws) (auto simp: releasing_middleware.keeps_releasing)

lemma releasing_request_change: "releasing h \<Longrightarrow> releasing (\<lambda>req. h (f req))"
  unfolding releasing_def by blast

interpretation add_headers: releasing_middleware "AddHeaders headers" for headers
  by unfold_locales (unfold AddHeaders_def, rule releasing_request_change)

interpretation add_cookies: releasing_middleware "AddCookies cookies" for cookies
  by unfold_locales (unfold AddCookies_def, rule releasing_request_change)

lemma finalHandler_releasing: "releasing (finalHandler env retry)"
  unfolding releasing_def using finalHandler_releases by blast

lemma unreleased_closeBody [simp]: "unreleased (ds_trace (closeBody b ds)) = unreleased (ds_trace ds)"
  by (simp add: closeBody_def unreleased_def split: reqBody.split)

lemma do_delivery_releases:
  assumes "\<forall>mw \<in> set requestMws \<union> set clientMws. releasing_middleware mw"
    and "do_delivery env retry requestMws clientMws req = ((resp, n, err), ds)"
  shows "unreleased (ds_trace ds) = [] \<or> (\<exists>r. resp = Some r \<and> unreleased (ds_trace ds) = [rs_body r])"
proof -
  let ?h = "wrap_handlers clientMws (wrap_handlers requestMws (finalHandler env retry))"
  obtain res req1 ds1 where h: "?h (wrap_original req) initial_dstate = (res, req1, ds1)" by (metis surj_pair)
  have "releasing ?h" using assms(1) by (simp add: wrap_releasing finalHandler_releasing)
  then have "unreleased (ds_trace ds1) = [] \<or> (\<exists>r. fst res = Some r \<and> unreleased (ds_trace ds1) = [rs_body r])"
    by (rule releasingD[of ?h initial_dstate "wrap_original req" res req1 ds1])
      (simp_all add: initial_dstate_def unreleased_def h[unfolded initial_dstate_def])
  moreover have "unreleased (ds_trace ds) = unreleased (ds_trace ds1)" "resp = fst res"
    using assms(2) h by (auto simp: do_delivery_def Let_def split: prod.splits)
  ultimately show ?thesis by simp
qed

section \<open>Opening\<close>

lemma openDelivery_contexts:
  "openDelivery lk env s = (Inl e, derived, cancels) \<Longrightarrow> cancels = derived"
  "openDelivery lk env s = (Inr d, derived, cancels) \<Longrightarrow>
     derived = of_bool (od_hasCancel d) \<and> cancels = 0 \<and>
     od_client d = dl_client s \<and> od_middlewares d = dl_middlewares s \<and>
     od_maxResponseBodyBytes d = dl_maxResponseBodyBytes s"
  by (auto simp: openDelivery_def Let_def split: sum.splits prod.splits)

lemma compileDeliverySnapshot_fields:
  "compileDeliverySnapshot lk c b = Inr s \<Longrightarrow>
     b_preparationErr b = None \<and> dl_client s = snapshot (lk_ob lk) c \<and> dl_middlewares s = b_middlewares b \<and>
     dl_maxResponseBodyBytes s = b_maxResponseBodyBytes b"
  by (auto simp: compileDeliverySnapshot_def Let_def split: option.splits sum.splits goerr.splits)

lemma snapshot_middlewares: "s_middlewares (snapshot ob c) = c_middlewares c"
  by (simp add: snapshot_def)

definition package_middlewares :: "'o Client \<Rightarrow> 'o RequestBuilder \<Rightarrow> 'o Middleware set" where
  "package_middlewares c b = set (b_middlewares b) \<union> set (c_middlewares c)"

lemma opened_do_releases:
  assumes "\<forall>mw \<in> package_middlewares c b. releasing_middleware mw"
    and "compileDeliverySnapshot lk c b = Inr s" and "openDelivery lk env s = (Inr d, derived, cancels)"
    and "opened_do d = ((resp, n, err), ds)"
  shows "unreleased (ds_trace ds) = [] \<or> (\<exists>r. resp = Some r \<and> unreleased (ds_trace ds) = [rs_body r])"
  using assms(1,4) compileDeliverySnapshot_fields[OF assms(2)] openDelivery_contexts(2)[OF assms(3)]
  by (intro do_delivery_releases[of "od_middlewares d" "s_middlewares (od_client d)"])
    (auto simp: opened_do_def package_middlewares_def snapshot_middlewares)

section \<open>Exits\<close>

text \<open>The transport bodies that an exit has neither drained nor closed.\<close>

definition left_open :: "'o released \<Rightarrow> respBody list" where
  "left_open rel = foldl (\<lambda>bs b. remove1 b bs) (unreleased (rl_trace rel)) (rl_closed rel)"

lemma left_open_nothing [simp]: "left_open (nothing_released\<lparr>rl_derived := d, rl_cancels := n\<rparr>) = []" "left_open nothing_released = []"
  by (simp_all add: left_open_def nothing_released_def unreleased_def)

text \<open>
  Claim C30: on every path, errors included, \<open>Send\<close> cancels the context it derived and leaves no
  response body of the transport open: each has been drained and closed between attempts or is
  closed at the end. (Middlewares must not open responses of their own; \<open>AddHeaders\<close> and
  \<open>AddCookies\<close> do not.)
\<close>

theorem send_releases_everything:
  assumes "\<forall>mw \<in> package_middlewares c b. releasing_middleware mw"
  shows "rl_cancels (snd (Send lk ctx c b)) = rl_derived (snd (Send lk ctx c b)) \<and>
    left_open (snd (Send lk ctx c b)) = []"
proof (cases "\<exists>env s d x. ctx = Some env \<and> compileDeliverySnapshot lk c b = Inr s \<and> openDelivery lk env s = (Inr d, x)")
  case False
  then show ?thesis
    by (auto simp: Send_def nothing_released_def left_open_def unreleased_def openDelivery_contexts
        split: option.splits sum.splits prod.splits)
next
  case True
  then obtain env s d derived cancels where
    s: "ctx = Some env" "compileDeliverySnapshot lk c b = Inr s" "openDelivery lk env s = (Inr d, derived, cancels)"
    by (metis surj_pair)
  obtain resp n err ds where d: "opened_do d = ((resp, n, err), ds)" by (metis surj_pair)
  note openDelivery_contexts(2)[OF s(3)] opened_do_releases[OF assms s(2,3) d]
  then show ?thesis
    by (auto simp: Send_def s d left_open_def newResponse_def bufferBody_def Let_def split: option.splits)
qed

lemma Stream_Close_again: "snd (Stream_Close (snd (Stream_Close r))) = snd (Stream_Close r)"
  by (simp add: Stream_Close_def Let_def)

lemma Stream_Close_idem: "((\<lambda>r. snd (Stream_Close r)) ^^ Suc k) r = snd (Stream_Close r)"
  by (induction k) (simp_all add: Stream_Close_again)

lemma new_stream_close:
  "st_bodyCloses (snd (Stream_Close ((newStreamResponse r hasCancel)\<lparr>st_attempts := n\<rparr>))) = 1"
  "st_cancels (snd (Stream_Close ((newStreamResponse r hasCancel)\<lparr>st_attempts := n\<rparr>))) = of_bool hasCancel"
  "st_closed (snd (Stream_Close ((newStreamResponse r hasCancel)\<lparr>st_attempts := n\<rparr>)))"
  "Stream_Body ((newStreamResponse r hasCancel)\<lparr>st_attempts := n\<rparr>) = rs_body r"
  by (simp_all add: Stream_Close_def newStreamResponse_def Stream_Body_def)

text \<open>
  Claim C31: \<open>SendStream\<close> returns without an error only with a response that owns everything still open:
  the one transport body left is its body, and closing it, any number of times, closes that body
  once and cancels the derived context. If it returns an error, nothing is left open, and a response
  returned beside the error is closed and has an empty body.
\<close>

theorem stream_owns_what_is_open:
  assumes "\<forall>mw \<in> package_middlewares c b. releasing_middleware mw"
    and "SendStream lk ctx c b = ((s, err), rel)"
  shows "(case err of
      None \<Rightarrow> (\<exists>r. s = Some r \<and> (left_open rel = [] \<or> left_open rel = [Stream_Body r]) \<and> rl_cancels rel = 0 \<and>
        (\<forall>k. st_bodyCloses (((\<lambda>r. snd (Stream_Close r)) ^^ Suc k) r) = 1 \<and>
             st_cancels (((\<lambda>r. snd (Stream_Close r)) ^^ Suc k) r) = rl_derived rel))
    | Some e \<Rightarrow> left_open rel = [] \<and> rl_cancels rel = rl_derived rel \<and>
        (s = None \<or> (\<exists>r. s = Some r \<and> st_closed r \<and> Stream_Body r = NoBody)))"
proof (cases "\<exists>env s d x. ctx = Some env \<and> compileDeliverySnapshot lk c b = Inr s \<and> openDelivery lk env s = (Inr d, x)")
  case False
  then show ?thesis
    using assms(2)
    by (auto simp: SendStream_def nothing_released_def left_open_def unreleased_def openDelivery_contexts
        split: option.splits sum.splits prod.splits)
next
  case True
  then obtain env sn d derived cancels where
    s: "ctx = Some env" "compileDeliverySnapshot lk c b = Inr sn" "openDelivery lk env sn = (Inr d, derived, cancels)"
    by (metis surj_pair)
  obtain resp n e ds where d: "opened_do d = ((resp, n, e), ds)" by (metis surj_pair)
  note derived = openDelivery_contexts(2)[OF s(3)] and un = opened_do_releases[OF assms(1) s(2,3) d]
  show ?thesis
  proof (cases resp)
    case None
    then show ?thesis
      using assms(2) derived un by (auto simp: SendStream_def s d Let_def left_open_def)
  next
    case (Some r)
    let ?r = "(newStreamResponse r (od_hasCancel d))\<lparr>st_attempts := n\<rparr>"
    note cl = new_stream_close[where r = r and hasCancel = "od_hasCancel d" and n = n]
    have op: "left_open \<lparr>rl_derived = derived, rl_cancels = 0, rl_closed = [], rl_trace = ds_trace ds\<rparr> \<in> {[], [rs_body r]}"
      and cls: "left_open \<lparr>rl_derived = derived, rl_cancels = derived, rl_closed = [rs_body r], rl_trace = ds_trace ds\<rparr> = []"
      using un Some by (auto simp: left_open_def)
    show ?thesis
    proof (cases e)
      case None
      then have "s = Some ?r" "err = None" "rel = \<lparr>rl_derived = derived, rl_cancels = 0, rl_closed = [], rl_trace = ds_trace ds\<rparr>"
        using assms(2) Some by (simp_all add: SendStream_def s d)
      then show ?thesis
        using op cl derived by (simp add: Stream_Close_idem del: funpow.simps)
    next
      case (Some x)
      then have "s = Some ((snd (Stream_Close ?r))\<lparr>st_rawResponse := r\<lparr>rs_body := NoBody\<rparr>\<rparr>)" "err = Some x"
        "rel = \<lparr>rl_derived = derived, rl_cancels = derived, rl_closed = [rs_body r], rl_trace = ds_trace ds\<rparr>"
        using assms(2) \<open>resp = Some r\<close> cl derived by (simp_all add: SendStream_def s d)
      then show ?thesis
        using cls cl(3) by (simp add: Stream_Body_def)
    qed
  qed
qed

text \<open>
  Claim C40: a successful \<open>Send\<close> returns the response delivery ended with: no preparation error was
  recorded, the body is the whole body of that response and within the limit of the request, and the
  status, the number of attempts and the decoders are those of the delivery and of the client.
\<close>

theorem send_returns_whole_body:
  assumes "buffer_contract (lk_readFrom lk)" and "Send lk (Some env) c b = (Inr r, rel)"
  shows "b_preparationErr b = None \<and>
    (\<exists>s d x resp ds. compileDeliverySnapshot lk c b = Inr s \<and> openDelivery lk env s = (Inr d, x) \<and>
      opened_do d = ((Some resp, Attempts r, None), ds) \<and>
      Response_Bytes r = rb_data (rs_body resp) \<and> StatusCode r = rs_status resp \<and>
      fits_limit (b_maxResponseBodyBytes b) resp \<and> re_jsonDecoder r = c_jsonDecoder c)"
proof -
  obtain s d x resp n ds r0 where
    s: "compileDeliverySnapshot lk c b = Inr s" "openDelivery lk env s = (Inr d, x)"
    and d: "opened_do d = ((Some resp, n, None), ds)"
    and r0: "fst (newResponse (lk_readFrom lk) resp (od_client d) (od_maxResponseBodyBytes d)) = Inr r0" "r = r0\<lparr>re_attempts := n\<rparr>"
    using assms(2) by (auto simp: Send_def Let_def map_sum_def split: sum.splits prod.splits option.splits)
  obtain der ca where "x = (der, ca)" by (cases x)
  note fs = openDelivery_contexts(2)[OF s(2)[unfolded this]] compileDeliverySnapshot_fields[OF s(1)]
  let ?r = "\<lparr>re_attempts = 0, re_jsonDecoder = s_jsonDecoder (od_client d), re_xmlDecoder = s_xmlDecoder (od_client d),
        re_yamlDecoder = s_yamlDecoder (od_client d), re_logger = s_logger (od_client d), re_rawResponse = resp, re_body = []\<rparr>"
  have b: "buffer_result (lk_readFrom lk) (b_maxResponseBodyBytes b) ?r = Inr r0"
    using r0(1) fs by (simp add: newResponse_def bufferBody_def Let_def)
  have dec: "re_jsonDecoder r0 = c_jsonDecoder c"
    using buffer_result_decoder[OF b] fs by (simp add: snapshot_def)
  show ?thesis
    using buffer_result_exact[OF assms(1), of "b_maxResponseBodyBytes b" ?r] b s d r0(2) fs dec
    by (auto simp: Response_Bytes_def StatusCode_def Attempts_def)
qed

section \<open>A delivery\<close>

definition ex_linked :: "(string, string list) alist linked" where
  "ex_linked = \<lparr>lk_ob = dalist_ops, lk_parseHost = Some,
     lk_mime = \<lparr>mi_escapeQuotes = id, mi_formatDisposition = (\<lambda>a b. a @ b), mi_validMediaType = (\<lambda>_. True), mi_randomBoundary = ''b''\<rparr>,
     lk_readFrom = Pair\<rparr>"

definition ex_answers :: "int \<Rightarrow> (string, string list) alist denv" where
  "ex_answers timeout =
     \<lparr>en_do = (\<lambda>n req. (Some (status_response 200 ''ok''), None)), en_ctx = (\<lambda>_. None),
      en_clock = (\<lambda>_. ex_clock), en_parseHost = Some\<rparr>"

definition ex_send :: "(string, string list) alist RequestBuilder" where
  "ex_send = Builder_Timeout 5 (MaxResponseBodyBytes 2 (AddMiddleware [Some (AddHeaders [(''X-M'', [''1''])])] ex_builder))"

lemma ex_releasing: "\<forall>mw \<in> package_middlewares ex_client ex_send. releasing_middleware mw"
proof -
  have "package_middlewares ex_client ex_send = {AddHeaders [(''X-M'', [''1''])]}"
    by (simp add: package_middlewares_def ex_send_def ex_builder_def ex_client_def Builder_Retry_def Builder_Timeout_def
        MaxResponseBodyBytes_def AddMiddleware_def CookieValue_def QueryValue_def manualContentType_def validateMiddlewares_def validateDurationOption_def validateIntOption_def
        Builder_Cookie_def Builder_Query_def Builder_Header_def builder_setHeader_def setHeaderValue_def Client_Request_def
        setDefaultHeader_def setDefaultOrderedHeaders_def setBaseURL_def newClient_def DefaultRetryPolicy_def Let_def setPreparationError_def)
  then show ?thesis by (simp add: add_headers.releasing_middleware_axioms)
qed

lemma ex_sent:
  "case Send ex_linked (Some ex_answers) ex_client ex_send of
     (Inr r, rel) \<Rightarrow> re_attempts r = 1 \<and> rl_derived rel = 1 | _ \<Rightarrow> False"
  by code_simp

theorem send_releases_everything_witness:
  "rl_cancels (snd (Send ex_linked (Some ex_answers) ex_client ex_send)) = 1 \<and>
   left_open (snd (Send ex_linked (Some ex_answers) ex_client ex_send)) = []"
  using send_releases_everything[OF ex_releasing, of ex_linked "Some ex_answers"] ex_sent
  by (fastforce split: sum.splits prod.splits)

theorem stream_owns_what_is_open_witness:
  "\<exists>r rel. SendStream ex_linked (Some ex_answers) ex_client ex_send = ((Some r, None), rel) \<and>
     (left_open rel = [] \<or> left_open rel = [Stream_Body r]) \<and> st_cancels (snd (Stream_Close r)) = 1"
proof -
  have "case SendStream ex_linked (Some ex_answers) ex_client ex_send of
      ((Some r, None), rel) \<Rightarrow> rl_derived rel = 1 | _ \<Rightarrow> False" by code_simp
  then obtain r rel where r: "SendStream ex_linked (Some ex_answers) ex_client ex_send = ((Some r, None), rel)" "rl_derived rel = 1"
    by (auto split: prod.splits option.splits)
  from stream_owns_what_is_open[OF ex_releasing r(1)] have
    "left_open rel = [] \<or> left_open rel = [Stream_Body r]" "st_cancels (((\<lambda>r. snd (Stream_Close r)) ^^ Suc 0) r) = 1"
    using r(2) by (auto simp del: funpow.simps)
  then show ?thesis using r(1) by auto
qed

theorem send_returns_whole_body_witness:
  "\<exists>r rel s d x resp ds. Send ex_linked (Some ex_answers) ex_client ex_send = (Inr r, rel) \<and>
     compileDeliverySnapshot ex_linked ex_client ex_send = Inr s \<and> openDelivery ex_linked ex_answers s = (Inr d, x) \<and>
     opened_do d = ((Some resp, 1, None), ds) \<and> Response_Bytes r = rb_data (rs_body resp)"
proof -
  obtain r rel where r: "Send ex_linked (Some ex_answers) ex_client ex_send = (Inr r, rel)" "Attempts r = 1"
    using ex_sent by (fastforce simp: Attempts_def split: sum.splits prod.splits)
  have "buffer_contract (lk_readFrom ex_linked)" by (simp add: buffer_contract_def ex_linked_def)
  then show ?thesis
    using send_returns_whole_body[OF _ r(1)] r by (fastforce simp: r(2))
qed

end
