(* ===== verification/Checkpoints.thy ===== *)
theory Checkpoints
  imports Errors
begin

text \<open>
  The projections of \<open>request_preview.go\<close> and \<open>request_preparation.go\<close> ask their context at
  checkpoints whether it has ended. A context may be nil; otherwise it is the function that says what
  \<open>ctx.Err()\<close> returns at the n-th checkpoint. A checkpointed computation passes the number of the
  next checkpoint along and stops at the first error. The contract \<open>refines\<close> says that
  checkpoints change nothing else: the result is that of the computation without them, or an error of
  the context.
\<close>

type_synonym goctx = "(nat \<Rightarrow> goerr option) option"
type_synonym 'a checked = "goctx \<Rightarrow> nat \<Rightarrow> (goerr + 'a) \<times> nat"

definition cret :: "'a \<Rightarrow> 'a checked" where
  "cret a = (\<lambda>ctx n. (Inr a, n))"

definition cfail :: "goerr \<Rightarrow> 'a checked" where
  "cfail e = (\<lambda>ctx n. (Inl e, n))"

definition cbind :: "'a checked \<Rightarrow> ('a \<Rightarrow> 'b checked) \<Rightarrow> 'b checked" where
  "cbind m f = (\<lambda>ctx n. case m ctx n of (Inl e, n1) \<Rightarrow> (Inl e, n1) | (Inr a, n1) \<Rightarrow> f a ctx n1)"

definition clift :: "goerr + 'a \<Rightarrow> 'a checked" where
  "clift r = (case r of Inl e \<Rightarrow> cfail e | Inr a \<Rightarrow> cret a)"

definition checkpoint :: "unit checked" where
  "checkpoint = (\<lambda>ctx n.
     case ctx of
       None \<Rightarrow> (Inl (Sentinel ErrRequestCreationFailed), n)
     | Some err \<Rightarrow> (case err n of Some e \<Rightarrow> (Inl e, n + 1) | None \<Rightarrow> (Inr (), n + 1)))"

text \<open>\<open>if err := checkpoint(ctx); err != nil { return err }\<close>, always or in every 64th round of a loop.\<close>

definition ccheck :: "'a checked \<Rightarrow> 'a checked" where
  "ccheck m = cbind checkpoint (\<lambda>_. m)"

definition every64 :: "nat \<Rightarrow> 'a checked \<Rightarrow> 'a checked" where
  "every64 i m = (if i mod 64 = 0 then ccheck m else m)"

text \<open>\<open>for i, x := range xs\<close>, collecting a value per round or passing one along.\<close>

fun ceach :: "(nat \<Rightarrow> 'x \<Rightarrow> 'a checked) \<Rightarrow> nat \<Rightarrow> 'x list \<Rightarrow> 'a list checked" where
  "ceach f i [] = cret []"
| "ceach f i (x # xs) = cbind (f i x) (\<lambda>a. cbind (ceach f (i + 1) xs) (\<lambda>as. cret (a # as)))"

fun cfold :: "(nat \<Rightarrow> 'x \<Rightarrow> 'a \<Rightarrow> 'a checked) \<Rightarrow> nat \<Rightarrow> 'x list \<Rightarrow> 'a \<Rightarrow> 'a checked" where
  "cfold f i [] a = cret a"
| "cfold f i (x # xs) a = cbind (f i x a) (cfold f (i + 1) xs)"

section \<open>Laws\<close>

lemma cbind_cret [simp]: "cbind (cret a) f = f a"
  by (simp add: cbind_def cret_def)

lemma cbind_cfail [simp]: "cbind (cfail e) f = cfail e"
  by (simp add: cbind_def cfail_def)

lemma cbind_assoc [simp]: "cbind (cbind m f) g = cbind m (\<lambda>a. cbind (f a) g)"
  by (auto simp: cbind_def fun_eq_iff split: prod.splits sum.splits)

lemma clift_simps [simp]: "clift (Inr a) = cret a" "clift (Inl e) = cfail e"
  by (simp_all add: clift_def)

lemma cbind_ccheck [simp]: "cbind (ccheck m) f = ccheck (cbind m f)"
  by (simp add: ccheck_def)

lemma cbind_every64 [simp]: "cbind (every64 i m) f = every64 i (cbind m f)"
  by (simp add: every64_def)

text \<open>
  A loop whose rounds only compute has checkpoints that depend on the number of rounds alone; they
  can be passed first and the results computed afterwards.
\<close>

fun checks :: "nat \<Rightarrow> nat \<Rightarrow> unit checked" where
  "checks i 0 = cret ()"
| "checks i (Suc n) = every64 i (checks (i + 1) n)"

lemma cfold_pure:
  "cfold (\<lambda>i x a. every64 i (cret (h x a))) i xs a = cbind (checks i (length xs)) (\<lambda>_. cret (fold h xs a))"
  by (induction xs arbitrary: i a) simp_all

lemma ceach_pure:
  "ceach (\<lambda>i x. every64 i (cret (h i x))) i xs =
     cbind (checks i (length xs)) (\<lambda>_. cret (map (\<lambda>(i, x). h i x) (List.enumerate i xs)))"
  by (induction xs arbitrary: i) simp_all

lemma map_enumerate_const: "map (\<lambda>(i, x). h x) (List.enumerate n xs) = map h xs"
  by (induction xs arbitrary: n) simp_all

lemma ceach_cong:
  assumes "list_all2 R xs ys" and "\<And>i x y. R x y \<Longrightarrow> f i x = g i y"
  shows "ceach f i xs = ceach g i ys"
  using assms(1) by (induction xs ys arbitrary: i rule: list_all2_induct) (simp_all add: assms(2))

section \<open>Refinement\<close>

definition refines :: "'a checked \<Rightarrow> goerr + 'a \<Rightarrow> bool" where
  "refines m r \<longleftrightarrow> (\<forall>err n. fst (m (Some err) n) = r \<or> (\<exists>k e. err k = Some e \<and> fst (m (Some err) n) = Inl e))"

lemma refines_cret [refines_intros]: "refines (cret a) (Inr a)"
  by (simp add: refines_def cret_def)

lemma refines_cfail [refines_intros]: "refines (cfail e) (Inl e)"
  by (simp add: refines_def cfail_def)

lemma refines_clift [refines_intros]: "refines (clift r) r"
  by (cases r) (simp_all add: clift_def refines_intros)

lemma refines_cbind [refines_intros]:
  assumes "refines m r" and "\<And>a. r = Inr a \<Longrightarrow> refines (f a) (s a)"
  shows "refines (cbind m f) (ebind r s)"
  unfolding refines_def
proof (intro allI)
  fix err :: "nat \<Rightarrow> goerr option" and n :: nat
  let ?P = "\<lambda>x r. x = r \<or> (\<exists>k e. err k = Some e \<and> x = Inl e)"
  obtain x n1 where m: "m (Some err) n = (x, n1)" by fastforce
  from assms(1) have x: "?P x r" unfolding refines_def using m by (metis fst_conv)
  show "?P (fst (cbind m f (Some err) n)) (ebind r s)"
  proof (cases x)
    case (Inl e)
    then show ?thesis using x m by (auto simp: cbind_def)
  next
    case (Inr a)
    then have "r = Inr a" using x by auto
    then show ?thesis using assms(2)[OF \<open>r = Inr a\<close>] m Inr by (auto simp: cbind_def refines_def)
  qed
qed

lemma refines_ccheck [refines_intros]:
  assumes "refines m r"
  shows "refines (ccheck m) r"
  unfolding refines_def
proof (intro allI)
  fix err n
  show "fst (ccheck m (Some err) n) = r \<or> (\<exists>k e. err k = Some e \<and> fst (ccheck m (Some err) n) = Inl e)"
    using assms by (cases "err n") (auto simp: ccheck_def cbind_def checkpoint_def refines_def)
qed

lemma refines_every64 [refines_intros]: "refines m r \<Longrightarrow> refines (every64 i m) r"
  by (simp add: every64_def refines_ccheck)

lemma refines_ceach:
  assumes "\<And>i x. x \<in> set xs \<Longrightarrow> refines (f i x) (Inr (g x))"
  shows "refines (ceach f i xs) (Inr (map g xs))"
  using assms
proof (induction xs arbitrary: i)
  case (Cons x xs)
  have "refines (ceach f (i + 1) xs) (Inr (map g xs))" by (rule Cons.IH) (simp add: Cons.prems)
  then have "refines (ceach f i (x # xs)) (ebind (Inr (g x)) (\<lambda>a. ebind (Inr (map g xs)) (\<lambda>as. Inr (a # as))))"
    unfolding ceach.simps by (intro refines_intros) (simp_all add: Cons.prems)
  then show ?case by simp
qed (simp add: refines_cret)

lemma refines_cfold:
  assumes "\<And>i x a. x \<in> set xs \<Longrightarrow> refines (f i x a) (Inr (g x a))"
  shows "refines (cfold f i xs a) (Inr (fold g xs a))"
  using assms
proof (induction xs arbitrary: i a)
  case (Cons x xs)
  have "refines (cfold f (i + 1) xs (g x a)) (Inr (fold g xs (g x a)))" by (rule Cons.IH) (simp add: Cons.prems)
  then have "refines (cfold f i (x # xs) a) (ebind (Inr (g x a)) (\<lambda>a. Inr (fold g xs a)))"
    unfolding cfold.simps by (intro refines_intros) (auto simp: Cons.prems)
  then show ?case by simp
qed (simp add: refines_cret)

lemma refines_checks [refines_intros]: "refines (checks i n) (Inr ())"
  by (induction n arbitrary: i) (simp_all add: refines_cret refines_every64)

lemma refines_eq: "refines m r \<Longrightarrow> r = s \<Longrightarrow> refines m s"
  by simp

lemma refines_live: "refines m r \<Longrightarrow> (\<And>k. err k = None) \<Longrightarrow> fst (m (Some err) n) = r"
  unfolding refines_def by (metis option.distinct(1))

section \<open>Stopping\<close>

text \<open>
  A computation stops at the first checkpoint that finds the context ended: every check it made but
  the last found the context alive, and if the last one did not, its error is the result.
\<close>

definition prompt :: "'a checked \<Rightarrow> bool" where
  "prompt m \<longleftrightarrow>
     (\<forall>err n r n1. m (Some err) n = (r, n1) \<longrightarrow>
        n \<le> n1 \<and> (\<forall>j. n \<le> j \<and> Suc j < n1 \<longrightarrow> err j = None) \<and> (\<forall>j e. n \<le> j \<and> Suc j = n1 \<and> err j = Some e \<longrightarrow> r = Inl e))"

lemma promptD:
  assumes "prompt m" and "m (Some err) n = (r, n1)"
  shows "n \<le> n1" and "n \<le> j \<Longrightarrow> Suc j < n1 \<Longrightarrow> err j = None" and "n \<le> j \<Longrightarrow> Suc j = n1 \<Longrightarrow> err j = Some e \<Longrightarrow> r = Inl e"
  using assms unfolding prompt_def by blast+

lemma prompt_result:
  assumes "prompt m" and "m (Some err) n = (Inr a, n1)" and "n \<le> j" and "j < n1"
  shows "err j = None"
proof (cases "Suc j = n1")
  case True
  then show ?thesis using promptD(3)[OF assms(1-3)] by (cases "err j") auto
next
  case False
  then show ?thesis using promptD(2)[OF assms(1-3)] assms(4) by simp
qed

lemma prompt_cret [prompt_intros]: "prompt (cret a)"
  by (auto simp: prompt_def cret_def)

lemma prompt_cfail [prompt_intros]: "prompt (cfail e)"
  by (auto simp: prompt_def cfail_def)

lemma prompt_clift [prompt_intros]: "prompt (clift r)"
  by (cases r) (simp_all add: prompt_intros)

lemma prompt_cbind [prompt_intros]:
  assumes "prompt m" and "\<And>a. prompt (f a)"
  shows "prompt (cbind m f)"
  unfolding prompt_def
proof (intro allI impI)
  fix err n r n1
  assume m: "cbind m f (Some err) n = (r, n1)"
  obtain x n0 where x: "m (Some err) n = (x, n0)" by fastforce
  show "n \<le> n1 \<and> (\<forall>j. n \<le> j \<and> Suc j < n1 \<longrightarrow> err j = None) \<and> (\<forall>j e. n \<le> j \<and> Suc j = n1 \<and> err j = Some e \<longrightarrow> r = Inl e)"
  proof (cases x)
    case (Inl e)
    then have "r = Inl e" "n1 = n0" using m x by (simp_all add: cbind_def)
    then show ?thesis using promptD[OF assms(1) x] Inl by auto
  next
    case (Inr a)
    then have fa: "f a (Some err) n0 = (r, n1)" using m x by (simp add: cbind_def)
    note first = prompt_result[OF assms(1) x[unfolded Inr]] and later = promptD[OF assms(2) fa]
    have "err j = None" if "n \<le> j" "Suc j < n1" for j
      using first[of j] later(2)[of j] that by (cases "j < n0") auto
    moreover have "r = Inl e" if "n \<le> j" "Suc j = n1" "err j = Some e" for j e
      using first[of j] later(3)[of j e] that by (cases "j < n0") auto
    ultimately show ?thesis using promptD(1)[OF assms(1) x] later(1) by auto
  qed
qed

lemma prompt_checkpoint [prompt_intros]: "prompt checkpoint"
  by (auto simp: prompt_def checkpoint_def split: option.splits)

lemma prompt_ccheck [prompt_intros]: "prompt m \<Longrightarrow> prompt (ccheck m)"
  unfolding ccheck_def by (intro prompt_intros)

lemma prompt_every64 [prompt_intros]: "prompt m \<Longrightarrow> prompt (every64 i m)"
  by (simp add: every64_def prompt_ccheck)

lemma prompt_ceach [prompt_intros]: "(\<And>i x. prompt (f i x)) \<Longrightarrow> prompt (ceach f i xs)"
  by (induction xs arbitrary: i) (auto intro!: prompt_intros)

lemma prompt_cfold [prompt_intros]: "(\<And>i x a. prompt (f i x a)) \<Longrightarrow> prompt (cfold f i xs a)"
  by (induction xs arbitrary: i a) (auto intro!: prompt_intros)

text \<open>For a context that has ended by check \<open>k\<close> and not before: the computation is done by then, or stops there.\<close>

lemma prompt_stops:
  assumes "prompt m" and "m (Some err) n = (r, n1)" and "n \<le> k" and "err k = Some e"
  shows "n1 \<le> k \<or> n1 = Suc k \<and> r = Inl e"
proof (cases "n1 \<le> k")
  case False
  then have "\<not> Suc k < n1" using promptD(2)[OF assms(1,2), of k] assms(3,4) by auto
  then show ?thesis using False promptD(3)[OF assms(1,2), of k e] assms(3,4) by auto
qed simp

end
