(* ===== verification/Request_Preparation.thy ===== *)
theory Request_Preparation
  imports Request_Plan Checkpoints
begin

text \<open>
  Model of \<open>request_preparation.go\<close>: \<open>Prepare\<close> compiles the plan of a request, checks that it can be
  shown, and projects it into a detached value in which only public data is retained. A Go map is an
  association list; every map here is read through its sorted keys. The state of a prepared value has
  a third case for Go's zero value, which reads as redacted; the kind of a body has a case for it too.
\<close>

section \<open>Prepared values\<close>

record PrepareOptions =
  MaxPreparedBodyBytes :: int

datatype PreparedValueState = PreparedValueUnset | PreparedValueRedacted | PreparedValuePresent

record PreparedString =
  ps_state :: PreparedValueState
  ps_value :: string

record PreparedBytes =
  pb_state :: PreparedValueState
  pb_value :: bytes

definition PreparedString_State :: "PreparedString \<Rightarrow> PreparedValueState" where
  "PreparedString_State v = (if ps_state v \<noteq> PreparedValuePresent then PreparedValueRedacted else PreparedValuePresent)"

definition PreparedString_Value :: "PreparedString \<Rightarrow> string" where
  "PreparedString_Value v = (if PreparedString_State v \<noteq> PreparedValuePresent then [] else ps_value v)"

definition PreparedBytes_State :: "PreparedBytes \<Rightarrow> PreparedValueState" where
  "PreparedBytes_State v = (if pb_state v \<noteq> PreparedValuePresent then PreparedValueRedacted else PreparedValuePresent)"

definition PreparedBytes_Bytes :: "PreparedBytes \<Rightarrow> bytes" where
  "PreparedBytes_Bytes v = (if PreparedBytes_State v \<noteq> PreparedValuePresent then [] else pb_value v)"

definition preparedRedactedString :: PreparedString where
  "preparedRedactedString = \<lparr>ps_state = PreparedValueRedacted, ps_value = []\<rparr>"

definition preparedPresentString :: "string \<Rightarrow> PreparedString" where
  "preparedPresentString v = \<lparr>ps_state = PreparedValuePresent, ps_value = v\<rparr>"

definition preparedRedactedBytes :: PreparedBytes where
  "preparedRedactedBytes = \<lparr>pb_state = PreparedValueRedacted, pb_value = []\<rparr>"

definition preparedPresentBytes :: "bytes \<Rightarrow> PreparedBytes" where
  "preparedPresentBytes v = \<lparr>pb_state = PreparedValuePresent, pb_value = v\<rparr>"

definition PreparedString_clone :: "PreparedString \<Rightarrow> PreparedString" where
  "PreparedString_clone v = (if PreparedString_State v \<noteq> PreparedValuePresent then preparedRedactedString else v)"

definition PreparedBytes_clone :: "PreparedBytes \<Rightarrow> PreparedBytes" where
  "PreparedBytes_clone v = (if PreparedBytes_State v \<noteq> PreparedValuePresent then preparedRedactedBytes
     else \<lparr>pb_state = PreparedValuePresent, pb_value = pb_value v\<rparr>)"

record PreparedTarget =
  pg_scheme :: string
  pg_authority :: string
  pg_path :: PreparedString

record PreparedOccurrence =
  po_name :: string
  po_values :: "PreparedString list"

record PreparedHeader =
  ph_name :: string
  ph_values :: "PreparedString list"

record PreparedCookie =
  pc_name :: string
  pc_value :: PreparedString

datatype PreviewBodyKind =
    PreviewBodyNone | PreviewBodyJSON | PreviewBodyXML | PreviewBodyYAML | PreviewBodyText
  | PreviewBodyBytes | PreviewBodyReader | PreviewBodyForm | PreviewBodyMultipart | PreviewBodyUnset

record PreparedMultipartFile =
  pf_field :: string

record PreparedMultipart =
  pm_fields :: "PreparedOccurrence list"
  pm_files :: "PreparedMultipartFile list"

record PreparedBody =
  py_kind :: PreviewBodyKind
  py_mediaType :: string
  py_data :: PreparedBytes
  py_multipart :: "PreparedMultipart option"

record RequestPreparation =
  rp_method :: string
  rp_target :: PreparedTarget
  rp_query :: "PreparedOccurrence list"
  rp_headers :: "PreparedHeader list"
  rp_orderedHeaders :: "PreparedHeader list"
  rp_cookies :: "PreparedCookie list"
  rp_body :: PreparedBody

section \<open>Accessors\<close>

definition clonePreparedStrings :: "PreparedString list \<Rightarrow> PreparedString list" where
  "clonePreparedStrings vs = map PreparedString_clone vs"

definition clonePreparedOccurrences :: "PreparedOccurrence list \<Rightarrow> PreparedOccurrence list" where
  "clonePreparedOccurrences vs = map (\<lambda>v. \<lparr>po_name = po_name v, po_values = clonePreparedStrings (po_values v)\<rparr>) vs"

definition clonePreparedHeaders :: "PreparedHeader list \<Rightarrow> PreparedHeader list" where
  "clonePreparedHeaders vs = map (\<lambda>v. \<lparr>ph_name = ph_name v, ph_values = clonePreparedStrings (ph_values v)\<rparr>) vs"

definition clonePreparedMultipart :: "PreparedMultipart option \<Rightarrow> PreparedMultipart option" where
  "clonePreparedMultipart v =
     map_option (\<lambda>m. \<lparr>pm_fields = clonePreparedOccurrences (pm_fields m), pm_files = pm_files m\<rparr>) v"

definition clonePreparedBody :: "PreparedBody \<Rightarrow> PreparedBody" where
  "clonePreparedBody v =
     \<lparr>py_kind = py_kind v, py_mediaType = py_mediaType v, py_data = PreparedBytes_clone (py_data v),
      py_multipart = clonePreparedMultipart (py_multipart v)\<rparr>"

definition Preparation_Method :: "RequestPreparation \<Rightarrow> string" where
  "Preparation_Method p = rp_method p"
definition Preparation_Target :: "RequestPreparation \<Rightarrow> PreparedTarget" where
  "Preparation_Target p = (rp_target p)\<lparr>pg_path := PreparedString_clone (pg_path (rp_target p))\<rparr>"
definition Preparation_Query :: "RequestPreparation \<Rightarrow> PreparedOccurrence list" where
  "Preparation_Query p = clonePreparedOccurrences (rp_query p)"
definition Preparation_Headers :: "RequestPreparation \<Rightarrow> PreparedHeader list" where
  "Preparation_Headers p = clonePreparedHeaders (rp_headers p)"
definition Preparation_OrderedHeaders :: "RequestPreparation \<Rightarrow> PreparedHeader list" where
  "Preparation_OrderedHeaders p = clonePreparedHeaders (rp_orderedHeaders p)"
definition Preparation_Cookies :: "RequestPreparation \<Rightarrow> PreparedCookie list" where
  "Preparation_Cookies p = rp_cookies p"
definition Preparation_Body :: "RequestPreparation \<Rightarrow> PreparedBody" where
  "Preparation_Body p = clonePreparedBody (rp_body p)"

section \<open>Eligibility\<close>

definition sanitizePreparationCompileError :: "goerr option \<Rightarrow> goerr option" where
  "sanitizePreparationCompileError err = (if err = None then None else Some (Sentinel ErrRequestCreationFailed))"

definition preparationBodyError :: goerr where
  "preparationBodyError = wrapped ErrInvalidConfigValue ''request body''"

definition validatePreparationBodyShape :: "'o requestPlan \<Rightarrow> goerr option" where
  "validatePreparationBodyShape plan =
     (let headers = bodyPreflightHeaders plan; body = pl_body plan;
          encoded = (if Header_Get headers ''Content-Type'' = [] then Some (Sentinel ErrUnsupportedContentType) else None)
      in case bp_kind body of
           requestBodyNone \<Rightarrow> None
         | requestBodyJSON \<Rightarrow> encoded
         | requestBodyXML \<Rightarrow> encoded
         | requestBodyYAML \<Rightarrow> encoded
         | requestBodyText \<Rightarrow> (case bp_value body of GoString _ \<Rightarrow> None | _ \<Rightarrow> Some preparationBodyError)
         | requestBodyBytes \<Rightarrow> (case bp_value body of GoBytes _ \<Rightarrow> None | _ \<Rightarrow> Some preparationBodyError)
         | requestBodyReader \<Rightarrow> (case bp_value body of GoNil \<Rightarrow> Some preparationBodyError | _ \<Rightarrow> None)
         | requestBodyForm \<Rightarrow> None
         | requestBodyMultipart \<Rightarrow>
             if bp_multipart body = None then Some (wrapped ErrInvalidConfigValue ''multipart body'') else None)"

definition param_eligible :: "requestPathParamTrace \<Rightarrow> bool" where
  "param_eligible param \<longleftrightarrow>
     isPublic (pt_value param) \<or> \<not> (pt_scheme param > 0 \<or> pt_authority param > 0 \<or> pt_queryName param > 0)"

fun auth_eligible :: "'o AuthMethod option list \<Rightarrow> goerr option" where
  "auth_eligible [] = None"
| "auth_eligible (None # auths) = auth_eligible auths"
| "auth_eligible (Some a # auths) =
     (case builtInAuthShape (Some a) of
        (_, recognized, err) \<Rightarrow>
          if err \<noteq> None then Some (wrapped ErrInvalidConfigValue ''built-in auth'')
          else if \<not> recognized then Some (Sentinel ErrPreparationNotPreparable)
          else auth_eligible auths)"

definition err_of :: "goerr option \<Rightarrow> goerr + unit" where
  "err_of e = (case e of None \<Rightarrow> Inr () | Some x \<Rightarrow> Inl x)"

definition validatePreparationEligibility :: "'o requestPlan \<Rightarrow> unit checked" where
  "validatePreparationEligibility plan =
     cbind (cfold (\<lambda>i param _. every64 i
              (if param_eligible param then cret () else cfail (Sentinel ErrPreparationNotPreparable)))
              0 (tr_params (pl_pathTrace plan)) ())
       (\<lambda>_. clift (err_of (auth_eligible [pl_clientAuth plan, pl_requestAuth plan])))"

section \<open>Target, query, headers and cookies\<close>

definition preparedStringFromValue :: "Value \<Rightarrow> PreparedString" where
  "preparedStringFromValue v = (if \<not> isPublic v then preparedRedactedString else preparedPresentString (rawValue v))"

text \<open>The loop over the parameters leaves with \<open>break\<close>, so the later checkpoints are not reached.\<close>

fun path_params_public :: "nat \<Rightarrow> requestPathParamTrace list \<Rightarrow> bool checked" where
  "path_params_public i [] = cret True"
| "path_params_public i (param # params) =
     every64 i (if pt_path param > 0 \<and> \<not> isPublic (pt_value param) then cret False else path_params_public (i + 1) params)"

definition projectPreparedTarget :: "'o requestPlan \<Rightarrow> PreparedTarget checked" where
  "projectPreparedTarget plan =
     cbind (path_params_public 0 (tr_params (pl_pathTrace plan))) (\<lambda>paramsPublic.
       let pathPublic = (isPublic (tr_path (pl_pathTrace plan)) \<and> \<not> tr_basePathPrivate (pl_pathTrace plan)) \<and> paramsPublic
       in cret \<lparr>pg_scheme = url_scheme (pl_targetURL plan), pg_authority = url_host (pl_targetURL plan),
                pg_path = (if pathPublic then preparedPresentString (EscapedPath (pl_targetURL plan))
                           else preparedRedactedString)\<rparr>)"

definition group_add :: "string \<Rightarrow> 'a \<Rightarrow> (string, 'a list) gomap \<Rightarrow> (string, 'a list) gomap" where
  "group_add k x g = AList.update k ((case map_of g k of None \<Rightarrow> [] | Some xs \<Rightarrow> xs) @ [x]) g"

definition projectPreparedQuery :: "requestOccurrence list \<Rightarrow> PreparedOccurrence list checked" where
  "projectPreparedQuery vs =
     cbind (cfold (\<lambda>i occ g. every64 i (cret (group_add (occ_name occ) occ g))) 0 vs []) (\<lambda>grouped.
     ccheck (let names = sort (map fst grouped) in
     ccheck (ceach (\<lambda>i name. every64 i
        (cbind (ceach (\<lambda>j occ. every64 j (cret (preparedStringFromValue (occ_value occ)))) 0 (the (map_of grouped name)))
          (\<lambda>prepared. cret \<lparr>po_name = name, po_values = prepared\<rparr>))) 0 names)))"

record preparedHeaderGroup =
  hg_name :: string
  hg_occurrences :: "requestOccurrence list"

definition header_group_add ::
    "requestOccurrence \<Rightarrow> (string, preparedHeaderGroup) gomap \<Rightarrow> (string, preparedHeaderGroup) gomap" where
  "header_group_add occ groups =
     (let key = ToLower (occ_name occ);
          group = (case map_of groups key of None \<Rightarrow> \<lparr>hg_name = occ_name occ, hg_occurrences = []\<rparr> | Some g \<Rightarrow> g)
      in AList.update key (group\<lparr>hg_occurrences := hg_occurrences group @ [occ]\<rparr>) groups)"

definition preparedBodyMediaType :: "requestBodyPlan \<Rightarrow> string" where
  "preparedBodyMediaType body =
     (if \<not> bp_generatedContentType body then []
      else case bp_kind body of
             requestBodyJSON \<Rightarrow> ''application/json''
           | requestBodyXML \<Rightarrow> ''application/xml''
           | requestBodyYAML \<Rightarrow> ''application/yaml''
           | requestBodyText \<Rightarrow> ''text/plain''
           | requestBodyForm \<Rightarrow> ''application/x-www-form-urlencoded''
           | requestBodyMultipart \<Rightarrow> ''multipart/form-data''
           | _ \<Rightarrow> [])"

definition prepared_header_value :: "string \<Rightarrow> string \<Rightarrow> nat \<Rightarrow> Value \<Rightarrow> PreparedString" where
  "prepared_header_value name bodyMediaType i v =
     (if isCredentialRequestHeader name \<or> EqualFold name ''Cookie'' then preparedRedactedString
      else if EqualFold name ''Content-Type'' then
        (if i = 0 \<and> bodyMediaType \<noteq> [] then preparedPresentString bodyMediaType else preparedRedactedString)
      else preparedStringFromValue v)"

definition projectPreparedHeaderValues :: "string \<Rightarrow> requestOccurrence list \<Rightarrow> string \<Rightarrow> PreparedString list checked" where
  "projectPreparedHeaderValues name occs bodyMediaType =
     (if occs = [] then cret [preparedRedactedString]
      else ceach (\<lambda>i occ. every64 i (cret (prepared_header_value name bodyMediaType i (occ_value occ)))) 0 occs)"

definition projectPreparedHeaders ::
    "'o requestPlan \<Rightarrow> (PreparedHeader list \<times> (string, PreparedHeader) gomap) checked" where
  "projectPreparedHeaders plan =
     cbind (cfold (\<lambda>i occ g. every64 i (cret (header_group_add occ g))) 0 (pl_headers plan) []) (\<lambda>groups0.
     let key = ToLower ''Authorization'';
         groups = (if pl_auth plan \<noteq> None \<and> map_of groups0 key = None
                   then AList.update key \<lparr>hg_name = ''Authorization'', hg_occurrences = []\<rparr> groups0 else groups0)
     in ccheck (let keys = sort (map fst groups) in
     ccheck (cbind (ceach (\<lambda>i key. every64 i
        (let group = the (map_of groups key)
         in cbind (projectPreparedHeaderValues (hg_name group) (hg_occurrences group) (preparedBodyMediaType (pl_body plan)))
              (\<lambda>vs. cret (key, \<lparr>ph_name = hg_name group, ph_values = vs\<rparr>)))) 0 keys)
        (\<lambda>entries. cret (map snd entries, entries)))))"

definition projectPreparedOrderedHeaders ::
    "'o oo_ops \<Rightarrow> 'o option \<Rightarrow> (string, PreparedHeader) gomap \<Rightarrow> PreparedHeader list checked" where
  "projectPreparedOrderedHeaders ob ordered semantic =
     (case ordered of
        None \<Rightarrow> cret []
      | Some x \<Rightarrow>
          ccheck (let entries = oo_entries ob x in
          ccheck (ceach (\<lambda>i (key, vs). every64 i
            (cbind (ceach (\<lambda>j _. every64 j (cret
                (case map_of semantic (ToLower key) of
                   Some header \<Rightarrow> if j < length (ph_values header) then PreparedString_clone (ph_values header ! j)
                                  else preparedRedactedString
                 | None \<Rightarrow> preparedRedactedString))) 0 vs)
              (\<lambda>prepared. cret \<lparr>ph_name = key, ph_values = prepared\<rparr>))) 0 entries)))"

definition validCookieName :: "string \<Rightarrow> bool" where
  "validCookieName name \<longleftrightarrow> name \<noteq> [] \<and> list_all valid_header_byte name"

definition projectPreparedCookies :: "requestCookieOccurrence list \<Rightarrow> PreparedCookie list checked" where
  "projectPreparedCookies vs =
     cfold (\<lambda>i occ result. every64 i (cret
       (if \<not> validCookieName (co_name occ) then result
        else result @ [\<lparr>pc_name = co_name occ, pc_value = preparedStringFromValue (co_value occ)\<rparr>]))) 0 vs []"

section \<open>Body\<close>

definition previewBodyKind :: "requestBodyKind \<Rightarrow> PreviewBodyKind" where
  "previewBodyKind kind =
     (case kind of
        requestBodyNone \<Rightarrow> PreviewBodyNone
      | requestBodyJSON \<Rightarrow> PreviewBodyJSON
      | requestBodyXML \<Rightarrow> PreviewBodyXML
      | requestBodyYAML \<Rightarrow> PreviewBodyYAML
      | requestBodyText \<Rightarrow> PreviewBodyText
      | requestBodyBytes \<Rightarrow> PreviewBodyBytes
      | requestBodyReader \<Rightarrow> PreviewBodyReader
      | requestBodyForm \<Rightarrow> PreviewBodyForm
      | requestBodyMultipart \<Rightarrow> PreviewBodyMultipart)"

text \<open>Whether the budget is exceeded, and the new total.\<close>

definition addPreparedFormLength :: "int \<Rightarrow> int \<Rightarrow> int \<Rightarrow> bool \<times> int" where
  "addPreparedFormLength lb part budget =
     (if part < 0 \<or> lb > int64_max - part then (True, lb) else (lb + part > budget, lb + part))"

definition form_length_step :: "int \<Rightarrow> nat \<Rightarrow> requestBodyFormOccurrence \<Rightarrow> int \<Rightarrow> bool \<times> int" where
  "form_length_step budget i occ lowerBound =
     (let add = (\<lambda>part (exceeds, lb). if exceeds then (True, lb) else addPreparedFormLength lb part budget);
          s0 = (if i > 0 then addPreparedFormLength lowerBound 1 budget else (False, lowerBound))
      in add (int (length (rawValue (fo_value occ)))) (add 1 (add (int (length (fo_name occ))) s0)))"

definition retainPreparedBytes :: "bytes \<Rightarrow> int \<Rightarrow> PreparedBytes checked" where
  "retainPreparedBytes data budget =
     ccheck (if int (length data) > budget then cfail (Sentinel ErrPreparationBodyTooLarge)
             else let prepared = preparedPresentBytes data in ccheck (cret prepared))"

fun form_public_from :: "nat \<Rightarrow> requestBodyFormOccurrence list \<Rightarrow> bool checked" where
  "form_public_from i [] = cret True"
| "form_public_from i (occ # occs) =
     every64 i (if \<not> isPublic (fo_value occ) then cret False else form_public_from (i + 1) occs)"

definition preparedFormAllPublic :: "requestBodyFormOccurrence list \<Rightarrow> bool checked" where
  "preparedFormAllPublic occs = (if length occs = 0 then cret False else form_public_from 0 occs)"

definition prepared_form :: "requestBodyFormOccurrence list \<Rightarrow> int \<Rightarrow> PreparedBytes checked" where
  "prepared_form occs budget =
     cbind (cfold (\<lambda>i occ (lowerBound, vs). every64 i
        (case form_length_step budget i occ lowerBound of
           (exceedsBudget, lb) \<Rightarrow>
             if exceedsBudget then ccheck (cfail (Sentinel ErrPreparationBodyTooLarge))
             else cret (lb, Values_Add vs (fo_name occ) (rawValue (fo_value occ))))) 0 occs (0, []))
       (\<lambda>(_, vs). retainPreparedBytes (Values_Encode vs) budget)"

definition prepareMultipartManifest :: "mimeLib \<Rightarrow> Multipart option \<Rightarrow> PreparedMultipart checked" where
  "prepareMultipartManifest lib multipart =
     (case multipart of
        None \<Rightarrow> cfail (wrapped ErrInvalidConfigValue ''multipart body'')
      | Some m \<Rightarrow>
          ccheck (if mp_canReplay m \<and> mp_replayMaxBytes m < 0 then cfail (wrapped ErrInvalidConfigValue ''multipart replay limit'')
          else if mp_boundary m \<noteq> [] \<and> \<not> validMultipartBoundary (mp_boundary m)
               then cfail (wrapped ErrInvalidConfigValue ''multipart boundary'')
          else let keys = sort (map fst (mp_fields m)) in
          ccheck (cbind (ceach (\<lambda>i key. ccheck
              (cbind (ceach (\<lambda>j _. every64 j (cret preparedRedactedString)) 0 (the (map_of (mp_fields m) key))) (\<lambda>vs.
                 let field = \<lparr>po_name = key, po_values = vs\<rparr>
                 in if i mod 64 = 63 then ccheck (cret field) else cret field))) 0 keys) (\<lambda>fields.
          cbind (ceach (\<lambda>i part. ccheck
              (if fp_Field part = [] \<or> fp_Body part = None then cfail (wrapped ErrInvalidConfigValue ''multipart structure'')
               else case validateMultipartFileMetadata lib part of
                      Some e \<Rightarrow> cfail e
                    | None \<Rightarrow> cret \<lparr>pf_field = fp_Field part\<rparr>)) 0 (mp_parts m)) (\<lambda>files.
          ccheck (cret \<lparr>pm_fields = fields, pm_files = files\<rparr>))))))"

definition projectPreparedBody :: "mimeLib \<Rightarrow> requestBodyPlan \<Rightarrow> int \<Rightarrow> PreparedBody checked" where
  "projectPreparedBody lib body budget =
     (let result = \<lparr>py_kind = previewBodyKind (bp_kind body), py_mediaType = preparedBodyMediaType body,
                    py_data = preparedRedactedBytes, py_multipart = None\<rparr>;
          retain = (\<lambda>data. cbind (retainPreparedBytes data budget) (\<lambda>d. cret (result\<lparr>py_data := d\<rparr>)))
      in case bp_kind body of
           requestBodyText \<Rightarrow>
             if \<not> bp_valuePublic body then cret result
             else (case bp_value body of GoString s \<Rightarrow> retain s | _ \<Rightarrow> cfail preparationBodyError)
         | requestBodyBytes \<Rightarrow>
             if \<not> bp_valuePublic body then cret result
             else (case bp_value body of GoBytes s \<Rightarrow> retain s | _ \<Rightarrow> cfail preparationBodyError)
         | requestBodyForm \<Rightarrow>
             cbind (preparedFormAllPublic (bp_formOccurrences body)) (\<lambda>allPublic.
               if \<not> allPublic then cret result
               else ccheck (cbind (prepared_form (bp_formOccurrences body) budget) (\<lambda>d. cret (result\<lparr>py_data := d\<rparr>))))
         | requestBodyMultipart \<Rightarrow>
             cbind (prepareMultipartManifest lib (bp_multipart body)) (\<lambda>m. cret (result\<lparr>py_multipart := Some m\<rparr>))
         | _ \<Rightarrow> cret result)"

section \<open>Prepare\<close>

definition projectRequestPreparation :: "'o oo_ops \<Rightarrow> mimeLib \<Rightarrow> 'o requestPlan \<Rightarrow> int \<Rightarrow> RequestPreparation checked" where
  "projectRequestPreparation ob lib plan budget =
     ccheck (cbind (projectPreparedTarget plan) (\<lambda>target.
       cbind (projectPreparedQuery (pl_query plan)) (\<lambda>query.
       cbind (projectPreparedHeaders plan) (\<lambda>(headers, headerMap).
       cbind (projectPreparedOrderedHeaders ob (pl_orderedHeaders plan) headerMap) (\<lambda>orderedHeaders.
       cbind (projectPreparedCookies (pl_cookies plan)) (\<lambda>cookies.
       cbind (projectPreparedBody lib (pl_body plan) budget) (\<lambda>body.
       ccheck (cret \<lparr>rp_method = pl_method plan, rp_target = target, rp_query = query, rp_headers = headers,
                     rp_orderedHeaders = orderedHeaders, rp_cookies = cookies, rp_body = body\<rparr>))))))))"

definition prepare_plan :: "'o oo_ops \<Rightarrow> mimeLib \<Rightarrow> 'o requestPlan \<Rightarrow> int \<Rightarrow> RequestPreparation checked" where
  "prepare_plan ob lib facts budget =
     cbind (clift (err_of (validatePreparationBodyShape facts))) (\<lambda>_.
     cbind (validatePreparationEligibility facts) (\<lambda>_.
     projectRequestPreparation ob lib facts budget))"

definition Prepare ::
    "(string \<Rightarrow> string option) \<Rightarrow> 'o oo_ops \<Rightarrow> mimeLib \<Rightarrow> 'o Client \<Rightarrow> PrepareOptions \<Rightarrow> 'o RequestBuilder \<Rightarrow> RequestPreparation checked" where
  "Prepare ph ob lib c opts b =
     (case b_preparationErr b of
        Some _ \<Rightarrow> cfail (PreparationRetainedError (b_preparationErrClass b))
      | None \<Rightarrow>
          ccheck (if MaxPreparedBodyBytes opts < 0 then cfail (Sentinel ErrPreparationInvalidBudget)
          else case compileRequestPlan ph ob c b of
                 Inl err \<Rightarrow> cfail (the (sanitizePreparationCompileError (Some err)))
               | Inr facts \<Rightarrow> prepare_plan ob lib facts (MaxPreparedBodyBytes opts)))"

end
