(* ===== verification/Request_Preview.thy ===== *)
theory Request_Preview
  imports Request_Preparation
begin

text \<open>
  Model of \<open>request_preview.go\<close> and of \<open>projectStructural\<close> of \<open>request_plan.go\<close>: \<open>Preview\<close> compiles the
  plan of a request and projects it into a detached value that shows structure. A context brings its
  \<open>Err\<close> at every checkpoint, whether it has a deadline, and the context that \<open>context.WithTimeout\<close>
  derives from it.
\<close>

section \<open>Previews\<close>

text \<open>\<open>PreviewValueUnset\<close> is the empty string, Go's zero value of the type.\<close>

datatype PreviewValueState = PreviewValueUnknown | PreviewValueOmitted | PreviewValuePresent | PreviewValueUnset

record PreviewValue =
  pv_state :: PreviewValueState
  pv_value :: string

definition unknown_value :: PreviewValue where "unknown_value = \<lparr>pv_state = PreviewValueUnknown, pv_value = []\<rparr>"
definition omitted_value :: PreviewValue where "omitted_value = \<lparr>pv_state = PreviewValueOmitted, pv_value = []\<rparr>"
definition present_value :: "string \<Rightarrow> PreviewValue" where
  "present_value v = \<lparr>pv_state = PreviewValuePresent, pv_value = v\<rparr>"

definition PreviewValue_Value :: "PreviewValue \<Rightarrow> string" where
  "PreviewValue_Value v = (if pv_state v \<noteq> PreviewValuePresent then [] else pv_value v)"

record PreviewTarget =
  vt_scheme :: string
  vt_host :: string
  vt_path :: PreviewValue

record PreviewQuery =
  vq_key :: string
  vq_values :: "PreviewValue list"

record PreviewHeader =
  vh_key :: string
  vh_values :: "PreviewValue list"

record PreviewCookie =
  vk_name :: string
  vk_value :: PreviewValue

record PreviewMultipartField =
  mf_name :: string
  mf_values :: "PreviewValue list"

record PreviewMultipartFile =
  mf_field :: string
  mf_filename :: string
  mf_contentType :: string

record PreviewMultipart =
  vm_fields :: "PreviewMultipartField list"
  vm_files :: "PreviewMultipartFile list"
  vm_boundary :: PreviewValue

record PreviewBody =
  vb_kind :: PreviewBodyKind
  vb_mediaType :: string
  vb_presence :: PreviewValueState
  vb_value :: PreviewValue
  vb_length :: int
  vb_lengthKnown :: bool
  vb_replayable :: bool
  vb_replayabilityKnown :: bool
  vb_multipart :: "PreviewMultipart option"

definition PreviewBody_Length :: "PreviewBody \<Rightarrow> int" where
  "PreviewBody_Length b = (if \<not> vb_lengthKnown b then -1 else vb_length b)"

record RequestPreview =
  rv_method :: string
  rv_target :: PreviewTarget
  rv_url :: URL
  rv_query :: "PreviewQuery list"
  rv_headers :: "PreviewHeader list"
  rv_orderedHeaders :: "PreviewHeader list"
  rv_cookies :: "PreviewCookie list"
  rv_contentType :: string
  rv_body :: PreviewBody

section \<open>Bodies\<close>

definition headerValue :: "httpHeader \<Rightarrow> string \<Rightarrow> string" where
  "headerValue headers key = Header_Get headers key"

definition previewMultipart :: "Multipart option \<Rightarrow> PreviewMultipart checked" where
  "previewMultipart multipart =
     (case multipart of
        None \<Rightarrow> cfail previewInvalidBodyError
      | Some m \<Rightarrow>
          if mp_canReplay m \<and> mp_replayMaxBytes m < 0 then cfail previewInvalidBodyError
          else if mp_boundary m \<noteq> [] \<and> \<not> validMultipartBoundary (mp_boundary m) then cfail previewInvalidBodyError
          else let boundary = (if mp_boundary m \<noteq> [] then present_value (mp_boundary m) else unknown_value);
                   keys = sort (map fst (mp_fields m))
          in cbind (ceach (\<lambda>i key. every64 i (cret
                \<lparr>mf_name = key, mf_values = replicate (length (the (map_of (mp_fields m) key))) omitted_value\<rparr>)) 0 keys) (\<lambda>fields.
             cbind (ceach (\<lambda>i part. every64 i
                (if fp_Field part = [] \<or> fp_Body part = None then cfail previewInvalidBodyError
                 else cret \<lparr>mf_field = fp_Field part, mf_filename = fp_Filename part, mf_contentType = fp_ContentType part\<rparr>))
                0 (mp_parts m)) (\<lambda>files.
             cret \<lparr>vm_fields = fields, vm_files = files, vm_boundary = boundary\<rparr>)))"

text \<open>A selected body that is shown as present, its value omitted.\<close>

definition selected_body :: "requestBodyPlan \<Rightarrow> string \<Rightarrow> PreviewBody" where
  "selected_body selection mediaType =
     \<lparr>vb_kind = previewBodyKind (bp_kind selection), vb_mediaType = mediaType, vb_presence = PreviewValuePresent,
      vb_value = omitted_value, vb_length = 0, vb_lengthKnown = False, vb_replayable = False,
      vb_replayabilityKnown = False, vb_multipart = None\<rparr>"

definition previewBody :: "requestBodyPlan \<Rightarrow> httpHeader \<Rightarrow> PreviewBody checked" where
  "previewBody selection headers =
     (let body = selected_body selection (bp_contentType selection);
          replayable = body\<lparr>vb_replayable := True, vb_replayabilityKnown := True\<rparr>;
          encoded = (if headerValue headers ''Content-Type'' = [] then cfail (Sentinel ErrUnsupportedContentType) else cret replayable);
          sized = (\<lambda>n. cret (replayable\<lparr>vb_length := n, vb_lengthKnown := True\<rparr>))
      in case bp_kind selection of
           requestBodyNone \<Rightarrow> cret (body\<lparr>vb_presence := PreviewValueUnknown, vb_value := unknown_value, vb_mediaType := []\<rparr>)
         | requestBodyJSON \<Rightarrow> encoded
         | requestBodyXML \<Rightarrow> encoded
         | requestBodyYAML \<Rightarrow> encoded
         | requestBodyText \<Rightarrow> (case bp_value selection of GoString s \<Rightarrow> sized (int (length s)) | _ \<Rightarrow> cfail previewInvalidBodyError)
         | requestBodyBytes \<Rightarrow> (case bp_value selection of GoBytes s \<Rightarrow> sized (int (length s)) | _ \<Rightarrow> cfail previewInvalidBodyError)
         | requestBodyReader \<Rightarrow>
             (case bp_value selection of
                GoNil \<Rightarrow> cfail previewInvalidBodyError
              | _ \<Rightarrow> cret (if bp_hasReaderLength selection
                          then body\<lparr>vb_length := bp_readerLength selection, vb_lengthKnown := True, vb_replayabilityKnown := True\<rparr>
                          else body))
         | requestBodyForm \<Rightarrow> ccheck (cret replayable)
         | requestBodyMultipart \<Rightarrow>
             cbind (previewMultipart (bp_multipart selection)) (\<lambda>manifest.
               cret ((selected_body selection ''multipart/form-data'')\<lparr>vb_replayable := mp_canReplay (the (bp_multipart selection)),
                       vb_replayabilityKnown := True, vb_multipart := Some manifest\<rparr>)))"

section \<open>Headers and cookies\<close>

definition previewAuthHeader :: "'o AuthMethod option \<Rightarrow> goerr + bool" where
  "previewAuthHeader auth =
     (if auth = None then Inr False
      else case builtInAuthShape auth of
             (_, recognized, err) \<Rightarrow>
               (case err of
                  Some e \<Rightarrow> Inl (Wrapf ''preview auth'' e)
                | None \<Rightarrow> if \<not> recognized then Inl (wrapped ErrInvalidConfigValue ''preview auth'') else Inr True))"

definition previewHeaderValues :: "string \<Rightarrow> string list \<Rightarrow> string \<Rightarrow> PreviewValue list" where
  "previewHeaderValues key vs contentType =
     (let projected = replicate (length vs) omitted_value
      in if EqualFold key ''Content-Type'' \<and> length projected > 0 then projected[0 := present_value contentType] else projected)"

definition previewHeaderEntries :: "httpHeader \<Rightarrow> PreviewHeader list" where
  "previewHeaderEntries headers =
     map (\<lambda>key. \<lparr>vh_key = key, vh_values = previewHeaderValues key (the (map_of headers key)) (Header_Get headers key)\<rparr>)
       (sort (map fst headers))"

definition previewOrderedHeaderEntries :: "'o oo_ops \<Rightarrow> 'o option \<Rightarrow> string \<Rightarrow> PreviewHeader list" where
  "previewOrderedHeaderEntries ob ordered contentType =
     (case ordered of
        None \<Rightarrow> []
      | Some x \<Rightarrow> map (\<lambda>(k, vs). \<lparr>vh_key = k, vh_values = previewHeaderValues k vs contentType\<rparr>) (oo_entries ob x))"

definition planPreviewCookies :: "requestCookieOccurrence list \<Rightarrow> string list" where
  "planPreviewCookies cookies = filter validCookieName (map co_name cookies)"

definition previewCookieEntries :: "string list \<Rightarrow> PreviewCookie list" where
  "previewCookieEntries cookies = map (\<lambda>name. \<lparr>vk_name = name, vk_value = omitted_value\<rparr>) cookies"

section \<open>Projection\<close>

definition previewQueries :: "urlValues \<Rightarrow> PreviewQuery list" where
  "previewQueries query =
     map (\<lambda>key. \<lparr>vq_key = key, vq_values = replicate (length (the (map_of query key))) omitted_value\<rparr>) (sort (map fst query))"

definition safe_url :: "URL \<Rightarrow> URL" where
  "safe_url u = u\<lparr>url_user := None, url_path := [], url_rawPath := [], url_rawQuery := [], url_forceQuery := False,
     url_fragment := [], url_rawFragment := [], url_opaque := []\<rparr>"

definition preview_semantic :: "'o requestPlan \<Rightarrow> bool \<Rightarrow> httpHeader" where
  "preview_semantic p hasAuth =
     (let semantic = requestOccurrencesHeaderValues (pl_headers p)
      in if hasAuth then Header_Set semantic ''Authorization'' ''preview-redacted'' else semantic)"

definition drops_content_type :: "requestBodyPlan \<Rightarrow> bool" where
  "drops_content_type body \<longleftrightarrow> bp_kind body = requestBodyMultipart \<and> bp_generatedContentType body"

definition projectStructural :: "'o oo_ops \<Rightarrow> 'o requestPlan \<Rightarrow> RequestPreview checked" where
  "projectStructural ob p =
     ccheck (cbind (clift (previewAuthHeader (pl_clientAuth p))) (\<lambda>clientAuth.
     cbind (clift (previewAuthHeader (pl_requestAuth p))) (\<lambda>requestAuth.
     let semantic0 = preview_semantic p (clientAuth \<or> requestAuth);
         ordered0 = syncOrderedHeaderValues ob (cloneOrderedHeaders ob (pl_orderedHeaders p)) semantic0
     in cbind (previewBody (pl_body p) (bodyPreflightHeaders p)) (\<lambda>body.
     let semantic = (if drops_content_type (pl_body p) then deleteHeaderValues semantic0 ''Content-Type'' else semantic0);
         ordered = (if drops_content_type (pl_body p) then deleteOrderedHeader ob ordered0 ''Content-Type'' else ordered0)
     in cret \<lparr>rv_method = pl_method p,
              rv_target = \<lparr>vt_scheme = url_scheme (pl_targetURL p), vt_host = url_host (pl_targetURL p), vt_path = omitted_value\<rparr>,
              rv_url = safe_url (pl_targetURL p), rv_query = previewQueries (URL_Query (pl_targetURL p)),
              rv_headers = previewHeaderEntries semantic,
              rv_orderedHeaders = previewOrderedHeaderEntries ob ordered (Header_Get semantic ''Content-Type''),
              rv_cookies = previewCookieEntries (planPreviewCookies (pl_cookies p)),
              rv_contentType = Header_Get semantic ''Content-Type'', rv_body = body\<rparr>))))"

section \<open>Preview\<close>

record previewCtx =
  vc_err :: "nat \<Rightarrow> goerr option"
  vc_hasDeadline :: bool
  vc_withTimeout :: "int \<Rightarrow> nat \<Rightarrow> goerr option"

definition previewContext :: "previewCtx \<Rightarrow> int \<Rightarrow> nat \<Rightarrow> goerr option" where
  "previewContext ctx timeout = (if \<not> vc_hasDeadline ctx \<and> timeout > 0 then vc_withTimeout ctx timeout else vc_err ctx)"

definition newPreviewPreparationError :: "preparationErrorClass \<Rightarrow> goerr" where
  "newPreviewPreparationError cls =
     PreviewPreparationError (cls = preparationErrorClassInvalidConfigValue) (cls = preparationErrorClassUnsupportedFormFieldsType)"

definition preview_plan :: "(string \<Rightarrow> string option) \<Rightarrow> 'o oo_ops \<Rightarrow> 'o Client \<Rightarrow> 'o RequestBuilder \<Rightarrow> RequestPreview checked" where
  "preview_plan ph ob c b =
     (case compileRequestPlanSnapshot ph ob (snapshot ob c) b of
        Inl (RequestPlanCreationError _) \<Rightarrow> cfail (Sentinel ErrRequestCreationFailed)
      | Inl err \<Rightarrow> cfail err
      | Inr plan \<Rightarrow> projectStructural ob plan)"

definition Preview ::
    "(string \<Rightarrow> string option) \<Rightarrow> 'o oo_ops \<Rightarrow> 'o Client \<Rightarrow> 'o RequestBuilder \<Rightarrow> previewCtx option \<Rightarrow> nat \<Rightarrow> (goerr + RequestPreview) \<times> nat" where
  "Preview ph ob c b ctx n =
     (case b_preparationErr b of
        Some _ \<Rightarrow> (Inl (newPreviewPreparationError (b_preparationErrClass b)), n)
      | None \<Rightarrow>
          (case ctx of
             None \<Rightarrow> (Inl (Sentinel ErrRequestCreationFailed), n)
           | Some parent \<Rightarrow>
               (case vc_err parent n of
                  Some e \<Rightarrow> (Inl e, n + 1)
                | None \<Rightarrow> ccheck (preview_plan ph ob c b) (Some (previewContext parent (b_timeout b))) (n + 1))))"

end
