(* ===== verification/Prepared_Forms.thy ===== *)
theory Prepared_Forms
  imports Request_Preparation "HOL-Library.Multiset"
begin

text \<open>
  The retained form of \<open>projectPreparedBody\<close>: the lower bound kept by its loop never exceeds the length
  of the encoded form, so that leaving the loop early decides as the encoded form would.
\<close>

section \<open>Length of an encoded form\<close>

lemma length_escape_ge: "length s \<le> length (escape m s)"
  by (induction s) (auto simp: escape_char_def)

definition pair_length :: "string \<times> string \<Rightarrow> nat" where
  "pair_length p = length (fst p) + 1 + length (snd p)"

lemma length_encode_pair_ge: "pair_length p \<le> length (encode_pair p)"
  using length_escape_ge[of "fst p" encodeQueryComponent] length_escape_ge[of "snd p" encodeQueryComponent]
  by (simp add: pair_length_def encode_pair_def QueryEscape_def)

lemma length_join_amp: "length (join_amp ss) = sum_list (map length ss) + (length ss - 1)"
  by (induction ss rule: join_amp.induct) simp_all

lemma mset_sorted_pairs: "mset (sorted_pairs q) = (\<Sum>k \<leftarrow> map fst q. mset (map (Pair k) (Values_All q k)))"
proof -
  have "mset (concat (map f (sort ks))) = (\<Sum>k \<leftarrow> ks. mset (f k))" for f :: "string \<Rightarrow> (string \<times> string) list" and ks
  proof -
    have "mset (concat (map f xs)) = (\<Sum>k \<in># mset xs. mset (f k))" for xs by (induction xs) simp_all
    from this[of "sort ks"] show ?thesis by (simp flip: mset_map sum_mset_sum_list)
  qed
  then show ?thesis by (simp add: sorted_pairs_def)
qed

lemma mset_sorted_pairs_add:
  assumes "distinct (map fst q)"
  shows "mset (sorted_pairs (Values_Add q k v)) = add_mset (k, v) (mset (sorted_pairs q))"
proof -
  let ?m = "\<lambda>q k. mset (map (Pair k) (Values_All q k))"
  have d: "distinct (map fst (Values_Add q k v))"
    using assms by (simp add: Values_Add_def distinct_update)
  have ks: "set (map fst (Values_Add q k v)) = insert k (set (map fst q))"
    unfolding keys_of_map[of q] keys_of_map[of "Values_Add q k v"] by (auto simp: Values_Add_def map_of_alist_update)
  have other: "(\<Sum>x \<in> set (map fst q) - {k}. ?m (Values_Add q k v) x) = (\<Sum>x \<in> set (map fst q) - {k}. ?m q x)"
    by (rule sum.cong) (auto simp: qry.laws)
  have here: "?m (Values_Add q k v) k = add_mset (k, v) (?m q k)" by (simp add: qry.laws)
  have "mset (sorted_pairs (Values_Add q k v)) = (\<Sum>x \<in> insert k (set (map fst q)). ?m (Values_Add q k v) x)"
    unfolding mset_sorted_pairs sum_list_distinct_conv_sum_set[OF d] ks ..
  also have "\<dots> = ?m (Values_Add q k v) k + (\<Sum>x \<in> set (map fst q) - {k}. ?m (Values_Add q k v) x)"
    by (simp add: sum.insert_remove)
  also have "\<dots> = add_mset (k, v) (?m q k + (\<Sum>x \<in> set (map fst q) - {k}. ?m q x))"
    unfolding other here by simp
  also have "?m q k + (\<Sum>x \<in> set (map fst q) - {k}. ?m q x) = (\<Sum>x \<in> set (map fst q). ?m q x)"
  proof (cases "k \<in> set (map fst q)")
    case True
    then show ?thesis by (simp add: sum.remove)
  next
    case False
    then have "Values_All q k = []" by (simp add: Values_All_def map_of_eq_None_iff[THEN iffD2])
    then show ?thesis using False by simp
  qed
  also have "\<dots> = mset (sorted_pairs q)" unfolding mset_sorted_pairs sum_list_distinct_conv_sum_set[OF assms] ..
  finally show ?thesis .
qed

definition form_add :: "requestBodyFormOccurrence \<Rightarrow> urlValues \<Rightarrow> urlValues" where
  "form_add occ q = Values_Add q (fo_name occ) (rawValue (fo_value occ))"

definition form_pair :: "requestBodyFormOccurrence \<Rightarrow> string \<times> string" where
  "form_pair occ = (fo_name occ, rawValue (fo_value occ))"

lemma sorted_pairs_form:
  "distinct (map fst q) \<Longrightarrow> mset (sorted_pairs (fold form_add occs q)) = mset (sorted_pairs q) + mset (map form_pair occs)"
proof (induction occs arbitrary: q)
  case (Cons occ occs)
  then have "distinct (map fst (form_add occ q))" by (simp add: form_add_def Values_Add_def distinct_update)
  from Cons.IH[OF this] show ?case
    by (simp add: form_add_def form_pair_def mset_sorted_pairs_add[OF Cons.prems])
qed simp

lemma encoded_form_length:
  "sum_list (map (\<lambda>occ. pair_length (form_pair occ)) occs) + (length occs - 1) \<le> length (Values_Encode (fold form_add occs []))"
proof -
  let ?ps = "sorted_pairs (fold form_add occs [])"
  have ms: "mset ?ps = mset (map form_pair occs)" using sorted_pairs_form[of "[]" occs] by (simp add: sorted_pairs_def)
  have "sum_list (map (\<lambda>occ. pair_length (form_pair occ)) occs) = sum_list (map pair_length (map form_pair occs))"
    by (simp add: comp_def)
  also have "\<dots> = sum_list (map pair_length ?ps)"
    using ms by (metis mset_map sum_mset_sum_list)
  also have "\<dots> \<le> sum_list (map (\<lambda>p. length (encode_pair p)) ?ps)"
    by (rule sum_list_mono) (rule length_encode_pair_ge)
  finally have "sum_list (map (\<lambda>occ. pair_length (form_pair occ)) occs) \<le> sum_list (map length (map encode_pair ?ps))"
    by (simp add: comp_def)
  moreover have "length ?ps = length occs" using ms by (metis size_mset length_map)
  ultimately show ?thesis by (simp add: Values_Encode_def length_join_amp)
qed

section \<open>The loop\<close>

definition form_cost :: "nat \<Rightarrow> requestBodyFormOccurrence \<Rightarrow> int" where
  "form_cost i occ = of_bool (i > 0) + int (pair_length (form_pair occ))"

fun form_total :: "nat \<Rightarrow> requestBodyFormOccurrence list \<Rightarrow> int" where
  "form_total i [] = 0"
| "form_total i (occ # occs) = form_cost i occ + form_total (i + 1) occs"

lemma form_total_nonneg: "form_total i occs \<ge> 0"
  by (induction occs arbitrary: i) (simp_all add: form_cost_def)

lemma form_total_eq:
  "form_total i occs = int (sum_list (map (\<lambda>occ. pair_length (form_pair occ)) occs)) + int (length occs - of_bool (i = 0))"
proof (induction occs arbitrary: i)
  case (Cons occ occs)
  then show ?case by (cases i) (simp_all add: form_cost_def)
qed simp

lemma addPreparedFormLength_exact:
  assumes "0 \<le> lb" and "lb \<le> budget" and "budget \<le> int64_max" and "0 \<le> part"
  shows "fst (addPreparedFormLength lb part budget) \<longleftrightarrow> lb + part > budget"
    and "\<not> fst (addPreparedFormLength lb part budget) \<Longrightarrow> snd (addPreparedFormLength lb part budget) = lb + part"
  using assms by (auto simp: addPreparedFormLength_def)

lemma form_length_step_exact:
  assumes "0 \<le> lb" and "lb \<le> budget" and "budget \<le> int64_max"
  shows "form_length_step budget i occ lb = (if lb + form_cost i occ > budget then (True, snd (form_length_step budget i occ lb))
      else (False, lb + form_cost i occ))"
  using assms
  by (auto simp: form_length_step_def addPreparedFormLength_def form_cost_def pair_length_def form_pair_def Let_def
      split: prod.splits if_splits)

lemma form_loop_refines:
  assumes "0 \<le> lb" and "lb \<le> budget" and "budget \<le> int64_max"
  shows "refines (cfold (\<lambda>i occ (lowerBound, vs). every64 i
        (case form_length_step budget i occ lowerBound of
           (exceedsBudget, lb) \<Rightarrow>
             if exceedsBudget then ccheck (cfail (Sentinel ErrPreparationBodyTooLarge))
             else cret (lb, Values_Add vs (fo_name occ) (rawValue (fo_value occ))))) i occs (lb, q))
      (if lb + form_total i occs > budget then Inl (Sentinel ErrPreparationBodyTooLarge)
       else Inr (lb + form_total i occs, fold form_add occs q))"
  using assms
proof (induction occs arbitrary: i lb q)
  case Nil
  then show ?case by (simp add: refines_cret)
next
  case (Cons occ occs)
  note step = form_length_step_exact[OF Cons.prems, of i occ]
  show ?case
  proof (cases "lb + form_cost i occ > budget")
    case True
    then have x: "fst (form_length_step budget i occ lb)" using step by (metis fst_conv)
    moreover have "lb + form_total i (occ # occs) > budget" using True form_total_nonneg[of "i + 1" occs] by simp
    ultimately show ?thesis
      by (auto simp: split_beta intro!: refines_every64 refines_ccheck refines_cfail)
  next
    case False
    have "0 \<le> form_cost i occ" by (simp add: form_cost_def)
    with False show ?thesis
      using step Cons.IH[of "lb + form_cost i occ" "i + 1" "form_add occ q"] Cons.prems
      by (auto simp: form_add_def add.assoc intro!: refines_every64)
  qed
qed

lemma retainPreparedBytes_refines:
  "refines (retainPreparedBytes data budget)
     (if int (length data) > budget then Inl (Sentinel ErrPreparationBodyTooLarge) else Inr (preparedPresentBytes data))"
  by (simp add: retainPreparedBytes_def Let_def refines_ccheck refines_cfail refines_cret)

lemma prepared_form_refines:
  assumes "0 \<le> budget" and "budget \<le> int64_max"
  shows "refines (prepared_form occs budget)
     (if int (length (Values_Encode (fold form_add occs []))) > budget then Inl (Sentinel ErrPreparationBodyTooLarge)
      else Inr (preparedPresentBytes (Values_Encode (fold form_add occs []))))"
proof -
  let ?d = "Values_Encode (fold form_add occs [])"
  let ?r = "if int (length ?d) > budget then Inl (Sentinel ErrPreparationBodyTooLarge) else Inr (preparedPresentBytes ?d)"
  let ?l = "if 0 + form_total 0 occs > budget then Inl (Sentinel ErrPreparationBodyTooLarge)
       else Inr (0 + form_total 0 occs, fold form_add occs [])"
  have "form_total 0 occs \<le> int (length ?d)"
    using encoded_form_length[of occs] unfolding form_total_eq[of 0] by simp
  then have "?r = ebind ?l (\<lambda>(_, vs). if int (length (Values_Encode vs)) > budget
      then Inl (Sentinel ErrPreparationBodyTooLarge) else Inr (preparedPresentBytes (Values_Encode vs)))"
    by simp
  moreover have "refines (prepared_form occs budget) \<dots>"
    unfolding prepared_form_def
    by (rule refines_cbind[OF form_loop_refines[OF order_refl assms]])
      (use retainPreparedBytes_refines in \<open>simp split: prod.splits\<close>)
  ultimately show ?thesis by simp
qed

end
