(* ===== verification/Preparation_Properties.thy ===== *)
theory Preparation_Properties
  imports Prepared_Forms Plan_Properties Client_Properties
begin

text \<open>
  Properties of \<open>Prepare\<close>: the grouping loops compute what a specification without maps, checkpoints
  and early exits says; what is shown does not depend on private data; the retained body is the body
  that delivery sends and fits the budget.
\<close>

section \<open>Grouping\<close>

text \<open>The distinct names of a list in the order of the sorted map keys.\<close>

definition sorted_names :: "('x \<Rightarrow> string) \<Rightarrow> 'x list \<Rightarrow> string list" where
  "sorted_names key xs = sort (remdups (map key xs))"

definition grouped_by :: "('x \<Rightarrow> string) \<Rightarrow> 'x list \<Rightarrow> (string, 'x list) gomap" where
  "grouped_by key xs = fold (\<lambda>x. group_add (key x) x) xs []"

lemma grouped_by_snoc: "grouped_by key (xs @ [x]) = group_add (key x) x (grouped_by key xs)"
  by (simp add: grouped_by_def)

lemma map_of_grouped_by:
  "map_of (grouped_by key xs) k = (if k \<in> key ` set xs then Some (filter (\<lambda>x. key x = k) xs) else None)"
proof (induction xs rule: rev_induct)
  case (snoc x xs)
  have "filter (\<lambda>y. key y = key x) xs = []" if "key x \<notin> key ` set xs"
    using that by (metis (mono_tags, lifting) filter_False image_eqI)
  then show ?case using snoc by (auto simp: grouped_by_snoc group_add_def map_of_alist_update)
qed (simp add: grouped_by_def)

lemma distinct_grouped_by: "distinct (map fst (grouped_by key xs))"
  by (induction xs rule: rev_induct) (simp_all add: grouped_by_snoc group_add_def distinct_update, simp add: grouped_by_def)

lemma sort_unique: "distinct xs \<Longrightarrow> distinct ys \<Longrightarrow> set xs = set ys \<Longrightarrow> sort xs = sort (ys :: 'a::linorder list)"
  by (intro sorted_distinct_set_unique) simp_all

lemma sorted_keys_grouped_by: "sort (map fst (grouped_by key xs)) = sorted_names key xs"
  unfolding sorted_names_def
proof (rule sort_unique)
  show "set (map fst (grouped_by key xs)) = set (remdups (map key xs))"
    unfolding keys_of_map by (auto simp: map_of_grouped_by)
qed (simp_all add: distinct_grouped_by)

section \<open>Query\<close>

definition prepared_query_entry :: "requestOccurrence list \<Rightarrow> string \<Rightarrow> PreparedOccurrence" where
  "prepared_query_entry vs name =
     \<lparr>po_name = name, po_values = map (\<lambda>occ. preparedStringFromValue (occ_value occ)) (filter (\<lambda>occ. occ_name occ = name) vs)\<rparr>"

definition prepared_query :: "requestOccurrence list \<Rightarrow> PreparedOccurrence list" where
  "prepared_query vs = map (prepared_query_entry vs) (sorted_names occ_name vs)"

lemma projectPreparedQuery_eq:
  "projectPreparedQuery vs =
     cbind (checks 0 (length vs)) (\<lambda>_. ccheck (ccheck
       (ceach (\<lambda>i name. every64 i (cbind (checks 0 (length (filter (\<lambda>occ. occ_name occ = name) vs)))
          (\<lambda>_. cret (prepared_query_entry vs name)))) 0 (sorted_names occ_name vs))))"
proof -
  have "ceach (\<lambda>i name. every64 i
        (cbind (ceach (\<lambda>j occ. every64 j (cret (preparedStringFromValue (occ_value occ)))) 0 (the (map_of (grouped_by occ_name vs) name)))
          (\<lambda>prepared. cret \<lparr>po_name = name, po_values = prepared\<rparr>))) i (sorted_names occ_name vs) =
      ceach (\<lambda>i name. every64 i (cbind (checks 0 (length (filter (\<lambda>occ. occ_name occ = name) vs)))
          (\<lambda>_. cret (prepared_query_entry vs name)))) i (sorted_names occ_name vs)" for i
    by (rule ceach_cong[where R = "\<lambda>x y. x = y \<and> y \<in> occ_name ` set vs"])
      (auto simp: list_all2_same sorted_names_def ceach_pure map_of_grouped_by prepared_query_entry_def map_enumerate_const)
  then show ?thesis
    by (simp add: projectPreparedQuery_def cfold_pure grouped_by_def[symmetric] sorted_keys_grouped_by)
qed

lemma projectPreparedQuery_refines [refines_intros]: "refines (projectPreparedQuery vs) (Inr (prepared_query vs))"
proof -
  have "refines (ceach (\<lambda>i name. every64 i (cbind (checks 0 (length (filter (\<lambda>occ. occ_name occ = name) vs)))
      (\<lambda>_. cret (prepared_query_entry vs name)))) 0 (sorted_names occ_name vs)) (Inr (prepared_query vs))"
    unfolding prepared_query_def
    by (rule refines_ceach, rule refines_every64, rule refines_eq, rule refines_cbind, rule refines_checks, rule refines_cret) simp
  then show ?thesis
    unfolding projectPreparedQuery_eq
    by (intro refines_eq[OF refines_cbind[OF refines_checks, where s = "\<lambda>_. Inr (prepared_query vs)"]] refines_ccheck) simp_all
qed

section \<open>Headers\<close>

abbreviation lower_name :: "requestOccurrence \<Rightarrow> string" where
  "lower_name occ \<equiv> ToLower (occ_name occ)"

definition header_groups :: "requestOccurrence list \<Rightarrow> (string, preparedHeaderGroup) gomap" where
  "header_groups occs = fold header_group_add occs []"

definition header_group :: "requestOccurrence list \<Rightarrow> string \<Rightarrow> preparedHeaderGroup" where
  "header_group occs key =
     (case filter (\<lambda>occ. lower_name occ = key) occs of
        [] \<Rightarrow> \<lparr>hg_name = ''Authorization'', hg_occurrences = []\<rparr>
      | occ # rest \<Rightarrow> \<lparr>hg_name = occ_name occ, hg_occurrences = occ # rest\<rparr>)"

lemma header_groups_snoc: "header_groups (xs @ [x]) = header_group_add x (header_groups xs)"
  by (simp add: header_groups_def)

lemma map_of_header_groups:
  "map_of (header_groups occs) k = (if k \<in> lower_name ` set occs then Some (header_group occs k) else None)"
proof (induction occs rule: rev_induct)
  case (snoc x xs)
  have "filter (\<lambda>y. lower_name y = lower_name x) xs = []" if "lower_name x \<notin> lower_name ` set xs"
    using that by (metis (mono_tags, lifting) filter_False image_eqI)
  moreover have "filter (\<lambda>y. lower_name y = lower_name x) xs \<noteq> []" if "lower_name x \<in> lower_name ` set xs"
    using that by (auto simp: filter_empty_conv)
  ultimately show ?case
    using snoc
    by (auto simp: header_groups_snoc header_group_add_def map_of_alist_update header_group_def Let_def split: list.split)
qed (simp add: header_groups_def)

lemma distinct_header_groups: "distinct (map fst (header_groups occs))"
  by (induction occs rule: rev_induct)
    (simp_all add: header_groups_snoc header_group_add_def distinct_update Let_def, simp add: header_groups_def)

definition header_keys :: "requestOccurrence list \<Rightarrow> bool \<Rightarrow> string list" where
  "header_keys occs hasAuth = sort (remdups (map lower_name occs @ (if hasAuth then [ToLower ''Authorization''] else [])))"

definition auth_groups :: "'o requestPlan \<Rightarrow> (string, preparedHeaderGroup) gomap" where
  "auth_groups plan =
     (if pl_auth plan \<noteq> None \<and> map_of (header_groups (pl_headers plan)) (ToLower ''Authorization'') = None
      then AList.update (ToLower ''Authorization'') \<lparr>hg_name = ''Authorization'', hg_occurrences = []\<rparr> (header_groups (pl_headers plan))
      else header_groups (pl_headers plan))"

lemma map_of_auth_groups:
  "map_of (auth_groups plan) k =
     (if k \<in> lower_name ` set (pl_headers plan) \<or> pl_auth plan \<noteq> None \<and> k = ToLower ''Authorization''
      then Some (header_group (pl_headers plan) k) else None)"
proof -
  have "header_group (pl_headers plan) k = \<lparr>hg_name = ''Authorization'', hg_occurrences = []\<rparr>"
    if "k \<notin> lower_name ` set (pl_headers plan)" for k
  proof -
    have "filter (\<lambda>occ. lower_name occ = k) (pl_headers plan) = []" using that by (auto simp: filter_empty_conv)
    then show ?thesis by (simp add: header_group_def)
  qed
  then show ?thesis by (auto simp: auth_groups_def map_of_alist_update map_of_header_groups)
qed

lemma sorted_keys_auth_groups: "sort (map fst (auth_groups plan)) = header_keys (pl_headers plan) (pl_auth plan \<noteq> None)"
  unfolding header_keys_def
proof (rule sort_unique)
  show "distinct (map fst (auth_groups plan))"
    by (simp add: auth_groups_def distinct_header_groups distinct_update)
  show "set (map fst (auth_groups plan)) =
      set (remdups (map lower_name (pl_headers plan) @ (if pl_auth plan \<noteq> None then [ToLower ''Authorization''] else [])))"
    unfolding keys_of_map by (auto simp: map_of_auth_groups)
qed simp

definition prepared_header_values :: "string \<Rightarrow> requestOccurrence list \<Rightarrow> string \<Rightarrow> PreparedString list" where
  "prepared_header_values name occs mediaType =
     (if occs = [] then [preparedRedactedString]
      else map (\<lambda>(i, occ). prepared_header_value name mediaType i (occ_value occ)) (List.enumerate 0 occs))"

lemma projectPreparedHeaderValues_eq:
  "projectPreparedHeaderValues name occs mediaType =
     cbind (checks 0 (length occs)) (\<lambda>_. cret (prepared_header_values name occs mediaType))"
  by (simp add: projectPreparedHeaderValues_def prepared_header_values_def ceach_pure)

definition prepared_header :: "requestOccurrence list \<Rightarrow> string \<Rightarrow> string \<Rightarrow> PreparedHeader" where
  "prepared_header occs mediaType key =
     \<lparr>ph_name = hg_name (header_group occs key),
      ph_values = prepared_header_values (hg_name (header_group occs key)) (hg_occurrences (header_group occs key)) mediaType\<rparr>"

definition prepared_headers :: "'o requestPlan \<Rightarrow> (string, PreparedHeader) gomap" where
  "prepared_headers plan =
     map (\<lambda>key. (key, prepared_header (pl_headers plan) (preparedBodyMediaType (pl_body plan)) key))
       (header_keys (pl_headers plan) (pl_auth plan \<noteq> None))"

lemma projectPreparedHeaders_eq:
  "projectPreparedHeaders plan =
     cbind (checks 0 (length (pl_headers plan))) (\<lambda>_. ccheck (ccheck (cbind
       (ceach (\<lambda>i key. every64 i (cbind (checks 0 (length (hg_occurrences (header_group (pl_headers plan) key))))
          (\<lambda>_. cret (key, prepared_header (pl_headers plan) (preparedBodyMediaType (pl_body plan)) key)))) 0
          (header_keys (pl_headers plan) (pl_auth plan \<noteq> None)))
       (\<lambda>entries. cret (map snd entries, entries)))))"
proof -
  let ?mt = "preparedBodyMediaType (pl_body plan)"
  have "ceach (\<lambda>i key. every64 i
        (let group = the (map_of (auth_groups plan) key)
         in cbind (projectPreparedHeaderValues (hg_name group) (hg_occurrences group) ?mt)
              (\<lambda>vs. cret (key, \<lparr>ph_name = hg_name group, ph_values = vs\<rparr>)))) i (header_keys (pl_headers plan) (pl_auth plan \<noteq> None)) =
      ceach (\<lambda>i key. every64 i (cbind (checks 0 (length (hg_occurrences (header_group (pl_headers plan) key))))
          (\<lambda>_. cret (key, prepared_header (pl_headers plan) ?mt key)))) i (header_keys (pl_headers plan) (pl_auth plan \<noteq> None))" for i
    by (rule ceach_cong[where R = "\<lambda>x y. x = y \<and> map_of (auth_groups plan) y = Some (header_group (pl_headers plan) y)"])
      (auto simp: list_all2_same header_keys_def map_of_auth_groups projectPreparedHeaderValues_eq prepared_header_def Let_def
        split: if_splits)
  moreover have "projectPreparedHeaders plan =
    cbind (checks 0 (length (pl_headers plan))) (\<lambda>_. ccheck (ccheck (cbind
       (ceach (\<lambda>i key. every64 i
        (let group = the (map_of (auth_groups plan) key)
         in cbind (projectPreparedHeaderValues (hg_name group) (hg_occurrences group) ?mt)
              (\<lambda>vs. cret (key, \<lparr>ph_name = hg_name group, ph_values = vs\<rparr>)))) 0 (sort (map fst (auth_groups plan))))
       (\<lambda>entries. cret (map snd entries, entries)))))"
    by (simp add: projectPreparedHeaders_def cfold_pure header_groups_def[symmetric] auth_groups_def Let_def)
  ultimately show ?thesis by (simp only: sorted_keys_auth_groups)
qed

lemma projectPreparedHeaders_refines:
  "refines (projectPreparedHeaders plan) (Inr (map snd (prepared_headers plan), prepared_headers plan))"
proof -
  have "refines (ceach (\<lambda>i key. every64 i (cbind (checks 0 (length (hg_occurrences (header_group (pl_headers plan) key))))
          (\<lambda>_. cret (key, prepared_header (pl_headers plan) (preparedBodyMediaType (pl_body plan)) key)))) 0
          (header_keys (pl_headers plan) (pl_auth plan \<noteq> None))) (Inr (prepared_headers plan))"
    unfolding prepared_headers_def
    by (rule refines_ceach, rule refines_every64, rule refines_eq, rule refines_cbind, rule refines_checks, rule refines_cret) simp
  then have "refines (cbind (ceach (\<lambda>i key. every64 i (cbind (checks 0 (length (hg_occurrences (header_group (pl_headers plan) key))))
          (\<lambda>_. cret (key, prepared_header (pl_headers plan) (preparedBodyMediaType (pl_body plan)) key)))) 0
          (header_keys (pl_headers plan) (pl_auth plan \<noteq> None))) (\<lambda>entries. cret (map snd entries, entries)))
      (ebind (Inr (prepared_headers plan)) (\<lambda>entries. Inr (map snd entries, entries)))"
    by (rule refines_cbind) (rule refines_cret)
  then show ?thesis
    unfolding projectPreparedHeaders_eq
    by (intro refines_eq[OF refines_cbind[OF refines_checks,
          where s = "\<lambda>_. Inr (map snd (prepared_headers plan), prepared_headers plan)"]] refines_ccheck) simp_all
qed

section \<open>Target, ordered headers, cookies\<close>

definition params_public :: "requestPathParamTrace list \<Rightarrow> bool" where
  "params_public params \<longleftrightarrow> list_all (\<lambda>p. pt_path p = 0 \<or> isPublic (pt_value p)) params"

definition prepared_target :: "'o requestPlan \<Rightarrow> PreparedTarget" where
  "prepared_target plan =
     \<lparr>pg_scheme = url_scheme (pl_targetURL plan), pg_authority = url_host (pl_targetURL plan),
      pg_path = (if isPublic (tr_path (pl_pathTrace plan)) \<and> \<not> tr_basePathPrivate (pl_pathTrace plan) \<and>
                    params_public (tr_params (pl_pathTrace plan))
                 then preparedPresentString (EscapedPath (pl_targetURL plan)) else preparedRedactedString)\<rparr>"

lemma path_params_public_refines: "refines (path_params_public i params) (Inr (params_public params))"
  by (induction params arbitrary: i) (auto simp: params_public_def intro!: refines_cret refines_every64)

lemma projectPreparedTarget_refines: "refines (projectPreparedTarget plan) (Inr (prepared_target plan))"
  unfolding projectPreparedTarget_def
  by (rule refines_eq, rule refines_cbind[OF path_params_public_refines], unfold Let_def, rule refines_cret)
    (simp add: prepared_target_def)

definition prepared_ordered_value :: "PreparedHeader option \<Rightarrow> nat \<Rightarrow> PreparedString" where
  "prepared_ordered_value header j =
     (case header of
        Some h \<Rightarrow> if j < length (ph_values h) then PreparedString_clone (ph_values h ! j) else preparedRedactedString
      | None \<Rightarrow> preparedRedactedString)"

definition prepared_ordered_entry :: "(string, PreparedHeader) gomap \<Rightarrow> string \<times> string list \<Rightarrow> PreparedHeader" where
  "prepared_ordered_entry semantic e =
     \<lparr>ph_name = fst e, ph_values = map (prepared_ordered_value (map_of semantic (ToLower (fst e)))) [0..<length (snd e)]\<rparr>"

definition prepared_ordered :: "'o oo_ops \<Rightarrow> 'o option \<Rightarrow> (string, PreparedHeader) gomap \<Rightarrow> PreparedHeader list" where
  "prepared_ordered ob ordered semantic =
     (case ordered of None \<Rightarrow> [] | Some x \<Rightarrow> map (prepared_ordered_entry semantic) (oo_entries ob x))"

lemma map_enumerate_index: "map (\<lambda>(j, x). h j) (List.enumerate 0 xs) = map h [0..<length xs]"
proof -
  have "map (\<lambda>(j, x). h j) (List.enumerate 0 xs) = map h (map fst (List.enumerate 0 xs))"
    unfolding map_map by (rule map_cong) auto
  then show ?thesis by (simp only: map_fst_enumerate add_0)
qed

lemma projectPreparedOrderedHeaders_eq:
  "projectPreparedOrderedHeaders ob ordered semantic =
     (case ordered of
        None \<Rightarrow> cret []
      | Some x \<Rightarrow> ccheck (ccheck (ceach (\<lambda>i e. every64 i (cbind (checks 0 (length (snd e)))
          (\<lambda>_. cret (prepared_ordered_entry semantic e)))) 0 (oo_entries ob x))))"
proof -
  have "ceach (\<lambda>j _. every64 j (cret (case h of
         Some header \<Rightarrow> if j < length (ph_values header) then PreparedString_clone (ph_values header ! j) else preparedRedactedString
       | None \<Rightarrow> preparedRedactedString))) 0 vs =
      cbind (checks 0 (length vs)) (\<lambda>_. cret (map (prepared_ordered_value h) [0..<length vs]))"
    for h and vs :: "string list"
    unfolding prepared_ordered_value_def[symmetric] ceach_pure map_enumerate_index ..
  then show ?thesis
    by (simp add: projectPreparedOrderedHeaders_def prepared_ordered_entry_def split_beta' split: option.split)
qed

lemma projectPreparedOrderedHeaders_refines:
  "refines (projectPreparedOrderedHeaders ob ordered semantic) (Inr (prepared_ordered ob ordered semantic))"
proof (cases ordered)
  case (Some x)
  have "refines (ceach (\<lambda>i e. every64 i (cbind (checks 0 (length (snd e))) (\<lambda>_. cret (prepared_ordered_entry semantic e)))) 0 (oo_entries ob x))
      (Inr (map (prepared_ordered_entry semantic) (oo_entries ob x)))"
    by (rule refines_ceach, rule refines_every64, rule refines_eq, rule refines_cbind, rule refines_checks, rule refines_cret) simp
  then show ?thesis
    using Some by (simp add: projectPreparedOrderedHeaders_eq prepared_ordered_def refines_ccheck)
qed (simp add: projectPreparedOrderedHeaders_eq prepared_ordered_def refines_cret)

definition prepared_cookies :: "requestCookieOccurrence list \<Rightarrow> PreparedCookie list" where
  "prepared_cookies vs =
     map (\<lambda>occ. \<lparr>pc_name = co_name occ, pc_value = preparedStringFromValue (co_value occ)\<rparr>)
       (filter (\<lambda>occ. validCookieName (co_name occ)) vs)"

lemma projectPreparedCookies_eq:
  "projectPreparedCookies vs = cbind (checks 0 (length vs)) (\<lambda>_. cret (prepared_cookies vs))"
proof -
  have "fold (\<lambda>occ result. if \<not> validCookieName (co_name occ) then result
      else result @ [\<lparr>pc_name = co_name occ, pc_value = preparedStringFromValue (co_value occ)\<rparr>]) vs r = r @ prepared_cookies vs" for r
    by (induction vs arbitrary: r) (simp_all add: prepared_cookies_def)
  then show ?thesis by (simp add: projectPreparedCookies_def cfold_pure)
qed

lemma projectPreparedCookies_refines: "refines (projectPreparedCookies vs) (Inr (prepared_cookies vs))"
  unfolding projectPreparedCookies_eq by (rule refines_eq, rule refines_cbind, rule refines_checks, rule refines_cret) simp

section \<open>Body\<close>

definition retained :: "PreparedBody \<Rightarrow> bytes \<Rightarrow> int \<Rightarrow> goerr + PreparedBody" where
  "retained body data budget =
     (if int (length data) > budget then Inl (Sentinel ErrPreparationBodyTooLarge)
      else Inr (body\<lparr>py_data := preparedPresentBytes data\<rparr>))"

fun manifest_files :: "mimeLib \<Rightarrow> FilePart list \<Rightarrow> goerr + PreparedMultipartFile list" where
  "manifest_files lib [] = Inr []"
| "manifest_files lib (part # parts) =
     (if fp_Field part = [] \<or> fp_Body part = None then Inl (wrapped ErrInvalidConfigValue ''multipart structure'')
      else case validateMultipartFileMetadata lib part of
             Some e \<Rightarrow> Inl e
           | None \<Rightarrow> ebind (manifest_files lib parts) (\<lambda>fs. Inr (\<lparr>pf_field = fp_Field part\<rparr> # fs)))"

definition prepared_manifest :: "mimeLib \<Rightarrow> Multipart option \<Rightarrow> goerr + PreparedMultipart" where
  "prepared_manifest lib multipart =
     (case multipart of
        None \<Rightarrow> Inl (wrapped ErrInvalidConfigValue ''multipart body'')
      | Some m \<Rightarrow>
          if mp_canReplay m \<and> mp_replayMaxBytes m < 0 then Inl (wrapped ErrInvalidConfigValue ''multipart replay limit'')
          else if mp_boundary m \<noteq> [] \<and> \<not> validMultipartBoundary (mp_boundary m)
               then Inl (wrapped ErrInvalidConfigValue ''multipart boundary'')
          else ebind (manifest_files lib (mp_parts m)) (\<lambda>fs. Inr
             \<lparr>pm_fields = map (\<lambda>k. \<lparr>po_name = k, po_values = replicate (length (the (map_of (mp_fields m) k))) preparedRedactedString\<rparr>)
                (sort (map fst (mp_fields m))), pm_files = fs\<rparr>))"

definition prepared_body :: "mimeLib \<Rightarrow> requestBodyPlan \<Rightarrow> int \<Rightarrow> goerr + PreparedBody" where
  "prepared_body lib body budget =
     (let result = \<lparr>py_kind = previewBodyKind (bp_kind body), py_mediaType = preparedBodyMediaType body,
                    py_data = preparedRedactedBytes, py_multipart = None\<rparr>
      in case bp_kind body of
           requestBodyText \<Rightarrow>
             if \<not> bp_valuePublic body then Inr result
             else (case bp_value body of GoString s \<Rightarrow> retained result s budget | _ \<Rightarrow> Inl preparationBodyError)
         | requestBodyBytes \<Rightarrow>
             if \<not> bp_valuePublic body then Inr result
             else (case bp_value body of GoBytes s \<Rightarrow> retained result s budget | _ \<Rightarrow> Inl preparationBodyError)
         | requestBodyForm \<Rightarrow>
             if formAllPublic body then retained result (Values_Encode (fold form_add (bp_formOccurrences body) [])) budget
             else Inr result
         | requestBodyMultipart \<Rightarrow>
             ebind (prepared_manifest lib (bp_multipart body)) (\<lambda>m. Inr (result\<lparr>py_multipart := Some m\<rparr>))
         | _ \<Rightarrow> Inr result)"

lemma manifest_files_refines:
  "refines (ceach (\<lambda>i part. ccheck
      (if fp_Field part = [] \<or> fp_Body part = None then cfail (wrapped ErrInvalidConfigValue ''multipart structure'')
       else case validateMultipartFileMetadata lib part of
              Some e \<Rightarrow> cfail e
            | None \<Rightarrow> cret \<lparr>pf_field = fp_Field part\<rparr>)) i parts) (manifest_files lib parts)"
proof (induction parts arbitrary: i)
  case (Cons part parts)
  show ?case
  proof (cases "fp_Field part = [] \<or> fp_Body part = None")
    case True
    then show ?thesis by (simp add: refines_ccheck refines_cfail)
  next
    case False
    then obtain b where "fp_Field part \<noteq> []" "fp_Body part = Some b" by auto
    then show ?thesis
      by (cases "validateMultipartFileMetadata lib part")
        (simp_all, auto intro!: refines_ccheck refines_cfail refines_cret refines_cbind[OF Cons.IH])
  qed
qed (simp add: refines_cret)

lemma manifest_fields_refines:
  "refines (ceach (\<lambda>i key. ccheck
      (cbind (ceach (\<lambda>j _. every64 j (cret preparedRedactedString)) 0 (the (map_of fs key))) (\<lambda>vs.
         let field = \<lparr>po_name = key, po_values = vs\<rparr>
         in if i mod 64 = 63 then ccheck (cret field) else cret field))) i keys)
    (Inr (map (\<lambda>k. \<lparr>po_name = k, po_values = replicate (length (the (map_of fs k))) preparedRedactedString\<rparr>) keys))"
  by (intro refines_ceach refines_ccheck, unfold ceach_pure cbind_assoc, rule refines_eq, rule refines_cbind, rule refines_checks)
    (auto simp: map_enumerate_const map_replicate_const Let_def intro!: refines_ccheck refines_cret)

lemma prepareMultipartManifest_refines: "refines (prepareMultipartManifest lib m) (prepared_manifest lib m)"
proof (cases m)
  case (Some x)
  have "refines (cbind (ceach (\<lambda>i part. ccheck
              (if fp_Field part = [] \<or> fp_Body part = None then cfail (wrapped ErrInvalidConfigValue ''multipart structure'')
               else case validateMultipartFileMetadata lib part of
                      Some e \<Rightarrow> cfail e
                    | None \<Rightarrow> cret \<lparr>pf_field = fp_Field part\<rparr>)) 0 (mp_parts x)) (\<lambda>files.
          ccheck (cret \<lparr>pm_fields = fs, pm_files = files\<rparr>)))
       (ebind (manifest_files lib (mp_parts x)) (\<lambda>files. Inr \<lparr>pm_fields = fs, pm_files = files\<rparr>))" for fs
    by (rule refines_cbind[OF manifest_files_refines]) (intro refines_ccheck refines_cret)
  from refines_cbind[OF manifest_fields_refines this] show ?thesis
    unfolding prepareMultipartManifest_def prepared_manifest_def Some option.case Let_def
    by (auto intro!: refines_ccheck refines_cfail)
qed (simp add: prepareMultipartManifest_def prepared_manifest_def refines_cfail)

lemma form_public_refines:
  "refines (preparedFormAllPublic occs) (Inr (occs \<noteq> [] \<and> list_all (\<lambda>occ. isPublic (fo_value occ)) occs))"
proof -
  have "refines (form_public_from i occs) (Inr (list_all (\<lambda>occ. isPublic (fo_value occ)) occs))" for i
    by (induction occs arbitrary: i) (auto intro!: refines_cret refines_every64)
  then show ?thesis by (simp add: preparedFormAllPublic_def refines_cret)
qed

lemma retain_refines:
  "refines (cbind (retainPreparedBytes data budget) (\<lambda>d. cret (r\<lparr>py_data := d\<rparr>))) (retained r data budget)"
  by (rule refines_eq[OF refines_cbind[OF retainPreparedBytes_refines refines_cret]]) (simp add: retained_def)

lemmas retain_body_refines =
  retain_refines[of _ _ "\<lparr>py_kind = k, py_mediaType = mt, py_data = preparedRedactedBytes, py_multipart = None\<rparr>" for k mt, simplified]

lemma projectPreparedBody_refines:
  assumes "0 \<le> budget" and "budget \<le> int64_max"
  shows "refines (projectPreparedBody lib body budget) (prepared_body lib body budget)"
proof (cases "bp_kind body")
  case requestBodyForm
  let ?d = "Values_Encode (fold form_add (bp_formOccurrences body) [])"
  have "refines (ccheck (cbind (prepared_form (bp_formOccurrences body) budget) (\<lambda>d. cret (r\<lparr>py_data := d\<rparr>)))) (retained r ?d budget)" for r
    by (intro refines_ccheck, rule refines_eq[OF refines_cbind[OF prepared_form_refines[OF assms] refines_cret]]) (simp add: retained_def)
  then have "refines (cbind (preparedFormAllPublic (bp_formOccurrences body)) (\<lambda>allPublic.
        if \<not> allPublic then cret r
        else ccheck (cbind (prepared_form (bp_formOccurrences body) budget) (\<lambda>d. cret (r\<lparr>py_data := d\<rparr>)))))
      (ebind (Inr (formAllPublic body)) (\<lambda>allPublic. if \<not> allPublic then Inr r else retained r ?d budget))" for r
    using form_public_refines[of "bp_formOccurrences body"] requestBodyForm
    by (intro refines_cbind) (auto simp: formAllPublic_def refines_cret)
  from this[of "\<lparr>py_kind = PreviewBodyForm, py_mediaType = preparedBodyMediaType body,
      py_data = preparedRedactedBytes, py_multipart = None\<rparr>"]
  show ?thesis
    by (cases "formAllPublic body")
      (simp_all add: projectPreparedBody_def prepared_body_def previewBodyKind_def Let_def requestBodyForm)
next
  case requestBodyMultipart
  then show ?thesis
    using refines_cbind[OF prepareMultipartManifest_refines refines_cret]
    by (simp add: projectPreparedBody_def prepared_body_def Let_def)
qed (auto simp: projectPreparedBody_def prepared_body_def Let_def intro!: refines_cret refines_cfail retain_body_refines split: goany.splits)

section \<open>Prepare\<close>

definition prepared_projection :: "'o oo_ops \<Rightarrow> mimeLib \<Rightarrow> 'o requestPlan \<Rightarrow> int \<Rightarrow> goerr + RequestPreparation" where
  "prepared_projection ob lib plan budget =
     ebind (prepared_body lib (pl_body plan) budget) (\<lambda>body. Inr
       \<lparr>rp_method = pl_method plan, rp_target = prepared_target plan, rp_query = prepared_query (pl_query plan),
        rp_headers = map snd (prepared_headers plan),
        rp_orderedHeaders = prepared_ordered ob (pl_orderedHeaders plan) (prepared_headers plan),
        rp_cookies = prepared_cookies (pl_cookies plan), rp_body = body\<rparr>)"

definition prepared_plan :: "'o oo_ops \<Rightarrow> mimeLib \<Rightarrow> 'o requestPlan \<Rightarrow> int \<Rightarrow> goerr + RequestPreparation" where
  "prepared_plan ob lib plan budget =
     ebind (err_of (validatePreparationBodyShape plan)) (\<lambda>_.
     if \<not> list_all param_eligible (tr_params (pl_pathTrace plan)) then Inl (Sentinel ErrPreparationNotPreparable)
     else ebind (err_of (auth_eligible [pl_clientAuth plan, pl_requestAuth plan])) (\<lambda>_.
     prepared_projection ob lib plan budget))"

definition prepare_spec ::
    "(string \<Rightarrow> string option) \<Rightarrow> 'o oo_ops \<Rightarrow> mimeLib \<Rightarrow> 'o Client \<Rightarrow> PrepareOptions \<Rightarrow> 'o RequestBuilder \<Rightarrow> goerr + RequestPreparation" where
  "prepare_spec ph ob lib c opts b =
     (case b_preparationErr b of
        Some _ \<Rightarrow> Inl (PreparationRetainedError (b_preparationErrClass b))
      | None \<Rightarrow>
          if MaxPreparedBodyBytes opts < 0 then Inl (Sentinel ErrPreparationInvalidBudget)
          else case compileRequestPlan ph ob c b of
                 Inl _ \<Rightarrow> Inl (Sentinel ErrRequestCreationFailed)
               | Inr plan \<Rightarrow> prepared_plan ob lib plan (MaxPreparedBodyBytes opts))"

lemma eligible_params_refines:
  "refines (cfold (\<lambda>i param _. every64 i (if param_eligible param then cret () else cfail (Sentinel ErrPreparationNotPreparable))) i params ())
     (if \<not> list_all param_eligible params then Inl (Sentinel ErrPreparationNotPreparable) else Inr ())"
proof (induction params arbitrary: i)
  case (Cons param params)
  show ?case
  proof (cases "param_eligible param")
    case True
    then show ?thesis using Cons.IH[of "i + 1"] by (simp add: refines_every64)
  next
    case False
    then show ?thesis by (simp add: refines_every64 refines_cfail)
  qed
qed (simp add: refines_cret)

lemma projectRequestPreparation_refines:
  assumes "0 \<le> budget" and "budget \<le> int64_max"
  shows "refines (projectRequestPreparation ob lib plan budget) (prepared_projection ob lib plan budget)"
proof -
  let ?out = "\<lambda>target query headers ordered cookies body. \<lparr>rp_method = pl_method plan, rp_target = target, rp_query = query,
    rp_headers = headers, rp_orderedHeaders = ordered, rp_cookies = cookies, rp_body = body\<rparr>"
  have body: "refines (cbind (projectPreparedBody lib (pl_body plan) budget) (\<lambda>body. ccheck (cret (?out t q h od ck body))))
      (ebind (prepared_body lib (pl_body plan) budget) (\<lambda>body. Inr (?out t q h od ck body)))" for t q h od ck
    by (rule refines_cbind[OF projectPreparedBody_refines[OF assms]]) (intro refines_ccheck refines_cret)
  have cookies: "refines (cbind (projectPreparedCookies (pl_cookies plan)) (\<lambda>ck.
        cbind (projectPreparedBody lib (pl_body plan) budget) (\<lambda>body. ccheck (cret (?out t q h od ck body)))))
      (ebind (Inr (prepared_cookies (pl_cookies plan))) (\<lambda>ck.
        ebind (prepared_body lib (pl_body plan) budget) (\<lambda>body. Inr (?out t q h od ck body))))" for t q h od
    by (rule refines_cbind[OF projectPreparedCookies_refines body])
  have ordered: "refines (case hs of (headers, headerMap) \<Rightarrow> cbind (projectPreparedOrderedHeaders ob (pl_orderedHeaders plan) headerMap) (\<lambda>od.
        cbind (projectPreparedCookies (pl_cookies plan)) (\<lambda>ck.
        cbind (projectPreparedBody lib (pl_body plan) budget) (\<lambda>body. ccheck (cret (?out t q headers od ck body))))))
      (ebind (Inr (prepared_ordered ob (pl_orderedHeaders plan) (snd hs))) (\<lambda>od.
        ebind (Inr (prepared_cookies (pl_cookies plan))) (\<lambda>ck.
        ebind (prepared_body lib (pl_body plan) budget) (\<lambda>body. Inr (?out t q (fst hs) od ck body)))))" for t q hs
    by (cases hs) (simp only: prod.case fst_conv snd_conv, rule refines_cbind[OF projectPreparedOrderedHeaders_refines cookies])
  show ?thesis
    unfolding projectRequestPreparation_def
    by (rule refines_ccheck, rule refines_eq,
        rule refines_cbind[OF projectPreparedTarget_refines], rule refines_cbind[OF projectPreparedQuery_refines],
        rule refines_cbind[OF projectPreparedHeaders_refines], rule ordered)
      (simp add: prepared_projection_def)
qed

lemma prepare_plan_refines:
  assumes "0 \<le> budget" and "budget \<le> int64_max"
  shows "refines (prepare_plan ob lib plan budget) (prepared_plan ob lib plan budget)"
proof -
  have "refines (validatePreparationEligibility plan)
      (ebind (if \<not> list_all param_eligible (tr_params (pl_pathTrace plan)) then Inl (Sentinel ErrPreparationNotPreparable) else Inr ())
        (\<lambda>_. err_of (auth_eligible [pl_clientAuth plan, pl_requestAuth plan])))"
    unfolding validatePreparationEligibility_def by (rule refines_cbind[OF eligible_params_refines refines_clift])
  from refines_cbind[OF refines_clift refines_cbind[OF this projectRequestPreparation_refines[OF assms]]]
  show ?thesis
    unfolding prepare_plan_def by (rule refines_eq) (auto simp: prepared_plan_def)
qed

lemma Prepare_refines:
  assumes "MaxPreparedBodyBytes opts \<le> int64_max"
  shows "refines (Prepare ph ob lib c opts b) (prepare_spec ph ob lib c opts b)"
  using assms
  by (auto simp: Prepare_def prepare_spec_def sanitizePreparationCompileError_def
      intro!: refines_cfail refines_ccheck prepare_plan_refines split: option.split sum.split)

text \<open>
  Claim C33: with a context that does not end, \<open>Prepare\<close> returns exactly what a specification without
  maps, checkpoints and early exits says: the sorted query names with the values of each in order, the
  headers grouped by their lower-case names, the winning cookies with valid names, and the body within
  the budget or an error; if the context ends, it returns that or the error of the context. A nil
  context is refused.
\<close>

theorem prepare_refines_spec:
  assumes "MaxPreparedBodyBytes opts \<le> int64_max"
  shows "(fst (Prepare ph ob lib c opts b (Some err) n) = prepare_spec ph ob lib c opts b \<or>
      (\<exists>k e. err k = Some e \<and> fst (Prepare ph ob lib c opts b (Some err) n) = Inl e)) \<and>
    (fst (Prepare ph ob lib c opts b None n) =
      Inl (if b_preparationErr b = None then Sentinel ErrRequestCreationFailed
           else PreparationRetainedError (b_preparationErrClass b)))"
  using Prepare_refines[OF assms, of ph ob lib c b]
  by (simp add: refines_def Prepare_def ccheck_def cbind_def checkpoint_def cfail_def split: option.split)

section \<open>The retained body\<close>

lemma form_fold: "foldl (\<lambda>q occ. Values_Add q (fo_name occ) (rawValue (fo_value occ))) q occs = fold form_add occs q"
  by (induction occs arbitrary: q) (simp_all add: form_add_def)

lemma prepared_body_retained:
  assumes "prepared_body lib body budget = Inr rb" and "pb_state (py_data rb) = PreparedValuePresent"
  shows "int (length (pb_value (py_data rb))) \<le> budget \<and>
    buildDeliveryBody snap body headers = Inr (replayableRequestBody (pb_value (py_data rb)) (Header_Get headers ''Content-Type''))"
  using assms
  by (auto simp: prepared_body_def buildDeliveryBody_def Let_def retained_def preparedPresentBytes_def preparedRedactedBytes_def
      form_fold ebind_Inr_iff split: requestBodyKind.splits if_splits goany.splits)

text \<open>
  Claim C34: if \<open>Prepare\<close> retains the bytes of a body, they fit the budget, and they are the bytes that
  delivery sends for the same builder: materialising its body succeeds and gives a replayable body of
  these bytes.
\<close>

theorem prepared_body_is_sent:
  assumes "fst (Prepare ph ob lib c opts b (Some err) n) = Inr r" and "MaxPreparedBodyBytes opts \<le> int64_max"
    and "PreparedBytes_State (py_data (Preparation_Body r)) = PreparedValuePresent"
  shows "int (length (PreparedBytes_Bytes (py_data (Preparation_Body r)))) \<le> MaxPreparedBodyBytes opts \<and>
    buildDeliveryBody snap (b_body b) headers =
      Inr (replayableRequestBody (PreparedBytes_Bytes (py_data (Preparation_Body r))) (Header_Get headers ''Content-Type''))"
proof -
  have "prepare_spec ph ob lib c opts b = Inr r"
    using Prepare_refines[OF assms(2), of ph ob lib c b] assms(1) unfolding refines_def by (metis sum.distinct(1))
  then obtain plan where plan: "compileRequestPlan ph ob c b = Inr plan"
    and r: "prepared_plan ob lib plan (MaxPreparedBodyBytes opts) = Inr r"
    by (auto simp: prepare_spec_def split: option.splits if_splits sum.splits)
  then have pb: "prepared_body lib (b_body b) (MaxPreparedBodyBytes opts) = Inr (rp_body r)"
    by (auto simp: prepared_plan_def prepared_projection_def ebind_Inr_iff plan_fields(10)[OF plan[unfolded compileRequestPlan_def]] split: if_splits)
  let ?d = "py_data (rp_body r)"
  have p: "pb_state ?d = PreparedValuePresent" and d: "PreparedBytes_Bytes (py_data (Preparation_Body r)) = pb_value ?d"
    using assms(3)
    by (auto simp: Preparation_Body_def clonePreparedBody_def PreparedBytes_clone_def PreparedBytes_State_def
        PreparedBytes_Bytes_def preparedRedactedBytes_def split: if_splits)
  show ?thesis using prepared_body_retained[OF pb p, of snap headers] by (simp add: d)
qed

section \<open>Examples\<close>

definition ex_mime :: mimeLib where
  "ex_mime = \<lparr>mi_escapeQuotes = id, mi_formatDisposition = (\<lambda>a b. a @ b), mi_validMediaType = (\<lambda>_. True), mi_randomBoundary = ''b''\<rparr>"

definition ex_public_form :: "(string, string list) alist RequestBuilder" where
  "ex_public_form = FormFieldValue dalist_ops ''a'' (Public ''1 2'') (FormFieldValue dalist_ops ''b'' (Public ''3'')
     (Client_Request ''POST'' ''/v1''))"

theorem prepare_refines_spec_witness:
  "\<exists>r. fst (Prepare Some dalist_ops ex_mime ex_client \<lparr>MaxPreparedBodyBytes = 9\<rparr> ex_public_form (Some (\<lambda>_. None)) 0) = Inr r"
proof -
  have "case prepare_spec Some dalist_ops ex_mime ex_client \<lparr>MaxPreparedBodyBytes = 9\<rparr> ex_public_form of Inl _ \<Rightarrow> False | Inr r \<Rightarrow> True"
    by code_simp
  then show ?thesis
    using prepare_refines_spec[of "\<lparr>MaxPreparedBodyBytes = 9\<rparr>" Some dalist_ops ex_mime ex_client ex_public_form "\<lambda>_. None" 0]
    by (simp add: int64_max_def split: sum.splits)
qed

theorem prepared_body_is_sent_witness:
  "buildDeliveryBody ex_codecs (b_body ex_public_form) [] = Inr (replayableRequestBody ''a=1+2&b=3'' [])"
proof -
  have "case fst (Prepare Some dalist_ops ex_mime ex_client \<lparr>MaxPreparedBodyBytes = 9\<rparr> ex_public_form (Some (\<lambda>_. None)) 0) of
      Inl _ \<Rightarrow> False
    | Inr r \<Rightarrow> PreparedBytes_State (py_data (Preparation_Body r)) = PreparedValuePresent \<and>
        PreparedBytes_Bytes (py_data (Preparation_Body r)) = ''a=1+2&b=3''" by code_simp
  then obtain r where "fst (Prepare Some dalist_ops ex_mime ex_client \<lparr>MaxPreparedBodyBytes = 9\<rparr> ex_public_form (Some (\<lambda>_. None)) 0) = Inr r"
    "PreparedBytes_State (py_data (Preparation_Body r)) = PreparedValuePresent"
    "PreparedBytes_Bytes (py_data (Preparation_Body r)) = ''a=1+2&b=3''" by (auto split: sum.splits)
  then show ?thesis
    using prepared_body_is_sent[of Some dalist_ops ex_mime ex_client "\<lparr>MaxPreparedBodyBytes = 9\<rparr>" ex_public_form "\<lambda>_. None" 0 r ex_codecs "[]"]
    by (simp add: int64_max_def Header_Get_def Header_Values_def)
qed

end
