(* ===== verification/Preparation_Disclosure.thy ===== *)
theory Preparation_Disclosure
  imports Preparation_Properties Plan_Delivered
begin

text \<open>
  What \<open>Prepare\<close> shows does not depend on private data. Two plans are low-equivalent if they agree on
  the structure of a request (names, multiplicities, kinds) and on every value that is public; the
  computation on them is then the same, with its checkpoints and its errors.
\<close>

section \<open>Low-equivalence\<close>

definition low_occ :: "requestOccurrence \<Rightarrow> requestOccurrence \<Rightarrow> bool" where
  "low_occ a b \<longleftrightarrow> occ_name a = occ_name b \<and> low_value (occ_value a) (occ_value b)"

definition low_cookie :: "requestCookieOccurrence \<Rightarrow> requestCookieOccurrence \<Rightarrow> bool" where
  "low_cookie a b \<longleftrightarrow> co_name a = co_name b \<and> low_value (co_value a) (co_value b)"

definition low_param :: "requestPathParamTrace \<Rightarrow> requestPathParamTrace \<Rightarrow> bool" where
  "low_param a b \<longleftrightarrow> low_value (pt_value a) (pt_value b) \<and> pt_scheme a = pt_scheme b \<and> pt_authority a = pt_authority b \<and>
     pt_path a = pt_path b \<and> pt_queryName a = pt_queryName b"

definition ordered_shape :: "'o oo_ops \<Rightarrow> 'o \<Rightarrow> (string \<times> nat) list" where
  "ordered_shape ob x = map (\<lambda>(k, vs). (k, length vs)) (oo_entries ob x)"

definition low_form :: "requestBodyFormOccurrence list \<Rightarrow> requestBodyFormOccurrence list \<Rightarrow> bool" where
  "low_form xs ys \<longleftrightarrow> map (\<lambda>occ. isPublic (fo_value occ)) xs = map (\<lambda>occ. isPublic (fo_value occ)) ys \<and>
     (list_all (\<lambda>occ. isPublic (fo_value occ)) xs \<longrightarrow> xs = ys)"

definition low_part :: "mimeLib \<Rightarrow> FilePart \<Rightarrow> FilePart \<Rightarrow> bool" where
  "low_part lib a b \<longleftrightarrow> fp_Field a = fp_Field b \<and> (fp_Body a = None \<longleftrightarrow> fp_Body b = None) \<and>
     validateMultipartFileMetadata lib a = validateMultipartFileMetadata lib b"

definition low_multipart :: "mimeLib \<Rightarrow> Multipart \<Rightarrow> Multipart \<Rightarrow> bool" where
  "low_multipart lib a b \<longleftrightarrow>
     mp_canReplay a = mp_canReplay b \<and> mp_replayMaxBytes a = mp_replayMaxBytes b \<and>
     (mp_boundary a \<noteq> [] \<and> \<not> validMultipartBoundary (mp_boundary a) \<longleftrightarrow>
      mp_boundary b \<noteq> [] \<and> \<not> validMultipartBoundary (mp_boundary b)) \<and>
     map (\<lambda>(k, vs). (k, length vs)) (mp_fields a) = map (\<lambda>(k, vs). (k, length vs)) (mp_fields b) \<and>
     list_all2 (low_part lib) (mp_parts a) (mp_parts b)"

fun same_kind_of_value :: "goany \<Rightarrow> goany \<Rightarrow> bool" where
  "same_kind_of_value (GoString _) (GoString _) = True"
| "same_kind_of_value (GoBytes _) (GoBytes _) = True"
| "same_kind_of_value (GoReader _) (GoReader _) = True"
| "same_kind_of_value GoNil GoNil = True"
| "same_kind_of_value _ _ = False"

lemma same_kind_cases:
  assumes "same_kind_of_value v w"
  shows "(case v of GoString _ \<Rightarrow> x | _ \<Rightarrow> y) = (case w of GoString _ \<Rightarrow> x | _ \<Rightarrow> y)"
    and "(case v of GoBytes _ \<Rightarrow> x | _ \<Rightarrow> y) = (case w of GoBytes _ \<Rightarrow> x | _ \<Rightarrow> y)"
    and "(case v of GoNil \<Rightarrow> x | _ \<Rightarrow> y) = (case w of GoNil \<Rightarrow> x | _ \<Rightarrow> y)"
  using assms by (cases "(v, w)" rule: same_kind_of_value.cases; simp)+

definition low_body :: "mimeLib \<Rightarrow> requestBodyPlan \<Rightarrow> requestBodyPlan \<Rightarrow> bool" where
  "low_body lib a b \<longleftrightarrow>
     bp_kind a = bp_kind b \<and> bp_generatedContentType a = bp_generatedContentType b \<and>
     (case bp_kind a of
        requestBodyText \<Rightarrow> same_kind_of_value (bp_value a) (bp_value b) \<and> bp_valuePublic a = bp_valuePublic b \<and>
          (bp_valuePublic a \<longrightarrow> bp_value a = bp_value b)
      | requestBodyBytes \<Rightarrow> same_kind_of_value (bp_value a) (bp_value b) \<and> bp_valuePublic a = bp_valuePublic b \<and>
          (bp_valuePublic a \<longrightarrow> bp_value a = bp_value b)
      | requestBodyReader \<Rightarrow> same_kind_of_value (bp_value a) (bp_value b)
      | requestBodyForm \<Rightarrow> low_form (bp_formOccurrences a) (bp_formOccurrences b)
      | requestBodyMultipart \<Rightarrow> rel_option (low_multipart lib) (bp_multipart a) (bp_multipart b)
      | _ \<Rightarrow> True)"

definition path_shown :: "'o requestPlan \<Rightarrow> bool" where
  "path_shown p \<longleftrightarrow> isPublic (tr_path (pl_pathTrace p)) \<and> \<not> tr_basePathPrivate (pl_pathTrace p) \<and>
     params_public (tr_params (pl_pathTrace p))"

definition low_plan :: "'o oo_ops \<Rightarrow> mimeLib \<Rightarrow> 'o requestPlan \<Rightarrow> 'o requestPlan \<Rightarrow> bool" where
  "low_plan ob lib p q \<longleftrightarrow>
     pl_method p = pl_method q \<and>
     url_scheme (pl_targetURL p) = url_scheme (pl_targetURL q) \<and> url_host (pl_targetURL p) = url_host (pl_targetURL q) \<and>
     low_value (tr_path (pl_pathTrace p)) (tr_path (pl_pathTrace q)) \<and>
     tr_basePathPrivate (pl_pathTrace p) = tr_basePathPrivate (pl_pathTrace q) \<and>
     list_all2 low_param (tr_params (pl_pathTrace p)) (tr_params (pl_pathTrace q)) \<and>
     (path_shown p \<longrightarrow> EscapedPath (pl_targetURL p) = EscapedPath (pl_targetURL q)) \<and>
     list_all2 low_occ (pl_query p) (pl_query q) \<and> list_all2 low_occ (pl_headers p) (pl_headers q) \<and>
     rel_option (\<lambda>x y. ordered_shape ob x = ordered_shape ob y) (pl_orderedHeaders p) (pl_orderedHeaders q) \<and>
     list_all2 low_cookie (pl_cookies p) (pl_cookies q) \<and>
     (pl_auth p = None \<longleftrightarrow> pl_auth q = None) \<and>
     auth_eligible [pl_clientAuth p, pl_requestAuth p] = auth_eligible [pl_clientAuth q, pl_requestAuth q] \<and>
     low_body lib (pl_body p) (pl_body q) \<and>
     (Header_Get (bodyPreflightHeaders p) ''Content-Type'' = [] \<longleftrightarrow> Header_Get (bodyPreflightHeaders q) ''Content-Type'' = [])"

section \<open>Projections of values\<close>

interpretation prep_value: disclosure_projection low_value preparedStringFromValue
  by unfold_locales (auto simp: preparedStringFromValue_def rawValue_def low_value_def isPublic_def)

interpretation prep_occ: disclosure_projection low_occ "\<lambda>occ. preparedStringFromValue (occ_value occ)"
  by unfold_locales (simp add: low_occ_def prep_value.project_low)

interpretation prep_cookie: disclosure_projection low_cookie
    "\<lambda>occ. \<lparr>pc_name = co_name occ, pc_value = preparedStringFromValue (co_value occ)\<rparr>"
  by unfold_locales (simp add: low_cookie_def prep_value.project_low)

interpretation occ_names: disclosure_projection low_occ occ_name
  by unfold_locales (simp add: low_occ_def)

interpretation lower_names: disclosure_projection low_occ lower_name
  by unfold_locales (simp add: low_occ_def)

lemma low_param_public: "low_param a b \<Longrightarrow> isPublic (pt_value a) = isPublic (pt_value b)"
  by (simp add: low_param_def low_value_isPublic)

section \<open>Query, headers, cookies\<close>

lemma low_filter:
  assumes "list_all2 low_occ vs ws"
  shows "list_all2 low_occ (filter (\<lambda>occ. P (occ_name occ)) vs) (filter (\<lambda>occ. P (occ_name occ)) ws)"
  by (rule list_all2_filter[OF assms]) (simp add: low_occ_def)

lemma sorted_names_low: "list_all2 low_occ vs ws \<Longrightarrow> sorted_names occ_name vs = sorted_names occ_name ws"
  by (simp add: sorted_names_def occ_names.map_project_low)

lemma projectPreparedQuery_low:
  assumes "list_all2 low_occ vs ws"
  shows "projectPreparedQuery vs = projectPreparedQuery ws"
proof -
  have "length (filter (\<lambda>occ. occ_name occ = name) vs) = length (filter (\<lambda>occ. occ_name occ = name) ws)"
    and "prepared_query_entry vs name = prepared_query_entry ws name" for name
    using low_filter[OF assms, of "\<lambda>n. n = name"]
    by (simp_all add: list_all2_lengthD prepared_query_entry_def prep_occ.map_project_low)
  then show ?thesis
    unfolding projectPreparedQuery_eq using assms by (simp add: list_all2_lengthD sorted_names_low)
qed

lemma header_keys_low: "list_all2 low_occ vs ws \<Longrightarrow> header_keys vs h = header_keys ws h"
  unfolding header_keys_def by (drule lower_names.map_project_low) simp

lemma header_group_low:
  assumes "list_all2 low_occ vs ws"
  shows "hg_name (header_group vs key) = hg_name (header_group ws key)"
    and "list_all2 low_occ (hg_occurrences (header_group vs key)) (hg_occurrences (header_group ws key))"
  using low_filter[OF assms, of "\<lambda>n. ToLower n = key"]
  by (auto simp: header_group_def low_occ_def list_all2_Cons1 list_all2_Cons2 split: list.splits)

lemma enumerate_low:
  assumes "list_all2 low_occ vs ws"
  shows "map (\<lambda>(i, occ). prepared_header_value name mt i (occ_value occ)) (List.enumerate n vs) =
    map (\<lambda>(i, occ). prepared_header_value name mt i (occ_value occ)) (List.enumerate n ws)"
  using assms
proof (induction vs ws arbitrary: n rule: list_all2_induct)
  case (Cons v vs w ws)
  then show ?case using prep_occ.project_low[OF Cons(1)] by (simp add: prepared_header_value_def)
qed simp

lemma prepared_header_low:
  assumes "list_all2 low_occ vs ws"
  shows "prepared_header vs mt key = prepared_header ws mt key"
  using header_group_low[OF assms, of key] enumerate_low[OF header_group_low(2)[OF assms]]
  by (auto simp: prepared_header_def prepared_header_values_def)

lemma projectPreparedHeaders_low:
  assumes "list_all2 low_occ (pl_headers p) (pl_headers q)" and "pl_auth p = None \<longleftrightarrow> pl_auth q = None"
    and "preparedBodyMediaType (pl_body p) = preparedBodyMediaType (pl_body q)"
  shows "projectPreparedHeaders p = projectPreparedHeaders q"
proof -
  have "length (hg_occurrences (header_group (pl_headers p) key)) = length (hg_occurrences (header_group (pl_headers q) key))" for key
    by (rule list_all2_lengthD[OF header_group_low(2)[OF assms(1)]])
  then show ?thesis
    unfolding projectPreparedHeaders_eq
    using assms by (simp add: list_all2_lengthD header_keys_low[OF assms(1)] prepared_header_low[OF assms(1)])
qed

lemma projectPreparedOrderedHeaders_low:
  assumes "rel_option (\<lambda>x y. ordered_shape ob x = ordered_shape ob y) x y"
  shows "projectPreparedOrderedHeaders ob x semantic = projectPreparedOrderedHeaders ob y semantic"
proof (cases x)
  case (Some a)
  then obtain b where b: "y = Some b" "ordered_shape ob a = ordered_shape ob b" using assms by (auto simp: option_rel_Some1)
  then have "list_all2 (\<lambda>(k, vs) (k', vs'). k = k' \<and> length vs = length vs') (oo_entries ob a) (oo_entries ob b)"
    by (auto simp: ordered_shape_def list_eq_iff_nth_eq list_all2_conv_all_nth split_beta)
  then have "ceach (\<lambda>i e. every64 i (cbind (checks 0 (length (snd e))) (\<lambda>_. cret (prepared_ordered_entry semantic e)))) 0 (oo_entries ob a) =
      ceach (\<lambda>i e. every64 i (cbind (checks 0 (length (snd e))) (\<lambda>_. cret (prepared_ordered_entry semantic e)))) 0 (oo_entries ob b)"
    by (rule ceach_cong) (auto simp: prepared_ordered_entry_def)
  then show ?thesis by (simp add: projectPreparedOrderedHeaders_eq Some b)
qed (use assms in simp)

lemma projectPreparedCookies_low:
  assumes "list_all2 low_cookie vs ws"
  shows "projectPreparedCookies vs = projectPreparedCookies ws"
  using assms prep_cookie.map_project_filter_low[OF assms, of "\<lambda>occ. validCookieName (co_name occ)"]
  by (simp add: projectPreparedCookies_eq list_all2_lengthD prepared_cookies_def low_cookie_def)

section \<open>Target and eligibility\<close>

lemma path_params_public_low:
  "list_all2 low_param ps qs \<Longrightarrow> path_params_public i ps = path_params_public i qs"
proof (induction ps qs arbitrary: i rule: list_all2_induct)
  case (Cons p ps q qs)
  then show ?case using low_param_public[OF Cons(1)] by (simp add: low_param_def)
qed simp

lemma params_public_low: "list_all2 low_param ps qs \<Longrightarrow> params_public ps = params_public qs"
proof (induction ps qs rule: list_all2_induct)
  case (Cons p ps q qs)
  then show ?case using low_param_public[OF Cons(1)] by (simp add: params_public_def low_param_def)
qed simp

lemma eligible_params_low:
  assumes "list_all2 low_param ps qs"
  shows "cfold (\<lambda>i param _. every64 i (if param_eligible param then cret () else cfail e)) i ps () =
    cfold (\<lambda>i param _. every64 i (if param_eligible param then cret () else cfail e)) i qs ()"
  using assms
proof (induction ps qs arbitrary: i rule: list_all2_induct)
  case (Cons p ps q qs)
  have "param_eligible p = param_eligible q"
    using Cons(1) low_param_public[OF Cons(1)] by (simp add: param_eligible_def low_param_def)
  then show ?case using Cons by simp
qed simp

lemma cbind_refines_cong:
  assumes "\<And>ctx n a n1. m ctx n = (Inr a, n1) \<Longrightarrow> a = r" and "f r = g r"
  shows "cbind m f = cbind m g"
proof (intro ext)
  fix ctx n
  show "cbind m f ctx n = cbind m g ctx n"
  proof (cases "m ctx n")
    case (Pair x n1)
    then show ?thesis using assms(1)[of ctx n _ n1] assms(2) by (cases x) (auto simp: cbind_def)
  qed
qed

lemma path_params_public_result: "path_params_public i ps ctx n = (Inr a, n1) \<Longrightarrow> a = params_public ps"
proof (induction ps arbitrary: i n)
  case (Cons p ps)
  then show ?case
    by (auto simp: every64_def ccheck_def cbind_def checkpoint_def cret_def params_public_def
        split: if_splits option.splits prod.splits sum.splits)
qed (simp add: cret_def params_public_def)

lemma projectPreparedTarget_low:
  assumes "low_plan ob lib p q"
  shows "projectPreparedTarget p = projectPreparedTarget q"
proof -
  have l: "list_all2 low_param (tr_params (pl_pathTrace p)) (tr_params (pl_pathTrace q))"
    using assms by (simp add: low_plan_def)
  show ?thesis
    unfolding projectPreparedTarget_def path_params_public_low[OF l]
    by (rule cbind_refines_cong[OF path_params_public_result])
      (use assms params_public_low[OF l] low_value_isPublic[of "tr_path (pl_pathTrace p)" "tr_path (pl_pathTrace q)"] in
        \<open>auto simp: low_plan_def path_shown_def Let_def\<close>)
qed

section \<open>Body\<close>

lemma preparedBodyMediaType_low: "low_body lib a b \<Longrightarrow> preparedBodyMediaType a = preparedBodyMediaType b"
  by (simp add: low_body_def preparedBodyMediaType_def)

lemma form_public_from_low:
  "map (\<lambda>occ. isPublic (fo_value occ)) xs = map (\<lambda>occ. isPublic (fo_value occ)) ys \<Longrightarrow>
   form_public_from i xs = form_public_from i ys"
proof (induction xs arbitrary: i ys)
  case (Cons x xs)
  then show ?case by (cases ys) auto
qed simp

lemma form_public_from_result:
  "form_public_from i xs ctx n = (Inr a, n1) \<Longrightarrow> a = list_all (\<lambda>occ. isPublic (fo_value occ)) xs"
proof (induction xs arbitrary: i n)
  case (Cons x xs)
  then show ?case
    by (auto simp: every64_def ccheck_def cbind_def checkpoint_def cret_def
        split: if_splits option.splits prod.splits sum.splits)
qed (simp add: cret_def)

lemma prepareMultipartManifest_low:
  assumes "low_multipart lib a b"
  shows "prepareMultipartManifest lib (Some a) = prepareMultipartManifest lib (Some b)"
proof -
  have fs: "map (\<lambda>(k, vs). (k, length vs)) (mp_fields a) = map (\<lambda>(k, vs). (k, length vs)) (mp_fields b)"
    and ps: "list_all2 (low_part lib) (mp_parts a) (mp_parts b)"
    using assms by (simp_all add: low_multipart_def)
  have keys: "map fst (mp_fields a) = map fst (mp_fields b)"
    using arg_cong[OF fs, of "map fst"] by (simp add: comp_def split_def)
  have len: "map_option length (map_of (mp_fields a) k) = map_option length (map_of (mp_fields b) k)" for k
  proof -
    have "map_of (map (\<lambda>(k, vs). (k, length vs)) m) k = map_option length (map_of m k)" for m :: urlValues
      by (induction m) auto
    then show ?thesis using fs by metis
  qed
  have lenk: "length (the (map_of (mp_fields a) k)) = length (the (map_of (mp_fields b) k))" if "k \<in> set (map fst (mp_fields a))" for k
    using len[of k] that by (cases "map_of (mp_fields a) k"; cases "map_of (mp_fields b) k") (auto simp: map_of_eq_None_iff)
  have fields: "ceach (\<lambda>i key. ccheck
      (cbind (ceach (\<lambda>j _. every64 j (cret preparedRedactedString)) 0 (the (map_of (mp_fields a) key))) (\<lambda>vs.
         let field = \<lparr>po_name = key, po_values = vs\<rparr> in if i mod 64 = 63 then ccheck (cret field) else cret field))) 0 (sort (map fst (mp_fields a))) =
    ceach (\<lambda>i key. ccheck
      (cbind (ceach (\<lambda>j _. every64 j (cret preparedRedactedString)) 0 (the (map_of (mp_fields b) key))) (\<lambda>vs.
         let field = \<lparr>po_name = key, po_values = vs\<rparr> in if i mod 64 = 63 then ccheck (cret field) else cret field))) 0 (sort (map fst (mp_fields a)))"
    by (rule ceach_cong[where R = "\<lambda>x y. x = y \<and> x \<in> set (map fst (mp_fields a))"])
      (auto simp: list_all2_same ceach_pure map_enumerate_const map_replicate_const lenk)
  have files: "ceach (\<lambda>i part. ccheck
      (if fp_Field part = [] \<or> fp_Body part = None then cfail (wrapped ErrInvalidConfigValue ''multipart structure'')
       else case validateMultipartFileMetadata lib part of Some e \<Rightarrow> cfail e | None \<Rightarrow> cret \<lparr>pf_field = fp_Field part\<rparr>)) 0 (mp_parts a) =
    ceach (\<lambda>i part. ccheck
      (if fp_Field part = [] \<or> fp_Body part = None then cfail (wrapped ErrInvalidConfigValue ''multipart structure'')
       else case validateMultipartFileMetadata lib part of Some e \<Rightarrow> cfail e | None \<Rightarrow> cret \<lparr>pf_field = fp_Field part\<rparr>)) 0 (mp_parts b)"
    by (rule ceach_cong[OF ps]) (simp add: low_part_def split: option.split)
  show ?thesis
    using assms unfolding prepareMultipartManifest_def option.case Let_def[of "sort _"] keys[symmetric] fields files
    by (auto simp: low_multipart_def)
qed

lemma projectPreparedBody_low:
  assumes "low_body lib a b"
  shows "projectPreparedBody lib a budget = projectPreparedBody lib b budget"
proof (cases "bp_kind a")
  case requestBodyForm
  then have l: "low_form (bp_formOccurrences a) (bp_formOccurrences b)" and k: "bp_kind b = requestBodyForm"
    using assms by (auto simp: low_body_def)
  have pub: "preparedFormAllPublic (bp_formOccurrences a) = preparedFormAllPublic (bp_formOccurrences b)"
    using l form_public_from_low[of "bp_formOccurrences a" "bp_formOccurrences b"] map_eq_imp_length_eq
    by (fastforce simp: low_form_def preparedFormAllPublic_def)
  have res: "preparedFormAllPublic (bp_formOccurrences b) ctx n = (Inr x, n1) \<Longrightarrow>
      x = (bp_formOccurrences b \<noteq> [] \<and> list_all (\<lambda>occ. isPublic (fo_value occ)) (bp_formOccurrences b))" for ctx n x n1
    using form_public_from_result by (auto simp: preparedFormAllPublic_def cret_def split: if_splits)
  have all: "list_all (\<lambda>occ. isPublic (fo_value occ)) (bp_formOccurrences b) \<longleftrightarrow> list_all (\<lambda>occ. isPublic (fo_value occ)) (bp_formOccurrences a)"
  proof -
    have "list_all (\<lambda>occ. isPublic (fo_value occ)) xs \<longleftrightarrow> list_all id (map (\<lambda>occ. isPublic (fo_value occ)) xs)" for xs
      by (simp add: list_all_length)
    from this[of "bp_formOccurrences a"] this[of "bp_formOccurrences b"] show ?thesis
      using l[unfolded low_form_def, THEN conjunct1] by simp
  qed
  show ?thesis
    unfolding projectPreparedBody_def requestBodyForm k requestBodyKind.case preparedBodyMediaType_low[OF assms] pub Let_def
    by (rule cbind_refines_cong[OF res], assumption) (use l all in \<open>auto simp: low_form_def\<close>)
next
  case requestBodyMultipart
  then show ?thesis
    using assms prepareMultipartManifest_low preparedBodyMediaType_low[OF assms]
    by (cases "bp_multipart a"; cases "bp_multipart b") (auto simp: low_body_def projectPreparedBody_def)
next
  case requestBodyText
  then show ?thesis
    using assms preparedBodyMediaType_low[OF assms] by (auto simp: low_body_def projectPreparedBody_def Let_def)
next
  case requestBodyBytes
  then show ?thesis
    using assms preparedBodyMediaType_low[OF assms] by (auto simp: low_body_def projectPreparedBody_def Let_def)
qed (use assms preparedBodyMediaType_low[OF assms] in \<open>simp_all add: low_body_def projectPreparedBody_def Let_def\<close>)

lemma validatePreparationBodyShape_low:
  assumes "low_plan ob lib p q"
  shows "validatePreparationBodyShape p = validatePreparationBodyShape q"
proof -
  have k: "bp_kind (pl_body p) = bp_kind (pl_body q)"
    and ct: "Header_Get (bodyPreflightHeaders p) ''Content-Type'' = [] \<longleftrightarrow> Header_Get (bodyPreflightHeaders q) ''Content-Type'' = []"
    using assms by (simp_all add: low_plan_def low_body_def)
  have l: "low_body lib (pl_body p) (pl_body q)" using assms by (simp add: low_plan_def)
  show ?thesis
    using l
    by (cases "bp_kind (pl_body q)")
      (auto simp: validatePreparationBodyShape_def Let_def k ct low_body_def option_rel_Some1 dest: same_kind_cases)
qed

lemma prepare_plan_low:
  assumes "low_plan ob lib p q"
  shows "prepare_plan ob lib p budget = prepare_plan ob lib q budget"
proof -
  have "validatePreparationEligibility p = validatePreparationEligibility q"
    using assms eligible_params_low by (auto simp: validatePreparationEligibility_def low_plan_def)
  moreover have "projectPreparedHeaders p = projectPreparedHeaders q"
    using assms preparedBodyMediaType_low[of lib "pl_body p" "pl_body q"]
    by (intro projectPreparedHeaders_low) (auto simp: low_plan_def)
  moreover have "projectPreparedQuery (pl_query p) = projectPreparedQuery (pl_query q)"
    "projectPreparedCookies (pl_cookies p) = projectPreparedCookies (pl_cookies q)"
    "projectPreparedBody lib (pl_body p) budget = projectPreparedBody lib (pl_body q) budget"
    "projectPreparedOrderedHeaders ob (pl_orderedHeaders p) = projectPreparedOrderedHeaders ob (pl_orderedHeaders q)"
    "pl_method p = pl_method q"
    using assms
    by (simp_all add: low_plan_def projectPreparedQuery_low projectPreparedCookies_low projectPreparedBody_low
        projectPreparedOrderedHeaders_low ext)
  ultimately show ?thesis
    by (simp add: prepare_plan_def projectRequestPreparation_def validatePreparationBodyShape_low[OF assms]
        projectPreparedTarget_low[OF assms])
qed

end
