(* ===== verification/Builder_Disclosure.thy ===== *)
theory Builder_Disclosure
  imports Preparation_Disclosure
begin

text \<open>
  From builders to plans: builders that differ in private data only compile to low-equivalent plans,
  so that \<open>Prepare\<close> shows the same for both. The plan theorem needs the target to be the same; the
  example at the end shows why: a private path parameter in a query value can bring in a query name.
\<close>

section \<open>Shapes of ordered headers\<close>

definition shape_al :: "(string \<times> string list) list \<Rightarrow> (string \<times> nat) list" where
  "shape_al al = map (\<lambda>(k, vs). (k, length vs)) al"

lemma shape_al_update: "shape_al (AList.update k v al) = AList.update k (length v) (shape_al al)"
  by (induction al) (auto simp: shape_al_def)

lemma shape_al_delete: "shape_al (AList.delete k al) = AList.delete k (shape_al al)"
  by (induction al) (auto simp: shape_al_def)

lemma shape_al_keys: "map fst (shape_al al) = map fst al"
  by (simp add: shape_al_def comp_def split_def)

lemma map_of_shape_al: "map_of (shape_al al) k = map_option length (map_of al k)"
  by (induction al) (auto simp: shape_al_def)

lemma ordered_shape_al: "ordered_shape ob x = shape_al (oo_entries ob x)"
  by (simp add: ordered_shape_def shape_al_def)

definition same_shape :: "'o oo_ops \<Rightarrow> 'o \<Rightarrow> 'o \<Rightarrow> bool" where
  "same_shape ob x y \<longleftrightarrow> ordered_shape ob x = ordered_shape ob y"

definition same_entry :: "string \<times> string list \<Rightarrow> string \<times> string list \<Rightarrow> bool" where
  "same_entry e e' \<longleftrightarrow> fst e = fst e' \<and> length (snd e) = length (snd e')"

lemma same_shape_entries: "same_shape ob x y \<longleftrightarrow> list_all2 same_entry (oo_entries ob x) (oo_entries ob y)"
  by (auto simp: same_shape_def ordered_shape_al shape_al_def same_entry_def list_eq_iff_nth_eq list_all2_conv_all_nth split_def)

context ordered_object
begin

lemma key_of_names:
  "orderedHeaderKey ob (Some x) k =
     (if k \<in> set (map fst (oo_entries ob x)) then Some k else find (\<lambda>n. EqualFold n k) (map fst (oo_entries ob x)))"
proof -
  have "map_option fst (find (\<lambda>e. EqualFold (fst e) k) es) = find (\<lambda>n. EqualFold n k) (map fst es)" for es :: "(string \<times> string list) list"
    by (induction es) auto
  then show ?thesis by (simp add: orderedHeaderKey_def)
qed

lemma same_shape_names: "same_shape ob x y \<Longrightarrow> map fst (oo_entries ob x) = map fst (oo_entries ob y)"
  unfolding same_shape_def ordered_shape_al by (metis shape_al_keys)

lemma same_shape_key: "same_shape ob x y \<Longrightarrow> orderedHeaderKey ob (Some x) k = orderedHeaderKey ob (Some y) k"
  unfolding key_of_names by (simp only: same_shape_names)

lemma same_shape_get: "same_shape ob x y \<Longrightarrow> length (get_or_nil ob x k) = length (get_or_nil ob y k)"
proof -
  assume "same_shape ob x y"
  then have "map_option length (oo_get ob x k) = map_option length (oo_get ob y k)"
    by (simp add: same_shape_def ordered_shape_al flip: map_of_shape_al)
  then show ?thesis by (cases "oo_get ob x k"; cases "oo_get ob y k") (auto simp: get_or_nil_def)
qed

lemma same_shape_set: "same_shape ob x y \<Longrightarrow> length v = length w \<Longrightarrow> same_shape ob (oo_set ob x k v) (oo_set ob y k w)"
  by (simp add: same_shape_def ordered_shape_al shape_al_update)

lemma same_shape_delete: "same_shape ob x y \<Longrightarrow> same_shape ob (oo_delete ob x k) (oo_delete ob y k)"
  by (simp add: same_shape_def ordered_shape_al shape_al_delete)

lemma same_clone_entry: "same_shape ob x y \<Longrightarrow> same_entry e e' \<Longrightarrow> same_shape ob (clone_entry ob x e) (clone_entry ob y e')"
  using same_shape_key[of x y "fst e'"]
  by (auto simp: clone_entry_def same_entry_def intro!: same_shape_set same_shape_get split: option.split)

lemma foldl_same:
  assumes "list_all2 same_entry es es'" and "R x y" and "\<And>x y e e'. R x y \<Longrightarrow> same_entry e e' \<Longrightarrow> R (f x e) (g y e')"
  shows "R (foldl f x es) (foldl g y es')"
  using assms(1,2) by (induction es es' arbitrary: x y rule: list_all2_induct) (simp_all add: assms(3))

abbreviation same_ordered :: "'o option \<Rightarrow> 'o option \<Rightarrow> bool" where
  "same_ordered \<equiv> rel_option (same_shape ob)"

lemma same_clone: "same_ordered h h' \<Longrightarrow> same_ordered (cloneOrderedHeaders ob h) (cloneOrderedHeaders ob h')"
proof (cases h; cases h')
  fix x y
  assume "same_ordered h h'" and "h = Some x" "h' = Some y"
  then show ?thesis
    using foldl_same[of "oo_entries ob x" "oo_entries ob y" "same_shape ob" "oo_new ob" "oo_new ob" "clone_entry ob" "clone_entry ob"]
    by (simp add: cloneOrderedHeaders_def same_shape_entries[of ob x y] same_clone_entry same_shape_def[of ob "oo_new ob"])
qed (simp_all add: cloneOrderedHeaders_def)

lemma same_delete: "same_ordered h h' \<Longrightarrow> same_ordered (deleteOrderedHeader ob h k) (deleteOrderedHeader ob h' k)"
proof (cases h; cases h')
  fix x y
  assume "same_ordered h h'" and "h = Some x" "h' = Some y"
  then show ?thesis
    using same_shape_key[of x y k] by (simp add: deleteOrderedHeader_def same_shape_delete split: option.split)
qed (simp_all add: deleteOrderedHeader_def)

lemma same_merge_entry: "same_ordered h h' \<Longrightarrow> same_entry e e' \<Longrightarrow> same_ordered (merge_entry ob h e) (merge_entry ob h' e')"
  using same_delete[of h h' "fst e'"]
  by (cases "deleteOrderedHeader ob h (fst e')"; cases "deleteOrderedHeader ob h' (fst e')")
    (simp_all add: merge_entry_def same_entry_def same_shape_set)

lemma same_merge: "same_ordered a a' \<Longrightarrow> same_ordered h h' \<Longrightarrow> same_ordered (mergeOrderedHeaders ob a h) (mergeOrderedHeaders ob a' h')"
proof (cases h; cases h')
  fix x y
  assume a: "same_ordered a a'" "same_ordered h h'" "h = Some x" "h' = Some y"
  then have e: "list_all2 same_entry (oo_entries ob x) (oo_entries ob y)" by (simp add: same_shape_entries)
  have c: "same_ordered (cloneOrderedHeaders ob a) (cloneOrderedHeaders ob a')" by (rule same_clone[OF a(1)])
  then have n: "cloneOrderedHeaders ob a = None \<longleftrightarrow> cloneOrderedHeaders ob a' = None" by (auto simp: option_rel_Some1 option_rel_Some2)
  show ?thesis
    using foldl_same[where R = same_ordered, OF e c same_merge_entry] same_clone[OF a(2)] n by (simp add: mergeOrderedHeaders_def a(3,4) Let_def)
qed (auto simp: mergeOrderedHeaders_def Let_def dest: same_clone)

lemma same_compile:
  assumes "same_ordered a a'" and "same_ordered h h'" and "map occ_name vs = map occ_name ws"
  shows "same_ordered (compileOrderedHeaders ob a h vs) (compileOrderedHeaders ob a' h' ws)"
proof -
  let ?f = "\<lambda>h x name. if orderedHeaderKey ob h name = None then deleteOrderedHeader ob x name else x"
  have m: "same_ordered (mergeOrderedHeaders ob a h) (mergeOrderedHeaders ob a' h')" by (rule same_merge[OF assms(1,2)])
  have key: "orderedHeaderKey ob h k = orderedHeaderKey ob h' k" for k
    using assms(2) same_shape_key by (cases h; cases h') auto
  have "same_ordered x y \<Longrightarrow> same_ordered (foldl (?f h) x names) (foldl (?f h') y names)" for x y names
    by (induction names arbitrary: x y) (auto simp: key same_delete)
  from this[OF m] have f: "same_ordered (foldl (?f h) (mergeOrderedHeaders ob a h) (distinctOccurrenceNames ws))
      (foldl (?f h') (mergeOrderedHeaders ob a' h') (distinctOccurrenceNames ws))" .
  have len: "length vs = length ws" using assms(3) by (metis length_map)
  have n: "mergeOrderedHeaders ob a h = None \<longleftrightarrow> mergeOrderedHeaders ob a' h' = None" using m by (auto simp: option_rel_Some1 option_rel_Some2)
  have z: "same_shape ob x y \<Longrightarrow> length (oo_entries ob x) = length (oo_entries ob y)" for x y
    using same_shape_names by (metis length_map)
  show ?thesis
  proof (cases "mergeOrderedHeaders ob a h = None \<or> vs = []")
    case True
    then show ?thesis using m n len by (auto simp: compileOrderedHeaders_def)
  next
    case False
    then show ?thesis
      using f n len z
      by (cases "foldl (?f h) (mergeOrderedHeaders ob a h) (distinctOccurrenceNames ws)";
          cases "foldl (?f h') (mergeOrderedHeaders ob a' h') (distinctOccurrenceNames ws)")
        (auto simp: compileOrderedHeaders_def Let_def distinctOccurrenceNames_def assms(3))
  qed
qed

lemma same_sync:
  assumes "same_ordered h h'" and "\<And>k. length (Header_Values s k) = length (Header_Values t k)"
  shows "same_ordered (syncOrderedHeaderValues ob h s) (syncOrderedHeaderValues ob h' t)"
proof (cases h; cases h')
  fix x y
  assume a: "h = Some x" "h' = Some y"
  have syn: "rel_option same_entry (synced s e) (synced t e')" if "same_entry e e'" for e e'
    using that assms(2)[of "fst e'"] by (auto simp: synced_def same_entry_def split: list.split)
  have "list_all2 same_entry es es' \<Longrightarrow> list_all2 same_entry (List.map_filter (synced s) es) (List.map_filter (synced t) es')" for es es'
  proof (induction es es' rule: list_all2_induct)
    case (Cons e es e' es')
    then show ?case
      using syn[OF Cons(1)] by (cases "synced s e"; cases "synced t e'") (simp_all add: List.map_filter_simps)
  qed (simp add: List.map_filter_simps)
  moreover have "list_all2 same_entry (oo_entries ob x) (oo_entries ob y)" using assms(1) a by (simp add: same_shape_entries)
  ultimately show ?thesis
    using sync_entries[of x s] sync_entries[of y t] a
    by (cases "syncOrderedHeaderValues ob (Some x) s"; cases "syncOrderedHeaderValues ob (Some y) t") (simp_all add: same_shape_entries)
qed (use assms(1) in \<open>simp_all add: syncOrderedHeaderValues_def\<close>)

end

section \<open>Targets and queries\<close>

lemma resolve_same_target:
  assumes "resolveRequestURL ph base path qv = Inr u" and "resolveRequestURL ph base path qv' = Inr u'"
  shows "url_scheme u = url_scheme u' \<and> url_host u = url_host u' \<and> url_path u = url_path u' \<and> url_rawPath u = url_rawPath u'"
  using assms
  by (auto simp: resolveRequestURL_def ebind_Inr_iff Let_def split: option.splits if_splits)

lemma list_all2_insort:
  assumes "list_all2 R xs ys" and "R x y" and "\<And>x y. R x y \<Longrightarrow> f x = f y"
  shows "list_all2 R (insort_key f x xs) (insort_key f y ys)"
  using assms(1)
proof (induction xs ys rule: list_all2_induct)
  case (Cons a as b bs)
  then show ?case using assms(2) assms(3)[OF assms(2)] assms(3)[OF Cons(1)] by simp
qed (simp add: assms(2))

lemma list_all2_sort_key:
  assumes "list_all2 R xs ys" and "\<And>x y. R x y \<Longrightarrow> f x = f y"
  shows "list_all2 R (sort_key f xs) (sort_key f ys)"
  using assms(1)
proof (induction xs ys rule: list_all2_induct)
  case (Cons a as b bs)
  then show ?case using list_all2_insort[OF Cons(3) Cons(1) assms(2)] by simp
qed simp

lemma low_occ_refl [low_intros]: "low_occ a a"
  by (simp add: low_occ_def low_value_refl)

lemma low_occs_refl [low_intros]: "list_all2 low_occ vs vs"
  by (simp add: list_all2_same low_occ_refl)

lemma low_queries:
  assumes "compileQueryOccurrences ph base path vs = Inr q" and "compileQueryOccurrences ph base path ws = Inr q'"
    and "list_all2 low_occ vs ws"
  shows "list_all2 low_occ q q'"
proof -
  have len: "length vs = length ws" using assms(3) by (rule list_all2_lengthD)
  have "list_all2 low_occ (sort_key occ_name (occs @ vs)) (sort_key occ_name (occs @ ws))" for occs
    by (rule list_all2_sort_key) (simp_all add: list_all2_appendI low_occs_refl assms(3), simp add: low_occ_def)
  then show ?thesis
    using assms(1,2) len
    by (auto simp: compileQueryOccurrences_def ebind_Inr_iff Let_def split: option.splits if_splits)
qed

section \<open>Headers and cookies\<close>

lemma low_headers:
  assumes "list_all2 low_occ vs ws"
  shows "list_all2 low_occ (map credential_private (mergePlanHeaderOccurrences cs vs)) (map credential_private (mergePlanHeaderOccurrences cs ws))"
proof -
  have "map lower_name vs = map lower_name ws" by (rule lower_names.map_project_low[OF assms])
  then have "list_all2 low_occ (mergePlanHeaderOccurrences cs vs) (mergePlanHeaderOccurrences cs ws)"
    unfolding mergePlanHeaderOccurrences_def by (simp add: list_all2_appendI low_occs_refl assms)
  moreover have "low_occ (credential_private a) (credential_private b)" if "low_occ a b" for a b
    using that by (simp add: credential_private_def low_occ_def low_value_private)
  ultimately show ?thesis by (simp add: list_all2_map1 list_all2_map2 list.rel_mono_strong)
qed

lemma low_header_lengths:
  assumes "list_all2 low_occ vs ws"
  shows "length (Header_Values (requestOccurrencesHeaderValues vs) k) = length (Header_Values (requestOccurrencesHeaderValues ws) k)"
  using list_all2_lengthD[OF low_filter[OF assms, of "\<lambda>n. header_eqv n k"]]
  by (simp add: request_header_values occurrencesHeaderValues_vals)

lemma lastLayer_names:
  assumes "map (map co_name) L = map (map co_name) L'"
  shows "lastLayer L = lastLayer L'"
proof -
  have inner: "foldl (\<lambda>m occ. AList.update (co_name occ) i m) m layer = foldl (\<lambda>m n. AList.update n i m) m (map co_name layer)"
    for i and m :: "(string, nat) gomap" and layer
    by (induction layer arbitrary: m) simp_all
  have outer: "foldl (\<lambda>m (i, layer). foldl (\<lambda>m n. AList.update n i m) m (map co_name layer)) acc (List.enumerate j ls) =
      foldl (\<lambda>m (i, ns). foldl (\<lambda>m n. AList.update n i m) m ns) acc (List.enumerate j (map (map co_name) ls))"
    for j and acc :: "(string, nat) gomap" and ls
    by (induction ls arbitrary: acc j) simp_all
  show ?thesis unfolding lastLayer_def inner outer assms ..
qed

lemma merge_cookies_rel:
  assumes "list_all2 (list_all2 R) L L'" and R: "\<And>a b. R a b \<Longrightarrow> co_name a = co_name b"
  shows "list_all2 R (mergeCookieOccurrences L) (mergeCookieOccurrences L')"
proof -
  have names: "map co_name xs = map co_name ys" if "list_all2 R xs ys" for xs ys
    using that by (induction xs ys rule: list_all2_induct) (simp_all add: R)
  have "map (map co_name) L = map (map co_name) L'"
    using assms(1) by (induction L L' rule: list_all2_induct) (simp_all add: names)
  then have last: "lastLayer L = lastLayer L'" by (rule lastLayer_names)
  have "list_all2 R
      (concat (map (\<lambda>(i, layer). filter (\<lambda>occ. m (co_name occ) = Some i) layer) (List.enumerate n L)))
      (concat (map (\<lambda>(i, layer). filter (\<lambda>occ. m (co_name occ) = Some i) layer) (List.enumerate n L')))"
    for m :: "string \<Rightarrow> nat option" and n
    using assms(1)
  proof (induction L L' arbitrary: n rule: list_all2_induct)
    case (Cons l L l' L')
    have "list_all2 R (filter (\<lambda>occ. m (co_name occ) = Some n) l) (filter (\<lambda>occ. m (co_name occ) = Some n) l')"
      by (rule list_all2_filter[OF Cons(1)]) (simp add: R)
    then show ?case using Cons(3) by (simp add: list_all2_appendI)
  qed simp
  then show ?thesis by (simp add: mergeCookieOccurrences_def last)
qed

lemma low_cookies:
  assumes "list_all2 low_cookie (md_cookies m) (md_cookies m')"
    and "Header_Values (requestOccurrencesHeaderValues (md_headers m)) ''Cookie'' =
         Header_Values (requestOccurrencesHeaderValues (md_headers m')) ''Cookie''"
  shows "list_all2 low_cookie (compileCookieOccurrences c m) (compileCookieOccurrences c m')"
proof -
  have refl: "list_all2 low_cookie xs xs" for xs by (simp add: list_all2_same low_cookie_def low_value_refl)
  have "list_all2 low_cookie (tagged_cookie_layer (md_cookies m)) (tagged_cookie_layer (md_cookies m'))"
    using assms(1)
    by (auto simp: tagged_cookie_layer_def list_all2_map1 list_all2_map2 Let_def low_cookie_def elim: list.rel_mono_strong)
  then show ?thesis
    unfolding compileCookieOccurrences_def
    by (intro merge_cookies_rel) (simp_all add: refl headerCookies_def assms(2), simp add: low_cookie_def)
qed

section \<open>Builders\<close>

text \<open>
  Builders that agree on what is structure and on what is public. The values of \<open>Cookie\<close> headers are
  structure, since cookie names are read from them; so is the target.
\<close>

definition low_builder :: "'o oo_ops \<Rightarrow> mimeLib \<Rightarrow> 'o RequestBuilder \<Rightarrow> 'o RequestBuilder \<Rightarrow> bool" where
  "low_builder ob lib b b' \<longleftrightarrow>
     b_method b = b_method b' \<and> b_target b = b_target b' \<and>
     (b_preparationErr b = None \<longleftrightarrow> b_preparationErr b' = None) \<and> b_preparationErrClass b = b_preparationErrClass b' \<and>
     list_all2 low_occ (md_queries (b_metadata b)) (md_queries (b_metadata b')) \<and>
     list_all2 low_occ (md_headers (b_metadata b)) (md_headers (b_metadata b')) \<and>
     list_all2 low_cookie (md_cookies (b_metadata b)) (md_cookies (b_metadata b')) \<and>
     Header_Values (requestOccurrencesHeaderValues (md_headers (b_metadata b))) ''Cookie'' =
       Header_Values (requestOccurrencesHeaderValues (md_headers (b_metadata b'))) ''Cookie'' \<and>
     (Header_Get (requestOccurrencesHeaderValues (md_headers (b_metadata b))) ''Content-Type'' = [] \<longleftrightarrow>
      Header_Get (requestOccurrencesHeaderValues (md_headers (b_metadata b'))) ''Content-Type'' = []) \<and>
     rel_option (same_shape ob) (b_orderedHeaders b) (b_orderedHeaders b') \<and>
     (b_auth b = None \<longleftrightarrow> b_auth b' = None) \<and> auth_eligible [b_auth b] = auth_eligible [b_auth b'] \<and>
     low_body lib (b_body b) (b_body b')"

lemma more_plan_fields:
  assumes "compileRequestPlanSnapshot ph ob snap b = Inr plan"
  shows "pl_method plan = (if b_method b = [] then ''GET'' else b_method b)"
    and "pl_pathTrace plan = traceRequestTarget ph (s_baseURL snap) (resolvedPath (b_target b)) (b_target b)"
    and "pl_orderedHeaders plan = syncOrderedHeaderValues ob
           (compileOrderedHeaders ob (s_orderedHeaders snap) (b_orderedHeaders b) (md_headers (b_metadata b)))
           (requestOccurrencesHeaderValues (pl_headers plan))"
    and "pl_auth plan = effectiveAuth (s_auth snap) (b_auth b)"
  using assms
  by (auto simp: compileRequestPlanSnapshot_def ebind_Inr_iff newRequestPlanCreationError_def Let_def snapshotBuilderMetadata_def
      snapshotRequestTarget_def NewRequest_def split: sum.splits if_splits option.splits)

lemma auth_eligible_request: "auth_eligible [r] = auth_eligible [r'] \<Longrightarrow> auth_eligible [c, r] = auth_eligible [c, r']"
  by (cases c) (simp_all split: prod.splits)

lemma low_plans:
  assumes "ordered_object ob" and "low_builder ob lib b b'"
    and "compileRequestPlan ph ob c b = Inr p" and "compileRequestPlan ph ob c b' = Inr q"
  shows "low_plan ob lib p q"
proof -
  let ?snap = "snapshot ob c"
  note P = assms(3)[unfolded compileRequestPlan_def] and Q = assms(4)[unfolded compileRequestPlan_def]
  have tgt: "b_target b = b_target b'" and lq: "list_all2 low_occ (md_queries (b_metadata b)) (md_queries (b_metadata b'))"
    and lh: "list_all2 low_occ (md_headers (b_metadata b)) (md_headers (b_metadata b'))"
    and lc: "list_all2 low_cookie (md_cookies (b_metadata b)) (md_cookies (b_metadata b'))"
    and lv: "Header_Values (requestOccurrencesHeaderValues (md_headers (b_metadata b))) ''Cookie'' =
       Header_Values (requestOccurrencesHeaderValues (md_headers (b_metadata b'))) ''Cookie''"
    and ct: "Header_Get (requestOccurrencesHeaderValues (md_headers (b_metadata b))) ''Content-Type'' = [] \<longleftrightarrow>
      Header_Get (requestOccurrencesHeaderValues (md_headers (b_metadata b'))) ''Content-Type'' = []"
    and lo: "rel_option (same_shape ob) (b_orderedHeaders b) (b_orderedHeaders b')"
    and la: "b_auth b = None \<longleftrightarrow> b_auth b' = None" "auth_eligible [b_auth b] = auth_eligible [b_auth b']"
    and lb: "low_body lib (b_body b) (b_body b')" and lm: "b_method b = b_method b'"
    using assms(2) unfolding low_builder_def by blast+
  have u: "url_scheme (pl_targetURL p) = url_scheme (pl_targetURL q) \<and> url_host (pl_targetURL p) = url_host (pl_targetURL q) \<and>
      url_path (pl_targetURL p) = url_path (pl_targetURL q) \<and> url_rawPath (pl_targetURL p) = url_rawPath (pl_targetURL q)"
    by (rule resolve_same_target[OF plan_fields(1)[OF P]]) (use plan_fields(1)[OF Q] tgt in simp)
  have tr: "pl_pathTrace p = pl_pathTrace q" using more_plan_fields(2)[OF P] more_plan_fields(2)[OF Q] tgt by simp
  have qr: "list_all2 low_occ (pl_query p) (pl_query q)"
    by (rule low_queries[OF plan_fields(2)[OF P]]) (use plan_fields(2)[OF Q] tgt lq in simp_all)
  have hd: "list_all2 low_occ (pl_headers p) (pl_headers q)"
    unfolding plan_fields(11)[OF P] plan_fields(11)[OF Q] by (rule low_headers[OF lh])
  have ck: "list_all2 low_cookie (pl_cookies p) (pl_cookies q)"
    unfolding plan_fields(7)[OF P] plan_fields(7)[OF Q] by (rule low_cookies[OF lc lv])
  have names: "map occ_name (md_headers (b_metadata b)) = map occ_name (md_headers (b_metadata b'))"
    by (rule occ_names.map_project_low[OF lh])
  have refl: "rel_option (same_shape ob) h h" for h by (cases h) (simp_all add: same_shape_def)
  have od: "rel_option (same_shape ob) (pl_orderedHeaders p) (pl_orderedHeaders q)"
    unfolding more_plan_fields(3)[OF P] more_plan_fields(3)[OF Q]
    by (rule ordered_object.same_sync[OF assms(1) ordered_object.same_compile[OF assms(1) refl lo names] low_header_lengths[OF hd]])
  have au: "pl_auth p = None \<longleftrightarrow> pl_auth q = None"
    using la more_plan_fields(4)[OF P] more_plan_fields(4)[OF Q] by (auto simp: effectiveAuth_def)
  have el: "auth_eligible [pl_clientAuth p, pl_requestAuth p] = auth_eligible [pl_clientAuth q, pl_requestAuth q]"
    unfolding plan_fields(8,9)[OF P] plan_fields(8,9)[OF Q] by (rule auth_eligible_request[OF la(2)])
  have pr: "list_all2 low_param (tr_params (pl_pathTrace q)) (tr_params (pl_pathTrace q))"
    by (simp add: list_all2_same low_param_def low_value_refl)
  have ph: "EscapedPath (pl_targetURL p) = EscapedPath (pl_targetURL q)" using u by (simp add: EscapedPath_def)
  show ?thesis
    unfolding low_plan_def bodyPreflightHeaders_def plan_fields(4)[OF P] plan_fields(4)[OF Q] plan_fields(10)[OF P] plan_fields(10)[OF Q]
      more_plan_fields(1)[OF P] more_plan_fields(1)[OF Q]
    using lm ct lb u tr qr hd od ck au el pr ph by (simp add: low_value_refl same_shape_def[abs_def])
qed


section \<open>Examples\<close>

definition ex_plain_client :: "(string, string list) alist Client" where
  "ex_plain_client = newClient Client_Properties.ex_env"

definition ex_private :: "string \<Rightarrow> string \<Rightarrow> (string, string list) alist RequestBuilder" where
  "ex_private secret body =
     Builder_Bytes dalist_ops body (Builder_Cookie ''s'' secret (Builder_Query ''q'' secret (Client_Request ''POST'' ''http://h/v1'')))"

lemma ex_private_low: "low_builder dalist_ops ex_mime (ex_private s t) (ex_private s' t')"
  by (simp add: low_builder_def ex_private_def Builder_Bytes_def selectBody_def Builder_Cookie_def CookieValue_def Builder_Query_def
      QueryValue_def Client_Request_def addQuery_def addCookie_def zeroBodyPlan_def low_occ_def low_cookie_def low_value_private
      low_body_def empty_metadata_def Let_def)


text \<open>
  A private path parameter in a query value is not refused, and \<open>url.PathEscape\<close> keeps ampersands and
  equal signs: the parameter can bring in a query name, and the name is shown.
\<close>

definition ex_leak :: "(string, string list) alist RequestBuilder" where
  "ex_leak = PathParam ''v'' ''1&secret=2'' (Client_Request ''GET'' ''http://h/x?a={v}'')"

lemma private_param_becomes_query_name:
  "\<exists>r. fst (Prepare Some dalist_ops ex_mime ex_plain_client \<lparr>MaxPreparedBodyBytes = 9\<rparr> ex_leak (Some (\<lambda>_. None)) 0) = Inr r \<and>
     map po_name (Preparation_Query r) = [''a'', ''secret'']"
proof -
  have "case fst (Prepare Some dalist_ops ex_mime ex_plain_client \<lparr>MaxPreparedBodyBytes = 9\<rparr> ex_leak (Some (\<lambda>_. None)) 0) of
      Inl _ \<Rightarrow> False | Inr r \<Rightarrow> map po_name (Preparation_Query r) = [''a'', ''secret'']" by code_simp
  then show ?thesis by (auto split: sum.splits)
qed

end
