(* ===== verification/Preview_Disclosure.thy ===== *)
theory Preview_Disclosure
  imports Request_Preview Builder_Disclosure
begin

text \<open>
  What \<open>Preview\<close> shows: names, multiplicities, the content type, the kind and length of the body and the
  metadata of multipart files. No other value of a request has an influence on it, public or not.
\<close>

section \<open>Headers up to their values\<close>

definition same_headers :: "httpHeader \<Rightarrow> httpHeader \<Rightarrow> bool" where
  "same_headers h h' \<longleftrightarrow> shape_al h = shape_al h' \<and> Header_Values h ''Content-Type'' = Header_Values h' ''Content-Type''"

definition shown_header :: "requestOccurrence \<Rightarrow> requestOccurrence \<Rightarrow> bool" where
  "shown_header a b \<longleftrightarrow> occ_name a = occ_name b \<and>
     (header_eqv (occ_name a) ''Content-Type'' \<longrightarrow> rawValue (occ_value a) = rawValue (occ_value b))"

lemma same_headers_length: "shape_al h = shape_al h' \<Longrightarrow> length (Header_Values h k) = length (Header_Values h' k)"
proof -
  assume "shape_al h = shape_al h'"
  then have "map_option length (map_of h (CanonicalHeaderKey k)) = map_option length (map_of h' (CanonicalHeaderKey k))"
    by (simp flip: map_of_shape_al)
  then show ?thesis
    by (cases "map_of h (CanonicalHeaderKey k)"; cases "map_of h' (CanonicalHeaderKey k)") (simp_all add: Header_Values_def)
qed

lemma same_headers_counts: "same_headers h h' \<Longrightarrow> length (Header_Values h k) = length (Header_Values h' k)"
  unfolding same_headers_def by (elim conjE) (rule same_headers_length)

lemma same_headers_add:
  assumes "same_headers h h'" and "header_eqv k ''Content-Type'' \<Longrightarrow> v = w"
  shows "same_headers (Header_Add h k v) (Header_Add h' k w)"
  using assms same_headers_length[of h h' k]
  by (auto simp: same_headers_def hdr.laws) (simp add: Header_Add_def shape_al_update)+

lemma same_headers_set: "same_headers h h' \<Longrightarrow> same_headers (Header_Set h k v) (Header_Set h' k v)"
  by (auto simp: same_headers_def hdr.laws) (simp add: Header_Set_def shape_al_update)+

lemma same_headers_occurrences:
  assumes "list_all2 shown_header vs ws"
  shows "same_headers (requestOccurrencesHeaderValues vs) (requestOccurrencesHeaderValues ws)"
proof -
  have "same_headers h h' \<Longrightarrow> same_headers (foldl (\<lambda>h occ. Header_Add h (occ_name occ) (rawValue (occ_value occ))) h vs)
      (foldl (\<lambda>h occ. Header_Add h (occ_name occ) (rawValue (occ_value occ))) h' ws)" for h h'
    using assms
  proof (induction vs ws arbitrary: h h' rule: list_all2_induct)
    case (Cons v vs w ws)
    then show ?case using same_headers_add[OF Cons.prems] by (simp add: shown_header_def)
  qed simp
  then show ?thesis by (simp add: requestOccurrencesHeaderValues_def same_headers_def)
qed

lemma shape_al_filter: "shape_al (filter (\<lambda>p. P (fst p)) h) = filter (\<lambda>p. P (fst p)) (shape_al h)"
  by (induction h) (auto simp: shape_al_def)

lemma same_headers_delete: "same_headers h h' \<Longrightarrow> same_headers (deleteHeaderValues h k) (deleteHeaderValues h' k)"
  by (simp add: same_headers_def deleteHeaderValues_vals)
    (simp add: deleteHeaderValues_def Header_Del_def shape_al_filter[of "\<lambda>n. \<not> EqualFold n k"] shape_al_delete)

lemma content_type_eqv: "EqualFold k ''Content-Type'' \<Longrightarrow> Header_Get h k = Header_Get h ''Content-Type''"
proof -
  assume "EqualFold k ''Content-Type''"
  moreover have "list_all valid_header_byte ''Content-Type''" by code_simp
  ultimately have "CanonicalHeaderKey ''Content-Type'' = CanonicalHeaderKey k"
    using CanonicalHeaderKey_eq_iff by (simp add: EqualFold_commute)
  then show ?thesis by (simp add: Header_Get_def Header_Values_def)
qed

lemma previewHeaderValues_same:
  "length vs = length ws \<Longrightarrow> (EqualFold k ''Content-Type'' \<Longrightarrow> c = d) \<Longrightarrow> previewHeaderValues k vs c = previewHeaderValues k ws d"
  by (simp add: previewHeaderValues_def Let_def)

lemma previewHeaderEntries_same:
  assumes "same_headers h h'"
  shows "previewHeaderEntries h = previewHeaderEntries h'"
proof -
  have sh: "shape_al h = shape_al h'" and ct: "Header_Get h ''Content-Type'' = Header_Get h' ''Content-Type''"
    using assms by (simp_all add: same_headers_def Header_Get_def)
  have keys: "map fst h = map fst h'" using sh by (metis shape_al_keys)
  have len: "length (the (map_of h k)) = length (the (map_of h' k))" if "k \<in> set (map fst h')" for k
  proof -
    have "map_option length (map_of h k) = map_option length (map_of h' k)" using sh by (simp flip: map_of_shape_al)
    moreover have "map_of h' k \<noteq> None" using that by (simp add: map_of_eq_None_iff)
    ultimately show ?thesis by (cases "map_of h k"; cases "map_of h' k") simp_all
  qed
  have "previewHeaderValues k (the (map_of h k)) (Header_Get h k) = previewHeaderValues k (the (map_of h' k)) (Header_Get h' k)"
    if "k \<in> set (map fst h')" for k
    by (rule previewHeaderValues_same[OF len[OF that]]) (simp add: content_type_eqv[of k] ct)
  then show ?thesis by (simp add: previewHeaderEntries_def keys)
qed

lemma previewOrdered_same:
  assumes "rel_option (same_shape ob) x y"
  shows "previewOrderedHeaderEntries ob x c = previewOrderedHeaderEntries ob y c"
proof (cases x)
  case (Some a)
  then obtain b where b: "y = Some b" "list_all2 same_entry (oo_entries ob a) (oo_entries ob b)"
    using assms by (auto simp: option_rel_Some1 same_shape_entries)
  have "map (\<lambda>(k, vs). \<lparr>vh_key = k, vh_values = previewHeaderValues k vs c\<rparr>) es =
      map (\<lambda>(k, vs). \<lparr>vh_key = k, vh_values = previewHeaderValues k vs c\<rparr>) es'" if "list_all2 same_entry es es'" for es es'
    using that by (induction es es' rule: list_all2_induct) (auto simp: same_entry_def intro: previewHeaderValues_same)
  then show ?thesis using Some b by (simp add: previewOrderedHeaderEntries_def)
qed (use assms in simp)

section \<open>Queries\<close>

lemma no_empty_query: "map_of (Query_lenient s) k \<noteq> Some []"
proof -
  have "(\<And>k. map_of q k \<noteq> Some []) \<Longrightarrow> map_of (foldl (\<lambda>q p. Values_Add q (fst p) (snd p)) q ps) k \<noteq> Some []" for q :: urlValues and ps
    by (induction ps arbitrary: q) (simp_all add: Values_Add_def map_of_alist_update)
  then show ?thesis by (simp add: Query_lenient_def)
qed

lemma previewQueries_same:
  assumes "\<And>k. length (Values_All (URL_Query u) k) = length (Values_All (URL_Query u') k)"
  shows "previewQueries (URL_Query u) = previewQueries (URL_Query u')"
proof -
  let ?q = "URL_Query u" and ?q' = "URL_Query u'"
  have "map_option length (map_of ?q k) = map_option length (map_of ?q' k)" for k
    using assms[of k] no_empty_query[of "url_rawQuery u" k] no_empty_query[of "url_rawQuery u'" k]
    by (cases "map_of ?q k"; cases "map_of ?q' k") (auto simp: Values_All_def URL_Query_def)
  note eq = this
  have none: "map_of ?q k = None \<longleftrightarrow> map_of ?q' k = None" for k
    using eq[of k] by (cases "map_of ?q k"; cases "map_of ?q' k") simp_all
  have len: "length (the (map_of ?q k)) = length (the (map_of ?q' k))" if "k \<in> set (map fst ?q')" for k
  proof -
    have "map_of ?q' k \<noteq> None" using that by (simp add: map_of_eq_None_iff)
    then show ?thesis using eq[of k] by (cases "map_of ?q k"; cases "map_of ?q' k") simp_all
  qed
  from none have "set (map fst ?q) = set (map fst ?q')" unfolding keys_of_map by auto
  then have keys: "sort (map fst ?q) = sort (map fst ?q')"
    by (intro sort_unique) (simp_all add: URL_Query_def wf_intros)
  show ?thesis unfolding previewQueries_def keys using len by simp
qed

lemma resolve_same_counts:
  assumes "resolveRequestURL ph base path qv = Inr u" and "resolveRequestURL ph base path qv' = Inr u'"
    and "distinct (map fst qv)" "distinct (map fst qv')" and "\<And>k. length (Values_All qv k) = length (Values_All qv' k)"
  shows "length (Values_All (URL_Query u) k) = length (Values_All (URL_Query u') k)" and "url_omitHost u = url_omitHost u'"
proof -
  obtain r where r: "URL_Parse ph path = Some r"
    using assms(1) by (cases "URL_Parse ph path") (auto simp: resolveRequestURL_def)
  show "length (Values_All (URL_Query u) k) = length (Values_All (URL_Query u') k)"
  proof (cases "IsAbs r \<or> base = []")
    case True
    then show ?thesis
      using resolve_absolute[OF r True assms(1,3), THEN conjunct2] resolve_absolute[OF r True assms(2,4), THEN conjunct2] assms(5)
      by simp
  next
    case False
    then obtain b where "URL_Parse ph base = Some b"
      using assms(1) r by (auto simp: resolveRequestURL_def split: option.splits)
    then show ?thesis
      using resolve_relative[OF r _ _ _ assms(1,3)] resolve_relative[OF r _ _ _ assms(2,4)] assms(5) False by simp
  qed
  have "url_omitHost (addQueryValues v q) = url_omitHost v" for v q by (simp add: addQueryValues_def)
  then show "url_omitHost u = url_omitHost u'"
    using assms(1,2) by (auto simp: resolveRequestURL_def ebind_Inr_iff Let_def split: option.splits if_splits)
qed

section \<open>Bodies\<close>

definition shown_part :: "FilePart \<Rightarrow> FilePart \<Rightarrow> bool" where
  "shown_part a b \<longleftrightarrow> fp_Field a = fp_Field b \<and> fp_Filename a = fp_Filename b \<and> fp_ContentType a = fp_ContentType b \<and>
     (fp_Body a = None \<longleftrightarrow> fp_Body b = None)"

definition shown_multipart :: "Multipart \<Rightarrow> Multipart \<Rightarrow> bool" where
  "shown_multipart a b \<longleftrightarrow> mp_canReplay a = mp_canReplay b \<and> mp_replayMaxBytes a = mp_replayMaxBytes b \<and>
     mp_boundary a = mp_boundary b \<and> shape_al (mp_fields a) = shape_al (mp_fields b) \<and> list_all2 shown_part (mp_parts a) (mp_parts b)"

fun shown_value :: "goany \<Rightarrow> goany \<Rightarrow> bool" where
  "shown_value (GoString a) (GoString b) = (length a = length b)"
| "shown_value (GoBytes a) (GoBytes b) = (length a = length b)"
| "shown_value (GoReader _) (GoReader _) = True"
| "shown_value GoNil GoNil = True"
| "shown_value _ _ = False"

definition shown_body :: "requestBodyPlan \<Rightarrow> requestBodyPlan \<Rightarrow> bool" where
  "shown_body a b \<longleftrightarrow>
     bp_kind a = bp_kind b \<and> bp_contentType a = bp_contentType b \<and> bp_generatedContentType a = bp_generatedContentType b \<and>
     (bp_kind a \<in> {requestBodyText, requestBodyBytes, requestBodyReader} \<longrightarrow> shown_value (bp_value a) (bp_value b)) \<and>
     bp_hasReaderLength a = bp_hasReaderLength b \<and> bp_readerLength a = bp_readerLength b \<and>
     rel_option shown_multipart (bp_multipart a) (bp_multipart b)"

lemma previewMultipart_same:
  assumes "rel_option shown_multipart m m'"
  shows "previewMultipart m = previewMultipart m'"
proof (cases m)
  case (Some a)
  then obtain b where b: "m' = Some b" "shown_multipart a b" using assms by (auto simp: option_rel_Some1)
  have sh: "shape_al (mp_fields a) = shape_al (mp_fields b)" and ps: "list_all2 shown_part (mp_parts a) (mp_parts b)"
    using b(2) by (simp_all add: shown_multipart_def)
  have keys: "map fst (mp_fields a) = map fst (mp_fields b)" using sh by (metis shape_al_keys)
  have len: "length (the (map_of (mp_fields a) k)) = length (the (map_of (mp_fields b) k))" if "k \<in> set (map fst (mp_fields b))" for k
  proof -
    have "map_option length (map_of (mp_fields a) k) = map_option length (map_of (mp_fields b) k)" using sh by (simp flip: map_of_shape_al)
    moreover have "map_of (mp_fields b) k \<noteq> None" using that by (simp add: map_of_eq_None_iff)
    ultimately show ?thesis by (cases "map_of (mp_fields a) k"; cases "map_of (mp_fields b) k") simp_all
  qed
  have fields: "ceach (\<lambda>i key. every64 i (cret
        \<lparr>mf_name = key, mf_values = replicate (length (the (map_of (mp_fields a) key))) omitted_value\<rparr>)) 0 (sort (map fst (mp_fields b))) =
      ceach (\<lambda>i key. every64 i (cret
        \<lparr>mf_name = key, mf_values = replicate (length (the (map_of (mp_fields b) key))) omitted_value\<rparr>)) 0 (sort (map fst (mp_fields b)))"
    by (rule ceach_cong[where R = "\<lambda>x y. x = y \<and> x \<in> set (map fst (mp_fields b))"]) (auto simp: list_all2_same len)
  have files: "ceach (\<lambda>i part. every64 i
        (if fp_Field part = [] \<or> fp_Body part = None then cfail previewInvalidBodyError
         else cret \<lparr>mf_field = fp_Field part, mf_filename = fp_Filename part, mf_contentType = fp_ContentType part\<rparr>)) 0 (mp_parts a) =
      ceach (\<lambda>i part. every64 i
        (if fp_Field part = [] \<or> fp_Body part = None then cfail previewInvalidBodyError
         else cret \<lparr>mf_field = fp_Field part, mf_filename = fp_Filename part, mf_contentType = fp_ContentType part\<rparr>)) 0 (mp_parts b)"
    by (rule ceach_cong[OF ps]) (simp add: shown_part_def)
  show ?thesis
    using b(2) unfolding previewMultipart_def Some b(1) option.case Let_def keys fields files by (simp add: shown_multipart_def)
qed (use assms in simp)

lemma previewBody_same:
  assumes "shown_body a b" and "headerValue h ''Content-Type'' = [] \<longleftrightarrow> headerValue h' ''Content-Type'' = []"
  shows "previewBody a h = previewBody b h'"
proof -
  have k: "bp_kind a = bp_kind b" and s: "selected_body a = selected_body b" and c: "bp_contentType a = bp_contentType b"
    and r: "bp_hasReaderLength a = bp_hasReaderLength b" "bp_readerLength a = bp_readerLength b"
    and m: "rel_option shown_multipart (bp_multipart a) (bp_multipart b)"
    and v: "bp_kind b \<in> {requestBodyText, requestBodyBytes, requestBodyReader} \<Longrightarrow> shown_value (bp_value a) (bp_value b)"
    using assms(1) by (auto simp: shown_body_def selected_body_def fun_eq_iff)
  show ?thesis
  proof (cases "bp_kind b = requestBodyMultipart")
    case True
    have "previewMultipart (bp_multipart a) = previewMultipart (bp_multipart b)" by (rule previewMultipart_same[OF m])
    moreover have "mp_canReplay (the (bp_multipart a)) = mp_canReplay (the (bp_multipart b)) \<or> bp_multipart b = None"
      using m by (cases "bp_multipart a"; cases "bp_multipart b") (simp_all add: shown_multipart_def)
    ultimately show ?thesis
      using True k s by (auto simp: previewBody_def Let_def previewMultipart_def)
  next
    case False
    then show ?thesis
      unfolding previewBody_def k s c r assms(2)
      using v by (cases "(bp_value a, bp_value b)" rule: shown_value.cases; cases "bp_kind b") (simp_all add: Let_def)
  qed
qed

section \<open>Builders\<close>

text \<open>Builders that agree on everything a preview may show. Disclosure tags play no part.\<close>

definition same_structure :: "'o oo_ops \<Rightarrow> 'o RequestBuilder \<Rightarrow> 'o RequestBuilder \<Rightarrow> bool" where
  "same_structure ob b b' \<longleftrightarrow>
     b_method b = b_method b' \<and> b_target b = b_target b' \<and> b_timeout b = b_timeout b' \<and>
     (b_preparationErr b = None \<longleftrightarrow> b_preparationErr b' = None) \<and> b_preparationErrClass b = b_preparationErrClass b' \<and>
     map occ_name (md_queries (b_metadata b)) = map occ_name (md_queries (b_metadata b')) \<and>
     list_all2 shown_header (md_headers (b_metadata b)) (md_headers (b_metadata b')) \<and>
     map co_name (md_cookies (b_metadata b)) = map co_name (md_cookies (b_metadata b')) \<and>
     Header_Values (requestOccurrencesHeaderValues (md_headers (b_metadata b))) ''Cookie'' =
       Header_Values (requestOccurrencesHeaderValues (md_headers (b_metadata b'))) ''Cookie'' \<and>
     rel_option (same_shape ob) (b_orderedHeaders b) (b_orderedHeaders b') \<and>
     previewAuthHeader (b_auth b) = previewAuthHeader (b_auth b') \<and> shown_body (b_body b) (b_body b')"

lemma cookie_names_same:
  assumes "map co_name (md_cookies m) = map co_name (md_cookies m')"
    and "Header_Values (requestOccurrencesHeaderValues (md_headers m)) ''Cookie'' =
         Header_Values (requestOccurrencesHeaderValues (md_headers m')) ''Cookie''"
  shows "map co_name (compileCookieOccurrences c m) = map co_name (compileCookieOccurrences c m')"
proof -
  let ?R = "\<lambda>a b. co_name a = co_name b"
  have eq: "map co_name xs = map co_name ys \<longleftrightarrow> list_all2 ?R xs ys" for xs ys :: "requestCookieOccurrence list"
    by (auto simp: list_eq_iff_nth_eq list_all2_conv_all_nth)
  have "list_all2 ?R (tagged_cookie_layer (md_cookies m)) (tagged_cookie_layer (md_cookies m'))"
    using assms(1) unfolding eq[symmetric] by (simp add: tagged_cookie_layer_def Let_def comp_def)
  then show ?thesis
    unfolding eq compileCookieOccurrences_def
    by (intro merge_cookies_rel) (simp_all add: headerCookies_def assms(2) list_all2_same)
qed

lemma plan_headers_same:
  assumes "list_all2 shown_header vs ws"
  shows "list_all2 shown_header (map credential_private (mergePlanHeaderOccurrences cs vs)) (map credential_private (mergePlanHeaderOccurrences cs ws))"
proof -
  have "map lower_name vs = map lower_name ws"
    using assms by (induction vs ws rule: list_all2_induct) (simp_all add: shown_header_def)
  moreover have "list_all2 shown_header xs xs" for xs by (simp add: list_all2_same shown_header_def)
  ultimately have "list_all2 shown_header (mergePlanHeaderOccurrences cs vs) (mergePlanHeaderOccurrences cs ws)"
    unfolding mergePlanHeaderOccurrences_def by (simp add: list_all2_appendI assms)
  moreover have "shown_header (credential_private a) (credential_private b)" if "shown_header a b" for a b
    using that by (simp add: credential_private_def shown_header_def)
  ultimately show ?thesis by (simp add: list_all2_map1 list_all2_map2 list.rel_mono_strong)
qed

text \<open>Plans of which a preview shows the same.\<close>

definition shown_plan :: "'o oo_ops \<Rightarrow> 'o requestPlan \<Rightarrow> 'o requestPlan \<Rightarrow> bool" where
  "shown_plan ob p q \<longleftrightarrow>
     pl_method p = pl_method q \<and> pl_clientAuth p = pl_clientAuth q \<and>
     previewAuthHeader (pl_requestAuth p) = previewAuthHeader (pl_requestAuth q) \<and>
     url_scheme (pl_targetURL p) = url_scheme (pl_targetURL q) \<and> url_host (pl_targetURL p) = url_host (pl_targetURL q) \<and>
     safe_url (pl_targetURL p) = safe_url (pl_targetURL q) \<and>
     previewQueries (URL_Query (pl_targetURL p)) = previewQueries (URL_Query (pl_targetURL q)) \<and>
     list_all2 shown_header (pl_headers p) (pl_headers q) \<and>
     rel_option (same_shape ob) (pl_orderedHeaders p) (pl_orderedHeaders q) \<and>
     previewBody (pl_body p) (bodyPreflightHeaders p) = previewBody (pl_body q) (bodyPreflightHeaders q) \<and>
     drops_content_type (pl_body p) = drops_content_type (pl_body q) \<and>
     planPreviewCookies (pl_cookies p) = planPreviewCookies (pl_cookies q)"

lemma occurrence_counts:
  assumes "map occ_name xs = map occ_name ys"
  shows "length (filter (\<lambda>occ. occ_name occ = k) xs) = length (filter (\<lambda>occ. occ_name occ = k) ys)"
proof -
  have "length (filter (\<lambda>occ. occ_name occ = k) zs) = length (filter (\<lambda>n. n = k) (map occ_name zs))" for zs
    by (simp add: filter_map comp_def)
  then show ?thesis using assms by metis
qed

lemma same_structure_shown_plan:
  assumes "ordered_object ob" and "same_structure ob b b'"
    and P: "compileRequestPlanSnapshot ph ob snap b = Inr p" and Q: "compileRequestPlanSnapshot ph ob snap b' = Inr q"
  shows "shown_plan ob p q"
proof -
  have tgt: "b_target b = b_target b'" and lq: "map occ_name (md_queries (b_metadata b)) = map occ_name (md_queries (b_metadata b'))"
    and lh: "list_all2 shown_header (md_headers (b_metadata b)) (md_headers (b_metadata b'))"
    and lc: "map co_name (md_cookies (b_metadata b)) = map co_name (md_cookies (b_metadata b'))"
    and lv: "Header_Values (requestOccurrencesHeaderValues (md_headers (b_metadata b))) ''Cookie'' =
       Header_Values (requestOccurrencesHeaderValues (md_headers (b_metadata b'))) ''Cookie''"
    and lo: "rel_option (same_shape ob) (b_orderedHeaders b) (b_orderedHeaders b')"
    and la: "previewAuthHeader (b_auth b) = previewAuthHeader (b_auth b')"
    and lb: "shown_body (b_body b) (b_body b')" and lm: "b_method b = b_method b'"
    using assms(2) unfolding same_structure_def by blast+
  have counts: "length (Values_All (queryValues (b_metadata b)) k) = length (Values_All (queryValues (b_metadata b')) k)" for k
    using occurrence_counts[OF lq] by (simp add: queryValues_vals)
  note P1 = plan_fields(1)[OF P] and Q1 = plan_fields(1)[OF Q, folded tgt]
  note rc = resolve_same_counts[OF P1 Q1 distinct_queryValues distinct_queryValues counts]
  have u: "url_scheme (pl_targetURL p) = url_scheme (pl_targetURL q) \<and> url_host (pl_targetURL p) = url_host (pl_targetURL q)"
    using resolve_same_target[OF P1 Q1] by simp
  moreover have "safe_url (pl_targetURL p) = safe_url (pl_targetURL q)"
    using u rc(2) by (cases "pl_targetURL p"; cases "pl_targetURL q") (simp add: safe_url_def)
  moreover have hd: "list_all2 shown_header (pl_headers p) (pl_headers q)"
    unfolding plan_fields(11)[OF P] plan_fields(11)[OF Q] by (rule plan_headers_same[OF lh])
  moreover have "rel_option (same_shape ob) (pl_orderedHeaders p) (pl_orderedHeaders q)"
  proof -
    have names: "map occ_name (md_headers (b_metadata b)) = map occ_name (md_headers (b_metadata b'))"
      using lh by (induction rule: list_all2_induct) (simp_all add: shown_header_def)
    have refl: "rel_option (same_shape ob) h h" for h by (cases h) (simp_all add: same_shape_def)
    show ?thesis
      unfolding more_plan_fields(3)[OF P] more_plan_fields(3)[OF Q]
      by (rule ordered_object.same_sync[OF assms(1) ordered_object.same_compile[OF assms(1) refl lo names]
            same_headers_counts[OF same_headers_occurrences[OF hd]]])
  qed
  moreover have "previewBody (pl_body p) (bodyPreflightHeaders p) = previewBody (pl_body q) (bodyPreflightHeaders q)"
    unfolding plan_fields(10)[OF P] plan_fields(10)[OF Q]
    by (rule previewBody_same[OF lb])
      (use same_headers_occurrences[OF lh] in
        \<open>simp add: bodyPreflightHeaders_def plan_fields(4)[OF P] plan_fields(4)[OF Q] headerValue_def Header_Get_def same_headers_def\<close>)
  moreover have "drops_content_type (pl_body p) = drops_content_type (pl_body q)"
    using lb unfolding plan_fields(10)[OF P] plan_fields(10)[OF Q] by (simp add: drops_content_type_def shown_body_def)
  moreover have "planPreviewCookies (pl_cookies p) = planPreviewCookies (pl_cookies q)"
    unfolding planPreviewCookies_def plan_fields(7)[OF P] plan_fields(7)[OF Q] cookie_names_same[OF lc lv] ..
  ultimately show ?thesis
    unfolding shown_plan_def plan_fields(8,9)[OF P] plan_fields(8,9)[OF Q] more_plan_fields(1)[OF P] more_plan_fields(1)[OF Q]
    using la lm previewQueries_same[OF rc(1)] by simp
qed

lemma shown_headers_entries:
  assumes "same_headers h h'"
  shows "previewHeaderEntries h = previewHeaderEntries h'" and "Header_Get h ''Content-Type'' = Header_Get h' ''Content-Type''"
  using assms by (simp_all add: previewHeaderEntries_same) (simp_all add: same_headers_def Header_Get_def)

lemma projectStructural_same:
  assumes oo: "ordered_object ob" and "shown_plan ob p q"
  shows "projectStructural ob p = projectStructural ob q"
proof -
  have shown: "pl_method p = pl_method q" "pl_clientAuth p = pl_clientAuth q"
      "previewAuthHeader (pl_requestAuth p) = previewAuthHeader (pl_requestAuth q)"
      "url_scheme (pl_targetURL p) = url_scheme (pl_targetURL q)" "url_host (pl_targetURL p) = url_host (pl_targetURL q)"
      "safe_url (pl_targetURL p) = safe_url (pl_targetURL q)"
      "previewQueries (URL_Query (pl_targetURL p)) = previewQueries (URL_Query (pl_targetURL q))"
      "previewBody (pl_body p) (bodyPreflightHeaders p) = previewBody (pl_body q) (bodyPreflightHeaders q)"
      "drops_content_type (pl_body p) = drops_content_type (pl_body q)"
      "planPreviewCookies (pl_cookies p) = planPreviewCookies (pl_cookies q)"
    and hd: "list_all2 shown_header (pl_headers p) (pl_headers q)"
    and od: "rel_option (same_shape ob) (pl_orderedHeaders p) (pl_orderedHeaders q)"
    using assms(2) unfolding shown_plan_def by blast+
  have sem: "same_headers (preview_semantic p a) (preview_semantic q a)" for a
    using same_headers_occurrences[OF hd] by (simp add: preview_semantic_def Let_def same_headers_set)
  note entries = shown_headers_entries[OF sem] shown_headers_entries[OF same_headers_delete[OF sem]]
  note od0 = ordered_object.same_sync[OF oo ordered_object.same_clone[OF oo od] same_headers_counts[OF sem]]
  note ordered = previewOrdered_same[OF od0] previewOrdered_same[OF ordered_object.same_delete[OF oo od0]]
  show ?thesis
    unfolding projectStructural_def shown
    by (cases "drops_content_type (pl_body q)") (simp_all add: Let_def entries ordered)
qed

text \<open>
  Claim C36: \<open>Preview\<close> shows structure only. For two builders of the same client with the same target that
  agree on names and multiplicities, on the content type and cookie headers, on the kind of
  authentication, and on the kind, length and multipart metadata of the body, it is the same
  computation with the same result, whatever the values are and whether they are public or not, as
  long as both compile.
\<close>

theorem preview_shows_structure_only:
  assumes "ordered_object ob" and "same_structure ob b b'"
    and "compileRequestPlan ph ob c b = Inr p" and "compileRequestPlan ph ob c b' = Inr q"
  shows "Preview ph ob c b = Preview ph ob c b'"
proof -
  have "preview_plan ph ob c b = preview_plan ph ob c b'"
    using projectStructural_same[OF assms(1) same_structure_shown_plan[OF assms(1,2), of ph "snapshot ob c" p q]] assms(3,4)
    by (simp add: preview_plan_def compileRequestPlan_def)
  moreover have "b_preparationErr b = None \<longleftrightarrow> b_preparationErr b' = None" "b_preparationErrClass b = b_preparationErrClass b'"
    "b_timeout b = b_timeout b'"
    using assms(2) by (simp_all add: same_structure_def)
  ultimately show ?thesis
    by (intro ext) (cases "b_preparationErr b"; cases "b_preparationErr b'"; simp add: Preview_def split: option.split)
qed

lemma ex_private_structure:
  "length t = length t' \<Longrightarrow> same_structure dalist_ops (ex_private s t) (ex_private s' t')"
  by (simp add: same_structure_def ex_private_def Builder_Bytes_def selectBody_def Builder_Cookie_def CookieValue_def Builder_Query_def
      QueryValue_def Client_Request_def addQuery_def addCookie_def zeroBodyPlan_def empty_metadata_def Let_def shown_body_def shown_header_def)

theorem preview_shows_structure_only_witness:
  "Preview Some dalist_ops ex_plain_client (ex_private ''tok1'' ''hello'') =
   Preview Some dalist_ops ex_plain_client (ex_private ''secret'' ''howdy'')"
proof -
  let ?b = "ex_private ''tok1'' ''hello''" and ?b' = "ex_private ''secret'' ''howdy''"
  have "case compileRequestPlan Some dalist_ops ex_plain_client ?b of Inl _ \<Rightarrow> False | Inr p \<Rightarrow> True" by code_simp
  moreover have "case compileRequestPlan Some dalist_ops ex_plain_client ?b' of Inl _ \<Rightarrow> False | Inr p \<Rightarrow> True" by code_simp
  ultimately obtain p q where pq: "compileRequestPlan Some dalist_ops ex_plain_client ?b = Inr p"
      "compileRequestPlan Some dalist_ops ex_plain_client ?b' = Inr q"
    by (auto split: sum.splits)
  show ?thesis
    by (rule preview_shows_structure_only[OF dal.ordered_object_axioms ex_private_structure pq]) simp
qed

end
