(* ===== verification/Exit_Errors.thy ===== *)
theory Exit_Errors
  imports Preview_Disclosure Delivery_Exits
begin

text \<open>
  How the four exits of a builder report an error that a fluent method recorded. \<open>Send\<close> and \<open>SendStream\<close>
  return the error itself; \<open>Preview\<close> and \<open>Prepare\<close> return errors of fixed text that keep its class only.
\<close>

lemma recorded_class_is:
  "errors_is (newPreviewPreparationError cls) s \<longleftrightarrow> errors_is (PreparationRetainedError cls) s"
  "errors_is (PreparationRetainedError cls) s \<Longrightarrow> class_sound cls e \<Longrightarrow> errors_is e s"
  by (cases cls; auto simp: newPreviewPreparationError_def class_sound_def)+

text \<open>
  Claim C32: once a method has recorded an error, all four exits fail before anything is sent or
  opened. \<open>Send\<close> and \<open>SendStream\<close> return it as it is. The errors of \<open>Preview\<close> and \<open>Prepare\<close> match the same
  sentinels, each of them one that the recorded error matches, and print no URL.
\<close>

theorem recorded_error_at_every_exit:
  assumes "builder_reachable ob qv b" and "b_preparationErr b = Some e"
  shows "Send lk (Some env) c b = (Inl e, nothing_released) \<and>
    SendStream lk (Some env) c b = ((None, Some e), nothing_released) \<and>
    (\<exists>ev ep. Preview ph ob c b ctx n = (Inl ev, n) \<and> Prepare ph ob lib c opts b pctx n = (Inl ep, n) \<and>
       printed_urls ev = [] \<and> printed_urls ep = [] \<and>
       (\<forall>s. errors_is ev s = errors_is ep s \<and> (errors_is ev s \<longrightarrow> errors_is e s)))"
proof -
  have "class_ok b" by (rule class_inv.inv_reachable[OF assms(1)]) (simp add: class_ok_def Client_Request_def)
  then have sound: "class_sound (b_preparationErrClass b) e" using assms(2) by (simp add: class_ok_def)
  have urls: "printed_urls (newPreviewPreparationError cls) = []" for cls by (simp add: newPreviewPreparationError_def)
  have "Preview ph ob c b ctx n = (Inl (newPreviewPreparationError (b_preparationErrClass b)), n)"
    "Prepare ph ob lib c opts b pctx n = (Inl (PreparationRetainedError (b_preparationErrClass b)), n)"
    by (simp_all add: Preview_def Prepare_def cfail_def assms(2))
  moreover have "Send lk (Some env) c b = (Inl e, nothing_released)"
    "SendStream lk (Some env) c b = ((None, Some e), nothing_released)"
    by (simp_all add: Send_def SendStream_def compileDeliverySnapshot_def assms(2))
  ultimately show ?thesis
    using recorded_class_is(1)[of "b_preparationErrClass b"] recorded_class_is(2)[OF _ sound] urls printed_urls.simps(13)
    by (auto simp del: errors_is.simps)
qed

definition ex_failed :: "(string, string list) alist RequestBuilder" where
  "ex_failed = Builder_Query ''q'' ''1'' (Builder_Timeout (-1) (Client_Request ''GET'' ''/''))"

theorem recorded_error_at_every_exit_witness:
  "Send ex_linked (Some ex_answers) ex_plain_client ex_failed = (Inl (invalidOptionValue ''Timeout''), nothing_released) \<and>
   SendStream ex_linked (Some ex_answers) ex_plain_client ex_failed = ((None, Some (invalidOptionValue ''Timeout'')), nothing_released)"
proof -
  have "b_preparationErr ex_failed = Some (invalidOptionValue ''Timeout'')"
    by (simp add: ex_failed_def Builder_Query_def QueryValue_def Builder_Timeout_def validateDurationOption_def setPreparationError_def
        Client_Request_def)
  moreover have "builder_reachable dalist_ops (\<lambda>_. Inr []) ex_failed"
    unfolding ex_failed_def by (meson builder_step.intros(9,15) builder_reachable.intros)
  ultimately show ?thesis using recorded_error_at_every_exit by blast
qed

end
