(* ===== verification/Projection_Accessors.thy ===== *)
theory Projection_Accessors
  imports Request_Preview
begin

text \<open>
  The accessors of \<open>request_preview.go\<close> and of the parts of a preparation in \<open>request_preparation.go\<close>.
  A pointer receiver is an option; None is nil. A slice that an accessor copies is the list itself,
  since values are not shared here.
\<close>

section \<open>Parts of a preview\<close>

definition PreviewValue_State :: "PreviewValue \<Rightarrow> PreviewValueState" where
  "PreviewValue_State v = pv_state v"

definition PreviewTarget_Scheme :: "PreviewTarget \<Rightarrow> string" where
  "PreviewTarget_Scheme t = vt_scheme t"

definition PreviewTarget_Host :: "PreviewTarget \<Rightarrow> string" where
  "PreviewTarget_Host t = vt_host t"

definition PreviewTarget_Path :: "PreviewTarget \<Rightarrow> PreviewValue" where
  "PreviewTarget_Path t = vt_path t"

definition PreviewQuery_Key :: "PreviewQuery \<Rightarrow> string" where
  "PreviewQuery_Key q = vq_key q"

definition PreviewQuery_Values :: "PreviewQuery \<Rightarrow> PreviewValue list" where
  "PreviewQuery_Values q = vq_values q"

definition PreviewQueries_Entries :: "PreviewQuery list \<Rightarrow> PreviewQuery list" where
  "PreviewQueries_Entries q = map (\<lambda>e. \<lparr>vq_key = vq_key e, vq_values = vq_values e\<rparr>) q"

definition PreviewHeader_Key :: "PreviewHeader \<Rightarrow> string" where
  "PreviewHeader_Key h = vh_key h"

definition PreviewHeader_Values :: "PreviewHeader \<Rightarrow> PreviewValue list" where
  "PreviewHeader_Values h = vh_values h"

definition PreviewHeaders_Entries :: "PreviewHeader list \<Rightarrow> PreviewHeader list" where
  "PreviewHeaders_Entries h = map (\<lambda>e. \<lparr>vh_key = vh_key e, vh_values = vh_values e\<rparr>) h"

definition PreviewCookie_Name :: "PreviewCookie \<Rightarrow> string" where
  "PreviewCookie_Name c = vk_name c"

definition PreviewCookie_Value :: "PreviewCookie \<Rightarrow> PreviewValue" where
  "PreviewCookie_Value c = vk_value c"

definition PreviewCookies_Entries :: "PreviewCookie list \<Rightarrow> PreviewCookie list" where
  "PreviewCookies_Entries c = c"

section \<open>The body of a preview\<close>

definition PreviewBody_Kind :: "PreviewBody \<Rightarrow> PreviewBodyKind" where
  "PreviewBody_Kind b = vb_kind b"

definition PreviewBody_MediaType :: "PreviewBody \<Rightarrow> string" where
  "PreviewBody_MediaType b = vb_mediaType b"

definition PreviewBody_Presence :: "PreviewBody \<Rightarrow> PreviewValueState" where
  "PreviewBody_Presence b = vb_presence b"

definition PreviewBody_Value :: "PreviewBody \<Rightarrow> PreviewValue" where
  "PreviewBody_Value b = vb_value b"

definition PreviewBody_LengthKnown :: "PreviewBody \<Rightarrow> bool" where
  "PreviewBody_LengthKnown b = vb_lengthKnown b"

definition PreviewBody_Replayable :: "PreviewBody \<Rightarrow> bool" where
  "PreviewBody_Replayable b = vb_replayable b"

definition PreviewBody_ReplayabilityKnown :: "PreviewBody \<Rightarrow> bool" where
  "PreviewBody_ReplayabilityKnown b = vb_replayabilityKnown b"

definition PreviewMultipartField_Name :: "PreviewMultipartField \<Rightarrow> string" where
  "PreviewMultipartField_Name f = mf_name f"

definition PreviewMultipartField_Values :: "PreviewMultipartField \<Rightarrow> PreviewValue list" where
  "PreviewMultipartField_Values f = mf_values f"

definition PreviewMultipartFile_Field :: "PreviewMultipartFile \<Rightarrow> string" where
  "PreviewMultipartFile_Field f = mf_field f"

definition PreviewMultipartFile_Filename :: "PreviewMultipartFile \<Rightarrow> string" where
  "PreviewMultipartFile_Filename f = mf_filename f"

definition PreviewMultipartFile_ContentType :: "PreviewMultipartFile \<Rightarrow> string" where
  "PreviewMultipartFile_ContentType f = mf_contentType f"

definition PreviewMultipart_Fields :: "PreviewMultipart option \<Rightarrow> PreviewMultipartField list" where
  "PreviewMultipart_Fields m =
     (case m of None \<Rightarrow> [] | Some x \<Rightarrow> map (\<lambda>f. \<lparr>mf_name = mf_name f, mf_values = mf_values f\<rparr>) (vm_fields x))"

definition PreviewMultipart_Files :: "PreviewMultipart option \<Rightarrow> PreviewMultipartFile list" where
  "PreviewMultipart_Files m = (case m of None \<Rightarrow> [] | Some x \<Rightarrow> vm_files x)"

definition PreviewMultipart_Boundary :: "PreviewMultipart option \<Rightarrow> PreviewValue" where
  "PreviewMultipart_Boundary m = (case m of None \<Rightarrow> unknown_value | Some x \<Rightarrow> vm_boundary x)"

definition PreviewMultipart_clone :: "PreviewMultipart option \<Rightarrow> PreviewMultipart option" where
  "PreviewMultipart_clone m =
     (case m of
        None \<Rightarrow> None
      | Some x \<Rightarrow> Some \<lparr>vm_fields = map (\<lambda>f. \<lparr>mf_name = mf_name f, mf_values = mf_values f\<rparr>) (vm_fields x),
                        vm_files = vm_files x, vm_boundary = vm_boundary x\<rparr>)"

definition PreviewBody_Multipart :: "PreviewBody \<Rightarrow> PreviewMultipart option" where
  "PreviewBody_Multipart b = PreviewMultipart_clone (vb_multipart b)"

definition PreviewBody_clone :: "PreviewBody \<Rightarrow> PreviewBody" where
  "PreviewBody_clone b = b\<lparr>vb_multipart := PreviewMultipart_clone (vb_multipart b)\<rparr>"

section \<open>The preview\<close>

text \<open>Go's zero values of the structs a nil preview returns.\<close>

definition zeroPreviewValue :: PreviewValue where
  "zeroPreviewValue = \<lparr>pv_state = PreviewValueUnset, pv_value = []\<rparr>"

definition zeroPreviewBody :: PreviewBody where
  "zeroPreviewBody =
     \<lparr>vb_kind = PreviewBodyUnset, vb_mediaType = [], vb_presence = PreviewValueUnset, vb_value = zeroPreviewValue, vb_length = 0,
      vb_lengthKnown = False, vb_replayable = False, vb_replayabilityKnown = False, vb_multipart = None\<rparr>"

definition Preview_Method :: "RequestPreview option \<Rightarrow> string" where
  "Preview_Method p = (case p of None \<Rightarrow> [] | Some x \<Rightarrow> rv_method x)"

definition Preview_Target :: "RequestPreview option \<Rightarrow> PreviewTarget" where
  "Preview_Target p =
     (case p of None \<Rightarrow> \<lparr>vt_scheme = [], vt_host = [], vt_path = zeroPreviewValue\<rparr> | Some x \<Rightarrow> rv_target x)"

definition Preview_URL :: "RequestPreview option \<Rightarrow> URL option" where
  "Preview_URL p = (case p of None \<Rightarrow> None | Some x \<Rightarrow> Some (rv_url x))"

definition Preview_Query :: "RequestPreview option \<Rightarrow> PreviewQuery list" where
  "Preview_Query p = (case p of None \<Rightarrow> [] | Some x \<Rightarrow> PreviewQueries_Entries (rv_query x))"

definition Preview_Headers :: "RequestPreview option \<Rightarrow> PreviewHeader list" where
  "Preview_Headers p = (case p of None \<Rightarrow> [] | Some x \<Rightarrow> PreviewHeaders_Entries (rv_headers x))"

definition Preview_OrderedHeaders :: "RequestPreview option \<Rightarrow> PreviewHeader list" where
  "Preview_OrderedHeaders p = (case p of None \<Rightarrow> [] | Some x \<Rightarrow> PreviewHeaders_Entries (rv_orderedHeaders x))"

definition Preview_Cookies :: "RequestPreview option \<Rightarrow> PreviewCookie list" where
  "Preview_Cookies p = (case p of None \<Rightarrow> [] | Some x \<Rightarrow> PreviewCookies_Entries (rv_cookies x))"

definition Preview_ContentType :: "RequestPreview option \<Rightarrow> string" where
  "Preview_ContentType p = (case p of None \<Rightarrow> [] | Some x \<Rightarrow> rv_contentType x)"

definition Preview_Body :: "RequestPreview option \<Rightarrow> PreviewBody" where
  "Preview_Body p = (case p of None \<Rightarrow> zeroPreviewBody | Some x \<Rightarrow> PreviewBody_clone (rv_body x))"

section \<open>Parts of a preparation\<close>

definition PreparedTarget_Scheme :: "PreparedTarget \<Rightarrow> string" where
  "PreparedTarget_Scheme t = pg_scheme t"

definition PreparedTarget_Authority :: "PreparedTarget \<Rightarrow> string" where
  "PreparedTarget_Authority t = pg_authority t"

definition PreparedTarget_Path :: "PreparedTarget \<Rightarrow> PreparedString" where
  "PreparedTarget_Path t = PreparedString_clone (pg_path t)"

definition PreparedOccurrence_Values :: "PreparedOccurrence \<Rightarrow> PreparedString list" where
  "PreparedOccurrence_Values v = clonePreparedStrings (po_values v)"

definition PreparedHeader_Values :: "PreparedHeader \<Rightarrow> PreparedString list" where
  "PreparedHeader_Values h = clonePreparedStrings (ph_values h)"

definition PreparedCookie_Value :: "PreparedCookie \<Rightarrow> PreparedString" where
  "PreparedCookie_Value c = PreparedString_clone (pc_value c)"

definition PreparedBody_Data :: "PreparedBody \<Rightarrow> PreparedBytes" where
  "PreparedBody_Data b = PreparedBytes_clone (py_data b)"

definition PreparedBody_Multipart :: "PreparedBody \<Rightarrow> PreparedMultipart option" where
  "PreparedBody_Multipart b = clonePreparedMultipart (py_multipart b)"

definition PreparedMultipart_Fields :: "PreparedMultipart option \<Rightarrow> PreparedOccurrence list" where
  "PreparedMultipart_Fields m = (case m of None \<Rightarrow> [] | Some x \<Rightarrow> clonePreparedOccurrences (pm_fields x))"

definition PreparedMultipart_Files :: "PreparedMultipart option \<Rightarrow> PreparedMultipartFile list" where
  "PreparedMultipart_Files m = (case m of None \<Rightarrow> [] | Some x \<Rightarrow> pm_files x)"

end
