(* ===== verification/Preview_Properties.thy ===== *)
theory Preview_Properties
  imports Projection_Accessors Preview_Disclosure Plan_Delivered
begin

text \<open>
  What a preview looks like, and that the headers it shows are those a delivered request carries.
\<close>

section \<open>Successful previews\<close>

lemma cbind_success: "fst (cbind m f ctx n) = Inr b \<longleftrightarrow> (\<exists>a n1. m ctx n = (Inr a, n1) \<and> fst (f a ctx n1) = Inr b)"
  by (auto simp: cbind_def split: prod.splits sum.splits)

lemma ccheck_success: "fst (ccheck m ctx n) = Inr b \<Longrightarrow> \<exists>n1. fst (m ctx n1) = Inr b"
  by (auto simp: ccheck_def cbind_success)

lemma every64_success: "fst (every64 i m ctx n) = Inr b \<Longrightarrow> \<exists>n1. fst (m ctx n1) = Inr b"
  using ccheck_success by (auto simp: every64_def split: if_splits)

lemma ceach_success:
  assumes "fst (ceach f i xs ctx n) = Inr ys" and "\<And>i x n y. x \<in> set xs \<Longrightarrow> fst (f i x ctx n) = Inr y \<Longrightarrow> R x y"
  shows "list_all2 R xs ys"
  using assms
proof (induction xs arbitrary: i n ys)
  case (Cons x xs)
  then obtain y n1 ys1 where "f i x ctx n = (Inr y, n1)" "fst (ceach f (i + 1) xs ctx n1) = Inr ys1" "ys = y # ys1"
    by (auto simp: cbind_success cret_def)
  then show ?case using Cons.IH[of "i + 1" n1 ys1] Cons.prems(2)[of x i n y] Cons.prems(2) by simp
qed (simp add: cret_def)

definition structural_headers :: "'o requestPlan \<Rightarrow> httpHeader" where
  "structural_headers p =
     (let semantic = preview_semantic p (pl_clientAuth p \<noteq> None \<or> pl_requestAuth p \<noteq> None)
      in if drops_content_type (pl_body p) then deleteHeaderValues semantic ''Content-Type'' else semantic)"

lemma previewAuth_success: "previewAuthHeader auth = Inr a \<Longrightarrow> (a \<longleftrightarrow> auth \<noteq> None) \<and> builtin_auth auth"
  by (cases auth rule: builtin_auth.cases)
    (auto simp: previewAuthHeader_def builtInAuthShape_def Let_def split: if_splits option.splits)

lemma structural_success:
  assumes "fst (projectStructural ob p ctx n) = Inr r"
  shows "\<exists>n1. fst (previewBody (pl_body p) (bodyPreflightHeaders p) ctx n1) = Inr (rv_body r)"
    and "builtin_auth (pl_clientAuth p)" and "builtin_auth (pl_requestAuth p)"
    and "rv_target r = \<lparr>vt_scheme = url_scheme (pl_targetURL p), vt_host = url_host (pl_targetURL p), vt_path = omitted_value\<rparr>"
    and "rv_url r = safe_url (pl_targetURL p)" and "rv_query r = previewQueries (URL_Query (pl_targetURL p))"
    and "rv_headers r = previewHeaderEntries (structural_headers p)"
    and "rv_contentType r = Header_Get (structural_headers p) ''Content-Type''"
    and "rv_cookies r = previewCookieEntries (planPreviewCookies (pl_cookies p))"
proof -
  obtain a1 a2 where a: "previewAuthHeader (pl_clientAuth p) = Inr a1" "previewAuthHeader (pl_requestAuth p) = Inr a2"
    using assms
    by (cases "previewAuthHeader (pl_clientAuth p)"; cases "previewAuthHeader (pl_requestAuth p)")
      (auto simp: projectStructural_def ccheck_def cbind_success cfail_def)
  note auth = previewAuth_success[OF a(1)] previewAuth_success[OF a(2)]
  then show "builtin_auth (pl_clientAuth p)" "builtin_auth (pl_requestAuth p)" by simp_all
  obtain body n1 n2 where body: "previewBody (pl_body p) (bodyPreflightHeaders p) ctx n1 = (Inr body, n2)" "rv_body r = body"
    and r: "rv_target r = \<lparr>vt_scheme = url_scheme (pl_targetURL p), vt_host = url_host (pl_targetURL p), vt_path = omitted_value\<rparr>"
      "rv_url r = safe_url (pl_targetURL p)" "rv_query r = previewQueries (URL_Query (pl_targetURL p))"
      "rv_headers r = previewHeaderEntries (structural_headers p)"
      "rv_contentType r = Header_Get (structural_headers p) ''Content-Type''"
      "rv_cookies r = previewCookieEntries (planPreviewCookies (pl_cookies p))"
    using assms unfolding projectStructural_def a clift_simps cbind_cret Let_def structural_headers_def
    using auth by (force simp: ccheck_def cbind_success cret_def)
  show "\<exists>n1. fst (previewBody (pl_body p) (bodyPreflightHeaders p) ctx n1) = Inr (rv_body r)"
    using body by (intro exI[of _ n1]) simp
  show "rv_target r = \<lparr>vt_scheme = url_scheme (pl_targetURL p), vt_host = url_host (pl_targetURL p), vt_path = omitted_value\<rparr>"
    "rv_url r = safe_url (pl_targetURL p)" "rv_query r = previewQueries (URL_Query (pl_targetURL p))"
    "rv_headers r = previewHeaderEntries (structural_headers p)"
    "rv_contentType r = Header_Get (structural_headers p) ''Content-Type''"
    "rv_cookies r = previewCookieEntries (planPreviewCookies (pl_cookies p))"
    by (fact r)+
qed

lemma preview_success:
  assumes "fst (Preview ph ob c b ctx n) = Inr r"
  obtains plan ctx1 n1 where "compileRequestPlan ph ob c b = Inr plan" and "fst (projectStructural ob plan ctx1 n1) = Inr r"
  using assms
  by (auto simp: Preview_def preview_plan_def compileRequestPlan_def cfail_def split: option.splits sum.splits goerr.splits dest!: ccheck_success)

section \<open>Well-formed previews\<close>

definition multipart_wf :: "PreviewMultipart \<Rightarrow> bool" where
  "multipart_wf m \<longleftrightarrow> sorted (map mf_name (vm_fields m)) \<and>
     (\<forall>f\<in>set (vm_fields m). set (mf_values f) \<subseteq> {omitted_value}) \<and> (\<forall>f\<in>set (vm_files m). mf_field f \<noteq> []) \<and>
     pv_state (vm_boundary m) \<noteq> PreviewValueOmitted \<and>
     (pv_state (vm_boundary m) = PreviewValuePresent \<longrightarrow> validMultipartBoundary (pv_value (vm_boundary m)))"

definition body_wf :: "PreviewBody \<Rightarrow> bool" where
  "body_wf b \<longleftrightarrow>
     vb_kind b \<noteq> PreviewBodyUnset \<and>
     vb_presence b = (if vb_kind b = PreviewBodyNone then PreviewValueUnknown else PreviewValuePresent) \<and>
     vb_value b = (if vb_kind b = PreviewBodyNone then unknown_value else omitted_value) \<and>
     (vb_multipart b \<noteq> None \<longleftrightarrow> vb_kind b = PreviewBodyMultipart) \<and>
     (case vb_multipart b of None \<Rightarrow> True | Some m \<Rightarrow> multipart_wf m) \<and>
     (vb_lengthKnown b \<longrightarrow> vb_kind b \<in> {PreviewBodyText, PreviewBodyBytes, PreviewBodyReader}) \<and>
     (vb_replayable b \<longrightarrow> vb_replayabilityKnown b)"

definition preview_wf :: "RequestPreview \<Rightarrow> bool" where
  "preview_wf r \<longleftrightarrow>
     vt_path (rv_target r) = omitted_value \<and> url_scheme (rv_url r) = vt_scheme (rv_target r) \<and> url_host (rv_url r) = vt_host (rv_target r) \<and>
     url_user (rv_url r) = None \<and> url_path (rv_url r) = [] \<and> url_rawQuery (rv_url r) = [] \<and> url_fragment (rv_url r) = [] \<and> url_opaque (rv_url r) = [] \<and>
     sorted (map vq_key (rv_query r)) \<and> distinct (map vq_key (rv_query r)) \<and>
     (\<forall>q\<in>set (rv_query r). set (vq_values q) = {omitted_value}) \<and>
     sorted (map vh_key (rv_headers r)) \<and> distinct (map vh_key (rv_headers r)) \<and>
     (\<forall>h\<in>set (rv_headers r). vh_values h =
        (if EqualFold (vh_key h) ''Content-Type'' \<and> vh_values h \<noteq> []
         then present_value (rv_contentType r) # replicate (length (vh_values h) - 1) omitted_value
         else replicate (length (vh_values h)) omitted_value)) \<and>
     (\<forall>ck\<in>set (rv_cookies r). validCookieName (vk_name ck) \<and> vk_value ck = omitted_value) \<and>
     body_wf (rv_body r)"

lemma previewMultipart_wf:
  assumes "fst (previewMultipart mp ctx n) = Inr m"
  shows "multipart_wf m"
proof -
  obtain p where p: "mp = Some p" using assms by (cases mp) (simp_all add: previewMultipart_def cfail_def)
  let ?keys = "sort (map fst (mp_fields p))"
  have ok: "\<not> (mp_boundary p \<noteq> [] \<and> \<not> validMultipartBoundary (mp_boundary p))"
    using assms by (auto simp: previewMultipart_def p cfail_def split: if_splits)
  let ?F = "ceach (\<lambda>i key. every64 i (cret
      \<lparr>mf_name = key, mf_values = replicate (length (the (map_of (mp_fields p) key))) omitted_value\<rparr>)) 0 ?keys"
  let ?G = "ceach (\<lambda>i part. every64 i
      (if fp_Field part = [] \<or> fp_Body part = None then cfail previewInvalidBodyError
       else cret \<lparr>mf_field = fp_Field part, mf_filename = fp_Filename part, mf_contentType = fp_ContentType part\<rparr>)) 0 (mp_parts p)"
  let ?boundary = "if mp_boundary p \<noteq> [] then present_value (mp_boundary p) else unknown_value"
  have "fst (cbind ?F (\<lambda>fields. cbind ?G (\<lambda>files. cret \<lparr>vm_fields = fields, vm_files = files, vm_boundary = ?boundary\<rparr>)) ctx n) = Inr m"
  proof (cases "mp_canReplay p \<and> mp_replayMaxBytes p < 0")
    case True
    then show ?thesis using assms by (simp add: previewMultipart_def p cfail_def)
  next
    case False
    then show ?thesis using assms ok unfolding previewMultipart_def p option.case Let_def by (simp only: if_False simp_thms)
  qed
  then obtain fields n1 where f: "?F ctx n = (Inr fields, n1)"
      and "fst (cbind ?G (\<lambda>files. cret \<lparr>vm_fields = fields, vm_files = files, vm_boundary = ?boundary\<rparr>) ctx n1) = Inr m"
    unfolding cbind_success by blast
  then obtain files n2 where g: "?G ctx n1 = (Inr files, n2)"
      and "fst (cret \<lparr>vm_fields = fields, vm_files = files, vm_boundary = ?boundary\<rparr> ctx n2) = Inr m"
    unfolding cbind_success by blast
  then have m: "m = \<lparr>vm_fields = fields, vm_files = files, vm_boundary = ?boundary\<rparr>" by (simp add: cret_def)
  have ran: "fst (?F ctx n) = Inr fields" "fst (?G ctx n1) = Inr files" by (simp_all only: f g fst_conv)
  have "list_all2 (\<lambda>k x. mf_name x = k \<and> set (mf_values x) \<subseteq> {omitted_value}) ?keys fields"
    by (rule ceach_success[OF ran(1)]) (auto simp: cret_def dest!: every64_success)
  then have "map mf_name fields = ?keys \<and> (\<forall>x\<in>set fields. set (mf_values x) \<subseteq> {omitted_value})"
    by (induction rule: list_all2_induct) simp_all
  moreover have "list_all2 (\<lambda>part x. mf_field x \<noteq> []) (mp_parts p) files"
    by (rule ceach_success[OF ran(2)]) (auto simp: cret_def cfail_def dest!: every64_success split: if_splits)
  then have "\<forall>x\<in>set files. mf_field x \<noteq> []" by (induction rule: list_all2_induct) simp_all
  ultimately show ?thesis
    using ok by (auto simp: multipart_wf_def m omitted_value_def present_value_def unknown_value_def)
qed

lemma previewBody_wf:
  assumes "fst (previewBody selection headers ctx n) = Inr body"
  shows "body_wf body"
proof (cases "bp_kind selection = requestBodyMultipart")
  case True
  then obtain m n1 where "previewMultipart (bp_multipart selection) ctx n = (Inr m, n1)"
    "body = (selected_body selection ''multipart/form-data'')\<lparr>vb_replayable := mp_canReplay (the (bp_multipart selection)),
       vb_replayabilityKnown := True, vb_multipart := Some m\<rparr>"
    using assms by (auto simp: previewBody_def Let_def cbind_success cret_def)
  moreover from this have "multipart_wf m" using previewMultipart_wf[of "bp_multipart selection" ctx n m] by simp
  ultimately show ?thesis using True by (simp add: body_wf_def selected_body_def previewBodyKind_def)
next
  case False
  note defs = previewBody_def Let_def body_wf_def selected_body_def previewBodyKind_def ccheck_def cbind_success
  show ?thesis
    using assms False
    by (cases "bp_kind selection") (auto simp: defs cret_def cfail_def split: if_splits goany.splits)
qed

lemma distinct_structural: "distinct (map fst (structural_headers p))"
proof -
  have "distinct (map fst (requestOccurrencesHeaderValues (pl_headers p)))" using canonical_occurrences by (auto simp: canonical_header_def)
  then show ?thesis
    by (auto simp: structural_headers_def preview_semantic_def Let_def Header_Set_def deleteHeaderValues_def Header_Del_def
        distinct_update distinct_delete distinct_map_filter)
qed

lemma previewHeaderEntries_shape:
  assumes "e \<in> set (previewHeaderEntries h)"
  shows "vh_values e = (if EqualFold (vh_key e) ''Content-Type'' \<and> vh_values e \<noteq> []
         then present_value (Header_Get h ''Content-Type'') # replicate (length (vh_values e) - 1) omitted_value
         else replicate (length (vh_values e)) omitted_value)"
proof -
  obtain k where e: "e = \<lparr>vh_key = k, vh_values = previewHeaderValues k (the (map_of h k)) (Header_Get h k)\<rparr>"
    using assms by (auto simp: previewHeaderEntries_def)
  show ?thesis
    using content_type_eqv[of k h] by (cases "the (map_of h k)") (auto simp: e previewHeaderValues_def Let_def)
qed

lemma previewQueries_shape:
  shows "sorted (map vq_key (previewQueries (URL_Query u)))" and "distinct (map vq_key (previewQueries (URL_Query u)))"
    and "q \<in> set (previewQueries (URL_Query u)) \<Longrightarrow> set (vq_values q) = {omitted_value}"
proof -
  have keys: "map vq_key (previewQueries (URL_Query u)) = sort (map fst (URL_Query u))" by (simp add: previewQueries_def comp_def)
  show "sorted (map vq_key (previewQueries (URL_Query u)))" "distinct (map vq_key (previewQueries (URL_Query u)))"
    unfolding keys by (simp_all add: URL_Query_def distinct_Query_lenient)
  assume "q \<in> set (previewQueries (URL_Query u))"
  then obtain k where k: "k \<in> set (map fst (URL_Query u))"
      "q = \<lparr>vq_key = k, vq_values = replicate (length (the (map_of (URL_Query u) k))) omitted_value\<rparr>"
    by (auto simp: previewQueries_def)
  then have "map_of (URL_Query u) k \<noteq> None" by (simp add: map_of_eq_None_iff)
  then have "the (map_of (URL_Query u) k) \<noteq> []"
    using no_empty_query[of "url_rawQuery u" k] by (auto simp: URL_Query_def)
  then show "set (vq_values q) = {omitted_value}" using k(2) by (simp add: set_replicate_conv_if)
qed


section \<open>Shown and delivered headers\<close>

definition shown_count :: "PreviewHeader list \<Rightarrow> string \<Rightarrow> nat" where
  "shown_count hs k = sum_list (map (\<lambda>h. length (PreviewHeader_Values h)) (filter (\<lambda>h. EqualFold (PreviewHeader_Key h) k) hs))"

lemma canonical_set: "canonical_header h \<Longrightarrow> canonical_header (Header_Set h k v)"
proof -
  assume h: "canonical_header h"
  have "fst ` set (Header_Set h k v) = insert (CanonicalHeaderKey k) (fst ` set h)"
    using set_map_fst_update[of "CanonicalHeaderKey k" "[v]" h] by (simp add: Header_Set_def)
  then have "CanonicalHeaderKey a = a" if "a \<in> fst ` set (Header_Set h k v)" for a
    using h that by (auto simp: canonical_header_def)
  then show ?thesis using h by (simp add: canonical_header_def wf_intros)
qed

lemma canonical_delete: "canonical_header h \<Longrightarrow> canonical_header (deleteHeaderValues h k)"
  by (auto simp: canonical_header_def deleteHeaderValues_def Header_Del_def AList.delete_eq distinct_map_filter)

lemma canonical_structural: "canonical_header (structural_headers p)"
  by (simp add: structural_headers_def preview_semantic_def Let_def canonical_occurrences canonical_set canonical_delete)

lemma shown_count_entries:
  assumes "canonical_header h" and "token k"
  shows "shown_count (PreviewHeaders_Entries (previewHeaderEntries h)) k = length (Header_Values h k)"
proof -
  let ?f = "\<lambda>key. length (the (map_of h key))"
  have len: "length (previewHeaderValues key vs ct) = length vs" for key vs ct by (simp add: previewHeaderValues_def Let_def)
  have sorted_sum: "sum_list (map ?f (sort xs)) = sum_list (map ?f xs)" for xs
  proof -
    have "sum_list (map ?f ys) = sum_mset (image_mset ?f (mset ys))" for ys by (simp flip: sum_mset_sum_list)
    then show ?thesis by simp
  qed
  have d: "distinct (map fst h)" using assms(1) by (simp add: canonical_header_def)
  have "shown_count (PreviewHeaders_Entries (previewHeaderEntries h)) k =
      sum_list (map ?f (filter (\<lambda>key. EqualFold key k) (sort (map fst h))))"
    by (simp add: shown_count_def PreviewHeaders_Entries_def previewHeaderEntries_def PreviewHeader_Values_def PreviewHeader_Key_def
        filter_map comp_def len)
  also have "\<dots> = sum_list (map ?f (filter (\<lambda>key. EqualFold key k) (map fst h)))"
    by (simp only: filter_sort sorted_sum)
  also have "\<dots> = sum_list (map (\<lambda>e. length (snd e)) (filter (\<lambda>e. header_eqv (fst e) k) h))"
    using d token_eqv[OF assms(2)] by (simp add: filter_map comp_def cong: filter_cong) (intro arg_cong[of _ _ sum_list] map_cong; auto)
  also have "\<dots> = length (Header_Values h k)"
    using canonical_concat[OF assms(1), of k] by (simp add: length_concat comp_def flip: canonical_concat[OF assms(1)])
  finally show ?thesis .
qed


lemma merged_values:
  assumes "token k"
  shows "Header_Values (requestOccurrencesHeaderValues (map credential_private (mergePlanHeaderOccurrences (md_headers cm) (md_headers rm)))) k =
    map rawValue (if md_vals rm k \<noteq> [] then md_vals rm k else md_vals cm k)"
proof -
  have raw: "Header_Values (requestOccurrencesHeaderValues occs) k = map (\<lambda>occ. rawValue (occ_value occ)) (filter (\<lambda>occ. EqualFold (occ_name occ) k) occs)" for occs
    using token_eqv[OF assms] by (simp add: request_header_values occurrencesHeaderValues_vals)
  have cred: "filter (\<lambda>occ. EqualFold (occ_name occ) k) (map credential_private occs) = map credential_private (filter (\<lambda>occ. EqualFold (occ_name occ) k) occs)" for occs
    by (simp add: filter_map comp_def credential_private_def if_distrib cong: if_cong)
  have same: "rawValue (occ_value (credential_private occ)) = rawValue (occ_value occ)" for occ
    by (simp add: credential_private_def privateRequestValue_def rawValue_def)
  have client: "filter (\<lambda>occ. EqualFold (occ_name occ) k) (filter (\<lambda>occ. ToLower (occ_name occ) \<notin> set (map (\<lambda>r. ToLower (occ_name r)) (md_headers rm))) occs) =
      (if md_vals rm k \<noteq> [] then [] else filter (\<lambda>occ. EqualFold (occ_name occ) k) occs)" for occs
    by (auto simp: md_vals_def filter_False_iff EqualFold_def image_iff intro!: filter_cong) metis
  show ?thesis
    unfolding raw cred mergePlanHeaderOccurrences_def filter_append map_append client
    by (auto simp: md_vals_def comp_def same)
qed

lemma shown_values:
  assumes "token k" and "compileRequestPlan ph ob c b = Inr plan"
    and "EqualFold ''Content-Type'' k \<Longrightarrow> \<not> bp_generatedContentType (b_body b)"
  shows "length (Header_Values (structural_headers plan) k) =
    (if EqualFold ''Authorization'' k \<and> (c_auth c \<noteq> None \<or> b_auth b \<noteq> None) then 1
     else length (if md_vals (b_metadata b) k \<noteq> [] then md_vals (b_metadata b) k else md_vals (c_metadata c) k))"
proof -
  note f = plan_fields[OF assms(2)[unfolded compileRequestPlan_def]]
  have a: "pl_clientAuth plan = c_auth c" "pl_requestAuth plan = b_auth b" "s_metadata (snapshot ob c) = c_metadata c"
    using f(8,9) by (simp_all add: snapshot_def)
  have "Header_Values (structural_headers plan) k = Header_Values (preview_semantic plan (c_auth c \<noteq> None \<or> b_auth b \<noteq> None)) k"
    using assms(3) by (simp add: structural_headers_def Let_def a deleteHeaderValues_vals drops_content_type_def f(10))
  then show ?thesis
    by (auto simp: preview_semantic_def Let_def set_token_vals[OF assms(1)] f(11) a merged_values[OF assms(1)])
qed

section \<open>Properties\<close>

text \<open>
  Claim C39: every preview is well formed, as \<open>SPECS/21\<close> describes it. Query and header names are sorted and occur once, each query
  name with at least one value; every value is omitted but the content type, which is the one of the
  preview; cookie names are valid; the shown URL has the target's scheme and host and no user
  information, path, query or fragment; the body has unknown presence only when there is none, its
  value is never shown, its length is known only for text, bytes and sized readers, it has a multipart
  manifest, with sorted fields and files that name their field, exactly when it is multipart, and it is
  called replayable only when that is known.
\<close>

theorem preview_well_formed:
  assumes "fst (Preview ph ob c b ctx n) = Inr r"
  shows "preview_wf r"
proof -
  obtain plan ctx1 n0 where p: "fst (projectStructural ob plan ctx1 n0) = Inr r" by (rule preview_success[OF assms])
  note f = structural_success[OF p]
  obtain n1 where body: "fst (previewBody (pl_body plan) (bodyPreflightHeaders plan) ctx1 n1) = Inr (rv_body r)" using f(1) by blast
  have keys: "map vh_key (previewHeaderEntries h) = sort (map fst h)" for h by (simp add: previewHeaderEntries_def comp_def)
  have ck: "ck \<in> set (rv_cookies r) \<Longrightarrow> validCookieName (vk_name ck) \<and> vk_value ck = omitted_value" for ck
    by (auto simp: f(9) previewCookieEntries_def planPreviewCookies_def)
  show ?thesis
    unfolding preview_wf_def f(4-8)
    using previewQueries_shape[where u = "pl_targetURL plan"] previewHeaderEntries_shape[of _ "structural_headers plan"]
      distinct_structural[of plan] previewBody_wf[OF body] ck
    by (simp add: keys safe_url_def)
qed



section \<open>Examples\<close>

definition ex_preview_ctx :: previewCtx where
  "ex_preview_ctx = \<lparr>vc_err = (\<lambda>_. None), vc_hasDeadline = True, vc_withTimeout = (\<lambda>_ _. None)\<rparr>"

lemma ex_preview:
  "\<exists>r. fst (Preview Some dalist_ops ex_client ex_builder (Some ex_preview_ctx) 0) = Inr r"
proof -
  have "case fst (Preview Some dalist_ops ex_client ex_builder (Some ex_preview_ctx) 0) of Inl _ \<Rightarrow> False | Inr r \<Rightarrow> True"
    by code_simp
  then show ?thesis by (auto split: sum.splits)
qed

theorem preview_well_formed_witness:
  "\<exists>r. fst (Preview Some dalist_ops ex_client ex_builder (Some ex_preview_ctx) 0) = Inr r \<and> preview_wf r"
  using ex_preview preview_well_formed by blast


end
