(* ===== verification/Projection_Stopping.thy ===== *)
theory Projection_Stopping
  imports Preparation_Properties Preview_Disclosure
begin

text \<open>
  \<open>Prepare\<close> and \<open>Preview\<close> stop at the first checkpoint that finds their context ended.
\<close>

section \<open>The projections\<close>

lemma prompt_path_params [prompt_intros]: "prompt (path_params_public i ps)"
  by (induction ps arbitrary: i) (simp_all add: prompt_intros)

lemma prompt_form_public [prompt_intros]: "prompt (form_public_from i occs)"
  by (induction occs arbitrary: i) (simp_all add: prompt_intros)

lemma prompt_retain [prompt_intros]: "prompt (retainPreparedBytes d budget)"
  by (simp add: retainPreparedBytes_def Let_def prompt_intros)

lemma prompt_prepared_form [prompt_intros]: "prompt (prepared_form occs budget)"
  unfolding prepared_form_def by (auto intro!: prompt_intros split: prod.splits)

lemma prompt_manifest [prompt_intros]: "prompt (prepareMultipartManifest lib m)"
  unfolding prepareMultipartManifest_def Let_def by (auto intro!: prompt_intros split: option.splits)

lemma prompt_prepared_body [prompt_intros]: "prompt (projectPreparedBody lib body budget)"
  unfolding projectPreparedBody_def preparedFormAllPublic_def Let_def
  by (auto intro!: prompt_intros split: requestBodyKind.splits goany.splits)

lemma prompt_target [prompt_intros]: "prompt (projectPreparedTarget plan)"
  unfolding projectPreparedTarget_def Let_def by (intro prompt_intros)

lemma prompt_query [prompt_intros]: "prompt (projectPreparedQuery vs)"
  unfolding projectPreparedQuery_def Let_def by (intro prompt_intros)

lemma prompt_headers [prompt_intros]: "prompt (projectPreparedHeaders plan)"
  unfolding projectPreparedHeaders_def projectPreparedHeaderValues_def Let_def by (auto intro!: prompt_intros)

lemma prompt_ordered [prompt_intros]: "prompt (projectPreparedOrderedHeaders ob h semantic)"
  unfolding projectPreparedOrderedHeaders_def Let_def by (auto intro!: prompt_intros split: option.splits)

lemma prompt_cookies [prompt_intros]: "prompt (projectPreparedCookies cs)"
  unfolding projectPreparedCookies_def by (intro prompt_intros)

lemma prompt_eligibility [prompt_intros]: "prompt (validatePreparationEligibility plan)"
  unfolding validatePreparationEligibility_def by (auto intro!: prompt_intros)

lemma prompt_Prepare: "prompt (Prepare ph ob lib c opts b)"
  unfolding Prepare_def prepare_plan_def projectRequestPreparation_def
  by (auto intro!: prompt_intros split: option.splits sum.splits)

lemma prompt_preview_body [prompt_intros]: "prompt (previewBody selection headers)"
  unfolding previewBody_def previewMultipart_def Let_def
  by (auto intro!: prompt_intros split: requestBodyKind.splits goany.splits option.splits)

lemma prompt_preview_plan [prompt_intros]: "prompt (preview_plan ph ob c b)"
  unfolding preview_plan_def projectStructural_def Let_def
  by (auto intro!: prompt_intros split: sum.splits goerr.splits)

section \<open>Asking often enough\<close>

text \<open>A computation that succeeds has asked at least \<open>w\<close> times.\<close>

definition asks :: "'a checked \<Rightarrow> nat \<Rightarrow> bool" where
  "asks m w \<longleftrightarrow> (\<forall>err n a n1. m (Some err) n = (Inr a, n1) \<longrightarrow> n + w \<le> n1)"

lemma asks_prompt: "prompt m \<Longrightarrow> asks m 0"
  by (auto simp: asks_def dest: promptD(1))

lemma asks_cbind:
  assumes "asks m v" and "\<And>a. asks (f a) w"
  shows "asks (cbind m f) (v + w)"
  unfolding asks_def
proof (intro allI impI)
  fix err n b n2
  assume m: "cbind m f (Some err) n = (Inr b, n2)"
  then obtain a n1 where "m (Some err) n = (Inr a, n1)" "f a (Some err) n1 = (Inr b, n2)"
    by (auto simp: cbind_def split: prod.splits sum.splits)
  then have "n + v \<le> n1" "n1 + w \<le> n2" using assms unfolding asks_def by blast+
  then show "n + (v + w) \<le> n2" by simp
qed

lemma asks_ccheck: "asks m w \<Longrightarrow> asks (ccheck m) (Suc w)"
  using asks_cbind[of checkpoint 1 "\<lambda>_. m" w] by (simp add: ccheck_def) (auto simp: asks_def checkpoint_def split: option.splits)

lemma asks_every64: "asks m w \<Longrightarrow> asks (every64 i m) (of_bool (i mod 64 = 0) + w)"
  by (simp add: every64_def asks_ccheck)

text \<open>Every round of a loop that is a multiple of 64 asks, so a loop of \<open>n\<close> rounds asks \<open>\<lceil>n / 64\<rceil>\<close> times.\<close>

definition chunks :: "nat \<Rightarrow> nat" where
  "chunks n = (n + 63) div 64"

lemma chunks_Suc: "chunks (Suc i) = chunks i + of_bool (i mod 64 = 0)"
proof (cases "i mod 64 = 0")
  case True
  then obtain q where "i = 64 * q" by (auto elim: dvdE simp: mod_0_imp_dvd)
  then show ?thesis by (simp add: chunks_def)
next
  case False
  have "(i + 64) div 64 = (i + 63) div 64"
    using False div_Suc[of "i + 63" 64] by (simp add: mod_Suc split: if_splits)
  then show ?thesis using False by (simp add: chunks_def)
qed

lemma asks_cfold:
  assumes "\<And>i x a. prompt (f i x a)"
  shows "asks (cfold (\<lambda>i x a. every64 i (f i x a)) i xs a) (chunks (i + length xs) - chunks i)"
proof (induction xs arbitrary: i a)
  case Nil
  show ?case by (simp add: asks_prompt prompt_intros)
next
  case (Cons x xs)
  have "asks (cfold (\<lambda>i x a. every64 i (f i x a)) i (x # xs) a)
      ((of_bool (i mod 64 = 0) + 0) + (chunks (i + 1 + length xs) - chunks (i + 1)))"
    unfolding cfold.simps by (intro asks_cbind asks_every64 asks_prompt assms Cons.IH)
  moreover have "chunks (i + 1) \<le> chunks (i + 1 + length xs)" by (simp add: chunks_def div_le_mono)
  ultimately show ?case using chunks_Suc[of i] by (simp add: asks_def)
qed


lemma asks_loop: "(\<And>i x a. prompt (f i x a)) \<Longrightarrow> asks (cfold (\<lambda>i x a. every64 i (f i x a)) 0 xs a) (chunks (length xs))"
  using asks_cfold[of f 0 xs a] by (simp add: chunks_def)

lemma asks_eq: "asks m v \<Longrightarrow> v = w \<Longrightarrow> asks m w"
  by simp

lemma asks_query: "asks (projectPreparedQuery vs) (chunks (length vs) + Suc (Suc 0))"
  unfolding projectPreparedQuery_def Let_def by (intro asks_cbind asks_loop asks_ccheck asks_prompt prompt_intros)

lemma asks_headers: "asks (projectPreparedHeaders plan) (chunks (length (pl_headers plan)) + Suc (Suc 0))"
  unfolding projectPreparedHeaders_def projectPreparedHeaderValues_def Let_def
  by (intro asks_cbind asks_loop asks_ccheck asks_prompt) (auto intro!: prompt_intros)

lemma asks_cookies: "asks (projectPreparedCookies cs) (chunks (length cs))"
  unfolding projectPreparedCookies_def by (intro asks_loop prompt_intros)

lemma asks_eligibility: "asks (validatePreparationEligibility plan) (chunks (length (tr_params (pl_pathTrace plan))) + 0)"
  unfolding validatePreparationEligibility_def by (intro asks_cbind asks_loop asks_prompt) (auto intro!: prompt_intros)

lemma asks_projection:
  "asks (projectRequestPreparation ob lib plan budget)
     (Suc (0 + ((chunks (length (pl_query plan)) + Suc (Suc 0)) + ((chunks (length (pl_headers plan)) + Suc (Suc 0)) +
       (0 + (chunks (length (pl_cookies plan)) + (0 + Suc 0)))))))"
  unfolding projectRequestPreparation_def split_beta
  by (intro asks_ccheck asks_cbind asks_query asks_headers asks_cookies) (intro asks_prompt prompt_intros)+

lemma Prepare_asks:
  assumes "compileRequestPlan ph ob c b = Inr plan"
  shows "asks (Prepare ph ob lib c opts b) (7 + chunks (length (tr_params (pl_pathTrace plan))) +
    chunks (length (pl_query plan)) + chunks (length (pl_headers plan)) + chunks (length (pl_cookies plan)))" (is "asks _ ?w")
proof -
  have "asks (ccheck (prepare_plan ob lib plan budget)) ?w" for budget
    by (rule asks_eq, unfold prepare_plan_def, rule asks_ccheck, rule asks_cbind[OF asks_prompt[OF prompt_clift]],
        rule asks_cbind[OF asks_eligibility asks_projection]) simp
  moreover have "asks (cfail e) w" "asks (ccheck (cfail e)) w" for e w
    by (auto simp: asks_def cfail_def ccheck_def cbind_def split: prod.splits sum.splits)
  ultimately show ?thesis by (simp only: Prepare_def assms sum.case split: option.split if_split) blast
qed

section \<open>Properties\<close>

text \<open>
  Claim C38: \<open>Prepare\<close> stops when its context ends, and keeps asking. If the context has ended by the k-th
  time it is asked, \<open>Prepare\<close> has returned before asking that often, or it returns the context's
  error at that very question and asks no more, however large the request is. And it cannot finish
  without asking: a preparation is returned after seven questions and one more for every 64 path
  parameters, query occurrences, header occurrences and cookies of the request.
\<close>

theorem prepare_stops_promptly:
  assumes "Prepare ph ob lib c opts b (Some err) n = (r, n1)"
  shows "(\<forall>k e. n \<le> k \<and> err k = Some e \<longrightarrow> n1 \<le> k \<or> n1 = Suc k \<and> r = Inl e) \<and>
    (\<forall>plan prep. compileRequestPlan ph ob c b = Inr plan \<and> r = Inr prep \<longrightarrow>
       n + 7 + chunks (length (tr_params (pl_pathTrace plan))) + chunks (length (pl_query plan)) +
         chunks (length (pl_headers plan)) + chunks (length (pl_cookies plan)) \<le> n1)"
proof -
  have "n1 \<le> k \<or> n1 = Suc k \<and> r = Inl e" if "n \<le> k" "err k = Some e" for k e
    by (rule prompt_stops[OF prompt_Prepare assms that])
  moreover have "n + (7 + chunks (length (tr_params (pl_pathTrace plan))) + chunks (length (pl_query plan)) +
         chunks (length (pl_headers plan)) + chunks (length (pl_cookies plan))) \<le> n1"
    if "compileRequestPlan ph ob c b = Inr plan" "r = Inr prep" for plan prep
    using Prepare_asks[OF that(1), of lib opts] assms that(2) unfolding asks_def by blast
  ultimately show ?thesis by (simp add: add.assoc)
qed

theorem prepare_stops_promptly_witness:
  "let x = Prepare Some dalist_ops ex_mime ex_client \<lparr>MaxPreparedBodyBytes = 9\<rparr> ex_public_form
      (Some (\<lambda>j. if j < 3 then None else Some (Sentinel ContextCanceled))) 0
   in snd x \<le> 3 \<or> snd x = 4 \<and> fst x = Inl (Sentinel ContextCanceled)"
proof -
  let ?err = "\<lambda>j. if j < 3 then None else Some (Sentinel ContextCanceled)"
  obtain r n1 where x: "Prepare Some dalist_ops ex_mime ex_client \<lparr>MaxPreparedBodyBytes = 9\<rparr> ex_public_form (Some ?err) 0 = (r, n1)"
    by fastforce
  show ?thesis
    using prepare_stops_promptly[OF x, THEN conjunct1, THEN spec, of 3] unfolding x by simp
qed

text \<open>
  The same for \<open>Preview\<close>, which asks the caller's context once and then the context it derives.
\<close>

lemma preview_stops_promptly:
  assumes "Preview ph ob c b (Some parent) n = (r, n1)" and "n \<le> k"
    and "(if k = n then vc_err parent n else previewContext parent (b_timeout b) k) = Some e"
  shows "n1 \<le> k \<or> n1 = Suc k \<and> r = Inl e"
proof (cases "b_preparationErr b = None \<and> vc_err parent n = None")
  case True
  then have run: "ccheck (preview_plan ph ob c b) (Some (previewContext parent (b_timeout b))) (Suc n) = (r, n1)" and k: "k \<noteq> n"
    using assms by (auto simp: Preview_def)
  show ?thesis
    by (rule prompt_stops[OF prompt_ccheck[OF prompt_preview_plan] run]) (use k assms(2,3) in simp_all)
next
  case False
  then show ?thesis using assms by (cases "k = n") (auto simp: Preview_def split: option.splits)
qed

end
