(* ===== verification/Logger.thy ===== *)
theory Logger
  imports Request_Body
begin

text \<open>
  Model of \<open>logger.go\<close>. The standard library's \<open>slog\<close> gives a record to its handler when the level of
  the record reaches the handler's threshold; the text handler's output is the list of records it was
  given. \<open>fmt.Sprintf\<close> is an argument.
\<close>

section \<open>Levels\<close>

type_synonym Level = int

definition LevelDebug :: Level where "LevelDebug = 0"
definition LevelInfo :: Level where "LevelInfo = 1"
definition LevelWarn :: Level where "LevelWarn = 2"
definition LevelError :: Level where "LevelError = 3"

definition slog_LevelDebug :: int where "slog_LevelDebug = - 4"
definition slog_LevelInfo :: int where "slog_LevelInfo = 0"
definition slog_LevelWarn :: int where "slog_LevelWarn = 4"
definition slog_LevelError :: int where "slog_LevelError = 8"

record DefaultLogger =
  lg_output :: "(int \<times> string) list"
  lg_level :: int

definition slog_log :: "int \<Rightarrow> string \<Rightarrow> DefaultLogger \<Rightarrow> DefaultLogger" where
  "slog_log lvl msg l = (if lg_level l \<le> lvl then l\<lparr>lg_output := lg_output l @ [(lvl, msg)]\<rparr> else l)"

section \<open>Operations\<close>

type_synonym sprintf = "string \<Rightarrow> goany list \<Rightarrow> string"

definition Debugf :: "sprintf \<Rightarrow> string \<Rightarrow> goany list \<Rightarrow> DefaultLogger \<Rightarrow> DefaultLogger" where
  "Debugf sp format v = slog_log slog_LevelDebug (sp format v)"

definition Infof :: "sprintf \<Rightarrow> string \<Rightarrow> goany list \<Rightarrow> DefaultLogger \<Rightarrow> DefaultLogger" where
  "Infof sp format v = slog_log slog_LevelInfo (sp format v)"

definition Warnf :: "sprintf \<Rightarrow> string \<Rightarrow> goany list \<Rightarrow> DefaultLogger \<Rightarrow> DefaultLogger" where
  "Warnf sp format v = slog_log slog_LevelWarn (sp format v)"

definition Errorf :: "sprintf \<Rightarrow> string \<Rightarrow> goany list \<Rightarrow> DefaultLogger \<Rightarrow> DefaultLogger" where
  "Errorf sp format v = slog_log slog_LevelError (sp format v)"

definition SetLevel :: "Level \<Rightarrow> DefaultLogger \<Rightarrow> DefaultLogger" where
  "SetLevel level l =
     (if level = LevelDebug then l\<lparr>lg_level := slog_LevelDebug\<rparr>
      else if level = LevelInfo then l\<lparr>lg_level := slog_LevelInfo\<rparr>
      else if level = LevelWarn then l\<lparr>lg_level := slog_LevelWarn\<rparr>
      else if level = LevelError then l\<lparr>lg_level := slog_LevelError\<rparr>
      else l)"

definition NewDefaultLogger :: "Level \<Rightarrow> DefaultLogger" where
  "NewDefaultLogger level = SetLevel level \<lparr>lg_output = [], lg_level = slog_LevelInfo\<rparr>"

section \<open>Properties\<close>

lemmas level_defs =
  LevelDebug_def LevelInfo_def LevelWarn_def LevelError_def
  slog_LevelDebug_def slog_LevelInfo_def slog_LevelWarn_def slog_LevelError_def

text \<open>The operation for a level of the package, and the level as \<open>slog\<close> counts it.\<close>

definition logf :: "Level \<Rightarrow> sprintf \<Rightarrow> string \<Rightarrow> goany list \<Rightarrow> DefaultLogger \<Rightarrow> DefaultLogger" where
  "logf lvl = (if lvl \<le> LevelDebug then Debugf else if lvl = LevelInfo then Infof else if lvl = LevelWarn then Warnf else Errorf)"

lemma logger_threshold:
  assumes "threshold \<in> {LevelDebug .. LevelError}" and "lvl \<in> {LevelDebug .. LevelError}"
  shows "lg_output (logf lvl sp f v (SetLevel threshold l)) =
     lg_output l @ (if threshold \<le> lvl then [(4 * lvl - 4, sp f v)] else [])"
proof -
  have "threshold \<in> {0, 1, 2, 3}" "lvl \<in> {0, 1, 2, 3}" using assms by (auto simp: level_defs)
  then show ?thesis
    by (auto simp: logf_def Debugf_def Infof_def Warnf_def Errorf_def SetLevel_def slog_log_def level_defs)
qed

text \<open>A level outside the four is ignored: a new logger with such a level lets information through.\<close>

lemma unknown_level_ignored:
  "level \<notin> {LevelDebug .. LevelError} \<Longrightarrow> SetLevel level l = l \<and> NewDefaultLogger level = NewDefaultLogger LevelInfo"
  by (auto simp: SetLevel_def NewDefaultLogger_def level_defs)

end
