(* ===== verification/Http3.thy ===== *)
theory Http3
  imports Transport
begin

text \<open>
  Model of the module \<open>http3\<close>: options collected in \<open>settings\<close> and copied into a transport of \<open>quic-go\<close>.
  \<open>quic.Config\<close> is a type of that package: its values are of an arbitrary type \<open>'q\<close>, and copying one,
  setting its field \<open>EnableDatagrams\<close> and reading it are arguments.
\<close>

section \<open>Settings and options\<close>

record 'q quicOps =
  qc_Clone :: "'q \<Rightarrow> 'q"
  qc_enable :: "'q \<Rightarrow> 'q"
  qc_EnableDatagrams :: "'q \<Rightarrow> bool"

record 'q h3settings =
  h3_tlsConfig :: "tlsConfig option"
  h3_quicConfig :: "'q option"
  h3_enableDatagrams :: bool
  h3_additionalSettings :: "(64 word, 64 word) gomap"
  h3_maxResponseHeaderBytes :: int
  h3_disableCompression :: bool
  h3_logger :: "nat option"

type_synonym 'q h3Option = "'q h3settings \<Rightarrow> 'q h3settings"

definition zero_h3settings :: "'q h3settings" where
  "zero_h3settings = \<lparr>h3_tlsConfig = None, h3_quicConfig = None, h3_enableDatagrams = False, h3_additionalSettings = [],
     h3_maxResponseHeaderBytes = 0, h3_disableCompression = False, h3_logger = None\<rparr>"

definition h3_cloneTLSConfig :: "tlsConfig option \<Rightarrow> tlsConfig option" where
  "h3_cloneTLSConfig config = (case config of None \<Rightarrow> None | Some c \<Rightarrow> Some c)"

definition H3_WithTLSConfig :: "tlsConfig option \<Rightarrow> 'q h3Option" where
  "H3_WithTLSConfig tlsConfig s = s\<lparr>h3_tlsConfig := h3_cloneTLSConfig tlsConfig\<rparr>"

definition H3_WithQUICConfig :: "'q option \<Rightarrow> 'q h3Option" where
  "H3_WithQUICConfig quicConfig s = s\<lparr>h3_quicConfig := quicConfig\<rparr>"

definition H3_WithDatagrams :: "'q h3Option" where
  "H3_WithDatagrams s = s\<lparr>h3_enableDatagrams := True\<rparr>"

definition H3_WithAdditionalSettings :: "(64 word, 64 word) gomap \<Rightarrow> 'q h3Option" where
  "H3_WithAdditionalSettings values s = s\<lparr>h3_additionalSettings := values\<rparr>"

definition H3_WithMaxResponseHeaderBytes :: "int \<Rightarrow> 'q h3Option" where
  "H3_WithMaxResponseHeaderBytes n s = s\<lparr>h3_maxResponseHeaderBytes := n\<rparr>"

definition H3_WithoutCompression :: "'q h3Option" where
  "H3_WithoutCompression s = s\<lparr>h3_disableCompression := True\<rparr>"

definition H3_WithLogger :: "nat option \<Rightarrow> 'q h3Option" where
  "H3_WithLogger logger s = s\<lparr>h3_logger := logger\<rparr>"

section \<open>The transport\<close>

record 'q h3Transport =
  t3_TLSClientConfig :: "tlsConfig option"
  t3_QUICConfig :: "'q option"
  t3_EnableDatagrams :: bool
  t3_AdditionalSettings :: "(64 word, 64 word) gomap"
  t3_MaxResponseHeaderBytes :: int
  t3_DisableCompression :: bool
  t3_Logger :: "nat option"

fun apply_h3 :: "'q h3Option option list \<Rightarrow> 'q h3settings \<Rightarrow> 'q h3settings" where
  "apply_h3 [] s = s"
| "apply_h3 (None # opts) s = apply_h3 opts s"
| "apply_h3 (Some opt # opts) s = apply_h3 opts (opt s)"

definition newSettings :: "'q h3Option option list \<Rightarrow> 'q h3settings" where
  "newSettings opts = apply_h3 opts zero_h3settings"

definition cloneQUICConfig :: "'q quicOps \<Rightarrow> 'q option \<Rightarrow> bool \<Rightarrow> 'q option" where
  "cloneQUICConfig qo config enableDatagrams =
     (case config of
        None \<Rightarrow> None
      | Some q \<Rightarrow> let clone = qc_Clone qo q in Some (if enableDatagrams then qc_enable qo clone else clone))"

definition h3_transport :: "'q quicOps \<Rightarrow> 'q h3settings \<Rightarrow> 'q h3Transport" where
  "h3_transport qo s =
     \<lparr>t3_TLSClientConfig = h3_cloneTLSConfig (h3_tlsConfig s),
      t3_QUICConfig = cloneQUICConfig qo (h3_quicConfig s) (h3_enableDatagrams s),
      t3_EnableDatagrams = h3_enableDatagrams s, t3_AdditionalSettings = h3_additionalSettings s,
      t3_MaxResponseHeaderBytes = h3_maxResponseHeaderBytes s, t3_DisableCompression = h3_disableCompression s,
      t3_Logger = h3_logger s\<rparr>"

definition H3_Transport :: "'q quicOps \<Rightarrow> 'q h3Option option list \<Rightarrow> 'q h3Transport" where
  "H3_Transport qo opts = h3_transport qo (newSettings opts)"

section \<open>Properties\<close>

inductive h3_option :: "'q h3Option \<Rightarrow> bool" where
  "h3_option (H3_WithTLSConfig cfg)"
| "h3_option (H3_WithQUICConfig q)"
| "h3_option H3_WithDatagrams"
| "h3_option (H3_WithAdditionalSettings vs)"
| "h3_option (H3_WithMaxResponseHeaderBytes n)"
| "h3_option H3_WithoutCompression"
| "h3_option (H3_WithLogger lg)"

lemmas h3_option_defs =
  H3_WithTLSConfig_def H3_WithQUICConfig_def H3_WithDatagrams_def H3_WithAdditionalSettings_def
  H3_WithMaxResponseHeaderBytes_def H3_WithoutCompression_def H3_WithLogger_def

lemma apply_h3_append: "apply_h3 (xs @ ys) s = apply_h3 ys (apply_h3 xs s)"
  by (induction xs s rule: apply_h3.induct) simp_all

lemma nil_h3_options_ignored: "H3_Transport qo (filter (\<lambda>opt. opt \<noteq> None) opts) = H3_Transport qo opts"
proof -
  have "apply_h3 (filter (\<lambda>opt. opt \<noteq> None) opts) s = apply_h3 opts s" for s
    by (induction opts s rule: apply_h3.induct) simp_all
  then show ?thesis by (simp add: H3_Transport_def newSettings_def)
qed

lemma h3_flags_stay:
  "h3_option opt \<Longrightarrow> h3_enableDatagrams s \<Longrightarrow> h3_enableDatagrams (opt s)"
  "h3_option opt \<Longrightarrow> h3_disableCompression s \<Longrightarrow> h3_disableCompression (opt s)"
  by (auto elim!: h3_option.cases simp: h3_option_defs)

lemma apply_h3_stays:
  assumes "\<And>opt s. Some opt \<in> set opts \<Longrightarrow> P s \<Longrightarrow> P (opt s)" and "P s"
  shows "P (apply_h3 opts s)"
  using assms by (induction opts s rule: apply_h3.induct) simp_all

text \<open>
  Datagrams reach both layers wherever \<open>WithDatagrams\<close> stands among the options: the transport has
  them enabled, and so has its copy of the QUIC configuration, given before or after.
\<close>

lemma datagrams_reach_quic:
  assumes "\<And>opt. Some opt \<in> set (pre @ post) \<Longrightarrow> h3_option opt" and "\<And>q. qc_EnableDatagrams qo (qc_enable qo q)"
  shows "t3_EnableDatagrams (H3_Transport qo (pre @ Some H3_WithDatagrams # post)) \<and>
    (case t3_QUICConfig (H3_Transport qo (pre @ Some H3_WithDatagrams # post)) of None \<Rightarrow> True | Some q \<Rightarrow> qc_EnableDatagrams qo q)"
proof -
  have "h3_enableDatagrams (newSettings (pre @ Some H3_WithDatagrams # post))"
    unfolding newSettings_def apply_h3_append apply_h3.simps
    by (rule apply_h3_stays) (use assms(1) h3_flags_stay in \<open>auto simp: H3_WithDatagrams_def\<close>)
  then show ?thesis
    using assms(2) by (simp add: H3_Transport_def h3_transport_def cloneQUICConfig_def Let_def split: option.split)
qed

text \<open>Without the option, a QUIC configuration that is given is passed on as it is.\<close>

lemma quic_config_passed_on:
  assumes "\<And>opt. Some opt \<in> set opts \<Longrightarrow> h3_option opt" and "Some H3_WithDatagrams \<notin> set opts"
  shows "\<not> t3_EnableDatagrams (H3_Transport qo opts) \<and>
    t3_QUICConfig (H3_Transport qo opts) = map_option (qc_Clone qo) (h3_quicConfig (newSettings opts))"
proof -
  have "\<not> h3_enableDatagrams (newSettings opts)"
    unfolding newSettings_def
  proof (rule apply_h3_stays)
    fix opt :: "'a h3Option" and s :: "'a h3settings"
    assume o: "Some opt \<in> set opts" "\<not> h3_enableDatagrams s"
    then have "opt \<noteq> H3_WithDatagrams" using assms(2) by auto
    with o assms(1) show "\<not> h3_enableDatagrams (opt s)"
      by (auto dest!: assms(1) elim!: h3_option.cases simp: h3_option_defs fun_eq_iff)
  qed (simp add: zero_h3settings_def)
  then show ?thesis by (simp add: H3_Transport_def h3_transport_def cloneQUICConfig_def Let_def split: option.split)
qed

end
