(* ===== verification/Browser_Profiles.thy ===== *)
theory Browser_Profiles
  imports Client_Properties
begin

text \<open>
  Model of the module \<open>browser\<close>: fixed header identities of browsers, as profiles of the client.
\<close>

section \<open>Profiles\<close>

record 'o browserProfile =
  br_name :: string
  br_headers :: 'o
  br_http2 :: bool

definition baseHeaders :: "'o oo_ops \<Rightarrow> string \<Rightarrow> 'o" where
  "baseHeaders ob acceptLanguage =
     oo_set ob (oo_set ob (oo_set ob (oo_set ob (oo_set ob (oo_set ob (oo_new ob)
       '':authority'' []) '':method'' []) '':path'' []) '':scheme'' [])
       ''Accept-Encoding'' [''gzip, deflate'']) ''Accept-Language'' [acceptLanguage]"

definition chromeHeaders :: "'o oo_ops \<Rightarrow> 'o" where
  "chromeHeaders ob =
     oo_set ob (oo_set ob (oo_set ob (oo_set ob (baseHeaders ob ''en-US,en;q=0.9'')
       ''Sec-CH-UA'' [''\"Not:A-Brand\";v=\"99\", \"Google Chrome\";v=\"145\", \"Chromium\";v=\"145\"''])
       ''Sec-CH-UA-Mobile'' [''?0''])
       ''Sec-CH-UA-Platform'' [''\"Windows\"''])
       ''User-Agent'' [''Mozilla/5.0 (Windows NT 10.0; Win64; x64) AppleWebKit/537.36 (KHTML, like Gecko) Chrome/145.0.0.0 Safari/537.36'']"

definition firefoxHeaders :: "'o oo_ops \<Rightarrow> 'o" where
  "firefoxHeaders ob =
     oo_set ob (baseHeaders ob ''en-US,en;q=0.5'')
       ''User-Agent'' [''Mozilla/5.0 (Windows NT 10.0; Win64; x64; rv:148.0) Gecko/20100101 Firefox/148.0'']"

definition Chrome145 :: "'o oo_ops \<Rightarrow> 'o browserProfile" where
  "Chrome145 ob = \<lparr>br_name = ''Chrome145'', br_headers = chromeHeaders ob, br_http2 = True\<rparr>"

definition Firefox148 :: "'o oo_ops \<Rightarrow> 'o browserProfile" where
  "Firefox148 ob = \<lparr>br_name = ''Firefox148'', br_headers = firefoxHeaders ob, br_http2 = True\<rparr>"

definition browser_Name :: "'o browserProfile \<Rightarrow> string" where
  "browser_Name p = br_name p"

definition browser_Options :: "clientEnv \<Rightarrow> 'o oo_ops \<Rightarrow> 'o browserProfile \<Rightarrow> 'o Option option list" where
  "browser_Options ce ob p =
     (let opts = [Some (WithOrderedHeaders ob (Some (br_headers p)))]
      in if br_http2 p then opts @ [Some (WithHTTP2 ce)] else opts)"

definition browser_profile :: "clientEnv \<Rightarrow> 'o oo_ops \<Rightarrow> 'o browserProfile \<Rightarrow> 'o Profile" where
  "browser_profile ce ob p = \<lparr>pf_Name = browser_Name p, pf_Options = browser_Options ce ob p\<rparr>"

section \<open>What a browser profile does to a client\<close>

lemma browser_package_option: "package_option ce ob (WithProfile (Iface (browser_profile ce ob p)))"
  by (rule package_option.intros) (auto simp: browser_profile_def browser_Options_def Let_def intro: package_option.intros split: if_splits)

lemma apply_browser_profile:
  "WithProfile (Iface (browser_profile ce ob p)) c =
     (let c1 = setDefaultOrderedHeaders ob (Some (br_headers p)) c
      in if br_http2 p
         then (case configureHTTP2 ce c1 of Inl e \<Rightarrow> Inl (Wrapf (''apply profile '' @ br_name p) e) | Inr c2 \<Rightarrow> Inr c2)
         else Inr c1)"
  by (simp add: WithProfile_def applyProfileOptions_def browser_profile_def browser_Options_def browser_Name_def Let_def
      WithOrderedHeaders_def WithHTTP2_def split: sum.split)

definition browser_profiles :: "'o oo_ops \<Rightarrow> 'o browserProfile set" where
  "browser_profiles ob = {Chrome145 ob, Firefox148 ob}"

definition chrome_keys :: "string list" where
  "chrome_keys = ['':authority'', '':method'', '':path'', '':scheme'', ''Accept-Encoding'', ''Accept-Language'', ''Sec-CH-UA'',
     ''Sec-CH-UA-Mobile'', ''Sec-CH-UA-Platform'', ''User-Agent'']"

definition firefox_keys :: "string list" where
  "firefox_keys = ['':authority'', '':method'', '':path'', '':scheme'', ''Accept-Encoding'', ''Accept-Language'', ''User-Agent'']"

lemma browser_keys_distinct: "distinct (map ToLower chrome_keys)" "distinct (map ToLower firefox_keys)"
  by code_simp+

context ordered_object
begin

lemma base_entries:
  "oo_entries ob (baseHeaders ob lang) =
     [('':authority'', []), ('':method'', []), ('':path'', []), ('':scheme'', []),
      (''Accept-Encoding'', [''gzip, deflate'']), (''Accept-Language'', [lang])]"
  by (simp add: baseHeaders_def)

lemma browser_keys:
  "map fst (oo_entries ob (chromeHeaders ob)) = chrome_keys" "map fst (oo_entries ob (firefoxHeaders ob)) = firefox_keys"
  by (simp_all add: chromeHeaders_def firefoxHeaders_def base_entries chrome_keys_def firefox_keys_def)

lemma browser_headers_distinct: "p \<in> browser_profiles ob \<Longrightarrow> fold_distinct ob (Some (br_headers p))"
proof -
  have lower: "map fst (lower_al al) = map ToLower (map fst al)" for al :: "(string \<times> string list) list" by (simp add: lower_al_def)
  assume "p \<in> browser_profiles ob"
  then have "br_headers p \<in> {chromeHeaders ob, firefoxHeaders ob}"
    by (auto simp: browser_profiles_def Chrome145_def Firefox148_def)
  then show ?thesis unfolding fold_distinct_def option.case lower using browser_keys browser_keys_distinct by (metis insertE singletonD)
qed

lemma ordered_to_metadata_headers:
  "map (\<lambda>occ. (occ_name occ, rawValue (occ_value occ))) (md_headers (ordered_to_metadata ob (Some x) m)) =
     concat (map (\<lambda>(k, vs). if isPseudoHeader k then [] else map (Pair (CanonicalHeaderKey k)) vs) (oo_entries ob x))"
proof -
  have inner: "map (\<lambda>occ. (occ_name occ, rawValue (occ_value occ))) (md_headers (foldl (\<lambda>m v. addHeader m k (privateRequestValue v)) m vs)) =
      map (\<lambda>occ. (occ_name occ, rawValue (occ_value occ))) (md_headers m) @ map (Pair (CanonicalHeaderKey k)) vs" for k vs m
    by (induction vs arbitrary: m) (simp_all add: addHeader_def)
  have "map (\<lambda>occ. (occ_name occ, rawValue (occ_value occ))) (md_headers (foldl (\<lambda>m e. if isPseudoHeader (fst e) then m
             else foldl (\<lambda>m v. addHeader m (fst e) (privateRequestValue v)) m (snd e)) m es)) =
      map (\<lambda>occ. (occ_name occ, rawValue (occ_value occ))) (md_headers m) @
      concat (map (\<lambda>(k, vs). if isPseudoHeader k then [] else map (Pair (CanonicalHeaderKey k)) vs) es)" for m es
    by (induction es arbitrary: m) (auto simp: inner)
  then show ?thesis by (simp add: ordered_to_metadata_def)
qed

end

text \<open>
  A client with a browser profile has the profile's headers in the profile's order, sends each of them
  that is not a pseudo header, and has HTTP/2 configured; only a transport that is not the standard
  one makes the profile fail.
\<close>

lemma browser_profile_identity:
  assumes "ordered_object ob" and "client_wf ob c" and "p \<in> browser_profiles ob" and "ensureTransport ce c = Inr t"
  shows "\<exists>c1. WithProfile (Iface (browser_profile ce ob p)) c = Inr c1 \<and> client_wf ob c1 \<and>
    map_option (oo_entries ob) (c_orderedHeaders c1) = Some (oo_entries ob (br_headers p)) \<and>
    map (\<lambda>occ. (occ_name occ, rawValue (occ_value occ))) (md_headers (c_metadata c1)) =
      concat (map (\<lambda>(k, vs). if isPseudoHeader k then [] else map (Pair (CanonicalHeaderKey k)) vs) (oo_entries ob (br_headers p))) \<and>
    hc_Transport (c_httpClient c1) = Some (StdTransport (configureHTTP2Transport t))"
proof -
  note oo = assms(1)
  let ?c1 = "setDefaultOrderedHeaders ob (Some (br_headers p)) c"
  let ?c2 = "putTransport (configureHTTP2Transport t) ?c1"
  have h: "br_http2 p" using assms(3) by (auto simp: browser_profiles_def Chrome145_def Firefox148_def)
  have "ensureTransport ce ?c1 = Inr t"
    using assms(4) by (simp add: ensureTransport_def setDefaultOrderedHeaders_def Let_def)
  then have r: "WithProfile (Iface (browser_profile ce ob p)) c = Inr ?c2"
    using h by (simp add: apply_browser_profile Let_def configureHTTP2_def applyTransport_def ebind_def)
  have wf: "client_wf ob ?c2"
    using ordered_object.package_keeps_wf[OF oo browser_package_option] assms(2) r
    unfolding ordered_object.keeps_wf_def[OF oo] by blast
  obtain y where y: "cloneOrderedHeaders ob (Some (br_headers p)) = Some y" and e: "oo_entries ob y = oo_entries ob (br_headers p)"
    using ordered_object.clone_entries[OF oo ordered_object.browser_headers_distinct[OF oo assms(3)]]
    by (auto simp: cloneOrderedHeaders_def)
  show ?thesis
    using r wf ordered_object.ordered_to_metadata_headers[OF oo, of y "c_metadata c"]
    by (simp add: setDefaultOrderedHeaders_def putTransport_def Let_def y e)
qed

end
