(* ===== verification/Fingerprint.thy ===== *)
theory Fingerprint
  imports Client_Properties
begin

text \<open>
  Model of the module \<open>fingerprint\<close>: profiles that replace the TLS handshake by one of \<open>uTLS\<close>, and the
  helper that configures a bare transport. \<open>uTLS\<close> is a third-party package: its presets, the name of a
  preset, its session cache and its handshake are the record \<open>utlsEnv\<close>. The client knows handshake
  callbacks by an identity, so the identity of the callback that \<open>newTLSHandshake\<close> returns is an
  argument where it is installed, and what the callback does is the definition \<open>newTLSHandshake\<close>.
\<close>

section \<open>Data of uTLS\<close>

record ClientHelloID =
  hid_Client :: string
  hid_Version :: string

record utlsCertificate =
  uc_Certificate :: "bytes list"
  uc_PrivateKey :: nat
  uc_SupportedSignatureAlgorithms :: "16 word list"
  uc_OCSPStaple :: bytes
  uc_SignedCertificateTimestamps :: "bytes list"
  uc_Leaf :: "nat option"

record utlsConf =
  ut_Time :: "nat option"
  ut_Certificates :: "utlsCertificate list"
  ut_VerifyPeerCertificate :: "nat option"
  ut_VerifyConnection :: "nat option"
  ut_GetClientCertificate :: "nat option"
  ut_RootCAs :: "bytes list option"
  ut_NextProtos :: "string list"
  ut_ServerName :: string
  ut_InsecureSkipVerify :: bool
  ut_CipherSuites :: "16 word list"
  ut_SessionTicketsDisabled :: bool
  ut_MinVersion :: int
  ut_MaxVersion :: int
  ut_CurvePreferences :: "16 word list"
  ut_DynamicRecordSizingDisabled :: bool
  ut_Renegotiation :: int
  ut_KeyLogWriter :: "nat option"
  ut_ClientSessionCache :: "nat option"

record connectionState =
  st_Version :: "16 word"
  st_HandshakeComplete :: bool
  st_DidResume :: bool
  st_CipherSuite :: "16 word"
  st_NegotiatedProtocol :: string
  st_ServerName :: string
  st_PeerCertificates :: "nat list"
  st_VerifiedChains :: "nat list list"
  st_SignedCertificateTimestamps :: "bytes list"
  st_OCSPResponse :: bytes
  st_TLSUnique :: bytes
  st_ECHAccepted :: bool

record utlsEnv =
  ue_HelloChrome_Auto :: ClientHelloID
  ue_HelloFirefox_Auto :: ClientHelloID
  ue_Str :: "ClientHelloID \<Rightarrow> string"
  ue_newCache :: nat
  ue_UClient :: "nat \<Rightarrow> utlsConf \<Rightarrow> ClientHelloID \<Rightarrow> nat"
  ue_handshake :: "nat \<Rightarrow> goerr option"
  ue_state :: "nat \<Rightarrow> connectionState"

section \<open>Conversion of the TLS configuration\<close>

definition convertSlice :: "16 word list \<Rightarrow> 16 word list" where
  "convertSlice values = (if values = [] then [] else map (\<lambda>v. v) values)"

definition utlsSignatureSchemes :: "16 word list \<Rightarrow> 16 word list" where
  "utlsSignatureSchemes schemes = convertSlice schemes"

definition utlsCurvePreferences :: "16 word list \<Rightarrow> 16 word list" where
  "utlsCurvePreferences curves = convertSlice curves"

definition fg_cloneByteSlices :: "bytes list \<Rightarrow> bytes list" where
  "fg_cloneByteSlices values = map (\<lambda>v. v) values"

definition utlsCertificates :: "tlsCertificate list \<Rightarrow> utlsCertificate list" where
  "utlsCertificates certs =
     (if certs = [] then []
      else map (\<lambda>cert. \<lparr>uc_Certificate = fg_cloneByteSlices (crt_Certificate cert), uc_PrivateKey = crt_PrivateKey cert,
                   uc_SupportedSignatureAlgorithms = utlsSignatureSchemes (crt_SupportedSignatureAlgorithms cert),
                   uc_OCSPStaple = crt_OCSPStaple cert,
                   uc_SignedCertificateTimestamps = fg_cloneByteSlices (crt_SignedCertificateTimestamps cert),
                   uc_Leaf = crt_Leaf cert\<rparr>) certs)"

definition utlsConfig :: "tlsConfig option \<Rightarrow> utlsConf" where
  "utlsConfig config =
     (let clone = (case config of None \<Rightarrow> zeroTLSConfig | Some c \<Rightarrow> c)
      in \<lparr>ut_Time = tc_Time clone, ut_Certificates = utlsCertificates (tc_Certificates clone),
          ut_VerifyPeerCertificate = tc_VerifyPeerCertificate clone, ut_VerifyConnection = None, ut_GetClientCertificate = None,
          ut_RootCAs = tc_RootCAs clone, ut_NextProtos = tc_NextProtos clone, ut_ServerName = tc_ServerName clone,
          ut_InsecureSkipVerify = tc_InsecureSkipVerify clone, ut_CipherSuites = tc_CipherSuites clone,
          ut_SessionTicketsDisabled = tc_SessionTicketsDisabled clone, ut_MinVersion = tc_MinVersion clone,
          ut_MaxVersion = tc_MaxVersion clone, ut_CurvePreferences = utlsCurvePreferences (tc_CurvePreferences clone),
          ut_DynamicRecordSizingDisabled = tc_DynamicRecordSizingDisabled clone, ut_Renegotiation = tc_Renegotiation clone,
          ut_KeyLogWriter = tc_KeyLogWriter clone, ut_ClientSessionCache = None\<rparr>)"

definition fg_ConnectionState :: "connectionState \<Rightarrow> connectionState" where
  "fg_ConnectionState state =
     \<lparr>st_Version = st_Version state, st_HandshakeComplete = st_HandshakeComplete state, st_DidResume = st_DidResume state,
      st_CipherSuite = st_CipherSuite state, st_NegotiatedProtocol = st_NegotiatedProtocol state, st_ServerName = st_ServerName state,
      st_PeerCertificates = st_PeerCertificates state, st_VerifiedChains = st_VerifiedChains state,
      st_SignedCertificateTimestamps = st_SignedCertificateTimestamps state, st_OCSPResponse = st_OCSPResponse state,
      st_TLSUnique = st_TLSUnique state, st_ECHAccepted = st_ECHAccepted state\<rparr>"

section \<open>The handshake callback\<close>

text \<open>
  One call of the callback. \<open>memo\<close> is the state of its \<open>sync.OnceValue\<close>: the session cache is made by the
  first call that needs it and shared by later ones.
\<close>

definition newTLSHandshake ::
    "utlsEnv \<Rightarrow> ClientHelloID \<Rightarrow> nat option \<Rightarrow> nat \<Rightarrow> tlsConfig \<Rightarrow> (nat option \<times> goerr option) \<times> nat option" where
  "newTLSHandshake ue helloID memo raw config =
     (let converted = utlsConfig (Some config);
          memo1 = (if tc_ClientSessionCache config \<noteq> None
                   then Some (case memo of None \<Rightarrow> ue_newCache ue | Some cache \<Rightarrow> cache) else memo);
          conf = (if tc_ClientSessionCache config \<noteq> None then converted\<lparr>ut_ClientSessionCache := memo1\<rparr> else converted);
          conn = ue_UClient ue raw conf helloID
      in case ue_handshake ue conn of
           Some err \<Rightarrow> ((None, Some err), memo1)
         | None \<Rightarrow> ((Some conn, None), memo1))"

section \<open>Profiles\<close>

record fingerprintProfile =
  fg_name :: string
  fg_helloID :: ClientHelloID
  fg_tlsConfig :: "tlsConfig option"

type_synonym fgOption = "fingerprintProfile \<Rightarrow> fingerprintProfile"

definition FG_WithTLSConfig :: "tlsConfig option \<Rightarrow> fgOption" where
  "FG_WithTLSConfig config p =
     (case config of None \<Rightarrow> p\<lparr>fg_tlsConfig := None\<rparr> | Some c \<Rightarrow> p\<lparr>fg_tlsConfig := Some c\<rparr>)"

definition isEmptyHelloID :: "ClientHelloID \<Rightarrow> bool" where
  "isEmptyHelloID helloID \<longleftrightarrow> hid_Client helloID = [] \<and> hid_Version helloID = []"

definition helloName :: "utlsEnv \<Rightarrow> ClientHelloID \<Rightarrow> string" where
  "helloName ue helloID = (if isEmptyHelloID helloID then ''TLS'' else ue_Str ue helloID)"

fun apply_fg :: "fgOption option list \<Rightarrow> fingerprintProfile \<Rightarrow> fingerprintProfile" where
  "apply_fg [] p = p"
| "apply_fg (None # opts) p = apply_fg opts p"
| "apply_fg (Some opt # opts) p = apply_fg opts (opt p)"

definition Custom :: "utlsEnv \<Rightarrow> string \<Rightarrow> ClientHelloID \<Rightarrow> fgOption option list \<Rightarrow> fingerprintProfile" where
  "Custom ue name helloID opts =
     (let p = apply_fg opts \<lparr>fg_name = name, fg_helloID = helloID, fg_tlsConfig = None\<rparr>
      in if fg_name p = [] then p\<lparr>fg_name := helloName ue helloID\<rparr> else p)"

definition Chrome :: "utlsEnv \<Rightarrow> fgOption option list \<Rightarrow> fingerprintProfile" where
  "Chrome ue opts = Custom ue ''Chrome'' (ue_HelloChrome_Auto ue) opts"

definition Firefox :: "utlsEnv \<Rightarrow> fgOption option list \<Rightarrow> fingerprintProfile" where
  "Firefox ue opts = Custom ue ''Firefox'' (ue_HelloFirefox_Auto ue) opts"

definition fg_Name :: "fingerprintProfile \<Rightarrow> string" where
  "fg_Name p = fg_name p"

definition ensureNextProtos :: "tlsConfig \<Rightarrow> tlsConfig" where
  "ensureNextProtos config =
     (let nextProtos = tc_NextProtos config;
          ps1 = (if ''h2'' \<notin> set nextProtos then ''h2'' # nextProtos else nextProtos);
          ps2 = (if ''http/1.1'' \<notin> set ps1 then ps1 @ [''http/1.1''] else ps1)
      in config\<lparr>tc_NextProtos := ps2\<rparr>)"

definition zeroTransport :: httpTransport where
  "zeroTransport =
     \<lparr>ht_Protocols = None, ht_TLSNextProto = None, ht_TLSClientConfig = None, ht_ForceAttemptHTTP2 = False, ht_Proxy = None,
      ht_DialContext = None, ht_Dial = None, ht_DialTLS = None, ht_DialTLSContext = None, ht_TLSHandshakeTimeout = 0,
      ht_ResponseHeaderTimeout = 0, ht_MaxIdleConns = 0, ht_MaxIdleConnsPerHost = 0, ht_MaxConnsPerHost = 0, ht_IdleConnTimeout = 0\<rparr>"

text \<open>The lines that \<open>configure\<close> and \<open>ConfigureTransport\<close> share.\<close>

definition offer_http2 :: "httpTransport \<Rightarrow> httpTransport" where
  "offer_http2 t =
     (let cfg = (case ht_TLSClientConfig t of None \<Rightarrow> zeroTLSConfig\<lparr>tc_MinVersion := VersionTLS12\<rparr> | Some c \<Rightarrow> c)
      in t\<lparr>ht_TLSClientConfig := Some (ensureNextProtos cfg), ht_ForceAttemptHTTP2 := True\<rparr>)"

definition update_transport :: "(httpTransport \<Rightarrow> httpTransport) \<Rightarrow> 'o Client \<Rightarrow> 'o Client" where
  "update_transport f c =
     (case hc_Transport (c_httpClient c) of Some (StdTransport t) \<Rightarrow> putTransport (f t) c | _ \<Rightarrow> c)"

definition configure :: "clientEnv \<Rightarrow> nat \<Rightarrow> fingerprintProfile \<Rightarrow> 'o Option" where
  "configure ce handshake p c =
     (if isEmptyHelloID (fg_helloID p) then Inl (wrapped ErrInvalidConfigValue ''hello id'')
      else ebind (case hc_Transport (UnsafeHTTPClient c) of
                    None \<Rightarrow> Inr (putTransport zeroTransport c)
                  | Some (StdTransport current) \<Rightarrow> Inr c
                  | Some (CustomTransport n) \<Rightarrow> Inl (wrapped ErrInvalidTransportType ''expected *http.Transport'')) (\<lambda>c1.
           ebind (case fg_tlsConfig p of None \<Rightarrow> Inr c1 | Some cfg \<Rightarrow> WithTLSConfig ce (Some cfg) c1) (\<lambda>c2.
             WithTLSHandshake ce (Some handshake) (update_transport offer_http2 c2))))"

definition fg_Options :: "clientEnv \<Rightarrow> nat \<Rightarrow> fingerprintProfile \<Rightarrow> 'o Option option list" where
  "fg_Options ce handshake p = [Some (configure ce handshake p)]"

definition fingerprint_profile :: "clientEnv \<Rightarrow> nat \<Rightarrow> fingerprintProfile \<Rightarrow> 'o Profile" where
  "fingerprint_profile ce handshake p = \<lparr>pf_Name = fg_Name p, pf_Options = fg_Options ce handshake p\<rparr>"

section \<open>A bare transport\<close>

text \<open>\<open>hook\<close> is the identity of the dial function that is installed; \<open>fingerprintDialTLS\<close> is what it does.\<close>

definition ConfigureTransport :: "nat \<Rightarrow> httpTransport option \<Rightarrow> ClientHelloID \<Rightarrow> goerr + httpTransport" where
  "ConfigureTransport hook transport helloID =
     (case transport of
        None \<Rightarrow> Inl (wrapped ErrInvalidConfigValue ''transport'')
      | Some t \<Rightarrow>
          if isEmptyHelloID helloID then Inl (wrapped ErrInvalidConfigValue ''hello id'')
          else Inr ((offer_http2 t)\<lparr>ht_DialTLSContext := Some (CallerDialTLS hook)\<rparr>))"

definition fingerprintDialTLS ::
    "(dialChoice \<Rightarrow> string \<Rightarrow> goerr + nat) \<Rightarrow> utlsEnv \<Rightarrow> ClientHelloID \<Rightarrow> nat option \<Rightarrow> httpTransport \<Rightarrow> string \<Rightarrow>
       (goerr + nat) \<times> nat list \<times> nat option" where
  "fingerprintDialTLS dial ue helloID memo t addr =
     (case dial (case ht_DialContext t of Some d \<Rightarrow> UseDialContext d | None \<Rightarrow> UseNewDialer) addr of
        Inl err \<Rightarrow> (Inl err, [], memo)
      | Inr rawConn \<Rightarrow>
          (let config = (case ht_TLSClientConfig t of None \<Rightarrow> zeroTLSConfig | Some c \<Rightarrow> c);
               config1 = (if tc_ServerName config = []
                          then config\<lparr>tc_ServerName := (case SplitHostPort addr of Some (h, _) \<Rightarrow> h | None \<Rightarrow> [])\<rparr> else config)
           in case newTLSHandshake ue helloID memo rawConn config1 of
                ((_, Some err), memo1) \<Rightarrow> (Inl err, [rawConn], memo1)
              | ((conn, None), memo1) \<Rightarrow> (Inr (the conn), [], memo1)))"

section \<open>What the configuration keeps\<close>

lemma converted_settings:
  "ut_NextProtos (utlsConfig (Some c)) = tc_NextProtos c" "ut_ServerName (utlsConfig (Some c)) = tc_ServerName c"
  "ut_RootCAs (utlsConfig (Some c)) = tc_RootCAs c" "ut_InsecureSkipVerify (utlsConfig (Some c)) = tc_InsecureSkipVerify c"
  "ut_MinVersion (utlsConfig (Some c)) = tc_MinVersion c" "ut_CurvePreferences (utlsConfig (Some c)) = tc_CurvePreferences c"
  "length (ut_Certificates (utlsConfig (Some c))) = length (tc_Certificates c)"
  by (simp_all add: utlsConfig_def Let_def utlsCurvePreferences_def convertSlice_def utlsCertificates_def)

text \<open>
  Two callbacks of the configuration are not carried over: a fingerprinted connection is made as if
  \<open>VerifyConnection\<close> and \<open>GetClientCertificate\<close> were not set.
\<close>

lemma utlsConfig_drops_callbacks:
  "newTLSHandshake ue helloID memo raw (c\<lparr>tc_VerifyConnection := v, tc_GetClientCertificate := g\<rparr>) =
   newTLSHandshake ue helloID memo raw c"
  by (simp add: newTLSHandshake_def utlsConfig_def Let_def)

text \<open>The session cache is made once and shared by the connections that want one.\<close>

lemma session_cache_shared:
  assumes "tc_ClientSessionCache c \<noteq> None" and "tc_ClientSessionCache d \<noteq> None"
  shows "snd (newTLSHandshake ue helloID (snd (newTLSHandshake ue helloID memo raw c)) raw' d) =
    snd (newTLSHandshake ue helloID memo raw c)"
  using assms by (simp add: newTLSHandshake_def Let_def split: option.split)

lemma connection_state_kept: "fg_ConnectionState state = state"
  by (simp add: fg_ConnectionState_def)

lemma ensureNextProtos_offers:
  "''h2'' \<in> set (tc_NextProtos (ensureNextProtos cfg))" "''http/1.1'' \<in> set (tc_NextProtos (ensureNextProtos cfg))"
  "(ensureNextProtos cfg)\<lparr>tc_NextProtos := ps\<rparr> = cfg\<lparr>tc_NextProtos := ps\<rparr>"
  "ensureNextProtos (ensureNextProtos cfg) = ensureNextProtos cfg"
  by (simp_all add: ensureNextProtos_def Let_def)

section \<open>The profile on a client\<close>

definition standard_or_zero :: "roundTripper option \<Rightarrow> httpTransport" where
  "standard_or_zero tr = (case tr of Some (StdTransport t) \<Rightarrow> t | _ \<Rightarrow> zeroTransport)"

definition custom_transport :: "'o Client \<Rightarrow> bool" where
  "custom_transport c \<longleftrightarrow> (case hc_Transport (c_httpClient c) of Some (CustomTransport n) \<Rightarrow> True | _ \<Rightarrow> False)"

definition fingerprinted :: "nat \<Rightarrow> fingerprintProfile \<Rightarrow> httpTransport \<Rightarrow> httpTransport" where
  "fingerprinted h p t =
     bindTLSHandshake (Some h) (offer_http2 (case fg_tlsConfig p of None \<Rightarrow> t | Some cfg \<Rightarrow> setTransportTLSConfig (Some cfg) t))"

lemma configure_result:
  assumes "\<not> isEmptyHelloID (fg_helloID p)" and "\<not> custom_transport c"
  shows "configure ce h p c =
    Inr (c\<lparr>c_httpClient := (c_httpClient c)\<lparr>hc_Transport := Some (StdTransport (fingerprinted h p (standard_or_zero (hc_Transport (c_httpClient c)))))\<rparr>,
           c_tlsHandshake := Some h\<rparr>)"
  using assms
  by (cases "hc_Transport (c_httpClient c)" rule: tls_hooks.cases; cases "fg_tlsConfig p")
    (simp_all add: configure_def custom_transport_def UnsafeHTTPClient_def ebind_def update_transport_def standard_or_zero_def
      WithTLSConfig_def setTLSConfig_def WithTLSHandshake_def setTLSHandshake_def applyTransport_def ensureTransport_def
      putTransport_def cloneTLSConfig_def fingerprinted_def)

lemma fingerprinted_fields:
  "ht_DialTLS (fingerprinted h p t) = None" "ht_DialTLSContext (fingerprinted h p t) = Some (ManagedTLS h)"
  "ht_ForceAttemptHTTP2 (fingerprinted h p t)" "ht_Proxy (fingerprinted h p t) = ht_Proxy t"
  "ht_DialContext (fingerprinted h p t) = ht_DialContext t" "ht_Dial (fingerprinted h p t) = ht_Dial t"
  by (simp_all add: fingerprinted_def bindTLSHandshake_def offer_http2_def setTransportTLSConfig_def ensureHTTP2NextProtos_def Let_def
      split: option.split)

lemma fingerprinted_config:
  "\<exists>cfg. ht_TLSClientConfig (fingerprinted h p t) = Some cfg \<and>
     ''h2'' \<in> set (tc_NextProtos cfg) \<and> ''http/1.1'' \<in> set (tc_NextProtos cfg) \<and>
     cfg\<lparr>tc_NextProtos := []\<rparr> =
       (case fg_tlsConfig p of Some c \<Rightarrow> c
        | None \<Rightarrow> (case ht_TLSClientConfig t of Some c \<Rightarrow> c | None \<Rightarrow> zeroTLSConfig\<lparr>tc_MinVersion := VersionTLS12\<rparr>))\<lparr>tc_NextProtos := []\<rparr>"
  by (simp add: fingerprinted_def bindTLSHandshake_def offer_http2_def setTransportTLSConfig_def ensureHTTP2NextProtos_def Let_def
      ensureNextProtos_offers split: option.split)


definition ex_hello :: fingerprintProfile where
  "ex_hello = \<lparr>fg_name = ''Chrome'', fg_helloID = \<lparr>hid_Client = ''Chrome'', hid_Version = ''133''\<rparr>, fg_tlsConfig = None\<rparr>"


text \<open>
  The hook of \<open>ConfigureTransport\<close> and the hook a profile installs do the same on a transport without a
  legacy dial function while the context is alive, and neither leaves a connection open on an error.
\<close>

lemma handshake_contract:
  obtains (failed) err memo1 where "newTLSHandshake ue helloID memo raw cfg = ((None, Some err), memo1)"
  | (connected) conn memo1 where "newTLSHandshake ue helloID memo raw cfg = ((Some conn, None), memo1)"
proof -
  have "(\<exists>err memo1. newTLSHandshake ue helloID memo raw cfg = ((None, Some err), memo1)) \<or>
      (\<exists>conn memo1. newTLSHandshake ue helloID memo raw cfg = ((Some conn, None), memo1))"
    unfolding newTLSHandshake_def Let_def by (simp split: option.split)
  then show ?thesis using failed connected by blast
qed

lemma fingerprint_hooks_agree:
  assumes "ht_Dial t = None"
  shows "managedDialTLS \<lparr>he_dial = (\<lambda>d a. map_sum id Some (dial d a)),
             he_handshake = (\<lambda>raw cfg. fst (newTLSHandshake ue helloID memo raw cfg)), he_ctxErr = None\<rparr> t addr =
    (let (res, released, memo1) = fingerprintDialTLS dial ue helloID memo t addr in (res, released))"
proof -
  let ?choice = "case ht_DialContext t of Some d \<Rightarrow> UseDialContext d | None \<Rightarrow> UseNewDialer"
  let ?cfg = "case ht_TLSClientConfig t of None \<Rightarrow> zeroTLSConfig | Some c \<Rightarrow> c"
  let ?cfg1 = "if tc_ServerName ?cfg = []
     then ?cfg\<lparr>tc_ServerName := (case SplitHostPort addr of Some (h, _) \<Rightarrow> h | None \<Rightarrow> [])\<rparr> else ?cfg"
  have choice: "chooseDial t = ?choice" by (simp add: chooseDial_def assms split: option.split)
  have clone: "cloneTLSConfig k = k" for k by (simp add: cloneTLSConfig_def split: option.split)
  show ?thesis
  proof (cases "dial ?choice addr")
    case (Inr raw)
    show ?thesis
      unfolding managedDialTLS_def fingerprintDialTLS_def choice clone Let_def
      by (cases rule: handshake_contract[of ue helloID memo raw ?cfg1]) (simp_all add: Inr)
  qed (simp add: managedDialTLS_def fingerprintDialTLS_def choice)
qed

end
