(* ===== verification/Spec2Isabelle.thy ===== *)
theory Spec2Isabelle
  imports Path_Template Delivery_Properties Multipart_Properties Builder_Properties Client_Properties Redirect Proxy
    Plan_Properties Plan_Delivered Response_Properties Delivery_Exits Preview_Disclosure Exit_Errors
    Preview_Properties Projection_Stopping Logger Http3 Browser_Profiles Fingerprint
begin

text \<open>
  Verification of \<open>go-requests\<close>, an HTTP client for Go.

  \<^bold>\<open>The program.\<close> A \<open>Client\<close> holds defaults (base URL, headers, cookies, authentication, retry policy,
  middlewares, transport and TLS settings, codecs) and is made by \<open>New\<close> or \<open>Clone\<close> from options. It
  starts a \<open>RequestBuilder\<close>, a fluent object that collects one request. A builder has four exits. \<open>Send\<close>
  and \<open>SendStream\<close> take a snapshot of the client, compile a request plan from it and the builder,
  materialise the body, run the middlewares around a retry loop, and return a buffered or a live
  response. \<open>Preview\<close> and \<open>Prepare\<close> compile the same plan and project it to a description that hides
  values: \<open>Preview\<close> shows structure only, \<open>Prepare\<close> shows values tagged as public. Three extension
  modules contribute transports and profiles.

  \<^bold>\<open>The Go library.\<close> Strings and byte slices are character lists. \<open>Prelude\<close> holds the shared types, the
  64-bit wrap-around and the lemma collections; \<open>Go_Strings\<close>, \<open>Go_Escape\<close>, \<open>Go_URL\<close>, \<open>Go_Net\<close> and \<open>Go_Http\<close>
  model what the sources use of the standard library (case folding and canonical header names, percent
  encoding, URL parsing and printing, headers, cookies, readers). \<open>Multimap\<close> states the contract of a
  multimap from names to values as a locale; it is interpreted on \<open>http.Header\<close>, on \<open>url.Values\<close>, on the
  tagged headers of a builder and on ordered headers. \<open>Ordered_Object\<close> is the interface to the third-party
  ordered map: its operations are an argument and its laws the locale \<open>ordered_object\<close>, with the
  association lists of HOL as the instance that the examples use.

  \<^bold>\<open>Components.\<close>
  \<^item> \<open>Request_Value\<close> (\<open>request_value.go\<close>): values with a disclosure capability and how they print. The
    locale \<open>disclosure_projection\<close> is the contract of a function that shows nothing private.
  \<^item> \<open>Request_Metadata\<close>, \<open>Path_Template\<close> (\<open>request_metadata.go\<close>): tagged queries, headers, cookies and the
    path template. Substitution does not depend on the order of the parameters for names without braces
    and templates without nested placeholders, and replaces every placeholder.
  \<^item> \<open>Ordered_Headers\<close> (\<open>ordered_headers.go\<close>): header order beside header semantics; each function is
    described by the values it gives for a name, up to case.
  \<^item> \<open>Errors\<close> (\<open>errors.go\<close>, the diagnostics of \<open>request.go\<close>): errors as trees with \<open>errors.Is\<close> and \<open>errors.As\<close>;
    sanitised errors print no user info, query or fragment and keep their classification.
  \<^item> \<open>Retry\<close> (\<open>retry.go\<close>): backoff strategies and \<open>Retry-After\<close>, exact while they fit 64 bits.
  \<^item> \<open>Auth\<close> (\<open>auth.go\<close>): the authentication methods and the one header value each sets.
  \<^item> \<open>Multipart_Body\<close>, \<open>Multipart_Properties\<close> (\<open>multipart.go\<close>): buffered and streamed multipart bodies
    agree; the boundary check is the grammar of RFC 2046.
  \<^item> \<open>Request_Body\<close> (\<open>body.go\<close>, \<open>form.go\<close>, \<open>json.go\<close>, \<open>xml.go\<close>, \<open>yaml.go\<close>, \<open>codec.go\<close>): body plans, their
    materialisation and replay; each replay yields the bytes of the first delivery.
  \<^item> \<open>Request_Builder\<close>, \<open>Builder_Properties\<close> (\<open>request.go\<close>, \<open>body.go\<close>, \<open>delivery.go\<close>): every fluent method, a
    step relation with one rule per method, and a locale of invariants of that relation, interpreted for
    the first recorded error and its class, generated content types, and ordered headers in step with semantic ones.
  \<^item> \<open>Url_Resolution\<close> (\<open>request.go\<close>): how a request path is resolved against the base URL.
  \<^item> \<open>Redirect\<close> (\<open>redirect.go\<close>), \<open>Proxy\<close> (\<open>proxy.go\<close>), \<open>Transport\<close> (\<open>transport.go\<close>, \<open>tls.go\<close>): policies that
    drop credentials across origins, bypass lists and rotation, HTTP/2 and TLS settings, the managed
    handshake hook.
  \<^item> \<open>Client\<close>, \<open>Client_With\<close>, \<open>Client_Properties\<close> (\<open>client.go\<close>, \<open>client_option.go\<close>, \<open>profile.go\<close>, \<open>adapter.go\<close>):
    the client, every option, and the invariant of all clients that \<open>New\<close> and \<open>Clone\<close> return.
  \<^item> \<open>Request_Plan\<close>, \<open>Plan_Properties\<close>, \<open>Plan_Headers\<close>, \<open>Plan_Cookies\<close>, \<open>Plan_Delivered\<close> (\<open>request_plan.go\<close>,
    \<open>request.go\<close>): compilation of plans, and that the delivered request refines an abstract layering of
    client and request headers, authentication, cookies and query.
  \<^item> \<open>Delivery_Loop\<close>, \<open>Delivery_Properties\<close> (\<open>delivery.go\<close>, \<open>middleware.go\<close>, \<open>middlewares\<close>): the retry loop
    over an environment that answers every attempt: attempts, outcome, released bodies, replay, order of
    middlewares.
  \<^item> \<open>Delivery\<close>, \<open>Delivery_Exits\<close> (\<open>delivery.go\<close>): \<open>Send\<close> and \<open>SendStream\<close> as a whole: what each releases on
    every path and what it hands to the caller. A locale states what is asked of a middleware, and the
    middlewares of the package satisfy it.
  \<^item> \<open>Response\<close>, \<open>Response_Properties\<close> (\<open>response.go\<close>, \<open>stream_response.go\<close>, \<open>stream.go\<close>): buffering under a
    limit, decoding, saving, and lines of buffered and streamed bodies.
  \<^item> \<open>Checkpoints\<close>, \<open>Request_Preparation\<close>, \<open>Prepared_Forms\<close>, \<open>Preparation_Properties\<close>
    (\<open>request_preparation.go\<close>): computations that ask their context every 64 steps, \<open>Prepare\<close>, its
    refinement of a specification without maps, checkpoints and early exits, and that the bytes it retains
    are those delivery sends.
  \<^item> \<open>Preparation_Disclosure\<close>, \<open>Builder_Disclosure\<close>, \<open>Request_Preview\<close>, \<open>Preview_Disclosure\<close>
    (\<open>request_preparation.go\<close>, \<open>request_preview.go\<close>, \<open>request_plan.go\<close>): what the two projections may
    depend on, as equalities of whole computations for pairs of builders. \<open>Exit_Errors\<close>: how all four
    exits report an error that a fluent method recorded.
  \<^item> \<open>Projection_Accessors\<close>, \<open>Preview_Properties\<close>, \<open>Projection_Stopping\<close> (\<open>request_preview.go\<close>,
    \<open>request_preparation.go\<close>): the accessors of both projections; every preview is well formed and shows
    the headers that are sent; both projections stop at the first checkpoint that finds their context
    ended, and \<open>Prepare\<close> asks at least once for every 64 elements of a request.
  \<^item> \<open>Logger\<close> (\<open>logger.go\<close>), \<open>Http3\<close> (\<open>http3\<close>), \<open>Browser_Profiles\<close> (\<open>browser\<close>), \<open>Fingerprint\<close> (\<open>fingerprint\<close>).

  \<^bold>\<open>State and effects.\<close> Methods that mutate a receiver return the updated record. The mutex of the client
  makes each of its methods one step. Fallible functions return a sum whose left side is an error tree.
  Functions and objects that callers hand in and the code only passes on (dialers, jars, resolvers,
  loggers, callbacks) are identities. Encoders, decoders, host parsing, MIME types, random boundaries,
  the clock and the transport are arguments; theorems hold for all of them, and where one needs a fact
  about an argument it is a named hypothesis with a concrete instance in the witness.

  \<^bold>\<open>Bounds and termination.\<close> No definition uses fuel. The retry loop is a recursion over the attempts left,
  scanning and substitution shrink their input, and every function is total. Durations and counters
  wrap at 64 bits where the code does arithmetic on them: backoff, \<open>Retry-After\<close>, the number of attempts,
  body lengths, the round-robin counter.

  \<^bold>\<open>Not modelled.\<close> Nil receivers other than a nil preview or manifest, and nil builders; elapsed times and the accessors of responses that
  only read a field; the text of log lines that delivery writes; the bytes an encoder produces; the
  wire format of \<open>net/http\<close>, TLS and QUIC, which are the transport's; aliasing of slices and maps that the
  code copies at its boundaries, since values in HOL are not shared. The directory \<open>.references\<close> holds
  copies of other projects and is no part of the program.
\<close>

end
